(* ===== verification/Prelude.thy ===== *)
theory Prelude
  imports Main "HOL-Library.Word" "HOL-Library.AList"
begin

text \<open>
  Shared ground of the development: the collections of rules the component theories feed and
  use, the combinators that stand for Go's early returns, and generic facts about association
  lists, options and decimal numerals.

  A Go function that returns \<open>error\<close> is modelled by \<open>'e option\<close> (\<open>None\<close> is \<open>nil\<close>), one that
  returns \<open>(T, error)\<close> by \<open>'e + 'a\<close> (\<open>Inl\<close> is the error branch, \<open>Inr\<close> the value).
\<close>

named_theorems go_split \<open>case splits of the combinators below\<close>
named_theorems validation_simps \<open>what a validator accepts, field by field\<close>
named_theorems accept_dest \<open>what may be concluded once a check has accepted its input\<close>

subsection \<open>Early returns\<close>

text \<open>
  A run of \<open>if err := check; err != nil { return err }\<close> statements is the list of its checks in
  source order: the first error wins, and later checks are not looked at.
\<close>

fun first_err :: "'e option list \<Rightarrow> 'e option" where
  "first_err [] = None"
| "first_err (None # cs) = first_err cs"
| "first_err (Some e # cs) = Some e"

lemma first_err_Cons:
  "first_err (c # cs) = (case c of None \<Rightarrow> first_err cs | Some e \<Rightarrow> Some e)"
  by (cases c) simp_all

lemma first_err_None_iff [validation_simps]:
  "first_err cs = None \<longleftrightarrow> (\<forall>c \<in> set cs. c = None)"
  by (induction cs rule: first_err.induct) auto

lemma first_err_Some_mem: "first_err cs = Some e \<Longrightarrow> Some e \<in> set cs"
  by (induction cs rule: first_err.induct) auto

lemma first_err_append:
  "first_err (as @ bs) = (case first_err as of None \<Rightarrow> first_err bs | Some e \<Rightarrow> Some e)"
  by (induction as rule: first_err.induct) auto

lemma first_err_map_option:
  "first_err (map (map_option f) cs) = map_option f (first_err cs)"
  by (induction cs rule: first_err.induct) auto

text \<open>One such check: \<open>if b { return e }\<close>.\<close>

definition reject_if :: "bool \<Rightarrow> 'e \<Rightarrow> 'e option" where
  "reject_if b e = (if b then Some e else None)"

lemma reject_if_simps [simp]:
  "reject_if True e = Some e"
  "reject_if False e = None"
  by (simp_all add: reject_if_def)

lemma reject_if_None_iff [simp]: "reject_if b e = None \<longleftrightarrow> \<not> b"
  by (simp add: reject_if_def)

lemma reject_if_Some_iff [simp]: "reject_if b e = Some e' \<longleftrightarrow> b \<and> e' = e"
  by (auto simp: reject_if_def)

text \<open>\<open>if err != nil { return ..., err }\<close> in front of the code that yields the value.\<close>

definition guard_err :: "'e option \<Rightarrow> 'e + 'a \<Rightarrow> 'e + 'a" where
  "guard_err c k = (case c of None \<Rightarrow> k | Some e \<Rightarrow> Inl e)"

lemma guard_err_simps [simp]:
  "guard_err None k = k"
  "guard_err (Some e) k = Inl e"
  by (simp_all add: guard_err_def)

lemma guard_err_Inr_iff [simp]: "guard_err c k = Inr x \<longleftrightarrow> c = None \<and> k = Inr x"
  by (cases c) auto

lemma guard_err_Inl_iff: "guard_err c k = Inl e \<longleftrightarrow> c = Some e \<or> c = None \<and> k = Inl e"
  by (cases c) auto

text \<open>Sequencing of computations that return \<open>(T, error)\<close>.\<close>

definition try_bind :: "'e + 'a \<Rightarrow> ('a \<Rightarrow> 'e + 'b) \<Rightarrow> 'e + 'b" where
  "try_bind r k = (case r of Inl e \<Rightarrow> Inl e | Inr x \<Rightarrow> k x)"

lemma try_bind_simps [simp]:
  "try_bind (Inl e) k = Inl e"
  "try_bind (Inr x) k = k x"
  by (simp_all add: try_bind_def)

lemma try_bind_Inr_iff [simp]:
  "try_bind r k = Inr y \<longleftrightarrow> (\<exists>x. r = Inr x \<and> k x = Inr y)"
  by (cases r) auto

definition map_err :: "('e \<Rightarrow> 'f) \<Rightarrow> 'e + 'a \<Rightarrow> 'f + 'a" where
  "map_err f r = (case r of Inl e \<Rightarrow> Inl (f e) | Inr x \<Rightarrow> Inr x)"

lemma map_err_simps [simp]:
  "map_err f (Inl e) = Inl (f e)"
  "map_err f (Inr x) = Inr x"
  by (simp_all add: map_err_def)

lemma map_err_Inr_iff [simp]: "map_err f r = Inr x \<longleftrightarrow> r = Inr x"
  by (cases r) auto

subsection \<open>Association lists\<close>

text \<open>
  A Go map is an association list with distinct keys: its order is the order in which one
  \<open>range\<close> statement visits the entries, which Go leaves open and no result below depends on.
\<close>

fun alist_put :: "'k \<Rightarrow> 'v \<Rightarrow> ('k \<times> 'v) list \<Rightarrow> ('k \<times> 'v) list" where
  "alist_put k v [] = [(k, v)]"
| "alist_put k v ((k', v') # m) = (if k = k' then (k, v) # m else (k', v') # alist_put k v m)"

definition alist_del :: "'k \<Rightarrow> ('k \<times> 'v) list \<Rightarrow> ('k \<times> 'v) list" where
  "alist_del k m = filter (\<lambda>(k', _). k' \<noteq> k) m"

definition alist_map_vals :: "('v \<Rightarrow> 'w) \<Rightarrow> ('k \<times> 'v) list \<Rightarrow> ('k \<times> 'w) list" where
  "alist_map_vals f m = map (\<lambda>(k, v). (k, f v)) m"

lemma map_of_alist_put [simp]: "map_of (alist_put k v m) = (map_of m)(k \<mapsto> v)"
  by (induction k v m rule: alist_put.induct) (auto simp: fun_eq_iff)

lemma keys_alist_put [simp]: "fst ` set (alist_put k v m) = insert k (fst ` set m)"
  by (induction k v m rule: alist_put.induct) auto

lemma distinct_alist_put [simp]:
  "distinct (map fst m) \<Longrightarrow> distinct (map fst (alist_put k v m))"
  by (induction k v m rule: alist_put.induct) auto

lemma set_alist_put:
  "distinct (map fst m) \<Longrightarrow>
     set (alist_put k v m) = insert (k, v) {p \<in> set m. fst p \<noteq> k}"
  by (induction k v m rule: alist_put.induct) (auto simp: image_iff)

lemma alist_put_new:
  "k \<notin> fst ` set m \<Longrightarrow> alist_put k v m = m @ [(k, v)]"
  by (induction k v m rule: alist_put.induct) auto

lemma length_alist_put:
  "length (alist_put k v m) = (if k \<in> fst ` set m then length m else Suc (length m))"
  by (induction k v m rule: alist_put.induct) auto

lemma map_of_alist_del [simp]: "map_of (alist_del k m) = (map_of m)(k := None)"
  by (induction m) (auto simp: alist_del_def fun_eq_iff)

lemma set_alist_del [simp]: "set (alist_del k m) = {p \<in> set m. fst p \<noteq> k}"
  by (auto simp: alist_del_def)

lemma distinct_alist_del [simp]:
  "distinct (map fst m) \<Longrightarrow> distinct (map fst (alist_del k m))"
  by (induction m) (auto simp: alist_del_def)

lemma alist_del_absent: "k \<notin> fst ` set m \<Longrightarrow> alist_del k m = m"
  by (force simp: alist_del_def filter_id_conv)

lemma alist_del_snoc:
  "k \<notin> fst ` set m \<Longrightarrow> alist_del k (m @ [(k, v)]) = m"
  by (simp add: alist_del_def filter_id_conv) force

lemma keys_alist_map_vals [simp]: "map fst (alist_map_vals f m) = map fst m"
  by (induction m) (auto simp: alist_map_vals_def)

lemma set_alist_map_vals [simp]:
  "set (alist_map_vals f m) = (\<lambda>(k, v). (k, f v)) ` set m"
  by (simp add: alist_map_vals_def)

lemma length_alist_map_vals [simp]: "length (alist_map_vals f m) = length m"
  by (simp add: alist_map_vals_def)

lemma map_of_alist_map_vals [simp]:
  "map_of (alist_map_vals f m) k = map_option f (map_of m k)"
  by (induction m) (auto simp: alist_map_vals_def)

lemma map_of_mem_iff:
  "distinct (map fst m) \<Longrightarrow> map_of m k = Some v \<longleftrightarrow> (k, v) \<in> set m"
  by (rule map_of_eq_Some_iff)

subsection \<open>Decimal numerals, as \<open>%d\<close> prints them\<close>

definition digit_char :: "nat \<Rightarrow> char" where
  "digit_char d = char_of (48 + d)"

fun show_nat :: "nat \<Rightarrow> string" where
  "show_nat n = (if n < 10 then [digit_char n] else show_nat (n div 10) @ [digit_char (n mod 10)])"

declare show_nat.simps [simp del]

definition digit_val :: "char \<Rightarrow> nat" where
  "digit_val c = of_char c - 48"

definition read_nat :: "string \<Rightarrow> nat" where
  "read_nat s = foldl (\<lambda>n c. 10 * n + digit_val c) 0 s"

lemma of_char_digit_char: "d < 10 \<Longrightarrow> of_char (digit_char d) = 48 + d"
  by (simp add: digit_char_def)

lemma digit_val_digit_char [simp]: "d < 10 \<Longrightarrow> digit_val (digit_char d) = d"
  by (simp add: digit_val_def of_char_digit_char)

lemma read_show_nat [simp]: "read_nat (show_nat n) = n"
proof (induction n rule: show_nat.induct)
  case (1 n)
  show ?case
  proof (cases "n < 10")
    case True
    then show ?thesis by (simp add: show_nat.simps [of n] read_nat_def)
  next
    case False
    with 1 have "read_nat (show_nat (n div 10)) = n div 10" by simp
    with False show ?thesis by (simp add: show_nat.simps [of n] read_nat_def)
  qed
qed

lemma show_nat_inject [simp]: "show_nat m = show_nat n \<longleftrightarrow> m = n"
  by (metis read_show_nat)

lemma show_nat_not_Nil [simp]: "show_nat n \<noteq> []"
  by (subst show_nat.simps) simp

end
