(* ===== verification/Go_Time.thy ===== *)
theory Go_Time
  imports Prelude
begin

text \<open>
  \<open>time.Time\<close> as the program uses it: an instant (seconds since the start of year 1 UTC, and
  nanoseconds), the offset of its location, \<open>IsZero\<close>, \<open>UTC\<close>, and the RFC 3339 text that
  \<open>MarshalJSON\<close> writes and \<open>UnmarshalJSON\<close> reads.  A \<open>time.Duration\<close> is a number of nanoseconds.
\<close>

record gotime =
  t_sec :: int
  t_nsec :: int
  t_off :: int

type_synonym duration = int

definition zero_time :: gotime where
  "zero_time = \<lparr>t_sec = 0, t_nsec = 0, t_off = 0\<rparr>"

definition IsZero :: "gotime \<Rightarrow> bool" where
  "IsZero t \<longleftrightarrow> t_sec t = 0 \<and> t_nsec t = 0"

definition UTC :: "gotime \<Rightarrow> gotime" where
  "UTC t = t\<lparr>t_off := 0\<rparr>"

lemma IsZero_UTC [simp]: "IsZero (UTC t) = IsZero t"
  by (simp add: IsZero_def UTC_def)

lemma IsZero_zero_time [simp]: "IsZero zero_time"
  by (simp add: IsZero_def zero_time_def)

definition Millisecond :: duration where "Millisecond = 1000000"
definition Second :: duration where "Second = 1000000000"

subsection \<open>The proleptic Gregorian calendar\<close>

definition is_leap :: "int \<Rightarrow> bool" where
  "is_leap y \<longleftrightarrow> y mod 4 = 0 \<and> (y mod 100 \<noteq> 0 \<or> y mod 400 = 0)"

definition month_days :: "int \<Rightarrow> int list" where
  "month_days y = [31, if is_leap y then 29 else 28, 31, 30, 31, 30, 31, 31, 30, 31, 30, 31]"

definition days_before_year :: "int \<Rightarrow> int" where
  "days_before_year y = 365 * (y - 1) + (y - 1) div 4 - (y - 1) div 100 + (y - 1) div 400"

text \<open>The year of a day number (day 0 is 1 January of year 1) and the day within that year.\<close>

definition year_of_days :: "int \<Rightarrow> int \<times> int" where
  "year_of_days d =
     (let q = d div 146097; r = d mod 146097;
          a = min 3 (r div 36524); r1 = r - 36524 * a;
          b = r1 div 1461; r2 = r1 - 1461 * b;
          c = min 3 (r2 div 365)
      in (400 * q + 100 * a + 4 * b + c + 1, r2 - 365 * c))"

fun split_month :: "int list \<Rightarrow> int \<Rightarrow> int \<Rightarrow> int \<times> int" where
  "split_month [] m d = (m, d + 1)"
| "split_month (l # ls) m d = (if d < l then (m, d + 1) else split_month ls (m + 1) (d - l))"

definition date_of_days :: "int \<Rightarrow> int \<times> int \<times> int" where
  "date_of_days d = (let (y, yd) = year_of_days d; (m, md) = split_month (month_days y) 1 yd
                     in (y, m, md))"

definition days_of_date :: "int \<Rightarrow> int \<Rightarrow> int \<Rightarrow> int" where
  "days_of_date y m d =
     days_before_year y + sum_list (take (nat (m - 1)) (month_days y)) + (d - 1)"

subsection \<open>RFC 3339 text\<close>

definition digit :: "int \<Rightarrow> char" where
  "digit n = digit_char (nat (n mod 10))"

definition two_digits :: "int \<Rightarrow> string" where
  "two_digits n = [digit (n div 10), digit n]"

definition four_digits :: "int \<Rightarrow> string" where
  "four_digits n = [digit (n div 1000), digit (n div 100), digit (n div 10), digit n]"

definition nine_digits :: "int \<Rightarrow> string" where
  "nine_digits n = map (\<lambda>k. digit (n div 10 ^ k)) [8, 7, 6, 5, 4, 3, 2, 1, 0]"

definition drop_trailing_zeros :: "string \<Rightarrow> string" where
  "drop_trailing_zeros s = rev (dropWhile (\<lambda>c. c = CHR ''0'') (rev s))"

definition frac_text :: "int \<Rightarrow> string" where
  "frac_text ns = (if ns = 0 then [] else CHR ''.'' # drop_trailing_zeros (nine_digits ns))"

text \<open>Go's integer division truncates towards zero, so the sign is taken from the quotient.\<close>

definition zone_text :: "int \<Rightarrow> string" where
  "zone_text off =
     (if off = 0 then ''Z''
      else let zone = sgn off * (\<bar>off\<bar> div 60); z = \<bar>zone\<bar>
           in (if zone < 0 then CHR ''-'' else CHR ''+'') # two_digits (z div 60)
              @ CHR '':'' # two_digits (z mod 60))"

text \<open>
  The text of a time whose year has four digits and whose offset is less than a day; \<open>None\<close>
  stands for the error \<open>MarshalJSON\<close> returns otherwise.
\<close>

definition format_time :: "gotime \<Rightarrow> string option" where
  "format_time t =
     (let local = t_sec t + t_off t; (y, m, d) = date_of_days (local div 86400);
          s = local mod 86400
      in if y < 0 \<or> 9999 < y \<or> 24 * 3600 \<le> \<bar>t_off t\<bar> then None
         else Some (four_digits y @ CHR ''-'' # two_digits m @ CHR ''-'' # two_digits d
                @ CHR ''T'' # two_digits (s div 3600) @ CHR '':'' # two_digits (s div 60 mod 60)
                @ CHR '':'' # two_digits (s mod 60) @ frac_text (t_nsec t) @ zone_text (t_off t)))"

definition is_digit :: "char \<Rightarrow> bool" where
  "is_digit c \<longleftrightarrow> 48 \<le> (of_char c :: nat) \<and> (of_char c :: nat) \<le> 57"

definition digit_int :: "char \<Rightarrow> int" where
  "digit_int c = int (digit_val c)"

fun read_fixed :: "nat \<Rightarrow> int \<Rightarrow> string \<Rightarrow> (int \<times> string) option" where
  "read_fixed 0 acc s = Some (acc, s)"
| "read_fixed (Suc k) acc [] = None"
| "read_fixed (Suc k) acc (c # s) =
     (if is_digit c then read_fixed k (10 * acc + digit_int c) s else None)"

definition read_hour :: "string \<Rightarrow> (int \<times> string) option" where
  "read_hour s = (case read_fixed 2 0 s of Some r \<Rightarrow> Some r | None \<Rightarrow> read_fixed 1 0 s)"

fun expect :: "char \<Rightarrow> string \<Rightarrow> string option" where
  "expect c [] = None"
| "expect c (d # s) = (if c = d then Some s else None)"

definition in_range :: "int \<Rightarrow> int \<Rightarrow> int \<Rightarrow> unit option" where
  "in_range lo hi n = (if lo \<le> n \<and> n \<le> hi then Some () else None)"

text \<open>A fraction needs a dot or comma and a digit; digits after the ninth are cut off.\<close>

definition read_frac :: "string \<Rightarrow> int \<times> string" where
  "read_frac s = (case s of
       c # d # r \<Rightarrow>
         if (c = CHR ''.'' \<or> c = CHR '','') \<and> is_digit d
         then let ds = takeWhile is_digit (d # r); use = take 9 ds
              in (int (read_nat use) * 10 ^ (9 - length use), dropWhile is_digit (d # r))
         else (0, s)
     | _ \<Rightarrow> (0, s))"

definition read_zone :: "string \<Rightarrow> int option" where
  "read_zone s =
     (if s = ''Z'' then Some 0
      else Option.bind (case s of [] \<Rightarrow> None | c # r \<Rightarrow>
              if c = CHR ''+'' then Some (1, r) else if c = CHR ''-'' then Some (- 1, r) else None)
        (\<lambda>(sign, r). Option.bind (read_fixed 2 0 r) (\<lambda>(hh, r).
         Option.bind (expect CHR '':'' r) (\<lambda>r.
         Option.bind (read_fixed 2 0 r) (\<lambda>(mm, r).
           if r = [] \<and> hh \<le> 24 \<and> mm \<le> 60 then Some (sign * (hh * 60 + mm) * 60) else None)))))"

text \<open>
  \<open>Parse(RFC3339, ...)\<close>: beyond the strict form it takes one-digit hours, a comma in front of the
  fraction, and offsets of up to 24 hours and 60 minutes.
\<close>

definition parse_time :: "string \<Rightarrow> gotime option" where
  "parse_time s =
     Option.bind (read_fixed 4 0 s) (\<lambda>(y, s).
     Option.bind (expect CHR ''-'' s) (\<lambda>s.
     Option.bind (read_fixed 2 0 s) (\<lambda>(m, s).
     Option.bind (in_range 1 12 m) (\<lambda>_.
     Option.bind (expect CHR ''-'' s) (\<lambda>s.
     Option.bind (read_fixed 2 0 s) (\<lambda>(d, s).
     Option.bind (expect CHR ''T'' s) (\<lambda>s.
     Option.bind (read_hour s) (\<lambda>(hh, s).
     Option.bind (in_range 0 23 hh) (\<lambda>_.
     Option.bind (expect CHR '':'' s) (\<lambda>s.
     Option.bind (read_fixed 2 0 s) (\<lambda>(mm, s).
     Option.bind (in_range 0 59 mm) (\<lambda>_.
     Option.bind (expect CHR '':'' s) (\<lambda>s.
     Option.bind (read_fixed 2 0 s) (\<lambda>(ss, s).
     Option.bind (in_range 0 59 ss) (\<lambda>_.
     (case read_frac s of (ns, s) \<Rightarrow>
     Option.bind (read_zone s) (\<lambda>off.
     Option.bind (in_range 1 (month_days y ! nat (m - 1)) d) (\<lambda>_.
       Some \<lparr>t_sec = days_of_date y m d * 86400 + hh * 3600 + mm * 60 + ss - off,
             t_nsec = ns, t_off = off\<rparr>))))))))))))))))))"

end
