(* ===== verification/Go_Strings.thy ===== *)
theory Go_Strings
  imports Prelude Unicode_Tables
begin

text \<open>
  Go strings and the functions of \<open>strings\<close>, \<open>unicode\<close>, \<open>utf8\<close> and \<open>fmt\<close> the program calls.
  A Go string is a sequence of bytes, here a \<open>string\<close> whose characters are the bytes; \<open>range\<close>
  over a string and \<open>TrimSpace\<close> decode UTF-8 as the Go runtime does.
\<close>

subsection \<open>Bytes and runes\<close>

abbreviation byte :: "char \<Rightarrow> nat" where
  "byte c \<equiv> of_char c"

definition is_cont :: "char \<Rightarrow> bool" where
  "is_cont c \<longleftrightarrow> 128 \<le> byte c \<and> byte c \<le> 191"

definition byte_between :: "nat \<Rightarrow> nat \<Rightarrow> char \<Rightarrow> bool" where
  "byte_between lo hi c \<longleftrightarrow> lo \<le> byte c \<and> byte c \<le> hi"

abbreviation rune_error :: nat where
  "rune_error \<equiv> 65533"

text \<open>
  \<open>utf8.DecodeRuneInString\<close>: the rune at the head of a string and the bytes it takes; an
  ill-formed head is one byte wide and decodes to U+FFFD.
\<close>

definition decode2 :: "nat \<Rightarrow> string \<Rightarrow> nat \<times> nat" where
  "decode2 b0 r = (case r of
       c1 # _ \<Rightarrow> if is_cont c1 then ((b0 - 192) * 64 + (byte c1 - 128), 2) else (rune_error, 1)
     | _ \<Rightarrow> (rune_error, 1))"

definition decode3 :: "nat \<Rightarrow> string \<Rightarrow> nat \<times> nat" where
  "decode3 b0 r = (case r of
       c1 # c2 # _ \<Rightarrow>
         if byte_between (if b0 = 224 then 160 else 128) (if b0 = 237 then 159 else 191) c1
            \<and> is_cont c2
         then ((b0 - 224) * 4096 + (byte c1 - 128) * 64 + (byte c2 - 128), 3)
         else (rune_error, 1)
     | _ \<Rightarrow> (rune_error, 1))"

definition decode4 :: "nat \<Rightarrow> string \<Rightarrow> nat \<times> nat" where
  "decode4 b0 r = (case r of
       c1 # c2 # c3 # _ \<Rightarrow>
         if byte_between (if b0 = 240 then 144 else 128) (if b0 = 244 then 143 else 191) c1
            \<and> is_cont c2 \<and> is_cont c3
         then ((b0 - 240) * 262144 + (byte c1 - 128) * 4096 + (byte c2 - 128) * 64
               + (byte c3 - 128), 4)
         else (rune_error, 1)
     | _ \<Rightarrow> (rune_error, 1))"

definition decode_rune :: "string \<Rightarrow> nat \<times> nat" where
  "decode_rune s = (case s of [] \<Rightarrow> (rune_error, 0) | c0 # r \<Rightarrow>
     if byte c0 < 128 then (byte c0, 1)
     else if 194 \<le> byte c0 \<and> byte c0 \<le> 223 then decode2 (byte c0) r
     else if 224 \<le> byte c0 \<and> byte c0 \<le> 239 then decode3 (byte c0) r
     else if 240 \<le> byte c0 \<and> byte c0 \<le> 244 then decode4 (byte c0) r
     else (rune_error, 1))"

lemma decode2_width: "1 \<le> snd (decode2 b r)"
  by (simp add: decode2_def split: list.split)

lemma decode3_width: "1 \<le> snd (decode3 b r)"
  by (simp add: decode3_def split: list.split)

lemma decode4_width: "1 \<le> snd (decode4 b r)"
  by (simp add: decode4_def split: list.split)

lemma decode_rune_width: "s \<noteq> [] \<Longrightarrow> 1 \<le> snd (decode_rune s)"
  using decode2_width decode3_width decode4_width
  by (cases s) (simp_all add: decode_rune_def)

text \<open>The runes a \<open>for _, r := range s\<close> loop sees.\<close>

function runes :: "string \<Rightarrow> nat list" where
  "runes s = (if s = [] then []
     else fst (decode_rune s) # runes (drop (snd (decode_rune s)) s))"
  by pat_completeness auto
termination
proof (relation "measure length")
  fix s :: string
  assume "s \<noteq> []"
  with decode_rune_width [OF this] show "(drop (snd (decode_rune s)) s, s) \<in> measure length"
    by (cases s) auto
qed simp

declare runes.simps [simp del]

lemma runes_Nil [simp]: "runes [] = []"
  by (simp add: runes.simps)

lemma decode_rune_ascii: "byte c < 128 \<Longrightarrow> decode_rune (c # s) = (byte c, 1)"
  by (simp add: decode_rune_def)

lemma runes_ascii_Cons: "byte c < 128 \<Longrightarrow> runes (c # s) = byte c # runes s"
  by (subst runes.simps) (simp add: decode_rune_ascii)

lemma runes_ascii: "\<forall>c \<in> set s. byte c < 128 \<Longrightarrow> runes s = map byte s"
  by (induction s) (simp_all add: runes_ascii_Cons)

text \<open>A multi-byte rune swallows no ASCII byte, so every ASCII byte of a string is one of its runes.\<close>

lemma not_ascii_simps [simp]:
  "is_cont c \<Longrightarrow> \<not> byte c < 128"
  "byte_between lo hi c \<Longrightarrow> 128 \<le> lo \<Longrightarrow> \<not> byte c < 128"
  by (simp_all add: is_cont_def byte_between_def)

lemma decode2_skips:
  "c \<in> set (take (snd (decode2 b r) - 1) r) \<Longrightarrow> \<not> byte c < 128"
  by (cases r) (auto simp: decode2_def split: if_splits)

lemma decode3_skips:
  "c \<in> set (take (snd (decode3 b r) - 1) r) \<Longrightarrow> \<not> byte c < 128"
  by (cases r; cases "tl r")
     (auto simp: decode3_def numeral_2_eq_2 split: if_split_asm)

lemma decode4_skips:
  "c \<in> set (take (snd (decode4 b r) - 1) r) \<Longrightarrow> \<not> byte c < 128"
  by (cases r; cases "tl r"; cases "tl (tl r)")
     (auto simp: decode4_def numeral_3_eq_3 split: if_split_asm)

lemma decode_rune_multi:
  assumes "\<not> byte c0 < 128" and "c \<in> set (take (snd (decode_rune (c0 # r))) (c0 # r))"
  shows "\<not> byte c < 128"
proof -
  have "1 \<le> snd (decode_rune (c0 # r))" by (rule decode_rune_width) simp
  with assms(2) consider "c = c0" | "c \<in> set (take (snd (decode_rune (c0 # r)) - 1) r)"
    by (auto simp: take_Cons' split: if_splits)
  then show ?thesis
  proof cases
    case 2
    with assms(1) show ?thesis
      using decode2_skips decode3_skips decode4_skips
      by (simp add: decode_rune_def split: if_split_asm)
  qed (use assms(1) in simp)
qed

lemma decode_rune_skips_no_ascii:
  assumes "s \<noteq> []" and "c \<in> set (take (snd (decode_rune s)) s)" and "byte c < 128"
  shows "fst (decode_rune s) = byte c"
proof -
  from assms(1) obtain c0 r where s: "s = c0 # r" by (cases s) auto
  with assms(2,3) have "byte c0 < 128" using decode_rune_multi by blast
  with s assms(2) show ?thesis by (simp add: decode_rune_ascii)
qed

lemma ascii_byte_is_rune: "c \<in> set s \<Longrightarrow> byte c < 128 \<Longrightarrow> byte c \<in> set (runes s)"
proof (induction s rule: runes.induct)
  case (1 s)
  let ?w = "snd (decode_rune s)"
  from "1.prems" have ne: "s \<noteq> []" by auto
  from "1.prems"(1) have "c \<in> set (take ?w s) \<or> c \<in> set (drop ?w s)"
    by (metis append_take_drop_id Un_iff set_append)
  then show ?case
  proof
    assume "c \<in> set (take ?w s)"
    with ne "1.prems"(2) have "fst (decode_rune s) = byte c"
      by (simp add: decode_rune_skips_no_ascii)
    with ne show ?thesis by (subst runes.simps) simp
  next
    assume "c \<in> set (drop ?w s)"
    with "1.IH" ne "1.prems"(2) have "byte c \<in> set (runes (drop ?w s))" by simp
    with ne show ?thesis by (subst runes.simps) simp
  qed
qed

subsection \<open>\<open>unicode.IsLetter\<close> and \<open>unicode.IsDigit\<close>\<close>

definition IsLetter :: "nat \<Rightarrow> bool" where
  "IsLetter r \<longleftrightarrow>
     (if r \<le> 255
      then 65 \<le> r \<and> r \<le> 90 \<or> 97 \<le> r \<and> r \<le> 122 \<or> r \<in> {170, 181, 186}
           \<or> 192 \<le> r \<and> r \<le> 214 \<or> 216 \<le> r \<and> r \<le> 246 \<or> 248 \<le> r
      else in_ranges unicode_letter_ranges r)"

definition IsDigit :: "nat \<Rightarrow> bool" where
  "IsDigit r \<longleftrightarrow>
     (if r \<le> 255 then 48 \<le> r \<and> r \<le> 57 else in_ranges unicode_digit_ranges r)"

subsection \<open>\<open>strings.TrimSpace\<close>\<close>

text \<open>
  The runes \<open>unicode.IsSpace\<close> accepts and their UTF-8 encodings.  A string begins (ends) with a
  white-space rune exactly when it begins (ends) with one of these encodings.
\<close>

definition utf8_encode :: "nat \<Rightarrow> string" where
  "utf8_encode r =
     (if r < 128 then [char_of r]
      else if r < 2048 then [char_of (192 + r div 64), char_of (128 + r mod 64)]
      else if r < 65536 then
        [char_of (224 + r div 4096), char_of (128 + r div 64 mod 64), char_of (128 + r mod 64)]
      else [char_of (240 + r div 262144), char_of (128 + r div 4096 mod 64),
            char_of (128 + r div 64 mod 64), char_of (128 + r mod 64)])"

definition space_runes :: "nat list" where
  "space_runes = [9, 10, 11, 12, 13, 32, 133, 160, 5760, 8192, 8193, 8194, 8195, 8196, 8197,
     8198, 8199, 8200, 8201, 8202, 8232, 8233, 8239, 8287, 12288]"

definition space_encodings :: "string list" where
  "space_encodings = [
    [CHR 0x09], [CHR 0x0A], [CHR 0x0B], [CHR 0x0C], [CHR 0x0D], [CHR 0x20], [CHR 0xC2, CHR 0x85],
    [CHR 0xC2, CHR 0xA0], [CHR 0xE1, CHR 0x9A, CHR 0x80], [CHR 0xE2, CHR 0x80, CHR 0x80],
    [CHR 0xE2, CHR 0x80, CHR 0x81], [CHR 0xE2, CHR 0x80, CHR 0x82],
    [CHR 0xE2, CHR 0x80, CHR 0x83], [CHR 0xE2, CHR 0x80, CHR 0x84],
    [CHR 0xE2, CHR 0x80, CHR 0x85], [CHR 0xE2, CHR 0x80, CHR 0x86],
    [CHR 0xE2, CHR 0x80, CHR 0x87], [CHR 0xE2, CHR 0x80, CHR 0x88],
    [CHR 0xE2, CHR 0x80, CHR 0x89], [CHR 0xE2, CHR 0x80, CHR 0x8A],
    [CHR 0xE2, CHR 0x80, CHR 0xA8], [CHR 0xE2, CHR 0x80, CHR 0xA9],
    [CHR 0xE2, CHR 0x80, CHR 0xAF], [CHR 0xE2, CHR 0x81, CHR 0x9F],
    [CHR 0xE3, CHR 0x80, CHR 0x80]]"

lemma space_encodings_utf8: "space_encodings = map utf8_encode space_runes"
  by (simp add: space_encodings_def space_runes_def utf8_encode_def char_of_def bit_simps)

fun strip_prefix :: "string \<Rightarrow> string \<Rightarrow> string option" where
  "strip_prefix [] s = Some s"
| "strip_prefix (p # ps) [] = None"
| "strip_prefix (p # ps) (c # s) = (if p = c then strip_prefix ps s else None)"

fun strip_any :: "string list \<Rightarrow> string \<Rightarrow> string option" where
  "strip_any [] s = None"
| "strip_any (e # es) s = (case strip_prefix e s of Some r \<Rightarrow> Some r | None \<Rightarrow> strip_any es s)"

lemma strip_prefix_Some_iff: "strip_prefix p s = Some r \<longleftrightarrow> s = p @ r"
  by (induction p s rule: strip_prefix.induct) auto

lemma strip_any_Some: "strip_any es s = Some r \<Longrightarrow> \<exists>e \<in> set es. s = e @ r"
  by (induction es) (auto simp: strip_prefix_Some_iff split: option.splits)

lemma strip_any_None_iff: "strip_any es s = None \<longleftrightarrow> (\<forall>e \<in> set es. \<nexists>r. s = e @ r)"
proof (induction es)
  case Nil
  then show ?case by simp
next
  case (Cons e es)
  have "strip_prefix e s = None \<longleftrightarrow> (\<nexists>r. s = e @ r)"
    by (metis not_None_eq strip_prefix_Some_iff)
  with Cons show ?case by (auto split: option.splits)
qed

text \<open>Trimming on one side, over an arbitrary list of non-empty codes.\<close>

function trim_codes :: "string list \<Rightarrow> string \<Rightarrow> string" where
  "trim_codes es s = (case strip_any (filter (\<lambda>e. e \<noteq> []) es) s of
     None \<Rightarrow> s
   | Some r \<Rightarrow> trim_codes es r)"
  by pat_completeness auto
termination
  by (relation "measure (length \<circ> snd)") (auto dest!: strip_any_Some)

declare trim_codes.simps [simp del]

definition TrimLeftSpace :: "string \<Rightarrow> string" where
  "TrimLeftSpace s = trim_codes space_encodings s"

definition TrimRightSpace :: "string \<Rightarrow> string" where
  "TrimRightSpace s = rev (trim_codes (map rev space_encodings) (rev s))"

definition TrimSpace :: "string \<Rightarrow> string" where
  "TrimSpace s = TrimRightSpace (TrimLeftSpace s)"

definition is_blank :: "string \<Rightarrow> bool" where
  "is_blank s \<longleftrightarrow> TrimSpace s = []"

subsubsection \<open>What trimming leaves\<close>

lemma trim_codes_suffix: "\<exists>p. s = p @ trim_codes es s"
proof (induction es s rule: trim_codes.induct)
  case (1 es s)
  show ?case
  proof (cases "strip_any (filter (\<lambda>e. e \<noteq> []) es) s")
    case None
    then show ?thesis by (simp add: trim_codes.simps [of es s])
  next
    case (Some r)
    with 1 obtain p where "r = p @ trim_codes es r" by blast
    moreover from Some obtain e where "s = e @ r" by (auto dest!: strip_any_Some)
    moreover have "trim_codes es s = trim_codes es r"
      using Some by (simp add: trim_codes.simps [of es s])
    ultimately have "s = (e @ p) @ trim_codes es s" by simp
    then show ?thesis by blast
  qed
qed

lemma trim_codes_stuck: "strip_any (filter (\<lambda>e. e \<noteq> []) es) (trim_codes es s) = None"
  by (induction es s rule: trim_codes.induct) (simp add: trim_codes.simps split: option.splits)

lemma trim_codes_fixed_iff:
  "trim_codes es s = s \<longleftrightarrow> strip_any (filter (\<lambda>e. e \<noteq> []) es) s = None"
  by (metis trim_codes_stuck trim_codes.simps option.simps(4))

lemma trim_codes_idem [simp]: "trim_codes es (trim_codes es s) = trim_codes es s"
  by (simp add: trim_codes_fixed_iff trim_codes_stuck)

text \<open>A stuck string has only stuck prefixes, so trimming the other end does not unstick it.\<close>

lemma strip_any_prefix_stuck:
  "strip_any es (t @ u) = None \<Longrightarrow> strip_any es t = None"
  by (auto simp: strip_any_None_iff)

lemma trim_codes_empty_concat:
  "trim_codes es s = [] \<Longrightarrow> \<exists>cs. set cs \<subseteq> set es \<and> s = concat cs"
proof (induction es s rule: trim_codes.induct)
  case (1 es s)
  show ?case
  proof (cases "strip_any (filter (\<lambda>e. e \<noteq> []) es) s")
    case None
    with "1.prems" show ?thesis by (simp add: trim_codes.simps [of es s] exI [of _ "[]"])
  next
    case (Some r)
    with 1 obtain cs where cs: "set cs \<subseteq> set es" "r = concat cs"
      by (auto simp: trim_codes.simps [of es s])
    from Some obtain e where "e \<in> set es" "s = e @ r" by (auto dest!: strip_any_Some)
    with cs have "set (e # cs) \<subseteq> set es \<and> s = concat (e # cs)" by simp
    then show ?thesis by blast
  qed
qed

text \<open>A byte that occurs in no code survives.\<close>

lemma trim_codes_keeps:
  "c \<in> set s \<Longrightarrow> \<forall>e \<in> set es. c \<notin> set e \<Longrightarrow> c \<in> set (trim_codes es s)"
proof (induction es s rule: trim_codes.induct)
  case (1 es s)
  show ?case
  proof (cases "strip_any (filter (\<lambda>e. e \<noteq> []) es) s")
    case None
    with "1.prems" show ?thesis by (simp add: trim_codes.simps [of es s])
  next
    case (Some r)
    then obtain e where "e \<in> set es" "s = e @ r" by (auto dest!: strip_any_Some)
    with "1.prems" have "c \<in> set r" by auto
    with 1 Some show ?thesis by (simp add: trim_codes.simps [of es s])
  qed
qed

lemma TrimLeftSpace_suffix: "\<exists>p. s = p @ TrimLeftSpace s"
  unfolding TrimLeftSpace_def by (rule trim_codes_suffix)

lemma TrimRightSpace_prefix: "\<exists>q. s = TrimRightSpace s @ q"
proof -
  obtain p where "rev s = p @ trim_codes (map rev space_encodings) (rev s)"
    using trim_codes_suffix by blast
  then have "s = rev (trim_codes (map rev space_encodings) (rev s)) @ rev p"
    by (metis rev_append rev_rev_ident)
  then show ?thesis unfolding TrimRightSpace_def by blast
qed

lemma TrimSpace_infix: "\<exists>p q. s = p @ TrimSpace s @ q"
  unfolding TrimSpace_def
  by (metis TrimLeftSpace_suffix TrimRightSpace_prefix)

lemma set_TrimSpace: "set (TrimSpace s) \<subseteq> set s"
  by (metis TrimSpace_infix Un_iff set_append subsetI)

lemma TrimRightSpace_idem [simp]: "TrimRightSpace (TrimRightSpace s) = TrimRightSpace s"
  by (simp add: TrimRightSpace_def)

lemma TrimLeftSpace_TrimSpace [simp]: "TrimLeftSpace (TrimSpace s) = TrimSpace s"
proof -
  obtain q where "TrimLeftSpace s = TrimSpace s @ q"
    unfolding TrimSpace_def using TrimRightSpace_prefix by blast
  then have "strip_any (filter (\<lambda>e. e \<noteq> []) space_encodings) (TrimSpace s @ q) = None"
    unfolding TrimLeftSpace_def by (metis trim_codes_stuck)
  then show ?thesis
    unfolding TrimLeftSpace_def by (simp add: trim_codes_fixed_iff strip_any_prefix_stuck)
qed

lemma TrimSpace_idem [simp]: "TrimSpace (TrimSpace s) = TrimSpace s"
  using TrimLeftSpace_TrimSpace [of s] by (simp add: TrimSpace_def)

lemma TrimSpace_Nil [simp]: "TrimSpace [] = []"
  using set_TrimSpace [of "[]"] by auto

lemma is_blank_TrimSpace [simp]: "is_blank (TrimSpace s) \<longleftrightarrow> TrimSpace s = []"
  by (simp add: is_blank_def)

lemma is_blank_Nil [simp]: "is_blank []"
  by (simp add: is_blank_def)

text \<open>The codes themselves, computed once.\<close>

lemma space_encodings_first:
  "\<forall>e \<in> set space_encodings. e \<noteq> [] \<and> list_all is_cont (tl e)"
  by (simp add: space_encodings_def is_cont_def)

lemma space_encodings_ascii:
  "\<forall>e \<in> set space_encodings. \<forall>c \<in> set e.
     byte c < 128 \<longrightarrow> byte c \<in> {9, 10, 11, 12, 13, 32}"
  by (simp add: space_encodings_def)

lemma space_encodings_decode:
  "\<forall>e \<in> set space_encodings. fst (decode_rune e) \<in> set space_runes
     \<and> fst (decode_rune e) \<noteq> rune_error"
  by (simp add: space_encodings_def space_runes_def decode_rune_def decode2_def decode3_def
      is_cont_def byte_between_def)

lemma space_runes_no_letter:
  "\<forall>r \<in> set space_runes. \<not> IsLetter r \<and> \<not> IsDigit r \<and> r \<notin> {45, 95}"
  by (simp add: space_runes_def IsLetter_def IsDigit_def in_ranges_def
      unicode_letter_ranges_def unicode_digit_ranges_def)

lemma visible_ascii_survives:
  assumes "c \<in> set s" and "byte c < 128" and "byte c \<notin> {9, 10, 11, 12, 13, 32}"
  shows "c \<in> set (TrimSpace s)"
proof -
  have no: "\<forall>e \<in> set space_encodings. c \<notin> set e"
    using space_encodings_ascii assms(2,3) by blast
  then have "c \<in> set (TrimLeftSpace s)"
    unfolding TrimLeftSpace_def by (rule trim_codes_keeps [OF assms(1)])
  with no have "c \<in> set (trim_codes (map rev space_encodings) (rev (TrimLeftSpace s)))"
    by (intro trim_codes_keeps) auto
  then show ?thesis by (simp add: TrimSpace_def TrimRightSpace_def)
qed

lemma visible_ascii_not_blank:
  "c \<in> set s \<Longrightarrow> byte c < 128 \<Longrightarrow> byte c \<notin> {9, 10, 11, 12, 13, 32} \<Longrightarrow> \<not> is_blank s"
  using visible_ascii_survives by (fastforce simp: is_blank_def)

text \<open>A blank string is a run of white-space encodings.\<close>

lemma is_blank_concat:
  assumes "is_blank s"
  shows "\<exists>cs. set cs \<subseteq> set space_encodings \<and> s = concat cs"
proof -
  let ?t = "TrimLeftSpace s"
  from assms have "trim_codes (map rev space_encodings) (rev ?t) = []"
    by (simp add: is_blank_def TrimSpace_def TrimRightSpace_def)
  then obtain ds where ds: "set ds \<subseteq> rev ` set space_encodings" "rev ?t = concat ds"
    using trim_codes_empty_concat by fastforce
  from ds(2) have t: "?t = concat (rev (map rev ds))"
    by (metis rev_concat rev_map rev_rev_ident)
  from ds(1) have sub: "set (rev (map rev ds)) \<subseteq> set space_encodings" by force
  have stuck: "strip_any (filter (\<lambda>e. e \<noteq> []) space_encodings) ?t = None"
    unfolding TrimLeftSpace_def by (rule trim_codes_stuck)
  have "rev (map rev ds) = []"
  proof (rule ccontr)
    assume "rev (map rev ds) \<noteq> []"
    then obtain e es where e: "rev (map rev ds) = e # es" by (meson neq_Nil_conv)
    with sub have "e \<in> set space_encodings" by auto
    moreover from this have "e \<noteq> []" using space_encodings_first by blast
    ultimately show False using stuck t e by (auto simp: strip_any_None_iff)
  qed
  with t have "?t = []" by simp
  then show ?thesis
    unfolding TrimLeftSpace_def by (rule trim_codes_empty_concat)
qed

text \<open>
  Where a run of white-space encodings is cut in front of a byte that starts a rune, the rest is
  again such a run.
\<close>

lemma space_run_cut:
  assumes "set cs \<subseteq> set space_encodings" and "concat cs = p @ c # t" and "\<not> is_cont c"
  shows "\<exists>cs'. set cs' \<subseteq> set space_encodings \<and> concat cs' = c # t"
  using assms
proof (induction cs arbitrary: p)
  case Nil
  then show ?case by simp
next
  case (Cons e es)
  from Cons.prems(1) have e: "e \<noteq> []" "list_all is_cont (tl e)"
    using space_encodings_first by auto
  from Cons.prems(2) obtain u where
    "e = p @ u \<and> u @ concat es = c # t \<or> e @ u = p \<and> concat es = u @ c # t"
    by (auto simp: append_eq_append_conv2)
  then show ?case
  proof
    assume a: "e = p @ u \<and> u @ concat es = c # t"
    show ?thesis
    proof (cases "p = [] \<or> u = []")
      case True
      with a Cons.prems show ?thesis
        by (metis append_Nil append_self_conv concat.simps(2) set_subset_Cons subset_trans)
    next
      case False
      with a have "c \<in> set (tl e)" by (cases u; cases p) auto
      with e(2) Cons.prems(3) show ?thesis by (auto simp: list_all_iff)
    qed
  next
    assume "e @ u = p \<and> concat es = u @ c # t"
    with Cons show ?thesis by (meson set_subset_Cons subset_trans)
  qed
qed

text \<open>Visible ASCII text is left alone.\<close>

definition visible :: "string \<Rightarrow> bool" where
  "visible s \<longleftrightarrow> list_all (\<lambda>c. 33 \<le> byte c \<and> byte c < 127) s"

lemma visible_Nil [simp]: "visible []"
  and visible_Cons [simp]: "visible (c # s) \<longleftrightarrow> 33 \<le> byte c \<and> byte c < 127 \<and> visible s"
  and visible_append [simp]: "visible (s @ t) \<longleftrightarrow> visible s \<and> visible t"
  by (auto simp: visible_def)

lemma visible_stuck:
  assumes "visible s" and "es = space_encodings \<or> es = map rev space_encodings"
  shows "trim_codes es s = s"
proof -
  have "\<nexists>r. s = e @ r" if e: "e \<in> set es" "e \<noteq> []" for e
  proof
    assume "\<exists>r. s = e @ r"
    then have "\<forall>c \<in> set e. 33 \<le> byte c \<and> byte c < 127"
      using assms(1) by (auto simp: visible_def list_all_iff)
    moreover have "\<exists>f \<in> set space_encodings. set f = set e"
      using assms(2) e(1) by (metis (no_types, lifting) image_iff list.set_map set_rev)
    ultimately obtain f where f: "f \<in> set space_encodings" "f \<noteq> []"
      "\<forall>c \<in> set f. 33 \<le> byte c \<and> byte c < 127"
      using e(2) by (metis set_empty)
    have "hd f \<in> set f" using f(2) by simp
    with f(3) have "33 \<le> byte (hd f)" "byte (hd f) < 127" by blast+
    moreover from this(2) have "byte (hd f) < 128" by linarith
    ultimately show False
      using space_encodings_ascii f(1) \<open>hd f \<in> set f\<close> by fastforce
  qed
  then show ?thesis by (simp add: trim_codes_fixed_iff strip_any_None_iff)
qed

lemma TrimSpace_visible [simp]: "visible s \<Longrightarrow> TrimSpace s = s"
proof -
  assume v: "visible s"
  then have "visible (rev s)" by (simp add: visible_def)
  with v show ?thesis
    by (simp add: TrimSpace_def TrimLeftSpace_def TrimRightSpace_def visible_stuck)
qed

lemma is_blank_visible [simp]: "visible s \<Longrightarrow> is_blank s \<longleftrightarrow> s = []"
  by (simp add: is_blank_def)

text \<open>A well-formed rune at the head of a string is not changed by what follows.\<close>

lemma decode2_append: "fst (decode2 b r) \<noteq> rune_error \<Longrightarrow> decode2 b (r @ u) = decode2 b r"
  by (cases r) (auto simp: decode2_def split: if_split_asm)

lemma decode3_append: "fst (decode3 b r) \<noteq> rune_error \<Longrightarrow> decode3 b (r @ u) = decode3 b r"
  by (cases r; cases "tl r") (auto simp: decode3_def split: if_split_asm)

lemma decode4_append: "fst (decode4 b r) \<noteq> rune_error \<Longrightarrow> decode4 b (r @ u) = decode4 b r"
  by (cases r; cases "tl r"; cases "tl (tl r)") (auto simp: decode4_def split: if_split_asm)

lemma decode_rune_append:
  assumes "fst (decode_rune s) \<noteq> rune_error"
  shows "decode_rune (s @ u) = decode_rune s"
proof (cases s)
  case Nil
  with assms show ?thesis by (simp add: decode_rune_def)
next
  case (Cons c0 r)
  with assms show ?thesis
    by (simp add: decode_rune_def decode2_append decode3_append decode4_append
        split: if_split_asm)
qed

lemma decode_rune_cont: "is_cont c \<Longrightarrow> fst (decode_rune (c # s)) = rune_error"
  by (simp add: decode_rune_def is_cont_def)

text \<open>
  So a string is not blank when a rune that is neither ill-formed nor white space starts
  somewhere in it, whatever bytes stand before and after.
\<close>

lemma rune_inside_not_blank:
  assumes "t \<noteq> []" and "fst (decode_rune t) \<noteq> rune_error"
    and "fst (decode_rune t) \<notin> set space_runes"
  shows "\<not> is_blank (p @ t @ q)"
proof
  assume "is_blank (p @ t @ q)"
  then obtain cs where cs: "set cs \<subseteq> set space_encodings" "p @ t @ q = concat cs"
    using is_blank_concat by blast
  obtain c r where t: "t = c # r" using assms(1) by (cases t) auto
  have "\<not> is_cont c" using assms(2) t decode_rune_cont by blast
  then obtain ds where ds: "set ds \<subseteq> set space_encodings" "concat ds = t @ q"
    using space_run_cut [OF cs(1), of p c "r @ q"] cs(2) t by auto
  then obtain e es where e: "ds = e # es" "e \<in> set space_encodings"
    using assms(1) by (cases ds) auto
  have "decode_rune (t @ q) = decode_rune e"
    using ds(2) e space_encodings_decode decode_rune_append by (metis concat.simps(2))
  moreover have "decode_rune (t @ q) = decode_rune t"
    using assms(2) by (rule decode_rune_append)
  ultimately show False using assms(3) e(2) space_encodings_decode by metis
qed

end
