(* ===== verification/Go_Format.thy ===== *)
theory Go_Format
  imports Go_Strings
begin

text \<open>
  The searching, replacing and formatting functions the program applies to patterns:
  \<open>strings.Contains\<close>, \<open>ContainsAny\<close>, \<open>Count\<close>, \<open>ReplaceAll\<close>, \<open>ToLower\<close> and \<open>fmt.Sprintf\<close> with
  \<open>%s\<close> directives.
\<close>

subsection \<open>Searching\<close>

fun contains_str :: "string \<Rightarrow> string \<Rightarrow> bool" where
  "contains_str sub [] \<longleftrightarrow> sub = []"
| "contains_str sub (c # s) \<longleftrightarrow> strip_prefix sub (c # s) \<noteq> None \<or> contains_str sub s"

definition ContainsAny :: "string \<Rightarrow> string \<Rightarrow> bool" where
  "ContainsAny s chars \<longleftrightarrow> list_ex (\<lambda>c. c \<in> set chars) s"

definition Contains :: "string \<Rightarrow> char \<Rightarrow> bool" where
  "Contains s c \<longleftrightarrow> c \<in> set s"

text \<open>The cut set \<open>" \t\r\n"\<close> of the program's white-space checks.\<close>

definition ascii_ws :: string where
  "ascii_ws = [CHR '' '', CHR 0x09, CHR 0x0D, CHR 0x0A]"

lemma contains_str_iff: "contains_str sub s \<longleftrightarrow> (\<exists>p q. s = p @ sub @ q)"
proof (induction s)
  case Nil
  then show ?case by simp
next
  case (Cons c s)
  show ?case
  proof
    assume "contains_str sub (c # s)"
    then consider r where "c # s = sub @ r" | p q where "s = p @ sub @ q"
      using Cons.IH by (auto simp: strip_prefix_Some_iff)
    then show "\<exists>p q. c # s = p @ sub @ q"
    proof cases
      case 1
      then show ?thesis by (metis append_Nil)
    next
      case 2
      then show ?thesis by (metis append_Cons)
    qed
  next
    assume "\<exists>p q. c # s = p @ sub @ q"
    then obtain p q where pq: "c # s = p @ sub @ q" by blast
    show "contains_str sub (c # s)"
    proof (cases p)
      case Nil
      with pq have "strip_prefix sub (c # s) = Some q" by (simp add: strip_prefix_Some_iff)
      then show ?thesis by simp
    next
      case (Cons d p')
      with pq have "s = p' @ sub @ q" by simp
      with Cons.IH show ?thesis by auto
    qed
  qed
qed

subsection \<open>Lower case\<close>

text \<open>
  \<open>strings.ToLower\<close>, as far as a comparison with ASCII text can see it: ASCII capitals, and the
  two other runes whose lower case is an ASCII letter (U+0130 gives \<open>i\<close>, the Kelvin sign U+212A
  gives \<open>k\<close>).  Every other non-ASCII rune has a non-ASCII lower case and is left as it is.
\<close>

definition lower_byte :: "char \<Rightarrow> char" where
  "lower_byte c = (if 65 \<le> byte c \<and> byte c \<le> 90 then char_of (byte c + 32) else c)"

fun ToLower :: "string \<Rightarrow> string" where
  "ToLower [] = []"
| "ToLower [a] = [lower_byte a]"
| "ToLower [a, b] = (if a = CHR 0xC4 \<and> b = CHR 0xB0 then ''i'' else [lower_byte a, lower_byte b])"
| "ToLower (a # b # c # s) =
     (if a = CHR 0xC4 \<and> b = CHR 0xB0 then CHR ''i'' # ToLower (c # s)
      else if a = CHR 0xE2 \<and> b = CHR 0x84 \<and> c = CHR 0xAA then CHR ''k'' # ToLower s
      else lower_byte a # ToLower (b # c # s))"

subsection \<open>Patterns with \<open>%s\<close> placeholders\<close>

text \<open>
  \<open>pieces p\<close> are the literal parts of \<open>p\<close> between its non-overlapping \<open>%s\<close>, from left to right,
  so \<open>strings.Count(p, "%s")\<close> is one less than their number and \<open>strings.ReplaceAll(p, "%s", "")\<close>
  is their concatenation.
\<close>

fun pieces :: "string \<Rightarrow> string list" where
  "pieces [] = [[]]"
| "pieces [c] = [[c]]"
| "pieces (c # d # s) =
     (if c = CHR ''%'' \<and> d = CHR ''s'' then [] # pieces s
      else (case pieces (d # s) of [] \<Rightarrow> [[c]] | p # ps \<Rightarrow> (c # p) # ps))"

definition CountS :: "string \<Rightarrow> nat" where
  "CountS p = length (pieces p) - 1"

definition RemoveS :: "string \<Rightarrow> string" where
  "RemoveS p = concat (pieces p)"

lemma pieces_not_Nil [simp]: "pieces s \<noteq> []"
  by (induction s rule: pieces.induct) (auto split: list.splits)

text \<open>Gluing the pieces with \<open>%s\<close> gives the pattern back.\<close>

fun glue :: "string \<Rightarrow> string list \<Rightarrow> string" where
  "glue sep [] = []"
| "glue sep [p] = p"
| "glue sep (p # q # ps) = p @ sep @ glue sep (q # ps)"

lemma glue_Cons: "ps \<noteq> [] \<Longrightarrow> glue sep (p # ps) = p @ sep @ glue sep ps"
  by (cases ps) simp_all

lemma glue_Cons_char: "glue sep ((c # p) # ps) = c # glue sep (p # ps)"
  by (cases ps) simp_all

lemma glue_pieces: "glue ''%s'' (pieces s) = s"
proof (induction s rule: pieces.induct)
  case (3 c d s)
  show ?case
  proof (cases "c = CHR ''%'' \<and> d = CHR ''s''")
    case True
    with 3 show ?thesis by (simp add: glue_Cons)
  next
    case False
    obtain p ps where ps: "pieces (d # s) = p # ps" by (meson list.exhaust pieces_not_Nil)
    have "pieces (c # d # s) = (c # p) # ps" using False ps by simp
    moreover have "glue ''%s'' (p # ps) = d # s" using 3(2) False ps by simp
    ultimately show ?thesis by (simp only: glue_Cons_char)
  qed
qed simp_all

lemma set_glue: "set (concat ps) \<subseteq> set (glue sep ps)"
  by (induction sep ps rule: glue.induct) auto

lemma set_RemoveS: "set (RemoveS s) \<subseteq> set s"
  using set_glue [of "pieces s" "''%s''"] by (simp add: glue_pieces RemoveS_def)

text \<open>
  \<open>fmt.Sprintf(p, args...)\<close> for string arguments and a pattern whose only directives are \<open>%s\<close>
  (no \<open>%\<close> is left once they are removed): placeholders take the arguments in order, a missing one
  prints \<open>%!s(MISSING)\<close>, and arguments left over are appended in \<open>%!(EXTRA ...)\<close>.
\<close>

definition extra_args :: "string list \<Rightarrow> string" where
  "extra_args as = (if as = [] then []
     else ''%!(EXTRA '' @ glue '', '' (map (\<lambda>a. ''string='' @ a) as) @ '')'')"

fun fill :: "string list \<Rightarrow> string list \<Rightarrow> string" where
  "fill [] as = extra_args as"
| "fill [p] as = p @ extra_args as"
| "fill (p # q # ps) [] = p @ ''%!s(MISSING)'' @ fill (q # ps) []"
| "fill (p # q # ps) (a # as) = p @ a @ fill (q # ps) as"

definition Sprintf :: "string \<Rightarrow> string list \<Rightarrow> string" where
  "Sprintf p as = fill (pieces p) as"

lemma extra_args_Nil [simp]: "extra_args [] = []"
  by (simp add: extra_args_def)

lemma CountS_1: "CountS p = 1 \<Longrightarrow> \<exists>a b. pieces p = [a, b]"
  by (cases "pieces p"; cases "tl (pieces p)") (auto simp: CountS_def)

lemma CountS_2: "CountS p = 2 \<Longrightarrow> \<exists>a b c. pieces p = [a, b, c]"
  by (cases "pieces p"; cases "tl (pieces p)"; cases "tl (tl (pieces p))")
     (auto simp: CountS_def)

lemma Sprintf_1: "pieces p = [a, b] \<Longrightarrow> Sprintf p [t] = a @ t @ b"
  by (simp add: Sprintf_def)

lemma Sprintf_2: "pieces p = [a, b, c] \<Longrightarrow> Sprintf p [t, u] = a @ t @ b @ u @ c"
  by (simp add: Sprintf_def)

lemma Sprintf_1_inject:
  assumes "CountS p = 1"
  shows "Sprintf p [t] = Sprintf p [t'] \<longleftrightarrow> t = t'"
proof -
  from CountS_1 [OF assms] obtain a b where "pieces p = [a, b]" by blast
  then show ?thesis by (simp add: Sprintf_1)
qed

text \<open>
  With two placeholders the arguments can be read back when the text between the placeholders
  has a character that the first argument cannot have.
\<close>

lemma append_sep_cancel:
  assumes "t @ d # r = t' @ d # r'" and "d \<notin> set t" and "d \<notin> set t'"
  shows "t = t' \<and> r = r'"
proof -
  have "takeWhile (\<lambda>x. x \<noteq> d) (t @ d # r) = t" using assms(2) by (induction t) auto
  moreover have "takeWhile (\<lambda>x. x \<noteq> d) (t' @ d # r') = t'" using assms(3) by (induction t') auto
  ultimately have "t = t'" using assms(1) by simp
  with assms(1) show ?thesis by simp
qed

lemma Sprintf_2_inject:
  assumes "pieces p = [a, b, c]" and "d \<in> set b"
    and "d \<notin> set t" and "d \<notin> set t'"
  shows "Sprintf p [t, u] = Sprintf p [t', u'] \<longleftrightarrow> t = t' \<and> u = u'"
proof
  assume eq: "Sprintf p [t, u] = Sprintf p [t', u']"
  obtain b1 b2 where b: "b = b1 @ d # b2" "d \<notin> set b1"
    using assms(2) split_list_first by fastforce
  from eq assms(1) have "(t @ b1) @ d # (b2 @ u) = (t' @ b1) @ d # (b2 @ u')"
    by (simp add: Sprintf_2 b)
  then have "t @ b1 = t' @ b1 \<and> b2 @ u = b2 @ u'"
    by (rule append_sep_cancel) (use assms b in auto)
  then show "t = t' \<and> u = u'" by simp
qed simp

end
