(* ===== verification/Errors.thy ===== *)
theory Errors
  imports Go_Format
begin

text \<open>
  The two error models of the program, \<open>internal/runtimeerr/error.go\<close> and
  \<open>agentcore/errors.go\<close>, together with the values of Go's \<open>error\<close> interface they carry as causes:
  errors of the standard library or of NATS (a text, possibly one of the sentinels the code tests
  with \<open>errors.Is\<close>), \<open>fmt.Errorf\<close> with \<open>%w\<close>, and \<open>errors.Join\<close>.
\<close>

subsection \<open>Codes\<close>

datatype rt_code =
    RtValidation | RtConnectionFailed | RtDisconnected | RtJetStreamFailed | RtKVStoreFailed
  | RtKVReadFailed | RtConfigNotFound | RtPublishFailed | RtDecodeFailed | RtEncodeFailed
  | RtSubscribeFailed | RtRegistryConflict | RtShutdown

datatype code =
    CodeValidation | CodeConnectionFailed | CodeDisconnected | CodeJetStreamFailed
  | CodeKVStoreFailed | CodeKVReadFailed | CodeConfigNotFound | CodePublishFailed
  | CodeSubscribeFailed | CodeDecodeFailed | CodeEncodeFailed | CodeRegistryConflict
  | CodeShutdown | CodeNotImplemented

fun rt_code_text :: "rt_code \<Rightarrow> string" where
  "rt_code_text RtValidation = ''validation''"
| "rt_code_text RtConnectionFailed = ''connection_failed''"
| "rt_code_text RtDisconnected = ''disconnected''"
| "rt_code_text RtJetStreamFailed = ''jetstream_failed''"
| "rt_code_text RtKVStoreFailed = ''kv_store_failed''"
| "rt_code_text RtKVReadFailed = ''kv_read_failed''"
| "rt_code_text RtConfigNotFound = ''config_not_found''"
| "rt_code_text RtPublishFailed = ''publish_failed''"
| "rt_code_text RtDecodeFailed = ''decode_failed''"
| "rt_code_text RtEncodeFailed = ''encode_failed''"
| "rt_code_text RtSubscribeFailed = ''subscribe_failed''"
| "rt_code_text RtRegistryConflict = ''registry_conflict''"
| "rt_code_text RtShutdown = ''shutdown''"

fun code_text :: "code \<Rightarrow> string" where
  "code_text CodeValidation = ''validation''"
| "code_text CodeConnectionFailed = ''connection_failed''"
| "code_text CodeDisconnected = ''disconnected''"
| "code_text CodeJetStreamFailed = ''jetstream_failed''"
| "code_text CodeKVStoreFailed = ''kv_store_failed''"
| "code_text CodeKVReadFailed = ''kv_read_failed''"
| "code_text CodeConfigNotFound = ''config_not_found''"
| "code_text CodePublishFailed = ''publish_failed''"
| "code_text CodeSubscribeFailed = ''subscribe_failed''"
| "code_text CodeDecodeFailed = ''decode_failed''"
| "code_text CodeEncodeFailed = ''encode_failed''"
| "code_text CodeRegistryConflict = ''registry_conflict''"
| "code_text CodeShutdown = ''shutdown''"
| "code_text CodeNotImplemented = ''not_implemented''"

text \<open>The conversion \<open>Code(internal.Code)\<close>: the same text, read as a public code.\<close>

fun Code :: "rt_code \<Rightarrow> code" where
  "Code RtValidation = CodeValidation"
| "Code RtConnectionFailed = CodeConnectionFailed"
| "Code RtDisconnected = CodeDisconnected"
| "Code RtJetStreamFailed = CodeJetStreamFailed"
| "Code RtKVStoreFailed = CodeKVStoreFailed"
| "Code RtKVReadFailed = CodeKVReadFailed"
| "Code RtConfigNotFound = CodeConfigNotFound"
| "Code RtPublishFailed = CodePublishFailed"
| "Code RtDecodeFailed = CodeDecodeFailed"
| "Code RtEncodeFailed = CodeEncodeFailed"
| "Code RtSubscribeFailed = CodeSubscribeFailed"
| "Code RtRegistryConflict = CodeRegistryConflict"
| "Code RtShutdown = CodeShutdown"

lemma Code_text [simp]: "code_text (Code c) = rt_code_text c"
  by (cases c) simp_all

lemma Code_inject [simp]: "Code c = Code d \<longleftrightarrow> c = d"
  by (cases c; cases d) simp_all

lemma code_text_inject: "code_text c = code_text d \<longleftrightarrow> c = d"
  by (cases c; cases d) simp_all

subsection \<open>Error values\<close>

text \<open>The sentinels that \<open>errors.Is\<close> is called with, plus the two context errors.\<close>

datatype sentinel =
    CtxCanceled | CtxDeadlineExceeded | NatsKeyNotFound | NatsKeyDeleted
  | JsKeyNotFound | JsKeyDeleted | NatsBucketNotFound

datatype goerr =
    RuntimeErr (rt_code: rt_code) (err_op: string) (err_subject: string) (err_key: string)
      (err_message: string) (err_retryable: bool) (err_cause: "goerr option")
  | PublicErr (pub_code: code) (err_op: string) (err_subject: string) (err_key: string)
      (err_message: string) (err_retryable: bool) (err_cause: "goerr option")
  | PlainErr string
  | SentinelErr sentinel string
  | WrapErr string goerr
  | JoinErr "goerr list"

type_synonym 'a result = "goerr + 'a"

text \<open>
  \<open>Error()\<close>: both typed errors print alike, with the code in front when there is no operation and
  in parentheses when there are an operation and a message.
\<close>

definition typed_text :: "string \<Rightarrow> string \<Rightarrow> string \<Rightarrow> string" where
  "typed_text ctext op msg =
     (if op = [] \<and> msg = [] then ctext
      else if op = [] then ctext @ '': '' @ msg
      else if msg = [] then op @ '': '' @ ctext
      else op @ '': '' @ msg @ '' ('' @ ctext @ '')'')"

fun Error :: "goerr \<Rightarrow> string" where
  "Error (RuntimeErr c op subj key msg retry cause) = typed_text (rt_code_text c) op msg"
| "Error (PublicErr c op subj key msg retry cause) = typed_text (code_text c) op msg"
| "Error (PlainErr t) = t"
| "Error (SentinelErr s t) = t"
| "Error (WrapErr p e) = p @ Error e"
| "Error (JoinErr es) = glue [CHR 0x0A] (map Error es)"

text \<open>The methods called on a nil \<open>*Error\<close>.\<close>

definition Error_nil :: "goerr option \<Rightarrow> string" where
  "Error_nil e = (case e of None \<Rightarrow> ''<nil>'' | Some e \<Rightarrow> Error e)"

fun Unwrap :: "goerr \<Rightarrow> goerr option" where
  "Unwrap (RuntimeErr c op subj key msg retry cause) = cause"
| "Unwrap (PublicErr c op subj key msg retry cause) = cause"
| "Unwrap (WrapErr p e) = Some e"
| "Unwrap _ = None"

definition Wrap :: "code \<Rightarrow> string \<Rightarrow> goerr option \<Rightarrow> goerr" where
  "Wrap c op cause = PublicErr c op [] [] [] False cause"

text \<open>
  \<open>errors.Join\<close>: nil values are dropped, and joining nothing but nil is nil.
\<close>

definition Join :: "goerr option list \<Rightarrow> goerr option" where
  "Join es = (case List.map_filter (\<lambda>e. e) es of [] \<Rightarrow> None | xs \<Rightarrow> Some (JoinErr xs))"

lemma Join_None_iff: "Join es = None \<longleftrightarrow> (\<forall>e \<in> set es. e = None)"
  by (induction es) (auto simp: Join_def List.map_filter_def split: list.splits)

text \<open>
  \<open>errors.As(err, &internal)\<close> for \<open>*runtimeerr.Error\<close> and \<open>errors.Is\<close> for a sentinel: the error
  itself, then what it unwraps to, left to right through joined errors.
\<close>

fun as_runtime :: "goerr \<Rightarrow> goerr option" where
  "as_runtime (RuntimeErr c op subj key msg retry cause) =
     Some (RuntimeErr c op subj key msg retry cause)"
| "as_runtime (PublicErr c op subj key msg retry cause) =
     (case cause of None \<Rightarrow> None | Some e \<Rightarrow> as_runtime e)"
| "as_runtime (PlainErr t) = None"
| "as_runtime (SentinelErr s t) = None"
| "as_runtime (WrapErr p e) = as_runtime e"
| "as_runtime (JoinErr es) = first_err (map as_runtime es)"

fun is_sentinel :: "sentinel \<Rightarrow> goerr \<Rightarrow> bool" where
  "is_sentinel s (RuntimeErr c op subj key msg retry cause) =
     (case cause of None \<Rightarrow> False | Some e \<Rightarrow> is_sentinel s e)"
| "is_sentinel s (PublicErr c op subj key msg retry cause) =
     (case cause of None \<Rightarrow> False | Some e \<Rightarrow> is_sentinel s e)"
| "is_sentinel s (PlainErr t) = False"
| "is_sentinel s (SentinelErr s' t) = (s = s')"
| "is_sentinel s (WrapErr p e) = is_sentinel s e"
| "is_sentinel s (JoinErr es) = list_ex (is_sentinel s) es"

fun is_runtime :: "goerr \<Rightarrow> bool" where
  "is_runtime (RuntimeErr c op subj key msg retry cause) = True"
| "is_runtime _ = False"

fun is_public :: "goerr \<Rightarrow> bool" where
  "is_public (PublicErr c op subj key msg retry cause) = True"
| "is_public _ = False"

lemma as_runtime_is_runtime: "as_runtime e = Some r \<Longrightarrow> is_runtime r"
  by (induction e arbitrary: r rule: as_runtime.induct)
     (auto split: option.splits dest!: first_err_Some_mem)

subsection \<open>\<open>toPublicError\<close>\<close>

text \<open>
  The facade's translation (\<open>agentcore/client.go\<close>): the first internal error found in the chain is
  rebuilt field by field as a public error; any other error passes through.
\<close>

definition toPublicError :: "goerr \<Rightarrow> goerr" where
  "toPublicError err = (case as_runtime err of
       Some (RuntimeErr c op subj key msg retry cause) \<Rightarrow>
         PublicErr (Code c) op subj key msg retry cause
     | _ \<Rightarrow> err)"

lemma toPublicError_runtime [simp]:
  "toPublicError (RuntimeErr c op subj key msg retry cause) =
     PublicErr (Code c) op subj key msg retry cause"
  by (simp add: toPublicError_def)

lemma toPublicError_text [simp]: "is_runtime e \<Longrightarrow> Error (toPublicError e) = Error e"
  by (cases e) simp_all

lemma toPublicError_public: "as_runtime e \<noteq> None \<Longrightarrow> is_public (toPublicError e)"
  using as_runtime_is_runtime by (fastforce simp: toPublicError_def elim: is_runtime.elims)

lemma toPublicError_other: "as_runtime e = None \<Longrightarrow> toPublicError e = e"
  by (simp add: toPublicError_def)

text \<open>
  The helper every package has under the name \<open>validationError\<close>: the internal packages build a
  runtime error, \<open>agentcore\<close> and \<open>internal/contract\<close> a public one.
\<close>

definition rt_validationError :: "string \<Rightarrow> string \<Rightarrow> goerr" where
  "rt_validationError op msg = RuntimeErr RtValidation op [] [] msg False None"

definition validationError :: "string \<Rightarrow> string \<Rightarrow> goerr" where
  "validationError op msg = PublicErr CodeValidation op [] [] msg False None"

lemma toPublicError_validation [simp]:
  "toPublicError (rt_validationError op msg) = validationError op msg"
  by (simp add: rt_validationError_def validationError_def)

lemma validationError_inject [simp]:
  "validationError op msg = validationError op' msg' \<longleftrightarrow> op = op' \<and> msg = msg'"
  "rt_validationError op msg = rt_validationError op' msg' \<longleftrightarrow> op = op' \<and> msg = msg'"
  by (simp_all add: rt_validationError_def validationError_def)

end
