(* ===== verification/Go_Json.thy ===== *)
theory Go_Json
  imports Go_Time Errors
begin

text \<open>
  \<open>encoding/json\<close> as the program uses it: \<open>json.Valid\<close>, and \<open>json.Marshal\<close> / \<open>json.Unmarshal\<close> of a
  flat struct whose fields are strings, \<open>json.RawMessage\<close> payloads and \<open>time.Time\<close> values.  Go's
  scanner is a byte-at-a-time automaton with a stack of open objects and arrays, and so is this one.
\<close>

subsection \<open>The scanner\<close>

datatype scan_step =
    BeginValue | BeginValueOrEmpty | BeginStringOrEmpty | BeginString | EndValue | EndTop
  | InString | InStringEsc | InStringEscU nat | Neg | Digits1 | Digits0 | Dot | DotDigits
  | ExpMark | ExpSign | ExpDigits | Literal string | ScanError

datatype parse_state = ParseObjectKey | ParseObjectValue | ParseArrayValue

type_synonym scanner = "scan_step \<times> parse_state list"

definition max_depth :: nat where
  "max_depth = 10000"

definition json_space :: "char \<Rightarrow> bool" where
  "json_space c \<longleftrightarrow> c = CHR '' '' \<or> c = CHR 0x09 \<or> c = CHR 0x0D \<or> c = CHR 0x0A"

definition json_digit :: "char \<Rightarrow> bool" where
  "json_digit c \<longleftrightarrow> 48 \<le> byte c \<and> byte c \<le> 57"

definition json_hex :: "char \<Rightarrow> bool" where
  "json_hex c \<longleftrightarrow> json_digit c \<or> 97 \<le> byte c \<and> byte c \<le> 102 \<or> 65 \<le> byte c \<and> byte c \<le> 70"

definition push_state :: "scan_step \<Rightarrow> parse_state \<Rightarrow> parse_state list \<Rightarrow> scanner" where
  "push_state st p ps = (if length ps < max_depth then (st, p # ps) else (ScanError, ps))"

definition pop_state :: "parse_state list \<Rightarrow> scanner" where
  "pop_state ps = (if tl ps = [] then (EndTop, []) else (EndValue, tl ps))"

definition begin_value :: "parse_state list \<Rightarrow> char \<Rightarrow> scanner" where
  "begin_value ps c =
     (if json_space c then (BeginValue, ps)
      else if c = CHR ''{'' then push_state BeginStringOrEmpty ParseObjectKey ps
      else if c = CHR ''['' then push_state BeginValueOrEmpty ParseArrayValue ps
      else if c = CHR 0x22 then (InString, ps)
      else if c = CHR ''-'' then (Neg, ps)
      else if c = CHR ''0'' then (Digits0, ps)
      else if c = CHR ''t'' then (Literal ''rue'', ps)
      else if c = CHR ''f'' then (Literal ''alse'', ps)
      else if c = CHR ''n'' then (Literal ''ull'', ps)
      else if json_digit c then (Digits1, ps)
      else (ScanError, ps))"

definition begin_string :: "parse_state list \<Rightarrow> char \<Rightarrow> scanner" where
  "begin_string ps c =
     (if json_space c then (BeginString, ps)
      else if c = CHR 0x22 then (InString, ps) else (ScanError, ps))"

definition end_value :: "parse_state list \<Rightarrow> char \<Rightarrow> scanner" where
  "end_value ps c = (case ps of
       [] \<Rightarrow> if json_space c then (EndTop, []) else (ScanError, [])
     | p # qs \<Rightarrow>
         if json_space c then (EndValue, ps)
         else (case p of
             ParseObjectKey \<Rightarrow>
               if c = CHR '':'' then (BeginValue, ParseObjectValue # qs) else (ScanError, ps)
           | ParseObjectValue \<Rightarrow>
               if c = CHR '','' then (BeginString, ParseObjectKey # qs)
               else if c = CHR ''}'' then pop_state ps else (ScanError, ps)
           | ParseArrayValue \<Rightarrow>
               if c = CHR '','' then (BeginValue, ps)
               else if c = CHR '']'' then pop_state ps else (ScanError, ps)))"

definition after_int :: "parse_state list \<Rightarrow> char \<Rightarrow> scanner" where
  "after_int ps c =
     (if c = CHR ''.'' then (Dot, ps)
      else if c = CHR ''e'' \<or> c = CHR ''E'' then (ExpMark, ps)
      else end_value ps c)"

fun scan :: "scanner \<Rightarrow> char \<Rightarrow> scanner" where
  "scan (BeginValue, ps) c = begin_value ps c"
| "scan (BeginValueOrEmpty, ps) c =
     (if json_space c then (BeginValueOrEmpty, ps)
      else if c = CHR '']'' then end_value ps c else begin_value ps c)"
| "scan (BeginStringOrEmpty, ps) c =
     (if json_space c then (BeginStringOrEmpty, ps)
      else if c = CHR ''}'' then end_value (ParseObjectValue # tl ps) c else begin_string ps c)"
| "scan (BeginString, ps) c = begin_string ps c"
| "scan (EndValue, ps) c = end_value ps c"
| "scan (EndTop, ps) c = (if json_space c then (EndTop, ps) else (ScanError, ps))"
| "scan (InString, ps) c =
     (if c = CHR 0x22 then (EndValue, ps)
      else if c = CHR 0x5C then (InStringEsc, ps)
      else if byte c < 32 then (ScanError, ps) else (InString, ps))"
| "scan (InStringEsc, ps) c =
     (if c = CHR ''u'' then (InStringEscU 3, ps)
      else if c \<in> set [CHR ''b'', CHR ''f'', CHR ''n'', CHR ''r'', CHR ''t'', CHR 0x5C, CHR ''/'', CHR 0x22]
      then (InString, ps) else (ScanError, ps))"
| "scan (InStringEscU k, ps) c =
     (if json_hex c then (case k of 0 \<Rightarrow> (InString, ps) | Suc j \<Rightarrow> (InStringEscU j, ps))
      else (ScanError, ps))"
| "scan (Neg, ps) c =
     (if c = CHR ''0'' then (Digits0, ps)
      else if json_digit c then (Digits1, ps) else (ScanError, ps))"
| "scan (Digits1, ps) c = (if json_digit c then (Digits1, ps) else after_int ps c)"
| "scan (Digits0, ps) c = after_int ps c"
| "scan (Dot, ps) c = (if json_digit c then (DotDigits, ps) else (ScanError, ps))"
| "scan (DotDigits, ps) c =
     (if json_digit c then (DotDigits, ps)
      else if c = CHR ''e'' \<or> c = CHR ''E'' then (ExpMark, ps) else end_value ps c)"
| "scan (ExpMark, ps) c =
     (if c = CHR ''+'' \<or> c = CHR ''-'' then (ExpSign, ps)
      else if json_digit c then (ExpDigits, ps) else (ScanError, ps))"
| "scan (ExpSign, ps) c = (if json_digit c then (ExpDigits, ps) else (ScanError, ps))"
| "scan (ExpDigits, ps) c = (if json_digit c then (ExpDigits, ps) else end_value ps c)"
| "scan (Literal t, ps) c =
     (case t of [] \<Rightarrow> (ScanError, ps)
      | d # ds \<Rightarrow> if c = d then (if ds = [] then (EndValue, ps) else (Literal ds, ps))
                  else (ScanError, ps))"
| "scan (ScanError, ps) c = (ScanError, ps)"

definition scan_all :: "scanner \<Rightarrow> string \<Rightarrow> scanner" where
  "scan_all st s = foldl scan st s"

definition scan_eof :: "scanner \<Rightarrow> bool" where
  "scan_eof st \<longleftrightarrow> fst st = EndTop \<or> fst (scan st CHR '' '') = EndTop"

definition Valid :: "string \<Rightarrow> bool" where
  "Valid s \<longleftrightarrow> scan_eof (scan_all (BeginValue, []) s)"

lemma scan_all_simps [simp]:
  "scan_all st [] = st"
  "scan_all st (c # s) = scan_all (scan st c) s"
  "scan_all st (s @ t) = scan_all (scan_all st s) t"
  by (simp_all add: scan_all_def)

lemma Valid_Nil [simp]: "\<not> Valid []"
  by (simp add: Valid_def scan_eof_def begin_value_def json_space_def)

subsection \<open>Writing\<close>

definition hex_digit :: "nat \<Rightarrow> char" where
  "hex_digit n = (if n < 10 then char_of (48 + n) else char_of (87 + n))"

definition u00 :: "char \<Rightarrow> string" where
  "u00 c = CHR 0x5C # ''u00'' @ [hex_digit (byte c div 16), hex_digit (byte c mod 16)]"

definition html_special :: "char \<Rightarrow> bool" where
  "html_special c \<longleftrightarrow> c = CHR ''<'' \<or> c = CHR ''>'' \<or> c = CHR ''&''"

definition escape_ascii :: "char \<Rightarrow> string" where
  "escape_ascii c =
     (if c = CHR 0x5C \<or> c = CHR 0x22 then [CHR 0x5C, c]
      else if c = CHR 0x08 then [CHR 0x5C, CHR ''b'']
      else if c = CHR 0x0C then [CHR 0x5C, CHR ''f'']
      else if c = CHR 0x0A then [CHR 0x5C, CHR ''n'']
      else if c = CHR 0x0D then [CHR 0x5C, CHR ''r'']
      else if c = CHR 0x09 then [CHR 0x5C, CHR ''t'']
      else if byte c < 32 \<or> html_special c then u00 c
      else [c])"

text \<open>Ill-formed UTF-8 is written as U+FFFD; U+2028 and U+2029 are escaped.\<close>

function escape_body :: "string \<Rightarrow> string" where
  "escape_body s = (case s of [] \<Rightarrow> []
     | c # r \<Rightarrow>
        if byte c < 128 then escape_ascii c @ escape_body r
        else let (rn, w) = decode_rune s in
             (if rn = rune_error \<and> w = 1 then CHR 0x5C # ''ufffd''
              else if rn = 8232 then CHR 0x5C # ''u2028''
              else if rn = 8233 then CHR 0x5C # ''u2029''
              else take w s) @ escape_body (drop w s))"
  by pat_completeness auto
termination
proof (relation "measure length")
  fix s :: string and c r x rn w
  assume "s = c # r" "x = decode_rune s" "(rn, w) = x"
  then have "1 \<le> w" using decode_rune_width [of s] by (cases "decode_rune s") auto
  with \<open>s = c # r\<close> show "(drop w s, s) \<in> measure length" by simp
qed simp_all

declare escape_body.simps [simp del]

definition encode_string :: "string \<Rightarrow> string" where
  "encode_string s = CHR 0x22 # escape_body s @ [CHR 0x22]"

text \<open>\<open>json.RawMessage\<close> is compacted: white space between tokens goes, HTML characters are escaped.\<close>

definition in_string :: "scanner \<Rightarrow> bool" where
  "in_string st \<longleftrightarrow> (case fst st of InString \<Rightarrow> True | InStringEsc \<Rightarrow> True | InStringEscU k \<Rightarrow> True
                    | _ \<Rightarrow> False)"

fun compact_from :: "scanner \<Rightarrow> string \<Rightarrow> string" where
  "compact_from st [] = []"
| "compact_from st [c] =
     (if json_space c \<and> \<not> in_string st then [] else if html_special c then u00 c else [c])"
| "compact_from st [c, d] =
     (if json_space c \<and> \<not> in_string st then [] else if html_special c then u00 c else [c])
     @ compact_from (scan st c) [d]"
| "compact_from st (c # d # e # s) =
     (if c = CHR 0xE2 \<and> d = CHR 0x80 \<and> (e = CHR 0xA8 \<or> e = CHR 0xA9)
      then CHR 0x5C # ''u202'' @ (if e = CHR 0xA8 then ''8'' else ''9'')
           @ compact_from (scan (scan (scan st c) d) e) s
      else (if json_space c \<and> \<not> in_string st then [] else if html_special c then u00 c else [c])
           @ compact_from (scan st c) (d # e # s))"

definition encode_raw :: "string \<Rightarrow> string result" where
  "encode_raw p =
     (if p = [] then Inr ''null''
      else if Valid p then Inr (compact_from (BeginValue, []) p)
      else Inl (PlainErr ''json: error calling MarshalJSON for type json.RawMessage''))"

datatype json_value = JString string | JRaw string | JTime gotime

fun encode_value :: "json_value \<Rightarrow> string result" where
  "encode_value (JString s) = Inr (encode_string s)"
| "encode_value (JRaw p) = encode_raw p"
| "encode_value (JTime t) = (case format_time t of
     Some s \<Rightarrow> Inr (CHR 0x22 # s @ [CHR 0x22])
   | None \<Rightarrow> Inl (PlainErr ''json: error calling MarshalJSON for type time.Time''))"

text \<open>A struct is its fields in declaration order; \<open>omitempty\<close> fields are left out by the caller.\<close>

fun encode_fields :: "(string \<times> json_value) list \<Rightarrow> string list result" where
  "encode_fields [] = Inr []"
| "encode_fields ((n, v) # fs) =
     try_bind (encode_value v) (\<lambda>t.
       try_bind (encode_fields fs) (\<lambda>ts. Inr ((encode_string n @ CHR '':'' # t) # ts)))"

definition Marshal :: "(string \<times> json_value) list \<Rightarrow> string result" where
  "Marshal fs = try_bind (encode_fields fs) (\<lambda>ts. Inr (CHR ''{'' # glue '','' ts @ ''}''))"

lemma Marshal_not_empty: "Marshal fs = Inr s \<Longrightarrow> s \<noteq> []"
  by (auto simp: Marshal_def)

subsection \<open>Reading\<close>

definition hex_val :: "char \<Rightarrow> nat" where
  "hex_val c = (if json_digit c then byte c - 48
                else if 97 \<le> byte c then byte c - 87 else byte c - 55)"

definition read_u4 :: "string \<Rightarrow> nat option" where
  "read_u4 s = (case s of
       b # u # h3 # h2 # h1 # h0 # _ \<Rightarrow>
         if b = CHR 0x5C \<and> u = CHR ''u'' \<and> list_all json_hex [h3, h2, h1, h0]
         then Some (hex_val h3 * 4096 + hex_val h2 * 256 + hex_val h1 * 16 + hex_val h0)
         else None
     | _ \<Rightarrow> None)"

definition is_surrogate :: "nat \<Rightarrow> bool" where
  "is_surrogate r \<longleftrightarrow> 55296 \<le> r \<and> r < 57344"

text \<open>The rune of a \<open>\u\<close> escape at the head of the text, and how many bytes it takes.\<close>

definition read_escape_u :: "string \<Rightarrow> (nat \<times> nat) option" where
  "read_escape_u s = (case read_u4 s of None \<Rightarrow> None
     | Some r \<Rightarrow>
        if is_surrogate r then
          (case read_u4 (drop 6 s) of
             Some r2 \<Rightarrow> if r < 56320 \<and> 56320 \<le> r2 \<and> r2 < 57344
                        then Some ((r - 55296) * 1024 + (r2 - 56320) + 65536, 12)
                        else Some (rune_error, 6)
           | None \<Rightarrow> Some (rune_error, 6))
        else Some (r, 6))"

definition unescape_char :: "char \<Rightarrow> char option" where
  "unescape_char c =
     (if c \<in> set [CHR 0x22, CHR 0x5C, CHR ''/''] then Some c
      else if c = CHR ''b'' then Some CHR 0x08
      else if c = CHR ''f'' then Some CHR 0x0C
      else if c = CHR ''n'' then Some CHR 0x0A
      else if c = CHR ''r'' then Some CHR 0x0D
      else if c = CHR ''t'' then Some CHR 0x09
      else None)"

lemma read_escape_u_width: "read_escape_u s = Some (r, w) \<Longrightarrow> 6 \<le> w"
  by (auto simp: read_escape_u_def split: option.splits if_splits)

text \<open>The text between the quotes of a string literal; \<open>None\<close> where \<open>unquote\<close> fails.\<close>

function unquote_body :: "string \<Rightarrow> string option" where
  "unquote_body s = (case s of [] \<Rightarrow> Some []
     | c # r \<Rightarrow>
        if c = CHR 0x5C then
          (case r of [] \<Rightarrow> None
           | e # r' \<Rightarrow>
              if e = CHR ''u'' then
                (case read_escape_u s of None \<Rightarrow> None
                 | Some (rn, w) \<Rightarrow> map_option (append (utf8_encode rn)) (unquote_body (drop w s)))
              else (case unescape_char e of None \<Rightarrow> None
                    | Some d \<Rightarrow> map_option (Cons d) (unquote_body r')))
        else if c = CHR 0x22 \<or> byte c < 32 then None
        else if byte c < 128 then map_option (Cons c) (unquote_body r)
        else map_option (append (utf8_encode (fst (decode_rune s))))
               (unquote_body (drop (snd (decode_rune s)) s)))"
  by pat_completeness auto
termination
proof (relation "measure length")
  fix s :: string and c r e r' x rn w
  assume "s = c # r" "read_escape_u s = Some x" "(rn, w) = x"
  then show "(drop w s, s) \<in> measure length" using read_escape_u_width [of s rn w] by auto
next
  fix s :: string and c r
  assume "s = c # r"
  then show "(drop (snd (decode_rune s)) s, s) \<in> measure length"
    using decode_rune_width [of s] by (cases "snd (decode_rune s)") auto
qed auto

declare unquote_body.simps [simp del]

definition unquote :: "string \<Rightarrow> string option" where
  "unquote lit = (if 2 \<le> length lit \<and> hd lit = CHR 0x22 \<and> last lit = CHR 0x22
                  then unquote_body (butlast (tl lit)) else None)"

definition json_trim :: "string \<Rightarrow> string" where
  "json_trim s = rev (dropWhile json_space (rev (dropWhile json_space s)))"

text \<open>
  The members of the outermost object, as the texts of key and value: a member's key ends at the
  colon that leaves \<open>[ParseObjectKey]\<close>, its value at the comma or brace that leaves
  \<open>[ParseObjectValue]\<close>.
\<close>

fun split_members :: "scanner \<Rightarrow> string \<Rightarrow> string \<Rightarrow> string \<Rightarrow> (string \<times> string) list" where
  "split_members st buf key [] = []"
| "split_members st buf key (c # s) =
     (let st' = scan st c in
      if snd st = [ParseObjectKey] \<and> snd st' = [ParseObjectValue]
      then split_members st' [] (json_trim (rev buf)) s
      else if snd st = [ParseObjectValue] \<and> (snd st' = [ParseObjectKey] \<or> snd st' = [])
      then (key, json_trim (rev buf)) # split_members st' [] [] s
      else split_members st' (c # buf) key s)"

definition object_members :: "string \<Rightarrow> (string \<times> string) list" where
  "object_members s = split_members (BeginStringOrEmpty, [ParseObjectKey]) [] [] (tl (json_trim s))"

text \<open>
  Member names match a field exactly or, failing that, up to case: ASCII case, and the two
  non-ASCII runes that fold to an ASCII letter (U+017F to \<open>S\<close>, U+212A to \<open>K\<close>).
\<close>

definition upper_byte :: "char \<Rightarrow> char" where
  "upper_byte c = (if 97 \<le> byte c \<and> byte c \<le> 122 then char_of (byte c - 32) else c)"

fun fold_name :: "string \<Rightarrow> string" where
  "fold_name [] = []"
| "fold_name [a] = [upper_byte a]"
| "fold_name [a, b] = (if a = CHR 0xC5 \<and> b = CHR 0xBF then ''S'' else [upper_byte a, upper_byte b])"
| "fold_name (a # b # c # s) =
     (if a = CHR 0xC5 \<and> b = CHR 0xBF then CHR ''S'' # fold_name (c # s)
      else if a = CHR 0xE2 \<and> b = CHR 0x84 \<and> c = CHR 0xAA then CHR ''K'' # fold_name s
      else upper_byte a # fold_name (b # c # s))"

datatype field_kind = StringField | RawField | TimeField

definition find_field :: "(string \<times> field_kind) list \<Rightarrow> string \<Rightarrow> (string \<times> field_kind) option" where
  "find_field fs n = (case find (\<lambda>(f, _). f = n) fs of
       Some fk \<Rightarrow> Some fk
     | None \<Rightarrow> find (\<lambda>(f, _). fold_name f = fold_name n) fs)"

text \<open>
  What one member does to the struct: an update of one field, nothing (a JSON \<open>null\<close> for a string
  or a time, a name without a field), or an error.
\<close>

definition read_member ::
  "(string \<times> field_kind) list \<Rightarrow> string \<times> string \<Rightarrow> (string \<times> json_value) option result" where
  "read_member fs m = (case m of (key, val) \<Rightarrow>
     (case unquote key of
        None \<Rightarrow> Inl (PlainErr ''json: invalid object key'')
      | Some n \<Rightarrow>
         (case find_field fs n of
            None \<Rightarrow> Inr None
          | Some (f, StringField) \<Rightarrow>
              if val = ''null'' then Inr None
              else (case unquote val of
                      Some s \<Rightarrow> Inr (Some (f, JString s))
                    | None \<Rightarrow> Inl (PlainErr ''json: cannot unmarshal into Go struct field of type string''))
          | Some (f, RawField) \<Rightarrow> Inr (Some (f, JRaw val))
          | Some (f, TimeField) \<Rightarrow>
              if val = ''null'' then Inr None
              else if hd val = CHR 0x22 then
                (case parse_time (butlast (tl val)) of
                   Some t \<Rightarrow> Inr (Some (f, JTime t))
                 | None \<Rightarrow> Inl (PlainErr ''parsing time: cannot parse as RFC 3339''))
              else Inl (PlainErr ''Time.UnmarshalJSON: input is not a JSON string''))))"

type_synonym struct = "(string \<times> json_value) list"

fun read_members ::
  "(string \<times> field_kind) list \<Rightarrow> struct \<Rightarrow> (string \<times> string) list \<Rightarrow> struct result" where
  "read_members fs acc [] = Inr acc"
| "read_members fs acc (m # ms) =
     try_bind (read_member fs m) (\<lambda>u. read_members fs
       (case u of None \<Rightarrow> acc | Some (f, v) \<Rightarrow> alist_put f v acc) ms)"

text \<open>
  \<open>json.Unmarshal\<close> into a zero struct: the fields that were set.  A top-level \<open>null\<close> sets nothing.
\<close>

definition Unmarshal :: "(string \<times> field_kind) list \<Rightarrow> string \<Rightarrow> struct result" where
  "Unmarshal fs data =
     (if \<not> Valid data then Inl (PlainErr ''json: syntax error'')
      else if json_trim data = ''null'' then Inr []
      else if hd (json_trim data) = CHR ''{'' then read_members fs [] (object_members data)
      else Inl (PlainErr ''json: cannot unmarshal into Go value of struct type''))"

definition get_string :: "struct \<Rightarrow> string \<Rightarrow> string" where
  "get_string st f = (case map_of st f of Some (JString s) \<Rightarrow> s | _ \<Rightarrow> [])"

definition get_raw :: "struct \<Rightarrow> string \<Rightarrow> string" where
  "get_raw st f = (case map_of st f of Some (JRaw p) \<Rightarrow> p | _ \<Rightarrow> [])"

definition get_time :: "struct \<Rightarrow> string \<Rightarrow> gotime" where
  "get_time st f = (case map_of st f of Some (JTime t) \<Rightarrow> t | _ \<Rightarrow> zero_time)"

end
