(* ===== verification/Contract.thy ===== *)
theory Contract
  imports Go_Json
begin

text \<open>
  \<open>agentcore/contracts.go\<close> and \<open>internal/contract\<close>: the messages of the shared wire contract, their
  JSON shape (field tags and \<open>omitempty\<close>), the validators, and the codecs built from the two.
\<close>

subsection \<open>Messages (\<open>agentcore/contracts.go\<close>)\<close>

record BaseEnvelope =
  be_Version :: string
  be_RPCID :: string
  be_Target :: string
  be_Timestamp :: gotime

record ConfigureCommand =
  cc_Version :: string
  cc_RPCID :: string
  cc_Target :: string
  cc_UUID :: string
  cc_Payload :: string
  cc_Timestamp :: gotime

record DesiredConfigRecord =
  dc_Version :: string
  dc_RPCID :: string
  dc_Target :: string
  dc_UUID :: string
  dc_Payload :: string
  dc_Timestamp :: gotime

record ConfigureNotification =
  cn_Version :: string
  cn_RPCID :: string
  cn_Target :: string
  cn_CommandType :: string
  cn_UUID :: string
  cn_KVBucket :: string
  cn_KVKey :: string
  cn_Timestamp :: gotime

record ActionCommand =
  ac_Version :: string
  ac_RPCID :: string
  ac_Target :: string
  ac_CommandType :: string
  ac_Action :: string
  ac_Payload :: string
  ac_Timestamp :: gotime

record ResultEnvelope =
  re_Version :: string
  re_RPCID :: string
  re_Target :: string
  re_CommandType :: string
  re_UUID :: string
  re_Action :: string
  re_Result :: string
  re_Message :: string
  re_ErrorCode :: string
  re_Payload :: string
  re_Timestamp :: gotime

record StatusEnvelope =
  se_Version :: string
  se_RPCID :: string
  se_Target :: string
  se_UUID :: string
  se_Status :: string
  se_Stage :: string
  se_Message :: string
  se_Payload :: string
  se_Timestamp :: gotime

record StoredDesiredConfig =
  sd_Record :: DesiredConfigRecord
  sd_Bucket :: string
  sd_Key :: string
  sd_Revision :: "64 word"
  sd_CreatedAt :: gotime

record SubmissionAck =
  ack_Accepted :: bool
  ack_RPCID :: string
  ack_Target :: string
  ack_Subject :: string
  ack_AcceptedAt :: gotime
  ack_KVBucket :: string
  ack_KVKey :: string
  ack_KVRevision :: "64 word"

subsection \<open>The JSON shape of the messages\<close>

definition omit_string :: "string \<Rightarrow> string \<Rightarrow> struct" where
  "omit_string n v = (if v = [] then [] else [(n, JString v)])"

definition omit_raw :: "string \<Rightarrow> string \<Rightarrow> struct" where
  "omit_raw n v = (if v = [] then [] else [(n, JRaw v)])"

definition wire_ConfigureCommand :: "ConfigureCommand \<Rightarrow> struct" where
  "wire_ConfigureCommand m =
     [(''version'', JString (cc_Version m)), (''rpc_id'', JString (cc_RPCID m)),
      (''target'', JString (cc_Target m)), (''uuid'', JString (cc_UUID m)),
      (''payload'', JRaw (cc_Payload m)), (''timestamp'', JTime (cc_Timestamp m))]"

definition schema_ConfigureCommand :: "(string \<times> field_kind) list" where
  "schema_ConfigureCommand =
     [(''version'', StringField), (''rpc_id'', StringField), (''target'', StringField),
      (''uuid'', StringField), (''payload'', RawField), (''timestamp'', TimeField)]"

definition read_ConfigureCommand :: "struct \<Rightarrow> ConfigureCommand" where
  "read_ConfigureCommand st =
     \<lparr>cc_Version = get_string st ''version'', cc_RPCID = get_string st ''rpc_id'',
      cc_Target = get_string st ''target'', cc_UUID = get_string st ''uuid'',
      cc_Payload = get_raw st ''payload'', cc_Timestamp = get_time st ''timestamp''\<rparr>"

definition wire_DesiredConfigRecord :: "DesiredConfigRecord \<Rightarrow> struct" where
  "wire_DesiredConfigRecord m =
     [(''version'', JString (dc_Version m)), (''rpc_id'', JString (dc_RPCID m)),
      (''target'', JString (dc_Target m)), (''uuid'', JString (dc_UUID m)),
      (''payload'', JRaw (dc_Payload m)), (''timestamp'', JTime (dc_Timestamp m))]"

definition schema_DesiredConfigRecord :: "(string \<times> field_kind) list" where
  "schema_DesiredConfigRecord =
     [(''version'', StringField), (''rpc_id'', StringField), (''target'', StringField),
      (''uuid'', StringField), (''payload'', RawField), (''timestamp'', TimeField)]"

definition read_DesiredConfigRecord :: "struct \<Rightarrow> DesiredConfigRecord" where
  "read_DesiredConfigRecord st =
     \<lparr>dc_Version = get_string st ''version'', dc_RPCID = get_string st ''rpc_id'',
      dc_Target = get_string st ''target'', dc_UUID = get_string st ''uuid'',
      dc_Payload = get_raw st ''payload'', dc_Timestamp = get_time st ''timestamp''\<rparr>"

definition wire_ConfigureNotification :: "ConfigureNotification \<Rightarrow> struct" where
  "wire_ConfigureNotification m =
     [(''version'', JString (cn_Version m)), (''rpc_id'', JString (cn_RPCID m)),
      (''target'', JString (cn_Target m)), (''command_type'', JString (cn_CommandType m)),
      (''uuid'', JString (cn_UUID m)), (''kv_bucket'', JString (cn_KVBucket m)),
      (''kv_key'', JString (cn_KVKey m)), (''timestamp'', JTime (cn_Timestamp m))]"

definition schema_ConfigureNotification :: "(string \<times> field_kind) list" where
  "schema_ConfigureNotification =
     [(''version'', StringField), (''rpc_id'', StringField), (''target'', StringField),
      (''command_type'', StringField), (''uuid'', StringField), (''kv_bucket'', StringField),
      (''kv_key'', StringField), (''timestamp'', TimeField)]"

definition read_ConfigureNotification :: "struct \<Rightarrow> ConfigureNotification" where
  "read_ConfigureNotification st =
     \<lparr>cn_Version = get_string st ''version'', cn_RPCID = get_string st ''rpc_id'',
      cn_Target = get_string st ''target'', cn_CommandType = get_string st ''command_type'',
      cn_UUID = get_string st ''uuid'', cn_KVBucket = get_string st ''kv_bucket'',
      cn_KVKey = get_string st ''kv_key'', cn_Timestamp = get_time st ''timestamp''\<rparr>"

definition wire_ActionCommand :: "ActionCommand \<Rightarrow> struct" where
  "wire_ActionCommand m =
     [(''version'', JString (ac_Version m)), (''rpc_id'', JString (ac_RPCID m)),
      (''target'', JString (ac_Target m)), (''command_type'', JString (ac_CommandType m)),
      (''action'', JString (ac_Action m)), (''payload'', JRaw (ac_Payload m)),
      (''timestamp'', JTime (ac_Timestamp m))]"

definition schema_ActionCommand :: "(string \<times> field_kind) list" where
  "schema_ActionCommand =
     [(''version'', StringField), (''rpc_id'', StringField), (''target'', StringField),
      (''command_type'', StringField), (''action'', StringField), (''payload'', RawField),
      (''timestamp'', TimeField)]"

definition read_ActionCommand :: "struct \<Rightarrow> ActionCommand" where
  "read_ActionCommand st =
     \<lparr>ac_Version = get_string st ''version'', ac_RPCID = get_string st ''rpc_id'',
      ac_Target = get_string st ''target'', ac_CommandType = get_string st ''command_type'',
      ac_Action = get_string st ''action'', ac_Payload = get_raw st ''payload'',
      ac_Timestamp = get_time st ''timestamp''\<rparr>"

definition wire_ResultEnvelope :: "ResultEnvelope \<Rightarrow> struct" where
  "wire_ResultEnvelope m =
     [(''version'', JString (re_Version m)), (''rpc_id'', JString (re_RPCID m)),
      (''target'', JString (re_Target m))]
     @ omit_string ''command_type'' (re_CommandType m)
     @ omit_string ''uuid'' (re_UUID m)
     @ omit_string ''action'' (re_Action m)
     @ [(''result'', JString (re_Result m))]
     @ omit_string ''message'' (re_Message m)
     @ omit_string ''error_code'' (re_ErrorCode m)
     @ omit_raw ''payload'' (re_Payload m)
     @ [(''timestamp'', JTime (re_Timestamp m))]"

definition schema_ResultEnvelope :: "(string \<times> field_kind) list" where
  "schema_ResultEnvelope =
     [(''version'', StringField), (''rpc_id'', StringField), (''target'', StringField),
      (''command_type'', StringField), (''uuid'', StringField), (''action'', StringField),
      (''result'', StringField), (''message'', StringField), (''error_code'', StringField),
      (''payload'', RawField), (''timestamp'', TimeField)]"

definition read_ResultEnvelope :: "struct \<Rightarrow> ResultEnvelope" where
  "read_ResultEnvelope st =
     \<lparr>re_Version = get_string st ''version'', re_RPCID = get_string st ''rpc_id'',
      re_Target = get_string st ''target'', re_CommandType = get_string st ''command_type'',
      re_UUID = get_string st ''uuid'', re_Action = get_string st ''action'',
      re_Result = get_string st ''result'', re_Message = get_string st ''message'',
      re_ErrorCode = get_string st ''error_code'', re_Payload = get_raw st ''payload'',
      re_Timestamp = get_time st ''timestamp''\<rparr>"

definition wire_StatusEnvelope :: "StatusEnvelope \<Rightarrow> struct" where
  "wire_StatusEnvelope m =
     [(''version'', JString (se_Version m))]
     @ omit_string ''rpc_id'' (se_RPCID m)
     @ [(''target'', JString (se_Target m))]
     @ omit_string ''uuid'' (se_UUID m)
     @ [(''status'', JString (se_Status m))]
     @ omit_string ''stage'' (se_Stage m)
     @ omit_string ''message'' (se_Message m)
     @ omit_raw ''payload'' (se_Payload m)
     @ [(''timestamp'', JTime (se_Timestamp m))]"

definition schema_StatusEnvelope :: "(string \<times> field_kind) list" where
  "schema_StatusEnvelope =
     [(''version'', StringField), (''rpc_id'', StringField), (''target'', StringField),
      (''uuid'', StringField), (''status'', StringField), (''stage'', StringField),
      (''message'', StringField), (''payload'', RawField), (''timestamp'', TimeField)]"

definition read_StatusEnvelope :: "struct \<Rightarrow> StatusEnvelope" where
  "read_StatusEnvelope st =
     \<lparr>se_Version = get_string st ''version'', se_RPCID = get_string st ''rpc_id'',
      se_Target = get_string st ''target'', se_UUID = get_string st ''uuid'',
      se_Status = get_string st ''status'', se_Stage = get_string st ''stage'',
      se_Message = get_string st ''message'', se_Payload = get_raw st ''payload'',
      se_Timestamp = get_time st ''timestamp''\<rparr>"

subsection \<open>Helpers (\<open>internal/contract/helpers.go\<close>)\<close>

definition decodeError :: "string \<Rightarrow> goerr \<Rightarrow> goerr" where
  "decodeError op err =
     PublicErr CodeDecodeFailed op [] [] ''failed to decode JSON payload'' False (Some err)"

definition encodeError :: "string \<Rightarrow> goerr \<Rightarrow> goerr" where
  "encodeError op err =
     PublicErr CodeEncodeFailed op [] [] ''failed to encode JSON payload'' False (Some err)"

definition requiredString :: "string \<Rightarrow> string \<Rightarrow> string \<Rightarrow> goerr option" where
  "requiredString op field value =
     reject_if (is_blank value) (validationError op (field @ '' is required''))"

definition optionalString :: "string \<Rightarrow> string \<Rightarrow> string \<Rightarrow> goerr option" where
  "optionalString op field value =
     (if value = [] then None
      else reject_if (is_blank value) (validationError op (field @ '' cannot be whitespace'')))"

definition requiredTimestamp :: "string \<Rightarrow> string \<Rightarrow> gotime \<Rightarrow> goerr option" where
  "requiredTimestamp op field value =
     reject_if (IsZero value) (validationError op (field @ '' is required''))"

definition requiredJSON :: "string \<Rightarrow> string \<Rightarrow> string \<Rightarrow> goerr option" where
  "requiredJSON op field payload = first_err
     [reject_if (payload = []) (validationError op (field @ '' is required'')),
      reject_if (\<not> Valid payload) (validationError op (field @ '' must contain valid JSON''))]"

definition optionalJSON :: "string \<Rightarrow> string \<Rightarrow> string \<Rightarrow> goerr option" where
  "optionalJSON op field payload =
     (if payload = [] then None
      else reject_if (\<not> Valid payload) (validationError op (field @ '' must contain valid JSON'')))"

lemmas helper_defs =
  requiredString_def optionalString_def requiredTimestamp_def requiredJSON_def optionalJSON_def

lemma helper_accepts [validation_simps]:
  "requiredString op f v = None \<longleftrightarrow> \<not> is_blank v"
  "optionalString op f v = None \<longleftrightarrow> v = [] \<or> \<not> is_blank v"
  "requiredTimestamp op f t = None \<longleftrightarrow> \<not> IsZero t"
  "requiredJSON op f p = None \<longleftrightarrow> Valid p"
  "optionalJSON op f p = None \<longleftrightarrow> p = [] \<or> Valid p"
  by (auto simp: helper_defs first_err_None_iff)

subsection \<open>Validators (\<open>internal/contract/validate.go\<close>)\<close>

definition ValidateBaseEnvelope :: "BaseEnvelope \<Rightarrow> goerr option" where
  "ValidateBaseEnvelope msg =
     (let op = ''validate_base_envelope'' in first_err
     [requiredString op ''version'' (be_Version msg),
      requiredString op ''target'' (be_Target msg),
      requiredTimestamp op ''timestamp'' (be_Timestamp msg),
      optionalString op ''rpc_id'' (be_RPCID msg)])"

definition ValidateConfigureCommand :: "ConfigureCommand \<Rightarrow> goerr option" where
  "ValidateConfigureCommand msg =
     (let op = ''validate_configure_command'' in first_err
     [requiredString op ''version'' (cc_Version msg),
      requiredString op ''rpc_id'' (cc_RPCID msg),
      requiredString op ''target'' (cc_Target msg),
      requiredString op ''uuid'' (cc_UUID msg),
      requiredTimestamp op ''timestamp'' (cc_Timestamp msg),
      requiredJSON op ''payload'' (cc_Payload msg)])"

definition ValidateDesiredConfigRecord :: "DesiredConfigRecord \<Rightarrow> goerr option" where
  "ValidateDesiredConfigRecord msg =
     (let op = ''validate_desired_config_record'' in first_err
     [requiredString op ''version'' (dc_Version msg),
      requiredString op ''rpc_id'' (dc_RPCID msg),
      requiredString op ''target'' (dc_Target msg),
      requiredString op ''uuid'' (dc_UUID msg),
      requiredTimestamp op ''timestamp'' (dc_Timestamp msg),
      requiredJSON op ''payload'' (dc_Payload msg)])"

definition ValidateConfigureNotification :: "ConfigureNotification \<Rightarrow> goerr option" where
  "ValidateConfigureNotification msg =
     (let op = ''validate_configure_notification'' in first_err
     [requiredString op ''version'' (cn_Version msg),
      requiredString op ''rpc_id'' (cn_RPCID msg),
      requiredString op ''target'' (cn_Target msg),
      requiredString op ''command_type'' (cn_CommandType msg),
      requiredString op ''uuid'' (cn_UUID msg),
      requiredString op ''kv_bucket'' (cn_KVBucket msg),
      requiredString op ''kv_key'' (cn_KVKey msg),
      requiredTimestamp op ''timestamp'' (cn_Timestamp msg)])"

definition ValidateActionCommand :: "ActionCommand \<Rightarrow> goerr option" where
  "ValidateActionCommand msg =
     (let op = ''validate_action_command'' in first_err
     [requiredString op ''version'' (ac_Version msg),
      requiredString op ''rpc_id'' (ac_RPCID msg),
      requiredString op ''target'' (ac_Target msg),
      requiredString op ''command_type'' (ac_CommandType msg),
      requiredString op ''action'' (ac_Action msg),
      requiredTimestamp op ''timestamp'' (ac_Timestamp msg),
      requiredJSON op ''payload'' (ac_Payload msg)])"

definition ValidateResultEnvelope :: "ResultEnvelope \<Rightarrow> goerr option" where
  "ValidateResultEnvelope msg =
     (let op = ''validate_result_envelope'' in first_err
     [requiredString op ''version'' (re_Version msg),
      requiredString op ''rpc_id'' (re_RPCID msg),
      requiredString op ''target'' (re_Target msg),
      requiredString op ''result'' (re_Result msg),
      requiredTimestamp op ''timestamp'' (re_Timestamp msg),
      optionalString op ''command_type'' (re_CommandType msg),
      optionalString op ''uuid'' (re_UUID msg),
      optionalString op ''action'' (re_Action msg),
      optionalString op ''error_code'' (re_ErrorCode msg),
      optionalJSON op ''payload'' (re_Payload msg)])"

definition ValidateConfigureResultEnvelope :: "ResultEnvelope \<Rightarrow> goerr option" where
  "ValidateConfigureResultEnvelope msg =
     (let op = ''validate_configure_result_envelope'' in first_err
     [ValidateResultEnvelope msg,
      requiredString op ''uuid'' (re_UUID msg)])"

definition ValidateStatusEnvelope :: "StatusEnvelope \<Rightarrow> goerr option" where
  "ValidateStatusEnvelope msg =
     (let op = ''validate_status_envelope'' in first_err
     [requiredString op ''version'' (se_Version msg),
      requiredString op ''target'' (se_Target msg),
      requiredString op ''status'' (se_Status msg),
      requiredTimestamp op ''timestamp'' (se_Timestamp msg),
      optionalString op ''rpc_id'' (se_RPCID msg),
      optionalString op ''uuid'' (se_UUID msg),
      optionalString op ''stage'' (se_Stage msg),
      optionalJSON op ''payload'' (se_Payload msg)])"

definition ValidateConfigureStatusEnvelope :: "StatusEnvelope \<Rightarrow> goerr option" where
  "ValidateConfigureStatusEnvelope msg =
     (let op = ''validate_configure_status_envelope'' in first_err
     [ValidateStatusEnvelope msg,
      requiredString op ''rpc_id'' (se_RPCID msg),
      requiredString op ''uuid'' (se_UUID msg)])"

definition ValidateStoredDesiredConfig :: "StoredDesiredConfig \<Rightarrow> goerr option" where
  "ValidateStoredDesiredConfig msg =
     (let op = ''validate_stored_desired_config'' in first_err
     [ValidateDesiredConfigRecord (sd_Record msg),
      requiredString op ''bucket'' (sd_Bucket msg),
      requiredString op ''key'' (sd_Key msg),
      requiredTimestamp op ''created_at'' (sd_CreatedAt msg)])"

subsection \<open>Codecs (\<open>internal/contract/codec.go\<close>)\<close>

definition encodeJSON :: "string \<Rightarrow> struct \<Rightarrow> string result" where
  "encodeJSON op v = map_err (encodeError op) (Marshal v)"

definition decodeJSON :: "string \<Rightarrow> string \<Rightarrow> (string \<times> field_kind) list \<Rightarrow> struct result" where
  "decodeJSON op data fs =
     (if data = [] then Inl (validationError op ''payload is required'')
      else map_err (decodeError op) (Unmarshal fs data))"

definition EncodeConfigureCommand :: "ConfigureCommand \<Rightarrow> string result" where
  "EncodeConfigureCommand msg =
     guard_err (ValidateConfigureCommand msg) (encodeJSON ''encode_configure_command'' (wire_ConfigureCommand msg))"

definition DecodeConfigureCommand :: "string \<Rightarrow> ConfigureCommand result" where
  "DecodeConfigureCommand data =
     try_bind (decodeJSON ''decode_configure_command'' data schema_ConfigureCommand) (\<lambda>st.
       let msg = read_ConfigureCommand st in guard_err (ValidateConfigureCommand msg) (Inr msg))"

definition EncodeDesiredConfigRecord :: "DesiredConfigRecord \<Rightarrow> string result" where
  "EncodeDesiredConfigRecord msg =
     guard_err (ValidateDesiredConfigRecord msg) (encodeJSON ''encode_desired_config_record'' (wire_DesiredConfigRecord msg))"

definition DecodeDesiredConfigRecord :: "string \<Rightarrow> DesiredConfigRecord result" where
  "DecodeDesiredConfigRecord data =
     try_bind (decodeJSON ''decode_desired_config_record'' data schema_DesiredConfigRecord) (\<lambda>st.
       let msg = read_DesiredConfigRecord st in guard_err (ValidateDesiredConfigRecord msg) (Inr msg))"

definition EncodeConfigureNotification :: "ConfigureNotification \<Rightarrow> string result" where
  "EncodeConfigureNotification msg =
     guard_err (ValidateConfigureNotification msg) (encodeJSON ''encode_configure_notification'' (wire_ConfigureNotification msg))"

definition DecodeConfigureNotification :: "string \<Rightarrow> ConfigureNotification result" where
  "DecodeConfigureNotification data =
     try_bind (decodeJSON ''decode_configure_notification'' data schema_ConfigureNotification) (\<lambda>st.
       let msg = read_ConfigureNotification st in guard_err (ValidateConfigureNotification msg) (Inr msg))"

definition EncodeActionCommand :: "ActionCommand \<Rightarrow> string result" where
  "EncodeActionCommand msg =
     guard_err (ValidateActionCommand msg) (encodeJSON ''encode_action_command'' (wire_ActionCommand msg))"

definition DecodeActionCommand :: "string \<Rightarrow> ActionCommand result" where
  "DecodeActionCommand data =
     try_bind (decodeJSON ''decode_action_command'' data schema_ActionCommand) (\<lambda>st.
       let msg = read_ActionCommand st in guard_err (ValidateActionCommand msg) (Inr msg))"

definition EncodeResultEnvelope :: "ResultEnvelope \<Rightarrow> string result" where
  "EncodeResultEnvelope msg =
     guard_err (ValidateResultEnvelope msg) (encodeJSON ''encode_result_envelope'' (wire_ResultEnvelope msg))"

definition DecodeResultEnvelope :: "string \<Rightarrow> ResultEnvelope result" where
  "DecodeResultEnvelope data =
     try_bind (decodeJSON ''decode_result_envelope'' data schema_ResultEnvelope) (\<lambda>st.
       let msg = read_ResultEnvelope st in guard_err (ValidateResultEnvelope msg) (Inr msg))"

definition EncodeConfigureResultEnvelope :: "ResultEnvelope \<Rightarrow> string result" where
  "EncodeConfigureResultEnvelope msg =
     guard_err (ValidateConfigureResultEnvelope msg) (encodeJSON ''encode_configure_result_envelope'' (wire_ResultEnvelope msg))"

definition DecodeConfigureResultEnvelope :: "string \<Rightarrow> ResultEnvelope result" where
  "DecodeConfigureResultEnvelope data =
     try_bind (decodeJSON ''decode_configure_result_envelope'' data schema_ResultEnvelope) (\<lambda>st.
       let msg = read_ResultEnvelope st in guard_err (ValidateConfigureResultEnvelope msg) (Inr msg))"

definition EncodeStatusEnvelope :: "StatusEnvelope \<Rightarrow> string result" where
  "EncodeStatusEnvelope msg =
     guard_err (ValidateStatusEnvelope msg) (encodeJSON ''encode_status_envelope'' (wire_StatusEnvelope msg))"

definition DecodeStatusEnvelope :: "string \<Rightarrow> StatusEnvelope result" where
  "DecodeStatusEnvelope data =
     try_bind (decodeJSON ''decode_status_envelope'' data schema_StatusEnvelope) (\<lambda>st.
       let msg = read_StatusEnvelope st in guard_err (ValidateStatusEnvelope msg) (Inr msg))"

definition EncodeConfigureStatusEnvelope :: "StatusEnvelope \<Rightarrow> string result" where
  "EncodeConfigureStatusEnvelope msg =
     guard_err (ValidateConfigureStatusEnvelope msg) (encodeJSON ''encode_configure_status_envelope'' (wire_StatusEnvelope msg))"

definition DecodeConfigureStatusEnvelope :: "string \<Rightarrow> StatusEnvelope result" where
  "DecodeConfigureStatusEnvelope data =
     try_bind (decodeJSON ''decode_configure_status_envelope'' data schema_StatusEnvelope) (\<lambda>st.
       let msg = read_StatusEnvelope st in guard_err (ValidateConfigureStatusEnvelope msg) (Inr msg))"

subsection \<open>What a validated message has\<close>

lemmas validator_defs =
  ValidateBaseEnvelope_def
  ValidateConfigureCommand_def
  ValidateDesiredConfigRecord_def
  ValidateConfigureNotification_def
  ValidateActionCommand_def
  ValidateResultEnvelope_def
  ValidateConfigureResultEnvelope_def
  ValidateStatusEnvelope_def
  ValidateConfigureStatusEnvelope_def
  ValidateStoredDesiredConfig_def

lemmas encoder_defs =
  EncodeConfigureCommand_def
  EncodeDesiredConfigRecord_def
  EncodeConfigureNotification_def
  EncodeActionCommand_def
  EncodeResultEnvelope_def
  EncodeConfigureResultEnvelope_def
  EncodeStatusEnvelope_def
  EncodeConfigureStatusEnvelope_def

lemmas decoder_defs =
  DecodeConfigureCommand_def
  DecodeDesiredConfigRecord_def
  DecodeConfigureNotification_def
  DecodeActionCommand_def
  DecodeResultEnvelope_def
  DecodeConfigureResultEnvelope_def
  DecodeStatusEnvelope_def
  DecodeConfigureStatusEnvelope_def

lemma ValidateConfigureCommand_accepts [validation_simps]:
  "ValidateConfigureCommand m = None \<longleftrightarrow>
     \<not> is_blank (cc_Version m) \<and> \<not> is_blank (cc_RPCID m) \<and> \<not> is_blank (cc_Target m)
     \<and> \<not> is_blank (cc_UUID m) \<and> \<not> IsZero (cc_Timestamp m) \<and> Valid (cc_Payload m)"
  by (simp add: ValidateConfigureCommand_def Let_def validation_simps)

lemma ValidateDesiredConfigRecord_accepts [validation_simps]:
  "ValidateDesiredConfigRecord m = None \<longleftrightarrow>
     \<not> is_blank (dc_Version m) \<and> \<not> is_blank (dc_RPCID m) \<and> \<not> is_blank (dc_Target m)
     \<and> \<not> is_blank (dc_UUID m) \<and> \<not> IsZero (dc_Timestamp m) \<and> Valid (dc_Payload m)"
  by (simp add: ValidateDesiredConfigRecord_def Let_def validation_simps)

lemma ValidateConfigureNotification_accepts [validation_simps]:
  "ValidateConfigureNotification m = None \<longleftrightarrow>
     \<not> is_blank (cn_Version m) \<and> \<not> is_blank (cn_RPCID m) \<and> \<not> is_blank (cn_Target m)
     \<and> \<not> is_blank (cn_CommandType m) \<and> \<not> is_blank (cn_UUID m) \<and> \<not> is_blank (cn_KVBucket m)
     \<and> \<not> is_blank (cn_KVKey m) \<and> \<not> IsZero (cn_Timestamp m)"
  by (simp add: ValidateConfigureNotification_def Let_def validation_simps)

lemma ValidateActionCommand_accepts [validation_simps]:
  "ValidateActionCommand m = None \<longleftrightarrow>
     \<not> is_blank (ac_Version m) \<and> \<not> is_blank (ac_RPCID m) \<and> \<not> is_blank (ac_Target m)
     \<and> \<not> is_blank (ac_CommandType m) \<and> \<not> is_blank (ac_Action m) \<and> \<not> IsZero (ac_Timestamp m)
     \<and> Valid (ac_Payload m)"
  by (simp add: ValidateActionCommand_def Let_def validation_simps)

lemma ValidateResultEnvelope_accepts [validation_simps]:
  "ValidateResultEnvelope m = None \<longleftrightarrow>
     \<not> is_blank (re_Version m) \<and> \<not> is_blank (re_RPCID m) \<and> \<not> is_blank (re_Target m)
     \<and> \<not> is_blank (re_Result m) \<and> \<not> IsZero (re_Timestamp m)
     \<and> (re_CommandType m = [] \<or> \<not> is_blank (re_CommandType m))
     \<and> (re_UUID m = [] \<or> \<not> is_blank (re_UUID m)) \<and> (re_Action m = [] \<or> \<not> is_blank (re_Action m))
     \<and> (re_ErrorCode m = [] \<or> \<not> is_blank (re_ErrorCode m))
     \<and> (re_Payload m = [] \<or> Valid (re_Payload m))"
  by (simp add: ValidateResultEnvelope_def Let_def validation_simps)

lemma ValidateStatusEnvelope_accepts [validation_simps]:
  "ValidateStatusEnvelope m = None \<longleftrightarrow>
     \<not> is_blank (se_Version m) \<and> \<not> is_blank (se_Target m) \<and> \<not> is_blank (se_Status m)
     \<and> \<not> IsZero (se_Timestamp m) \<and> (se_RPCID m = [] \<or> \<not> is_blank (se_RPCID m))
     \<and> (se_UUID m = [] \<or> \<not> is_blank (se_UUID m)) \<and> (se_Stage m = [] \<or> \<not> is_blank (se_Stage m))
     \<and> (se_Payload m = [] \<or> Valid (se_Payload m))"
  by (simp add: ValidateStatusEnvelope_def Let_def validation_simps)

subsection \<open>The codec contract\<close>

text \<open>
  What the rest of the library expects of an encoder and a decoder for one message type: both let
  only valid messages through, and an encoded message is never empty.
\<close>

locale message_codec =
  fixes validate :: "'m \<Rightarrow> goerr option"
    and encode :: "'m \<Rightarrow> string result"
    and decode :: "string \<Rightarrow> 'm result"
  assumes encode_checks: "validate m = Some err \<Longrightarrow> encode m = Inl err"
    and encode_nonempty: "encode m = Inr data \<Longrightarrow> data \<noteq> []"
    and decode_valid: "decode data = Inr m \<Longrightarrow> validate m = None"
    and decode_empty: "\<exists>err. decode [] = Inl err"
begin

lemma encode_valid: "encode m = Inr data \<Longrightarrow> validate m = None"
  using encode_checks by (cases "validate m") auto

text \<open>A decoded message is one the sender's encoder does not reject on validation.\<close>

lemma decode_encode_valid:
  assumes "decode data = Inr m" and "encode m = Inl err"
  shows "validate m \<noteq> Some err"
  using decode_valid [OF assms(1)] by simp

lemma decode_nonempty: "decode data = Inr m \<Longrightarrow> data \<noteq> []"
  using decode_empty by auto

end

lemma encodeJSON_nonempty: "encodeJSON op v = Inr data \<Longrightarrow> data \<noteq> []"
  by (simp add: encodeJSON_def Marshal_not_empty)

lemma decodeJSON_empty: "decodeJSON op [] fs = Inl (validationError op ''payload is required'')"
  by (simp add: decodeJSON_def)

interpretation configure_command: message_codec ValidateConfigureCommand EncodeConfigureCommand DecodeConfigureCommand
  by unfold_locales
     (auto simp: EncodeConfigureCommand_def DecodeConfigureCommand_def Let_def decodeJSON_empty dest: encodeJSON_nonempty)

interpretation desired_config_record: message_codec ValidateDesiredConfigRecord EncodeDesiredConfigRecord DecodeDesiredConfigRecord
  by unfold_locales
     (auto simp: EncodeDesiredConfigRecord_def DecodeDesiredConfigRecord_def Let_def decodeJSON_empty dest: encodeJSON_nonempty)

interpretation configure_notification: message_codec ValidateConfigureNotification EncodeConfigureNotification DecodeConfigureNotification
  by unfold_locales
     (auto simp: EncodeConfigureNotification_def DecodeConfigureNotification_def Let_def decodeJSON_empty dest: encodeJSON_nonempty)

interpretation action_command: message_codec ValidateActionCommand EncodeActionCommand DecodeActionCommand
  by unfold_locales
     (auto simp: EncodeActionCommand_def DecodeActionCommand_def Let_def decodeJSON_empty dest: encodeJSON_nonempty)

interpretation result_envelope: message_codec ValidateResultEnvelope EncodeResultEnvelope DecodeResultEnvelope
  by unfold_locales
     (auto simp: EncodeResultEnvelope_def DecodeResultEnvelope_def Let_def decodeJSON_empty dest: encodeJSON_nonempty)

interpretation configure_result_envelope: message_codec ValidateConfigureResultEnvelope EncodeConfigureResultEnvelope DecodeConfigureResultEnvelope
  by unfold_locales
     (auto simp: EncodeConfigureResultEnvelope_def DecodeConfigureResultEnvelope_def Let_def decodeJSON_empty dest: encodeJSON_nonempty)

interpretation status_envelope: message_codec ValidateStatusEnvelope EncodeStatusEnvelope DecodeStatusEnvelope
  by unfold_locales
     (auto simp: EncodeStatusEnvelope_def DecodeStatusEnvelope_def Let_def decodeJSON_empty dest: encodeJSON_nonempty)

interpretation configure_status_envelope: message_codec ValidateConfigureStatusEnvelope EncodeConfigureStatusEnvelope DecodeConfigureStatusEnvelope
  by unfold_locales
     (auto simp: EncodeConfigureStatusEnvelope_def DecodeConfigureStatusEnvelope_def Let_def decodeJSON_empty dest: encodeJSON_nonempty)

end
