(* ===== verification/Tokens.thy ===== *)
theory Tokens
  imports Errors
begin

text \<open>
  The contract of a token validator.  \<open>internal/subjects\<close> and \<open>internal/kv\<close> each check targets and
  actions before they are put into a subject or a key; what both rely on afterwards is stated once
  here, as a locale over the check, and both components interpret it on their own definitions.
\<close>

definition token_rune_ok :: "nat \<Rightarrow> bool" where
  "token_rune_ok r \<longleftrightarrow> IsLetter r \<or> IsDigit r \<or> r = 95 \<or> r = 45"

lemma token_rune_ok_ascii:
  "r < 128 \<Longrightarrow> token_rune_ok r \<longleftrightarrow>
     48 \<le> r \<and> r \<le> 57 \<or> 65 \<le> r \<and> r \<le> 90 \<or> 97 \<le> r \<and> r \<le> 122 \<or> r = 95 \<or> r = 45"
  by (auto simp: token_rune_ok_def IsLetter_def IsDigit_def)

lemma rune_error_not_token [simp]: "\<not> token_rune_ok 65533"
  by (simp add: token_rune_ok_def IsLetter_def IsDigit_def in_ranges_def
      unicode_letter_ranges_def unicode_digit_ranges_def)

subsection \<open>Segments of a subject or key\<close>

text \<open>NATS separates the tokens of a subject, and of a KV key, by dots.\<close>

fun segments :: "string \<Rightarrow> string list" where
  "segments [] = [[]]"
| "segments (c # s) =
     (if c = CHR ''.'' then [] # segments s
      else (case segments s of [] \<Rightarrow> [[c]] | t # ts \<Rightarrow> (c # t) # ts))"

lemma segments_not_Nil [simp]: "segments s \<noteq> []"
  by (induction s) (auto split: list.splits)

lemma segments_single: "CHR ''.'' \<notin> set s \<Longrightarrow> segments s = [s]"
  by (induction s) auto

lemma segments_cut:
  "CHR ''.'' \<notin> set t \<Longrightarrow> segments (t @ CHR ''.'' # s) = t # segments s"
  by (induction t) auto

subsection \<open>The contract\<close>

locale token_validator =
  fixes validate :: "string \<Rightarrow> goerr option"
  assumes accepted_not_blank: "validate s = None \<Longrightarrow> \<not> is_blank s"
    and accepted_runes: "validate s = None \<Longrightarrow> list_all token_rune_ok (runes s)"
begin

lemma accepted_not_Nil: "validate s = None \<Longrightarrow> s \<noteq> []"
  by (auto dest: accepted_not_blank)

lemma accepted_excludes:
  assumes "validate s = None" and "byte c < 128" and "\<not> token_rune_ok (byte c)"
  shows "c \<notin> set s"
  using assms accepted_runes ascii_byte_is_rune by (fastforce simp: list_all_iff)

lemma accepted_plain:
  assumes "validate s = None"
  shows "CHR ''.'' \<notin> set s" and "CHR ''*'' \<notin> set s" and "CHR ''>'' \<notin> set s"
    and "CHR ''%'' \<notin> set s" and "CHR ''|'' \<notin> set s" and "CHR '' '' \<notin> set s"
    and "CHR 0x09 \<notin> set s" and "CHR 0x0A \<notin> set s" and "CHR 0x0D \<notin> set s"
  using assms by (auto dest!: accepted_excludes simp: token_rune_ok_ascii)

lemma accepted_no_ws: "validate s = None \<Longrightarrow> \<not> ContainsAny s ascii_ws"
  using accepted_plain by (auto simp: ContainsAny_def ascii_ws_def list_ex_iff)

lemma accepted_segments: "validate s = None \<Longrightarrow> segments s = [s]"
  using accepted_plain(1) by (rule segments_single)

lemma accepted_first_rune:
  assumes "validate s = None"
  shows "fst (decode_rune s) \<noteq> rune_error" and "fst (decode_rune s) \<notin> set space_runes"
proof -
  have "fst (decode_rune s) \<in> set (runes s)"
    using accepted_not_Nil [OF assms] by (subst runes.simps) simp
  with accepted_runes [OF assms] have ok: "token_rune_ok (fst (decode_rune s))"
    by (simp add: list_all_iff)
  then show "fst (decode_rune s) \<noteq> rune_error" by auto
  show "fst (decode_rune s) \<notin> set space_runes"
    using ok space_runes_no_letter by (auto simp: token_rune_ok_def)
qed

lemma accepted_inside_not_blank: "validate s = None \<Longrightarrow> \<not> is_blank (p @ s @ q)"
  using accepted_not_Nil accepted_first_rune by (intro rune_inside_not_blank)

text \<open>A pattern of one placeholder sends different tokens to different strings.\<close>

lemma Sprintf_token_inject:
  "CountS p = 1 \<Longrightarrow> Sprintf p [s] = Sprintf p [s'] \<longleftrightarrow> s = s'"
  by (rule Sprintf_1_inject)

lemma Sprintf_token_not_blank:
  assumes "CountS p = 1" and "validate s = None"
  shows "\<not> is_blank (Sprintf p [s])"
proof -
  from CountS_1 [OF assms(1)] obtain a b where "pieces p = [a, b]" by blast
  with accepted_inside_not_blank [OF assms(2), of a b] show ?thesis by (simp add: Sprintf_1)
qed

end

end
