(* ===== verification/Subjects.thy ===== *)
theory Subjects
  imports Tokens
begin

text \<open>
  \<open>internal/subjects\<close>: the subject patterns, their validation, and the builder that turns a target
  (and an action) into the subject used on the publish and the subscribe path.
\<close>

subsection \<open>Validation (\<open>validate.go\<close>)\<close>

definition validateToken :: "string \<Rightarrow> string \<Rightarrow> string \<Rightarrow> goerr option" where
  "validateToken op field value = first_err
     [reject_if (ContainsAny value ascii_ws)
        (rt_validationError op (field @ '' cannot contain whitespace'')),
      reject_if (Contains value CHR ''.'')
        (rt_validationError op (field @ '' cannot contain '' @ [CHR 0x27, CHR ''.'', CHR 0x27])),
      reject_if (Contains value CHR ''*'' \<or> Contains value CHR ''>'')
        (rt_validationError op (field @ '' cannot contain wildcard tokens'')),
      reject_if (\<not> list_all token_rune_ok (runes value))
        (rt_validationError op (field @ '' contains unsupported characters''))]"

definition ValidateTarget :: "string \<Rightarrow> goerr option" where
  "ValidateTarget target = first_err
     [reject_if (is_blank target) (rt_validationError ''validate_target'' ''target is required''),
      validateToken ''validate_target'' ''target'' target]"

definition ValidateAction :: "string \<Rightarrow> goerr option" where
  "ValidateAction action = first_err
     [reject_if (is_blank action) (rt_validationError ''validate_action'' ''action is required''),
      validateToken ''validate_action'' ''action'' action]"

definition validatePattern :: "string \<Rightarrow> string \<Rightarrow> nat \<Rightarrow> goerr option" where
  "validatePattern name pat placeholders =
     (let op = ''validate_subject_pattern'' in first_err
     [reject_if (is_blank pat) (rt_validationError op (name @ '' is required'')),
      reject_if (ContainsAny pat ascii_ws)
        (rt_validationError op (name @ '' cannot contain whitespace'')),
      reject_if (Contains pat CHR ''*'' \<or> Contains pat CHR ''>'')
        (rt_validationError op (name @ '' cannot contain wildcard tokens'')),
      reject_if (CountS pat \<noteq> placeholders)
        (rt_validationError op (name @ '' placeholder count is invalid'')),
      reject_if (Contains (RemoveS pat) CHR ''%'')
        (rt_validationError op (name @ '' contains unsupported format directives''))])"

subsection \<open>Patterns and the builder (\<open>subjects.go\<close>)\<close>

definition DefaultConfigurePattern :: string where
  "DefaultConfigurePattern = ''cmd.configure.%s''"

definition DefaultActionPattern :: string where
  "DefaultActionPattern = ''cmd.action.%s.%s''"

definition DefaultResultPattern :: string where
  "DefaultResultPattern = ''result.%s''"

definition DefaultStatusPattern :: string where
  "DefaultStatusPattern = ''status.%s''"

definition DefaultHealthPattern :: string where
  "DefaultHealthPattern = ''health.%s''"

record Patterns =
  ConfigurePattern :: string
  ActionPattern :: string
  ResultPattern :: string
  StatusPattern :: string
  HealthPattern :: string

text \<open>\<open>subjects.Config\<close> has the same fields; an empty one keeps the default.\<close>

record SubjectOverrides =
  cfg_ConfigurePattern :: string
  cfg_ActionPattern :: string
  cfg_ResultPattern :: string
  cfg_StatusPattern :: string
  cfg_HealthPattern :: string

definition DefaultPatterns :: Patterns where
  "DefaultPatterns =
     \<lparr>ConfigurePattern = DefaultConfigurePattern, ActionPattern = DefaultActionPattern,
      ResultPattern = DefaultResultPattern, StatusPattern = DefaultStatusPattern,
      HealthPattern = DefaultHealthPattern\<rparr>"

text \<open>\<open>PatternsFromConfig\<close> and \<open>NewBuilder\<close> each spell out the same five checks; one definition stands for
  both.\<close>

definition validatePatterns :: "Patterns \<Rightarrow> goerr option" where
  "validatePatterns p = first_err
     [validatePattern ''configure_pattern'' (ConfigurePattern p) 1,
      validatePattern ''action_pattern'' (ActionPattern p) 2,
      validatePattern ''result_pattern'' (ResultPattern p) 1,
      validatePattern ''status_pattern'' (StatusPattern p) 1,
      validatePattern ''health_pattern'' (HealthPattern p) 1]"

definition overridePattern :: "string \<Rightarrow> string \<Rightarrow> string" where
  "overridePattern configured fallback = (if configured \<noteq> [] then configured else fallback)"

definition PatternsFromConfig :: "SubjectOverrides \<Rightarrow> Patterns result" where
  "PatternsFromConfig cfg =
     (let p = \<lparr>ConfigurePattern =
                 overridePattern (cfg_ConfigurePattern cfg) (ConfigurePattern DefaultPatterns),
               ActionPattern =
                 overridePattern (cfg_ActionPattern cfg) (ActionPattern DefaultPatterns),
               ResultPattern =
                 overridePattern (cfg_ResultPattern cfg) (ResultPattern DefaultPatterns),
               StatusPattern =
                 overridePattern (cfg_StatusPattern cfg) (StatusPattern DefaultPatterns),
               HealthPattern =
                 overridePattern (cfg_HealthPattern cfg) (HealthPattern DefaultPatterns)\<rparr>
      in guard_err (validatePatterns p) (Inr p))"

record Builder =
  patterns :: Patterns

definition NewBuilder :: "Patterns \<Rightarrow> Builder result" where
  "NewBuilder p = guard_err (validatePatterns p) (Inr \<lparr>patterns = p\<rparr>)"

text \<open>\<open>builder, _ := NewBuilder(...)\<close> drops the error; the builder is nil if there was one.\<close>

definition NewDefaultBuilder :: "Builder option" where
  "NewDefaultBuilder = (case NewBuilder DefaultPatterns of Inl _ \<Rightarrow> None | Inr b \<Rightarrow> Some b)"

definition ConfigureSubject :: "Builder \<Rightarrow> string \<Rightarrow> string result" where
  "ConfigureSubject b target = guard_err (ValidateTarget target)
     (Inr (Sprintf (ConfigurePattern (patterns b)) [target]))"

definition ActionSubject :: "Builder \<Rightarrow> string \<Rightarrow> string \<Rightarrow> string result" where
  "ActionSubject b target action = guard_err (ValidateTarget target)
     (guard_err (ValidateAction action)
        (Inr (Sprintf (ActionPattern (patterns b)) [target, action])))"

definition ResultSubject :: "Builder \<Rightarrow> string \<Rightarrow> string result" where
  "ResultSubject b target = guard_err (ValidateTarget target)
     (Inr (Sprintf (ResultPattern (patterns b)) [target]))"

definition StatusSubject :: "Builder \<Rightarrow> string \<Rightarrow> string result" where
  "StatusSubject b target = guard_err (ValidateTarget target)
     (Inr (Sprintf (StatusPattern (patterns b)) [target]))"

definition HealthSubject :: "Builder \<Rightarrow> string \<Rightarrow> string result" where
  "HealthSubject b target = guard_err (ValidateTarget target)
     (Inr (Sprintf (HealthPattern (patterns b)) [target]))"

subsection \<open>What the validators accept\<close>

text \<open>
  The rune loop alone decides acceptance: the three checks in front of it only choose a more
  precise message.
\<close>

lemma validateToken_accepts [validation_simps]:
  "validateToken op field value = None \<longleftrightarrow> list_all token_rune_ok (runes value)"
proof -
  have "c \<notin> set value" if "list_all token_rune_ok (runes value)"
    and "byte c < 128" and "\<not> token_rune_ok (byte c)" for c
    using that ascii_byte_is_rune by (fastforce simp: list_all_iff)
  then have "list_all token_rune_ok (runes value) \<Longrightarrow>
      \<not> ContainsAny value ascii_ws \<and> CHR ''.'' \<notin> set value
      \<and> CHR ''*'' \<notin> set value \<and> CHR ''>'' \<notin> set value"
    by (auto simp: ContainsAny_def ascii_ws_def list_ex_iff token_rune_ok_ascii)
  then show ?thesis
    by (auto simp: validateToken_def first_err_None_iff Contains_def)
qed

lemma ValidateTarget_accepts [validation_simps]:
  "ValidateTarget t = None \<longleftrightarrow> \<not> is_blank t \<and> list_all token_rune_ok (runes t)"
  by (simp add: ValidateTarget_def validation_simps)

lemma ValidateAction_accepts [validation_simps]:
  "ValidateAction a = None \<longleftrightarrow> \<not> is_blank a \<and> list_all token_rune_ok (runes a)"
  by (simp add: ValidateAction_def validation_simps)

interpretation target: token_validator ValidateTarget
  by unfold_locales (simp_all add: ValidateTarget_accepts)

interpretation action: token_validator ValidateAction
  by unfold_locales (simp_all add: ValidateAction_accepts)

lemma validatePattern_accepts [validation_simps]:
  "validatePattern name p k = None \<longleftrightarrow>
     \<not> is_blank p \<and> \<not> ContainsAny p ascii_ws \<and> CHR ''*'' \<notin> set p \<and> CHR ''>'' \<notin> set p
     \<and> CountS p = k \<and> CHR ''%'' \<notin> set (RemoveS p)"
  by (auto simp: validatePattern_def Let_def first_err_None_iff Contains_def)

lemma NewBuilder_accepts:
  "NewBuilder p = Inr b \<longleftrightarrow> b = \<lparr>patterns = p\<rparr> \<and> validatePatterns p = None"
  by (auto simp: NewBuilder_def)

subsection \<open>Routes: what a subject stands for\<close>

text \<open>
  The abstract side of the builder: a route names a message kind, a target and, for actions, the
  action; \<open>subject_of\<close> is the builder's method for it.
\<close>

datatype route =
    ConfigureRoute string | ActionRoute string string | ResultRoute string
  | StatusRoute string | HealthRoute string

fun subject_of :: "Builder \<Rightarrow> route \<Rightarrow> string result" where
  "subject_of b (ConfigureRoute t) = ConfigureSubject b t"
| "subject_of b (ActionRoute t a) = ActionSubject b t a"
| "subject_of b (ResultRoute t) = ResultSubject b t"
| "subject_of b (StatusRoute t) = StatusSubject b t"
| "subject_of b (HealthRoute t) = HealthSubject b t"

lemmas subject_defs =
  ConfigureSubject_def ActionSubject_def ResultSubject_def StatusSubject_def HealthSubject_def

fun_cases subject_ofE: "subject_of b r = Inr s"

text \<open>The reading of a subject in the default scheme, segment by segment.\<close>

fun parse_segments :: "string list \<Rightarrow> route option" where
  "parse_segments [a, t] =
     (if a = ''result'' then Some (ResultRoute t)
      else if a = ''status'' then Some (StatusRoute t)
      else if a = ''health'' then Some (HealthRoute t) else None)"
| "parse_segments [a, b, t] =
     (if a = ''cmd'' \<and> b = ''configure'' then Some (ConfigureRoute t) else None)"
| "parse_segments [a, b, t, u] =
     (if a = ''cmd'' \<and> b = ''action'' then Some (ActionRoute t u) else None)"
| "parse_segments _ = None"

definition parse_subject :: "string \<Rightarrow> route option" where
  "parse_subject s = parse_segments (segments s)"

definition default_builder :: Builder where
  "default_builder = \<lparr>patterns = DefaultPatterns\<rparr>"

lemmas default_pattern_defs =
  DefaultPatterns_def DefaultConfigurePattern_def DefaultActionPattern_def
  DefaultResultPattern_def DefaultStatusPattern_def DefaultHealthPattern_def

lemma default_patterns_valid: "validatePatterns DefaultPatterns = None"
  by (simp add: validatePatterns_def validation_simps default_pattern_defs ContainsAny_def
      ascii_ws_def CountS_def RemoveS_def)

lemma NewDefaultBuilder_eq: "NewDefaultBuilder = Some default_builder"
  by (simp add: NewDefaultBuilder_def NewBuilder_def default_patterns_valid default_builder_def)

lemma default_subjects:
  "ConfigureSubject default_builder t = guard_err (ValidateTarget t) (Inr (''cmd.configure.'' @ t))"
  "ActionSubject default_builder t a = guard_err (ValidateTarget t)
     (guard_err (ValidateAction a) (Inr (''cmd.action.'' @ t @ CHR ''.'' # a)))"
  "ResultSubject default_builder t = guard_err (ValidateTarget t) (Inr (''result.'' @ t))"
  "StatusSubject default_builder t = guard_err (ValidateTarget t) (Inr (''status.'' @ t))"
  "HealthSubject default_builder t = guard_err (ValidateTarget t) (Inr (''health.'' @ t))"
  by (simp_all add: subject_defs default_builder_def default_pattern_defs Sprintf_def)

lemma default_subject_segments:
  assumes "subject_of default_builder r = Inr s"
  shows "parse_subject s = Some r"
  using assms
  by (cases r)
     (auto simp: default_subjects parse_subject_def target.accepted_segments
       action.accepted_segments segments_cut target.accepted_plain)

subsection \<open>Characters of a built subject\<close>

lemma set_fill: "length as = length ps - 1 \<Longrightarrow> ps \<noteq> [] \<Longrightarrow>
    set (fill ps as) = set (concat ps) \<union> set (concat as)"
  by (induction ps as rule: fill.induct) auto

lemma set_Sprintf:
  "CountS p = length as \<Longrightarrow> set (Sprintf p as) = set (RemoveS p) \<union> set (concat as)"
  by (simp add: Sprintf_def CountS_def RemoveS_def set_fill)

definition publishable :: "string \<Rightarrow> bool" where
  "publishable s \<longleftrightarrow> s \<noteq> [] \<and> \<not> ContainsAny s ascii_ws
     \<and> CHR ''*'' \<notin> set s \<and> CHR ''>'' \<notin> set s \<and> CHR ''%'' \<notin> set s"

lemma ContainsAny_mono: "set s \<subseteq> set t \<Longrightarrow> ContainsAny s cs \<Longrightarrow> ContainsAny t cs"
  by (auto simp: ContainsAny_def list_ex_iff)

lemma publishable_Sprintf:
  assumes "validatePattern name p (length as) = None"
    and "as \<noteq> []" and "\<forall>a \<in> set as. publishable a"
  shows "publishable (Sprintf p as)"
proof -
  note p = assms(1) [unfolded validatePattern_accepts]
  have eq: "set (Sprintf p as) = set (RemoveS p) \<union> set (concat as)"
    using p by (intro set_Sprintf) simp
  have "set (RemoveS p) \<subseteq> set p" by (rule set_RemoveS)
  moreover have "set (concat as) \<noteq> {}"
    using assms(2,3) by (cases as) (auto simp: publishable_def)
  then have "Sprintf p as \<noteq> []" using eq by (metis Un_empty set_empty)
  ultimately show ?thesis
    using p eq assms(3)
    by (auto simp: publishable_def ContainsAny_def list_ex_iff subset_iff)
qed

lemma publishable_target: "ValidateTarget t = None \<Longrightarrow> publishable t"
  using target.accepted_not_Nil target.accepted_no_ws target.accepted_plain
  by (simp add: publishable_def)

lemma publishable_action: "ValidateAction a = None \<Longrightarrow> publishable a"
  using action.accepted_not_Nil action.accepted_no_ws action.accepted_plain
  by (simp add: publishable_def)

lemma NewBuilder_patterns:
  assumes "NewBuilder p = Inr b"
  shows "validatePattern ''configure_pattern'' (ConfigurePattern (patterns b)) 1 = None"
    and "validatePattern ''action_pattern'' (ActionPattern (patterns b)) 2 = None"
    and "validatePattern ''result_pattern'' (ResultPattern (patterns b)) 1 = None"
    and "validatePattern ''status_pattern'' (StatusPattern (patterns b)) 1 = None"
    and "validatePattern ''health_pattern'' (HealthPattern (patterns b)) 1 = None"
  using assms
  by (auto simp: NewBuilder_accepts validatePatterns_def first_err_None_iff)

lemma subject_of_publishable:
  assumes b: "NewBuilder p = Inr b" and s: "subject_of b r = Inr s"
  shows "publishable s"
proof -
  note pats = NewBuilder_patterns [OF b]
  have one: "publishable (Sprintf q [t])"
    if "validatePattern n q 1 = None" "ValidateTarget t = None" for n q t
    using publishable_Sprintf [of n q "[t]"] that publishable_target by simp
  have two: "publishable (Sprintf q [t, a])"
    if "validatePattern n q 2 = None" "ValidateTarget t = None" "ValidateAction a = None" for n q t a
    using publishable_Sprintf [of n q "[t, a]"] that publishable_target publishable_action
    by (simp add: numeral_2_eq_2)
  show ?thesis
    using s pats by (cases r) (auto simp: subject_defs intro: one two)
qed

subsection \<open>Empty tokens\<close>

text \<open>Whether a subject has an empty token depends on its pattern alone.\<close>

definition empty_token :: "string \<Rightarrow> bool" where
  "empty_token s \<longleftrightarrow> [] \<in> set (segments s)"

lemma segments_append:
  "segments (a @ s) = butlast (segments a) @ (last (segments a) @ hd (segments s)) # tl (segments s)"
proof (induction a)
  case Nil
  then show ?case by (cases "segments s") simp_all
next
  case (Cons c a)
  obtain t ts where t: "segments a = t # ts" by (cases "segments a") simp_all
  then show ?case using Cons by (cases ts) auto
qed

lemma empty_token_around:
  assumes "t \<noteq> []" "CHR ''.'' \<notin> set t"
  shows "empty_token (a @ t @ b) \<longleftrightarrow> [] \<in> set (butlast (segments a)) \<or> [] \<in> set (tl (segments b))"
  using assms by (simp add: empty_token_def segments_append [of a] segments_append [of t] segments_single)

lemma empty_token_swap:
  assumes "t \<noteq> []" "CHR ''.'' \<notin> set t" "t' \<noteq> []" "CHR ''.'' \<notin> set t'"
  shows "empty_token (a @ t @ b) = empty_token (a @ t' @ b)"
  using assms by (simp add: empty_token_around)

lemma empty_token_Sprintf:
  assumes "CountS p = length as" "as = [t] \<or> as = [t, u]" "\<forall>a \<in> set as. a \<noteq> [] \<and> CHR ''.'' \<notin> set a"
  shows "empty_token (Sprintf p as) = empty_token p"
  using assms(2)
proof
  assume as: "as = [t]"
  with assms(1) obtain a b where p: "pieces p = [a, b]" using CountS_1 by fastforce
  then have "p = a @ ''%s'' @ b" using glue_pieces [of p] by simp
  then show ?thesis
    using as assms(3) p empty_token_swap [of t "''%s''" a b] by (simp add: Sprintf_1)
next
  assume as: "as = [t, u]"
  with assms(1) obtain a b c where p: "pieces p = [a, b, c]" using CountS_2 by fastforce
  then have "p = a @ ''%s'' @ b @ ''%s'' @ c" using glue_pieces [of p] by simp
  then show ?thesis
    using as assms(3) p empty_token_swap [of t "''%s''" a "b @ u @ c"]
      empty_token_swap [of u "''%s''" "a @ ''%s'' @ b" c] by (simp add: Sprintf_2)
qed

fun route_pattern :: "Patterns \<Rightarrow> route \<Rightarrow> string" where
  "route_pattern p (ConfigureRoute t) = ConfigurePattern p"
| "route_pattern p (ActionRoute t a) = ActionPattern p"
| "route_pattern p (ResultRoute t) = ResultPattern p"
| "route_pattern p (StatusRoute t) = StatusPattern p"
| "route_pattern p (HealthRoute t) = HealthPattern p"

lemma subject_of_empty_token:
  assumes b: "NewBuilder p = Inr b" and s: "subject_of b r = Inr s"
  shows "empty_token s = empty_token (route_pattern (patterns b) r)"
proof -
  note pats = NewBuilder_patterns [OF b, unfolded validatePattern_accepts]
  have one: "empty_token (Sprintf q [t]) = empty_token q" if "CountS q = 1" "ValidateTarget t = None" for q t
    using that target.accepted_not_Nil target.accepted_plain
    by (intro empty_token_Sprintf [where t = t]) auto
  have two: "empty_token (Sprintf q [t, a]) = empty_token q"
    if "CountS q = 2" "ValidateTarget t = None" "ValidateAction a = None" for q t a
    using that target.accepted_not_Nil target.accepted_plain action.accepted_not_Nil action.accepted_plain
    by (intro empty_token_Sprintf [where t = t and u = a]) auto
  show ?thesis
    using s pats by (cases r) (auto simp: subject_defs one two)
qed

end
