(* ===== verification/Registry.thy ===== *)
theory Registry
  imports Subjects
begin

text \<open>
  \<open>internal/registry\<close>: the in-memory record of what the agent wants to be subscribed to, and which
  of it is currently backed by a NATS subscription.  The lock \<open>mu\<close> makes every method one atomic
  step, so each is a function from the registry to its result and the registry afterwards.
\<close>

subsection \<open>Data (\<open>entry.go\<close>)\<close>

type_synonym kind = string

definition KindConfigure :: kind where "KindConfigure = ''configure''"
definition KindAction :: kind where "KindAction = ''action''"
definition KindResult :: kind where "KindResult = ''result''"
definition KindStatus :: kind where "KindStatus = ''status''"

text \<open>
  A \<open>nats.MsgHandler\<close> in this program is a closure made by one of the four \<open>bind...Callback\<close>
  functions around a user handler, which is known by a number; \<open>*nats.Subscription\<close> is an identity.
\<close>

datatype msg_handler =
    ConfigureCallback nat | ActionCallback nat | ResultCallback nat | StatusCallback nat

type_synonym sub = nat

record AddSpec =
  spec_Kind :: kind
  spec_Target :: string
  spec_Action :: string
  spec_Subject :: string
  spec_QueueGroup :: string
  spec_Callback :: "msg_handler option"

record entry =
  ID :: string
  Key :: string
  Kind :: kind
  Target :: string
  Action :: string
  Subject :: string
  QueueGroup :: string
  Callback :: "msg_handler option"
  ActiveSub :: "sub option"
  Active :: bool
  LastActivationErr :: string

record ActivationRecord =
  act_ID :: string
  act_Kind :: kind
  act_Subject :: string
  act_QueueGroup :: string
  act_Callback :: "msg_handler option"
  act_ActiveSub :: "sub option"
  act_Active :: bool

record Snapshot =
  snap_ID :: string
  snap_Kind :: kind
  snap_Target :: string
  snap_Action :: string
  snap_Subject :: string
  snap_QueueGroup :: string
  snap_Active :: bool
  snap_LastActivationErr :: string

record ActiveHandle =
  handle_ID :: string
  handle_Subject :: string
  handle_Sub :: "sub option"

record Registry =
  nextID :: "64 word"
  entries :: "(string \<times> entry) list"
  byKey :: "(string \<times> string) list"

subsection \<open>Operations (\<open>registry.go\<close>, \<open>restore.go\<close>)\<close>

definition New_Registry :: Registry where
  "New_Registry = \<lparr>nextID = 0, entries = [], byKey = []\<rparr>"

definition validateAddSpec :: "AddSpec \<Rightarrow> goerr option" where
  "validateAddSpec spec = first_err
     [reject_if (is_blank (spec_Kind spec))
        (rt_validationError ''registry_add'' ''registration kind is required''),
      reject_if (is_blank (spec_Subject spec))
        (rt_validationError ''registry_add'' ''registration subject is required''),
      reject_if (spec_Callback spec = None)
        (rt_validationError ''registry_add'' ''registration callback is required'')]"

definition registrationKey :: "kind \<Rightarrow> string \<Rightarrow> string \<Rightarrow> string" where
  "registrationKey k subject queueGroup =
     k @ ''|'' @ TrimSpace subject @ ''|'' @ TrimSpace queueGroup"

definition activationFromEntry :: "entry option \<Rightarrow> ActivationRecord" where
  "activationFromEntry eo = (case eo of
       None \<Rightarrow> \<lparr>act_ID = [], act_Kind = [], act_Subject = [], act_QueueGroup = [],
                act_Callback = None, act_ActiveSub = None, act_Active = False\<rparr>
     | Some e \<Rightarrow> \<lparr>act_ID = ID e, act_Kind = Kind e, act_Subject = Subject e,
                  act_QueueGroup = QueueGroup e, act_Callback = Callback e,
                  act_ActiveSub = ActiveSub e, act_Active = Active e\<rparr>)"

definition snapshotFromEntry :: "entry option \<Rightarrow> Snapshot" where
  "snapshotFromEntry eo = (case eo of
       None \<Rightarrow> \<lparr>snap_ID = [], snap_Kind = [], snap_Target = [], snap_Action = [],
                snap_Subject = [], snap_QueueGroup = [], snap_Active = False,
                snap_LastActivationErr = []\<rparr>
     | Some e \<Rightarrow> \<lparr>snap_ID = ID e, snap_Kind = Kind e, snap_Target = Target e,
                  snap_Action = Action e, snap_Subject = Subject e,
                  snap_QueueGroup = QueueGroup e, snap_Active = Active e,
                  snap_LastActivationErr = LastActivationErr e\<rparr>)"

definition regID :: "64 word \<Rightarrow> string" where
  "regID n = ''sub-'' @ show_nat (unat n)"

definition newEntry :: "string \<Rightarrow> string \<Rightarrow> AddSpec \<Rightarrow> entry" where
  "newEntry rid key spec =
     \<lparr>ID = rid, Key = key, Kind = spec_Kind spec, Target = spec_Target spec,
      Action = spec_Action spec, Subject = spec_Subject spec, QueueGroup = spec_QueueGroup spec,
      Callback = spec_Callback spec,
      ActiveSub = None, Active = False, LastActivationErr = []\<rparr>"

text \<open>The counter is advanced before the conflict check, so a rejected \<open>Add\<close> uses up a number.\<close>

definition Add :: "Registry \<Rightarrow> AddSpec \<Rightarrow> Snapshot result \<times> Registry" where
  "Add r spec = (case validateAddSpec spec of
       Some err \<Rightarrow> (Inl err, r)
     | None \<Rightarrow>
        let n = nextID r + 1;
            r1 = r\<lparr>nextID := n\<rparr>;
            key = registrationKey (spec_Kind spec) (spec_Subject spec) (spec_QueueGroup spec)
        in (case map_of (byKey r1) key of
              Some existingID \<Rightarrow>
                (Inl (RuntimeErr RtRegistryConflict ''registry_add'' (spec_Subject spec) []
                   ''subscription registration already exists'' False
                   (Some (PlainErr (''conflicts with existing registration '' @ existingID)))), r1)
            | None \<Rightarrow>
                let e = newEntry (regID n) key spec
                in (Inr (snapshotFromEntry (Some e)),
                    r1\<lparr>entries := alist_put (regID n) e (entries r1),
                       byKey := alist_put key (regID n) (byKey r1)\<rparr>)))"

definition GetActivationRecord :: "Registry \<Rightarrow> string \<Rightarrow> ActivationRecord option" where
  "GetActivationRecord r rid =
     (case map_of (entries r) rid of None \<Rightarrow> None | Some e \<Rightarrow> Some (activationFromEntry (Some e)))"

definition ListActivations :: "Registry \<Rightarrow> ActivationRecord list" where
  "ListActivations r = map (\<lambda>(_, e). activationFromEntry (Some e)) (entries r)"

definition RestoreRecords :: "Registry \<Rightarrow> ActivationRecord list" where
  "RestoreRecords r = ListActivations r"

definition MarkActive :: "Registry \<Rightarrow> string \<Rightarrow> sub option \<Rightarrow> Registry" where
  "MarkActive r rid s = (case map_of (entries r) rid of
       None \<Rightarrow> r
     | Some e \<Rightarrow>
        (case s of
           None \<Rightarrow> r\<lparr>entries := alist_put rid (e\<lparr>ActiveSub := None, Active := False\<rparr>) (entries r)\<rparr>
         | Some h \<Rightarrow> r\<lparr>entries := alist_put rid
             (e\<lparr>ActiveSub := Some h, Active := True, LastActivationErr := []\<rparr>) (entries r)\<rparr>))"

definition MarkInactive :: "Registry \<Rightarrow> string \<Rightarrow> goerr option \<Rightarrow> Registry" where
  "MarkInactive r rid activationErr = (case map_of (entries r) rid of
       None \<Rightarrow> r
     | Some e \<Rightarrow>
        let e1 = e\<lparr>ActiveSub := None, Active := False\<rparr>;
            e2 = (case activationErr of None \<Rightarrow> e1
                  | Some err \<Rightarrow> e1\<lparr>LastActivationErr := Error err\<rparr>)
        in r\<lparr>entries := alist_put rid e2 (entries r)\<rparr>)"

definition handleFromEntry :: "entry \<Rightarrow> ActiveHandle" where
  "handleFromEntry e =
     \<lparr>handle_ID = ID e, handle_Subject = Subject e, handle_Sub = ActiveSub e\<rparr>"

definition ClearActiveHandles :: "Registry \<Rightarrow> ActiveHandle list \<times> Registry" where
  "ClearActiveHandles r =
     (map handleFromEntry (filter (\<lambda>e. ActiveSub e \<noteq> None) (map snd (entries r))),
      r\<lparr>entries := alist_map_vals (\<lambda>e. e\<lparr>ActiveSub := None, Active := False\<rparr>) (entries r)\<rparr>)"

definition Remove :: "Registry \<Rightarrow> string \<Rightarrow> ActiveHandle option \<times> Registry" where
  "Remove r rid = (case map_of (entries r) rid of
       None \<Rightarrow> (None, r)
     | Some e \<Rightarrow> (Some (handleFromEntry e),
                  r\<lparr>entries := alist_del rid (entries r), byKey := alist_del (Key e) (byKey r)\<rparr>))"

definition List_Registry :: "Registry \<Rightarrow> Snapshot list" where
  "List_Registry r = map (\<lambda>(_, e). snapshotFromEntry (Some e)) (entries r)"

definition entry_live :: "entry \<Rightarrow> bool" where
  "entry_live e \<longleftrightarrow> ActiveSub e \<noteq> None \<and> Active e"

definition Counts :: "Registry \<Rightarrow> nat \<times> nat" where
  "Counts r = (length (entries r), length (filter (\<lambda>(_, e). entry_live e) (entries r)))"

lemmas registry_op_defs =
  Add_def MarkActive_def MarkInactive_def ClearActiveHandles_def Remove_def

lemma AddSpec_accepts [validation_simps]:
  "validateAddSpec spec = None \<longleftrightarrow>
     \<not> is_blank (spec_Kind spec) \<and> \<not> is_blank (spec_Subject spec) \<and> spec_Callback spec \<noteq> None"
  by (simp add: validateAddSpec_def first_err_None_iff)

subsection \<open>The invariant\<close>

text \<open>
  \<open>entries\<close> and \<open>byKey\<close> are two indexes of one set: every entry is found under its own number and
  under its own key, numbers come from the counter, and a handle is present exactly when the entry
  says it is active.
\<close>

definition entry_ok :: "nat \<Rightarrow> string \<Rightarrow> entry \<Rightarrow> bool" where
  "entry_ok n rid e \<longleftrightarrow>
     ID e = rid \<and> Key e = registrationKey (Kind e) (Subject e) (QueueGroup e)
     \<and> (\<exists>k. 1 \<le> k \<and> k \<le> n \<and> rid = ''sub-'' @ show_nat k)
     \<and> (Active e \<longleftrightarrow> ActiveSub e \<noteq> None)
     \<and> \<not> is_blank (Kind e) \<and> \<not> is_blank (Subject e) \<and> Callback e \<noteq> None"

definition registry_inv :: "Registry \<Rightarrow> bool" where
  "registry_inv r \<longleftrightarrow>
     distinct (map fst (entries r)) \<and> distinct (map fst (byKey r))
     \<and> (\<forall>rid e. map_of (entries r) rid = Some e \<longrightarrow>
          entry_ok (unat (nextID r)) rid e \<and> map_of (byKey r) (Key e) = Some rid)
     \<and> (\<forall>k rid. map_of (byKey r) k = Some rid \<longrightarrow>
          (\<exists>e. map_of (entries r) rid = Some e \<and> Key e = k))"

lemma registry_invI:
  assumes "distinct (map fst (entries r))" and "distinct (map fst (byKey r))"
    and "\<And>rid e. map_of (entries r) rid = Some e \<Longrightarrow>
          entry_ok (unat (nextID r)) rid e \<and> map_of (byKey r) (Key e) = Some rid"
    and "\<And>k rid. map_of (byKey r) k = Some rid \<Longrightarrow>
          \<exists>e. map_of (entries r) rid = Some e \<and> Key e = k"
  shows "registry_inv r"
  using assms by (simp add: registry_inv_def)

lemma registry_invD:
  assumes "registry_inv r"
  shows "distinct (map fst (entries r))" and "distinct (map fst (byKey r))"
    and "map_of (entries r) rid = Some e \<Longrightarrow> entry_ok (unat (nextID r)) rid e"
    and "map_of (entries r) rid = Some e \<Longrightarrow> map_of (byKey r) (Key e) = Some rid"
    and "map_of (byKey r) k = Some rid \<Longrightarrow> \<exists>e. map_of (entries r) rid = Some e \<and> Key e = k"
  using assms unfolding registry_inv_def by blast+

text \<open>Room for one more registration number before the 64-bit counter wraps.\<close>

definition counter_room :: "nat \<Rightarrow> Registry \<Rightarrow> bool" where
  "counter_room k r \<longleftrightarrow> unat (nextID r) + k < 2 ^ 64"

lemma counter_step: "counter_room 1 r \<Longrightarrow> unat (nextID r + 1) = unat (nextID r) + 1"
  using unat_add_lem [of "nextID r" 1] by (simp add: counter_room_def)

lemma entry_ok_mono: "entry_ok m rid e \<Longrightarrow> m \<le> n \<Longrightarrow> entry_ok n rid e"
  unfolding entry_ok_def by fastforce

lemma regID_fresh:
  assumes "registry_inv r" and "counter_room 1 r"
  shows "map_of (entries r) (regID (nextID r + 1)) = None"
proof (rule ccontr)
  assume "map_of (entries r) (regID (nextID r + 1)) \<noteq> None"
  then obtain e where "map_of (entries r) (regID (nextID r + 1)) = Some e" by auto
  then have "entry_ok (unat (nextID r)) (regID (nextID r + 1)) e"
    using registry_invD(3) [OF assms(1)] by blast
  then show False
    using counter_step [OF assms(2)] by (auto simp: entry_ok_def regID_def)
qed

lemma inv_New [simp]: "registry_inv New_Registry"
  by (rule registry_invI) (simp_all add: New_Registry_def)

lemma inv_bump:
  assumes "registry_inv r" and "counter_room 1 r"
  shows "registry_inv (r\<lparr>nextID := nextID r + 1\<rparr>)"
proof (rule registry_invI)
  fix rid e
  assume "map_of (entries (r\<lparr>nextID := nextID r + 1\<rparr>)) rid = Some e"
  then have "map_of (entries r) rid = Some e" by simp
  then have "entry_ok (unat (nextID r)) rid e" and "map_of (byKey r) (Key e) = Some rid"
    using registry_invD(3,4) [OF assms(1)] by blast+
  moreover have "unat (nextID r) \<le> unat (nextID r + 1)" using counter_step [OF assms(2)] by simp
  ultimately show "entry_ok (unat (nextID (r\<lparr>nextID := nextID r + 1\<rparr>))) rid e
      \<and> map_of (byKey (r\<lparr>nextID := nextID r + 1\<rparr>)) (Key e) = Some rid"
    by (auto intro: entry_ok_mono)
qed (use registry_invD [OF assms(1)] in simp_all)

lemma inv_insert:
  assumes inv: "registry_inv r" and fresh: "map_of (entries r) rid = None"
    and nokey: "map_of (byKey r) (Key e) = None" and ok: "entry_ok (unat (nextID r)) rid e"
  shows "registry_inv (r\<lparr>entries := alist_put rid e (entries r),
                         byKey := alist_put (Key e) rid (byKey r)\<rparr>)"
proof (rule registry_invI)
  fix rid' e'
  assume "map_of (entries (r\<lparr>entries := alist_put rid e (entries r),
            byKey := alist_put (Key e) rid (byKey r)\<rparr>)) rid' = Some e'"
  then consider "rid' = rid" "e' = e" | "rid' \<noteq> rid" "map_of (entries r) rid' = Some e'"
    by (auto split: if_splits)
  then show "entry_ok (unat (nextID (r\<lparr>entries := alist_put rid e (entries r),
            byKey := alist_put (Key e) rid (byKey r)\<rparr>))) rid' e'
      \<and> map_of (byKey (r\<lparr>entries := alist_put rid e (entries r),
            byKey := alist_put (Key e) rid (byKey r)\<rparr>)) (Key e') = Some rid'"
    using ok nokey registry_invD(3,4) [OF inv] by cases fastforce+
next
  fix k rid'
  assume "map_of (byKey (r\<lparr>entries := alist_put rid e (entries r),
            byKey := alist_put (Key e) rid (byKey r)\<rparr>)) k = Some rid'"
  then show "\<exists>e'. map_of (entries (r\<lparr>entries := alist_put rid e (entries r),
            byKey := alist_put (Key e) rid (byKey r)\<rparr>)) rid' = Some e' \<and> Key e' = k"
    using registry_invD(5) [OF inv] fresh by (fastforce split: if_splits)
qed (use registry_invD(1,2) [OF inv] in simp_all)

text \<open>Updating an entry in place, with the fields that make up its identity unchanged.\<close>

lemma inv_update:
  assumes inv: "registry_inv r" and e: "map_of (entries r) rid = Some e"
    and "Key e' = Key e" and "entry_ok (unat (nextID r)) rid e'"
  shows "registry_inv (r\<lparr>entries := alist_put rid e' (entries r)\<rparr>)"
proof (rule registry_invI)
  fix k rid'
  assume "map_of (byKey (r\<lparr>entries := alist_put rid e' (entries r)\<rparr>)) k = Some rid'"
  then show "\<exists>e''. map_of (entries (r\<lparr>entries := alist_put rid e' (entries r)\<rparr>)) rid' = Some e''
      \<and> Key e'' = k"
    using registry_invD(5) [OF inv] e assms(3) by fastforce
qed (use registry_invD [OF inv] assms in \<open>auto split: if_splits\<close>)

lemma inv_Add:
  assumes "registry_inv r" and "counter_room 1 r"
  shows "registry_inv (snd (Add r spec))"
proof (cases "validateAddSpec spec")
  case (Some err)
  with assms show ?thesis by (simp add: Add_def)
next
  case None
  let ?r1 = "r\<lparr>nextID := nextID r + 1\<rparr>"
  let ?key = "registrationKey (spec_Kind spec) (spec_Subject spec) (spec_QueueGroup spec)"
  have inv1: "registry_inv ?r1" using assms by (rule inv_bump)
  show ?thesis
  proof (cases "map_of (byKey r) ?key")
    case (Some rid)
    with None inv1 show ?thesis by (simp add: Add_def Let_def)
  next
    case nokey: None
    let ?e = "newEntry (regID (nextID r + 1)) ?key spec"
    have "entry_ok (unat (nextID ?r1)) (regID (nextID r + 1)) ?e"
      using None counter_step [OF assms(2)]
      by (auto simp: entry_ok_def regID_def newEntry_def validation_simps)
    moreover have "Key ?e = ?key" by (simp add: newEntry_def)
    ultimately show ?thesis
      using inv_insert [OF inv1, of "regID (nextID r + 1)" ?e] regID_fresh [OF assms] nokey None
      by (simp add: Add_def Let_def)
  qed
qed

lemma inv_MarkActive: "registry_inv r \<Longrightarrow> registry_inv (MarkActive r rid s)"
  using registry_invD(3)
  by (auto simp: MarkActive_def entry_ok_def split: option.split intro!: inv_update)

lemma inv_MarkInactive: "registry_inv r \<Longrightarrow> registry_inv (MarkInactive r rid err)"
  using registry_invD(3)
  by (auto simp: MarkInactive_def Let_def entry_ok_def split: option.split intro!: inv_update)

lemma inv_ClearActiveHandles:
  assumes "registry_inv r"
  shows "registry_inv (snd (ClearActiveHandles r))"
proof (rule registry_invI)
  fix k rid
  assume "map_of (byKey (snd (ClearActiveHandles r))) k = Some rid"
  then show "\<exists>e. map_of (entries (snd (ClearActiveHandles r))) rid = Some e \<and> Key e = k"
    using registry_invD(5) [OF assms] by (fastforce simp: ClearActiveHandles_def)
qed (use registry_invD [OF assms] in \<open>auto simp: ClearActiveHandles_def entry_ok_def\<close>)

lemma inv_Remove:
  assumes "registry_inv r"
  shows "registry_inv (snd (Remove r rid))"
proof (cases "map_of (entries r) rid")
  case None
  with assms show ?thesis by (simp add: Remove_def)
next
  case (Some e)
  let ?r = "r\<lparr>entries := alist_del rid (entries r), byKey := alist_del (Key e) (byKey r)\<rparr>"
  have key: "Key e' \<noteq> Key e" if "map_of (entries r) rid' = Some e'" "rid' \<noteq> rid" for rid' e'
    using registry_invD(4) [OF assms] that Some by (metis option.inject)
  have "registry_inv ?r"
  proof (rule registry_invI)
    fix k rid'
    assume "map_of (byKey ?r) k = Some rid'"
    then have k: "k \<noteq> Key e" "map_of (byKey r) k = Some rid'" by (auto split: if_splits)
    then obtain e' where "map_of (entries r) rid' = Some e'" "Key e' = k"
      using registry_invD(5) [OF assms] by blast
    with k Some show "\<exists>e'. map_of (entries ?r) rid' = Some e' \<and> Key e' = k" by auto
  qed (use registry_invD [OF assms] key in \<open>auto split: if_splits\<close>)
  with Some show ?thesis by (simp add: Remove_def)
qed

subsection \<open>The abstract registry\<close>

text \<open>
  What a registry promises, without its two indexes: a set of numbered intents no two of which
  have the same key, and for some of them a live subscription.
\<close>

record intent =
  intent_kind :: kind
  intent_target :: string
  intent_action :: string
  intent_subject :: string
  intent_queue :: string
  intent_callback :: "msg_handler option"

definition intent_of :: "entry \<Rightarrow> intent" where
  "intent_of e = \<lparr>intent_kind = Kind e, intent_target = Target e, intent_action = Action e,
     intent_subject = Subject e, intent_queue = QueueGroup e, intent_callback = Callback e\<rparr>"

definition intent_of_spec :: "AddSpec \<Rightarrow> intent" where
  "intent_of_spec s = \<lparr>intent_kind = spec_Kind s, intent_target = spec_Target s,
     intent_action = spec_Action s, intent_subject = spec_Subject s,
     intent_queue = spec_QueueGroup s, intent_callback = spec_Callback s\<rparr>"

definition intent_key :: "intent \<Rightarrow> string" where
  "intent_key i = registrationKey (intent_kind i) (intent_subject i) (intent_queue i)"

definition intents :: "Registry \<Rightarrow> string \<Rightarrow> intent option" where
  "intents r rid = map_option intent_of (map_of (entries r) rid)"

definition live :: "Registry \<Rightarrow> string \<Rightarrow> sub option" where
  "live r rid = (case map_of (entries r) rid of None \<Rightarrow> None | Some e \<Rightarrow> ActiveSub e)"

lemma intent_of_frame [simp]:
  "intent_of (e\<lparr>ActiveSub := s\<rparr>) = intent_of e"
  "intent_of (e\<lparr>Active := b\<rparr>) = intent_of e"
  "intent_of (e\<lparr>LastActivationErr := t\<rparr>) = intent_of e"
  by (simp_all add: intent_of_def)

lemma intent_key_of_entry:
  "entry_ok n rid e \<Longrightarrow> intent_key (intent_of e) = Key e"
  by (simp add: entry_ok_def intent_key_def intent_of_def)

text \<open>
  The interface the client runtime (\<open>agentcore/handlers_runtime.go\<close>) uses, and the laws it relies
  on.  \<open>room k\<close> says that \<open>k\<close> more registrations can be numbered.
\<close>

locale subscription_registry =
  fixes inv :: "'r \<Rightarrow> bool"
    and room :: "nat \<Rightarrow> 'r \<Rightarrow> bool"
    and want :: "'r \<Rightarrow> string \<Rightarrow> intent option"
    and handle :: "'r \<Rightarrow> string \<Rightarrow> sub option"
    and add :: "'r \<Rightarrow> AddSpec \<Rightarrow> Snapshot result \<times> 'r"
    and mark_active :: "'r \<Rightarrow> string \<Rightarrow> sub option \<Rightarrow> 'r"
    and mark_inactive :: "'r \<Rightarrow> string \<Rightarrow> goerr option \<Rightarrow> 'r"
    and clear :: "'r \<Rightarrow> ActiveHandle list \<times> 'r"
    and remove :: "'r \<Rightarrow> string \<Rightarrow> ActiveHandle option \<times> 'r"
  assumes inv_add: "inv r \<Longrightarrow> room 1 r \<Longrightarrow> inv (snd (add r spec))"
    and inv_mark_active: "inv r \<Longrightarrow> inv (mark_active r rid s)"
    and inv_mark_inactive: "inv r \<Longrightarrow> inv (mark_inactive r rid cause)"
    and inv_clear: "inv r \<Longrightarrow> inv (snd (clear r))"
    and inv_remove: "inv r \<Longrightarrow> inv (snd (remove r rid))"
    and add_ok: "inv r \<Longrightarrow> room 1 r \<Longrightarrow> add r spec = (Inr snap, r') \<Longrightarrow>
          want r (snap_ID snap) = None
          \<and> want r' = (want r)(snap_ID snap \<mapsto> intent_of_spec spec) \<and> handle r' = handle r
          \<and> (\<forall>rid i. want r rid = Some i \<longrightarrow> intent_key i \<noteq> intent_key (intent_of_spec spec))"
    and add_fail: "inv r \<Longrightarrow> add r spec = (Inl err, r') \<Longrightarrow>
          want r' = want r \<and> handle r' = handle r"
    and want_mark_active: "want (mark_active r rid s) = want r"
    and handle_mark_active: "handle (mark_active r rid s) =
          (if want r rid = None then handle r else (handle r)(rid := s))"
    and want_mark_inactive: "want (mark_inactive r rid cause) = want r"
    and handle_mark_inactive: "handle (mark_inactive r rid cause) = (handle r)(rid := None)"
    and want_clear: "want (snd (clear r)) = want r"
    and handle_clear: "handle (snd (clear r)) = (\<lambda>_. None)"
    and want_remove: "want (snd (remove r rid)) = (want r)(rid := None)"
    and handle_remove: "handle (snd (remove r rid)) = (handle r)(rid := None)"
    and handle_wanted: "handle r rid \<noteq> None \<Longrightarrow> want r rid \<noteq> None"
begin

lemma handle_unwanted: "want r rid = None \<Longrightarrow> handle r rid = None"
  using handle_wanted by blast

text \<open>
  A registration that is rolled back leaves no trace: neither among the intents nor among the live
  handles, whatever was recorded about its activation in between.
\<close>

lemma add_remove:
  assumes "inv r" and "room 1 r" and "add r spec = (Inr snap, r')"
    and "want r'' = want r'" and "\<And>x. x \<noteq> snap_ID snap \<Longrightarrow> handle r'' x = handle r' x"
  shows "want (snd (remove r'' (snap_ID snap))) = want r"
    and "handle (snd (remove r'' (snap_ID snap))) = handle r"
proof -
  note ok = add_ok [OF assms(1,2,3)]
  show "want (snd (remove r'' (snap_ID snap))) = want r"
    using ok assms(4) by (auto simp: want_remove fun_eq_iff)
  have "handle (snd (remove r'' (snap_ID snap))) x = handle r x" for x
    using ok assms(5) handle_unwanted by (simp add: handle_remove)
  then show "handle (snd (remove r'' (snap_ID snap))) = handle r" by blast
qed

lemma add_mark_inactive_remove:
  assumes "inv r" and "room 1 r" and "add r spec = (Inr snap, r')"
  shows "want (snd (remove (mark_inactive r' (snap_ID snap) cause) (snap_ID snap))) = want r"
    and "handle (snd (remove (mark_inactive r' (snap_ID snap) cause) (snap_ID snap))) = handle r"
  by (rule add_remove [OF assms], simp_all add: want_mark_inactive handle_mark_inactive)+

text \<open>The intents survive a disconnect: clearing and activating again only moves handles.\<close>

lemma intents_survive:
  "want (mark_active (snd (clear r)) rid s) = want r"
  by (simp add: want_mark_active want_clear)

end

subsection \<open>The registry meets the contract\<close>

lemma Add_ok:
  assumes inv: "registry_inv r" and room: "counter_room 1 r"
    and add: "Add r spec = (Inr snap, r')"
  shows "intents r (snap_ID snap) = None
    \<and> intents r' = (intents r)(snap_ID snap \<mapsto> intent_of_spec spec) \<and> live r' = live r
    \<and> (\<forall>rid i. intents r rid = Some i \<longrightarrow> intent_key i \<noteq> intent_key (intent_of_spec spec))"
proof -
  let ?k = "registrationKey (spec_Kind spec) (spec_Subject spec) (spec_QueueGroup spec)"
  let ?id = "regID (nextID r + 1)"
  have fresh: "map_of (entries r) ?id = None" using inv room by (rule regID_fresh)
  from add have v: "validateAddSpec spec = None" and nokey: "map_of (byKey r) ?k = None"
    and snap: "snap_ID snap = ?id"
    by (auto simp: Add_def Let_def snapshotFromEntry_def newEntry_def split: option.splits)
  let ?e = "newEntry ?id ?k spec"
  from add v nokey have "entries r' = alist_put ?id ?e (entries r)"
    by (auto simp: Add_def Let_def)
  then have ent: "map_of (entries r') = (map_of (entries r))(?id \<mapsto> ?e)" by simp
  have "intent_of ?e = intent_of_spec spec" "ActiveSub ?e = None"
    by (simp_all add: newEntry_def intent_of_def intent_of_spec_def)
  with ent fresh have r': "intents r' = (intents r)(?id \<mapsto> intent_of_spec spec)" "live r' = live r"
    by (auto simp: intents_def live_def fun_eq_iff)
  have "intent_key i \<noteq> intent_key (intent_of_spec spec)" if i: "intents r rid = Some i" for rid i
  proof -
    from i obtain e where e: "map_of (entries r) rid = Some e" "i = intent_of e"
      by (auto simp: intents_def)
    have "intent_key i = Key e"
      using intent_key_of_entry registry_invD(3) [OF inv] e by blast
    moreover have "map_of (byKey r) (Key e) = Some rid"
      using registry_invD(4) [OF inv] e by blast
    ultimately show ?thesis
      using nokey by (auto simp: intent_key_def intent_of_spec_def)
  qed
  with r' fresh snap show ?thesis by (simp add: intents_def)
qed

lemma Add_fail:
  "Add r spec = (Inl err, r') \<Longrightarrow> intents r' = intents r \<and> live r' = live r"
  by (auto simp: Add_def Let_def intents_def live_def fun_eq_iff split: option.splits)

lemma intents_MarkActive [simp]: "intents (MarkActive r rid s) = intents r"
  by (auto simp: intents_def MarkActive_def fun_eq_iff split: option.split)

lemma live_MarkActive: "live (MarkActive r rid s) =
    (if intents r rid = None then live r else (live r)(rid := s))"
  by (auto simp: live_def intents_def MarkActive_def fun_eq_iff split: option.split)

lemma intents_MarkInactive [simp]: "intents (MarkInactive r rid err) = intents r"
  by (auto simp: intents_def MarkInactive_def Let_def fun_eq_iff split: option.split)

lemma live_MarkInactive: "live (MarkInactive r rid err) = (live r)(rid := None)"
  by (auto simp: live_def MarkInactive_def Let_def fun_eq_iff split: option.split)

lemma intents_ClearActiveHandles [simp]: "intents (snd (ClearActiveHandles r)) = intents r"
  by (auto simp: intents_def ClearActiveHandles_def fun_eq_iff option.map_comp o_def
      map_option_case split: option.split)

lemma live_ClearActiveHandles [simp]: "live (snd (ClearActiveHandles r)) = (\<lambda>_. None)"
  by (auto simp: live_def ClearActiveHandles_def fun_eq_iff split: option.split)

lemma intents_Remove: "intents (snd (Remove r rid)) = (intents r)(rid := None)"
  by (auto simp: intents_def Remove_def fun_eq_iff split: option.split)

lemma live_Remove: "live (snd (Remove r rid)) = (live r)(rid := None)"
  by (auto simp: live_def Remove_def fun_eq_iff split: option.split)

lemma live_wanted: "live r rid \<noteq> None \<Longrightarrow> intents r rid \<noteq> None"
  by (auto simp: live_def intents_def split: option.splits)

interpretation reg: subscription_registry registry_inv counter_room intents live
    Add MarkActive MarkInactive ClearActiveHandles Remove
proof unfold_locales
qed (simp_all add: inv_Add inv_MarkActive inv_MarkInactive inv_ClearActiveHandles inv_Remove
      Add_ok Add_fail live_MarkActive live_MarkInactive intents_Remove live_Remove live_wanted)

subsection \<open>Runs of operations\<close>

datatype registry_op =
    OpAdd AddSpec | OpMarkActive string "sub option" | OpMarkInactive string "goerr option"
  | OpClear | OpRemove string

fun registry_step :: "Registry \<Rightarrow> registry_op \<Rightarrow> Registry" where
  "registry_step r (OpAdd spec) = snd (Add r spec)"
| "registry_step r (OpMarkActive rid s) = MarkActive r rid s"
| "registry_step r (OpMarkInactive rid err) = MarkInactive r rid err"
| "registry_step r OpClear = snd (ClearActiveHandles r)"
| "registry_step r (OpRemove rid) = snd (Remove r rid)"

definition registry_run :: "Registry \<Rightarrow> registry_op list \<Rightarrow> Registry" where
  "registry_run r ops = foldl registry_step r ops"

fun is_add :: "registry_op \<Rightarrow> bool" where
  "is_add (OpAdd spec) = True"
| "is_add _ = False"

lemma nextID_step:
  "nextID (registry_step r op) = nextID r \<or> is_add op \<and> nextID (registry_step r op) = nextID r + 1"
  by (cases op)
     (auto simp: Add_def Let_def MarkActive_def MarkInactive_def ClearActiveHandles_def Remove_def
       split: option.split)

lemma registry_step_inv:
  assumes "registry_inv r" and "counter_room (Suc k) r"
  shows "registry_inv (registry_step r op)"
proof -
  have "counter_room 1 r" using assms(2) by (simp add: counter_room_def)
  with assms(1) show ?thesis
    by (cases op) (simp_all add: inv_Add inv_MarkActive inv_MarkInactive inv_ClearActiveHandles inv_Remove)
qed

lemma registry_step_room:
  assumes "counter_room (Suc k) r"
  shows "counter_room k (registry_step r op)"
proof -
  have "counter_room 1 r" using assms by (simp add: counter_room_def)
  then have "unat (nextID r + 1) = unat (nextID r) + 1" by (rule counter_step)
  with nextID_step [of r op] assms show ?thesis by (auto simp: counter_room_def)
qed

lemma registry_run_inv:
  "registry_inv r \<Longrightarrow> counter_room (length ops) r \<Longrightarrow> registry_inv (registry_run r ops)"
proof (induction ops arbitrary: r)
  case Nil
  then show ?case by (simp add: registry_run_def)
next
  case (Cons op ops)
  then have "registry_inv (registry_step r op)" "counter_room (length ops) (registry_step r op)"
    by (auto intro: registry_step_inv registry_step_room)
  from Cons.IH [OF this] show ?case by (simp add: registry_run_def)
qed

subsection \<open>Counts\<close>

lemma Counts_bounds: "snd (Counts r) \<le> fst (Counts r)"
  by (simp add: Counts_def)

lemma live_entry_iff:
  assumes "registry_inv r" and "map_of (entries r) rid = Some e"
  shows "entry_live e \<longleftrightarrow> live r rid \<noteq> None"
  using registry_invD(3) [OF assms] assms(2) by (auto simp: entry_live_def entry_ok_def live_def)

text \<open>The two counters reported to the health snapshot are the sizes of the abstract views.\<close>

lemma Counts_abs:
  assumes "registry_inv r"
  shows "Counts r = (card (dom (intents r)), card (dom (live r)))"
proof -
  note d = registry_invD(1) [OF assms]
  have "dom (intents r) = fst ` set (entries r)"
    by (auto simp: intents_def dom_map_of_conv_image_fst [symmetric])
  then have 1: "card (dom (intents r)) = length (entries r)"
    using d distinct_card [of "map fst (entries r)"] by simp
  let ?l = "filter (\<lambda>(_, e). entry_live e) (entries r)"
  have "dom (live r) = fst ` set ?l"
  proof (intro set_eqI iffI)
    fix rid assume "rid \<in> dom (live r)"
    then obtain e where e: "map_of (entries r) rid = Some e" "live r rid \<noteq> None"
      by (auto simp: live_def split: option.splits)
    then have "entry_live e" using live_entry_iff [OF assms] by blast
    with e(1) show "rid \<in> fst ` set ?l" by (force dest: map_of_SomeD)
  next
    fix rid assume "rid \<in> fst ` set ?l"
    then obtain e where e: "(rid, e) \<in> set (entries r)" "entry_live e" by auto
    then have "map_of (entries r) rid = Some e" using d by (simp add: map_of_is_SomeI)
    with e(2) have "live r rid \<noteq> None" using live_entry_iff [OF assms] by blast
    then show "rid \<in> dom (live r)" by (simp add: domIff)
  qed
  moreover have "distinct (map fst ?l)" using d by (rule distinct_map_filter)
  ultimately have 2: "card (dom (live r)) = length ?l"
    using distinct_card [of "map fst ?l"] by simp
  show ?thesis by (simp add: Counts_def 1 2)
qed

end
