(* ===== verification/Session_Config.thy ===== *)
theory Session_Config
  imports Contract Registry
begin

text \<open>
  Configuration: the public records of \<open>agentcore/config.go\<close>, the session records of
  \<open>internal/session/types.go\<close>, the copy between them (\<open>toSessionConfig\<close>), and the normalisation of
  \<open>internal/session/options.go\<close> that checks every setting and fills in defaults.
\<close>

subsection \<open>Session configuration (\<open>internal/session/types.go\<close>)\<close>

record TLSConfig =
  tls_Enabled :: bool
  tls_InsecureSkipVerify :: bool
  tls_CAFile :: string
  tls_CertFile :: string
  tls_KeyFile :: string
  tls_ServerName :: string

record NATSConfig =
  nats_Servers :: "string list"
  nats_ClientName :: string
  nats_CredentialsFile :: string
  nats_NKeySeedFile :: string
  nats_UserJWTFile :: string
  nats_Username :: string
  nats_Password :: string
  nats_Token :: string
  nats_ConnectTimeout :: duration
  nats_RetryOnFailedConnect :: bool
  nats_MaxReconnects :: int
  nats_ReconnectWait :: duration
  nats_ReconnectBufSize :: int
  nats_TLS :: "TLSConfig option"

record JetStreamConfig =
  js_Domain :: string
  js_APIPrefix :: string
  js_DefaultTimeout :: duration

record KVConfig =
  kv_Bucket :: string
  kv_KeyPattern :: string
  kv_AutoCreateBucket :: bool
  kv_History :: "8 word"
  kv_TTL :: duration
  kv_MaxValueSize :: int
  kv_Storage :: string
  kv_Replicas :: int

record TimeoutConfig =
  to_PublishTimeout :: duration
  to_SubscribeTimeout :: duration
  to_KVTimeout :: duration
  to_ShutdownTimeout :: duration
  to_HandlerWarnAfter :: duration

record RetryConfig =
  rt_PublishAttempts :: int
  rt_PublishBackoff :: duration

record Config =
  AgentName :: string
  NATS :: NATSConfig
  JetStream :: JetStreamConfig
  KV :: KVConfig
  Timeouts :: TimeoutConfig
  Retry :: RetryConfig
subsection \<open>Public configuration (\<open>agentcore/config.go\<close>)\<close>

record PublicTLSConfig =
  pub_tls_Enabled :: bool
  pub_tls_InsecureSkipVerify :: bool
  pub_tls_CAFile :: string
  pub_tls_CertFile :: string
  pub_tls_KeyFile :: string
  pub_tls_ServerName :: string

record PublicNATSConfig =
  pub_nats_Servers :: "string list"
  pub_nats_ClientName :: string
  pub_nats_CredentialsFile :: string
  pub_nats_NKeySeedFile :: string
  pub_nats_UserJWTFile :: string
  pub_nats_Username :: string
  pub_nats_Password :: string
  pub_nats_Token :: string
  pub_nats_ConnectTimeout :: duration
  pub_nats_RetryOnFailedConnect :: bool
  pub_nats_MaxReconnects :: int
  pub_nats_ReconnectWait :: duration
  pub_nats_ReconnectBufSize :: int
  pub_nats_TLS :: "PublicTLSConfig option"

record PublicJetStreamConfig =
  pub_js_Domain :: string
  pub_js_APIPrefix :: string
  pub_js_DefaultTimeout :: duration

record PublicKVConfig =
  pub_kv_Bucket :: string
  pub_kv_KeyPattern :: string
  pub_kv_AutoCreateBucket :: bool
  pub_kv_History :: "8 word"
  pub_kv_TTL :: duration
  pub_kv_MaxValueSize :: int
  pub_kv_Storage :: string
  pub_kv_Replicas :: int

record PublicTimeoutConfig =
  pub_to_PublishTimeout :: duration
  pub_to_SubscribeTimeout :: duration
  pub_to_KVTimeout :: duration
  pub_to_ShutdownTimeout :: duration
  pub_to_HandlerWarnAfter :: duration

record PublicRetryConfig =
  pub_rt_PublishAttempts :: int
  pub_rt_PublishBackoff :: duration
text \<open>
  The public configuration also names the agent's version, the subject patterns, the handler mode
  and the hooks; a hook is a caller-supplied object, here only known to be present or not.
\<close>

record PublicConfig =
  pub_AgentName :: string
  pub_Version :: string
  pub_NATS :: PublicNATSConfig
  pub_JetStream :: PublicJetStreamConfig
  pub_Subjects :: SubjectOverrides
  pub_KV :: PublicKVConfig
  pub_Timeouts :: PublicTimeoutConfig
  pub_Retry :: PublicRetryConfig
  pub_HandlerMode :: string
  pub_Observe_Logger :: bool
  pub_Observe_Metrics :: bool

definition toSessionTLS :: "PublicTLSConfig option \<Rightarrow> TLSConfig option" where
  "toSessionTLS cfg = (case cfg of None \<Rightarrow> None | Some c \<Rightarrow> Some
        \<lparr>tls_Enabled = pub_tls_Enabled c,
         tls_InsecureSkipVerify = pub_tls_InsecureSkipVerify c,
         tls_CAFile = pub_tls_CAFile c, tls_CertFile = pub_tls_CertFile c,
         tls_KeyFile = pub_tls_KeyFile c, tls_ServerName = pub_tls_ServerName c\<rparr>)"

definition toSessionNATS :: "PublicNATSConfig \<Rightarrow> NATSConfig" where
  "toSessionNATS c =
        \<lparr>nats_Servers = pub_nats_Servers c, nats_ClientName = pub_nats_ClientName c,
         nats_CredentialsFile = pub_nats_CredentialsFile c,
         nats_NKeySeedFile = pub_nats_NKeySeedFile c,
         nats_UserJWTFile = pub_nats_UserJWTFile c, nats_Username = pub_nats_Username c,
         nats_Password = pub_nats_Password c, nats_Token = pub_nats_Token c,
         nats_ConnectTimeout = pub_nats_ConnectTimeout c,
         nats_RetryOnFailedConnect = pub_nats_RetryOnFailedConnect c,
         nats_MaxReconnects = pub_nats_MaxReconnects c,
         nats_ReconnectWait = pub_nats_ReconnectWait c,
         nats_ReconnectBufSize = pub_nats_ReconnectBufSize c,
         nats_TLS = toSessionTLS (pub_nats_TLS c)\<rparr>"

definition toSessionJetStream :: "PublicJetStreamConfig \<Rightarrow> JetStreamConfig" where
  "toSessionJetStream c =
        \<lparr>js_Domain = pub_js_Domain c, js_APIPrefix = pub_js_APIPrefix c,
         js_DefaultTimeout = pub_js_DefaultTimeout c\<rparr>"

definition toSessionKV :: "PublicKVConfig \<Rightarrow> KVConfig" where
  "toSessionKV c =
        \<lparr>kv_Bucket = pub_kv_Bucket c, kv_KeyPattern = pub_kv_KeyPattern c,
         kv_AutoCreateBucket = pub_kv_AutoCreateBucket c, kv_History = pub_kv_History c,
         kv_TTL = pub_kv_TTL c, kv_MaxValueSize = pub_kv_MaxValueSize c,
         kv_Storage = pub_kv_Storage c, kv_Replicas = pub_kv_Replicas c\<rparr>"

definition toSessionTimeout :: "PublicTimeoutConfig \<Rightarrow> TimeoutConfig" where
  "toSessionTimeout c =
        \<lparr>to_PublishTimeout = pub_to_PublishTimeout c,
         to_SubscribeTimeout = pub_to_SubscribeTimeout c, to_KVTimeout = pub_to_KVTimeout c,
         to_ShutdownTimeout = pub_to_ShutdownTimeout c,
         to_HandlerWarnAfter = pub_to_HandlerWarnAfter c\<rparr>"

definition toSessionRetry :: "PublicRetryConfig \<Rightarrow> RetryConfig" where
  "toSessionRetry c =
        \<lparr>rt_PublishAttempts = pub_rt_PublishAttempts c,
         rt_PublishBackoff = pub_rt_PublishBackoff c\<rparr>"

definition toSessionConfig :: "PublicConfig \<Rightarrow> Config" where
  "toSessionConfig cfg =
     \<lparr>AgentName = pub_AgentName cfg, NATS = toSessionNATS (pub_NATS cfg),
      JetStream = toSessionJetStream (pub_JetStream cfg), KV = toSessionKV (pub_KV cfg),
      Timeouts = toSessionTimeout (pub_Timeouts cfg), Retry = toSessionRetry (pub_Retry cfg)\<rparr>"

subsection \<open>Normalisation (\<open>internal/session/options.go\<close>)\<close>

definition defaultConnectTimeout :: duration where "defaultConnectTimeout = 5 * Second"
definition defaultReconnectWait :: duration where "defaultReconnectWait = 2 * Second"
definition defaultMaxReconnects :: int where "defaultMaxReconnects = - 1"
definition defaultJetStreamTimeout :: duration where "defaultJetStreamTimeout = 5 * Second"
definition defaultPublishTimeout :: duration where "defaultPublishTimeout = 5 * Second"
definition defaultSubscribeTimeout :: duration where "defaultSubscribeTimeout = 5 * Second"
definition defaultKVTimeout :: duration where "defaultKVTimeout = 5 * Second"
definition defaultShutdownTimeout :: duration where "defaultShutdownTimeout = 10 * Second"
definition defaultHandlerWarnAfter :: duration where "defaultHandlerWarnAfter = 5 * Second"
definition defaultPublishAttempts :: int where "defaultPublishAttempts = 3"
definition defaultPublishBackoff :: duration where "defaultPublishBackoff = 200 * Millisecond"
definition defaultKVBucket :: string where "defaultKVBucket = ''cfg_desired''"
definition defaultKVKey :: string where "defaultKVKey = ''desired.%s''"
definition defaultKVHistory :: "8 word" where "defaultKVHistory = 1"
definition defaultKVReplicas :: int where "defaultKVReplicas = 1"
definition defaultKVStorage :: string where "defaultKVStorage = ''file''"
definition maxSupportedHistory :: "8 word" where "maxSupportedHistory = 64"

lemmas default_value_defs =
  defaultConnectTimeout_def defaultReconnectWait_def defaultMaxReconnects_def
  defaultJetStreamTimeout_def defaultPublishTimeout_def defaultSubscribeTimeout_def
  defaultKVTimeout_def defaultShutdownTimeout_def defaultHandlerWarnAfter_def
  defaultPublishAttempts_def defaultPublishBackoff_def defaultKVBucket_def defaultKVKey_def
  defaultKVHistory_def defaultKVReplicas_def defaultKVStorage_def maxSupportedHistory_def
  Second_def Millisecond_def

text \<open>The two constants taken from the NATS client library.\<close>

record nats_consts =
  DefaultURL :: string
  DefaultReconnectBufSize :: int

record EffectiveConfig =
  effective_Config :: Config

definition validateKeyPattern :: "string \<Rightarrow> goerr option" where
  "validateKeyPattern pat = first_err
     [reject_if (ContainsAny pat ascii_ws)
        (PlainErr ''kv.key_pattern cannot contain whitespace''),
      reject_if (CountS pat \<noteq> 1)
        (PlainErr ''kv.key_pattern must contain exactly one %s placeholder''),
      reject_if (Contains (RemoveS pat) CHR ''%'')
        (PlainErr ''kv.key_pattern contains unsupported format directives'')]"

definition or_default :: "'a \<Rightarrow> 'a \<Rightarrow> 'a \<Rightarrow> 'a" where
  "or_default unset fallback x = (if x = unset then fallback else x)"

definition normalizeServers :: "nats_consts \<Rightarrow> string list \<Rightarrow> string list" where
  "normalizeServers nc servers =
     (let kept = filter (\<lambda>s. s \<noteq> []) (map TrimSpace servers)
      in if kept = [] then [DefaultURL nc] else kept)"

definition negativeChecks :: "Config \<Rightarrow> goerr option" where
  "negativeChecks out =
     (let op = ''normalize_runtime_config'' in first_err
     [reject_if (nats_ConnectTimeout (NATS out) < 0)
        (rt_validationError op ''nats.connect_timeout cannot be negative''),
      reject_if (nats_ReconnectWait (NATS out) < 0)
        (rt_validationError op ''nats.reconnect_wait cannot be negative''),
      reject_if (nats_MaxReconnects (NATS out) < - 1)
        (rt_validationError op ''nats.max_reconnects must be -1 or greater''),
      reject_if (nats_ReconnectBufSize (NATS out) < 0)
        (rt_validationError op ''nats.reconnect_buf_size cannot be negative''),
      reject_if (js_DefaultTimeout (JetStream out) < 0)
        (rt_validationError op ''jetstream.default_timeout cannot be negative''),
      reject_if (to_PublishTimeout (Timeouts out) < 0)
        (rt_validationError op ''timeouts.publish_timeout cannot be negative''),
      reject_if (to_SubscribeTimeout (Timeouts out) < 0)
        (rt_validationError op ''timeouts.subscribe_timeout cannot be negative''),
      reject_if (to_KVTimeout (Timeouts out) < 0)
        (rt_validationError op ''timeouts.kv_timeout cannot be negative''),
      reject_if (to_ShutdownTimeout (Timeouts out) < 0)
        (rt_validationError op ''timeouts.shutdown_timeout cannot be negative''),
      reject_if (to_HandlerWarnAfter (Timeouts out) < 0)
        (rt_validationError op ''timeouts.handler_warn_after cannot be negative''),
      reject_if (rt_PublishAttempts (Retry out) < 0)
        (rt_validationError op ''retry.publish_attempts cannot be negative''),
      reject_if (rt_PublishBackoff (Retry out) < 0)
        (rt_validationError op ''retry.publish_backoff cannot be negative''),
      reject_if (kv_TTL (KV out) < 0)
        (rt_validationError op ''kv.ttl cannot be negative''),
      reject_if (kv_MaxValueSize (KV out) < 0)
        (rt_validationError op ''kv.max_value_size cannot be negative''),
      reject_if (kv_Replicas (KV out) < 0)
        (rt_validationError op ''kv.replicas cannot be negative'')])"

definition normalizeNATS :: "nats_consts \<Rightarrow> NATSConfig \<Rightarrow> NATSConfig" where
  "normalizeNATS nc n = n\<lparr>
     nats_Servers := normalizeServers nc (nats_Servers n),
     nats_ConnectTimeout := or_default 0 defaultConnectTimeout (nats_ConnectTimeout n),
     nats_MaxReconnects := or_default 0 defaultMaxReconnects (nats_MaxReconnects n),
     nats_ReconnectWait := or_default 0 defaultReconnectWait (nats_ReconnectWait n),
     nats_ReconnectBufSize := or_default 0 (DefaultReconnectBufSize nc) (nats_ReconnectBufSize n)\<rparr>"

definition normalizeTimeouts :: "TimeoutConfig \<Rightarrow> TimeoutConfig" where
  "normalizeTimeouts t = t\<lparr>
     to_PublishTimeout := or_default 0 defaultPublishTimeout (to_PublishTimeout t),
     to_SubscribeTimeout := or_default 0 defaultSubscribeTimeout (to_SubscribeTimeout t),
     to_KVTimeout := or_default 0 defaultKVTimeout (to_KVTimeout t),
     to_ShutdownTimeout := or_default 0 defaultShutdownTimeout (to_ShutdownTimeout t),
     to_HandlerWarnAfter := or_default 0 defaultHandlerWarnAfter (to_HandlerWarnAfter t)\<rparr>"

definition normalizeRetry :: "RetryConfig \<Rightarrow> RetryConfig" where
  "normalizeRetry r = r\<lparr>
     rt_PublishAttempts := or_default 0 defaultPublishAttempts (rt_PublishAttempts r),
     rt_PublishBackoff := or_default 0 defaultPublishBackoff (rt_PublishBackoff r)\<rparr>"

definition normalizeStorage :: "string \<Rightarrow> string" where
  "normalizeStorage s = or_default [] defaultKVStorage (ToLower (TrimSpace s))"

text \<open>The bucket settings, checked in the order of the source: pattern, history, storage.\<close>

definition normalizeKV :: "KVConfig \<Rightarrow> KVConfig result" where
  "normalizeKV k =
     (let op = ''normalize_runtime_config'';
          pat = or_default [] defaultKVKey (TrimSpace (kv_KeyPattern k));
          history = or_default 0 defaultKVHistory (kv_History k);
          storage = normalizeStorage (kv_Storage k)
      in guard_err (first_err
           [map_option (\<lambda>e. rt_validationError op (Error e)) (validateKeyPattern pat),
            reject_if (maxSupportedHistory < history)
              (rt_validationError op ''kv.history must be between 1 and 64''),
            reject_if (storage \<noteq> ''file'' \<and> storage \<noteq> ''memory'')
              (rt_validationError op ''kv.storage must be file or memory'')])
         (Inr (k\<lparr>kv_Bucket := or_default [] defaultKVBucket (TrimSpace (kv_Bucket k)),
                 kv_KeyPattern := pat, kv_History := history,
                 kv_Replicas := or_default 0 defaultKVReplicas (kv_Replicas k),
                 kv_Storage := storage\<rparr>)))"

definition normalizeConfig :: "nats_consts \<Rightarrow> Config \<Rightarrow> EffectiveConfig result" where
  "normalizeConfig nc cfg =
     guard_err (negativeChecks cfg)
       (try_bind (normalizeKV (KV cfg)) (\<lambda>kv.
          Inr \<lparr>effective_Config = cfg\<lparr>
            NATS := normalizeNATS nc (NATS cfg),
            JetStream := (JetStream cfg)\<lparr>js_DefaultTimeout :=
              or_default 0 defaultJetStreamTimeout (js_DefaultTimeout (JetStream cfg))\<rparr>,
            KV := kv,
            Timeouts := normalizeTimeouts (Timeouts cfg),
            Retry := normalizeRetry (Retry cfg)\<rparr>\<rparr>))"

subsection \<open>What normalisation guarantees\<close>

text \<open>
  A configuration the runtime can use: every duration that may be waited for is positive, the
  reconnect settings are meaningful, the server list, the bucket and the key pattern are usable.
\<close>

definition timeouts_ok :: "TimeoutConfig \<Rightarrow> bool" where
  "timeouts_ok t \<longleftrightarrow> 0 < to_PublishTimeout t \<and> 0 < to_SubscribeTimeout t \<and> 0 < to_KVTimeout t
     \<and> 0 < to_ShutdownTimeout t \<and> 0 < to_HandlerWarnAfter t"

definition nats_ok :: "NATSConfig \<Rightarrow> bool" where
  "nats_ok n \<longleftrightarrow> nats_Servers n \<noteq> [] \<and> (\<forall>s \<in> set (nats_Servers n). \<not> is_blank s \<and> TrimSpace s = s)
     \<and> 0 < nats_ConnectTimeout n \<and> 0 < nats_ReconnectWait n \<and> 0 < nats_ReconnectBufSize n
     \<and> (nats_MaxReconnects n = - 1 \<or> 0 < nats_MaxReconnects n)"

definition kv_ok :: "KVConfig \<Rightarrow> bool" where
  "kv_ok k \<longleftrightarrow> \<not> is_blank (kv_Bucket k) \<and> TrimSpace (kv_Bucket k) = kv_Bucket k
     \<and> TrimSpace (kv_KeyPattern k) = kv_KeyPattern k \<and> kv_KeyPattern k \<noteq> []
     \<and> validateKeyPattern (kv_KeyPattern k) = None
     \<and> 1 \<le> unat (kv_History k) \<and> unat (kv_History k) \<le> 64
     \<and> 0 \<le> kv_TTL k \<and> 0 \<le> kv_MaxValueSize k \<and> 0 < kv_Replicas k
     \<and> (kv_Storage k = ''file'' \<or> kv_Storage k = ''memory'')"

definition config_ok :: "Config \<Rightarrow> bool" where
  "config_ok c \<longleftrightarrow> nats_ok (NATS c) \<and> 0 < js_DefaultTimeout (JetStream c) \<and> kv_ok (KV c)
     \<and> timeouts_ok (Timeouts c) \<and> 0 < rt_PublishAttempts (Retry c) \<and> 0 < rt_PublishBackoff (Retry c)"

text \<open>What the client library documents of its two constants.\<close>

definition consts_ok :: "nats_consts \<Rightarrow> bool" where
  "consts_ok nc \<longleftrightarrow> TrimSpace (DefaultURL nc) = DefaultURL nc \<and> DefaultURL nc \<noteq> []
     \<and> 0 < DefaultReconnectBufSize nc"

lemma or_default_simps [simp]:
  "or_default u d u = d"
  "x \<noteq> u \<Longrightarrow> or_default u d x = x"
  by (simp_all add: or_default_def)

lemma negativeChecks_accepts [validation_simps]:
  "negativeChecks c = None \<longleftrightarrow>
     0 \<le> nats_ConnectTimeout (NATS c) \<and> 0 \<le> nats_ReconnectWait (NATS c)
     \<and> - 1 \<le> nats_MaxReconnects (NATS c) \<and> 0 \<le> nats_ReconnectBufSize (NATS c)
     \<and> 0 \<le> js_DefaultTimeout (JetStream c)
     \<and> 0 \<le> to_PublishTimeout (Timeouts c) \<and> 0 \<le> to_SubscribeTimeout (Timeouts c)
     \<and> 0 \<le> to_KVTimeout (Timeouts c) \<and> 0 \<le> to_ShutdownTimeout (Timeouts c)
     \<and> 0 \<le> to_HandlerWarnAfter (Timeouts c)
     \<and> 0 \<le> rt_PublishAttempts (Retry c) \<and> 0 \<le> rt_PublishBackoff (Retry c)
     \<and> 0 \<le> kv_TTL (KV c) \<and> 0 \<le> kv_MaxValueSize (KV c) \<and> 0 \<le> kv_Replicas (KV c)"
  by (simp add: negativeChecks_def Let_def first_err_None_iff not_less)

lemma validateKeyPattern_accepts [validation_simps]:
  "validateKeyPattern p = None \<longleftrightarrow>
     \<not> ContainsAny p ascii_ws \<and> CountS p = 1 \<and> CHR ''%'' \<notin> set (RemoveS p)"
  by (simp add: validateKeyPattern_def first_err_None_iff Contains_def)

lemma defaultKVKey_valid: "validateKeyPattern defaultKVKey = None"
  by (simp add: validation_simps defaultKVKey_def ContainsAny_def ascii_ws_def CountS_def RemoveS_def)

lemma trimmed_default:
  assumes "TrimSpace d = d" and "d \<noteq> []"
  shows "TrimSpace (or_default [] d (TrimSpace s)) = or_default [] d (TrimSpace s)"
    and "\<not> is_blank (or_default [] d (TrimSpace s))" and "or_default [] d (TrimSpace s) \<noteq> []"
  using assms by (auto simp: or_default_def is_blank_def)

lemma default_trimmed [simp]:
  "TrimSpace defaultKVBucket = defaultKVBucket" "defaultKVBucket \<noteq> []"
  "TrimSpace defaultKVKey = defaultKVKey" "defaultKVKey \<noteq> []"
  by (simp_all add: defaultKVBucket_def defaultKVKey_def)

lemma normalizeServers_ok:
  assumes "consts_ok nc"
  shows "normalizeServers nc ss \<noteq> []"
    and "\<forall>s \<in> set (normalizeServers nc ss). \<not> is_blank s \<and> TrimSpace s = s"
  using assms by (auto simp: normalizeServers_def Let_def consts_ok_def is_blank_def)

lemma normalizeServers_id:
  assumes "ss \<noteq> []" and "\<forall>s \<in> set ss. \<not> is_blank s \<and> TrimSpace s = s"
  shows "normalizeServers nc ss = ss"
proof -
  have "map TrimSpace ss = ss" using assms(2) by (simp add: map_idI)
  moreover have "filter (\<lambda>s. s \<noteq> []) ss = ss" using assms(2) by (auto simp: filter_id_conv)
  ultimately show ?thesis using assms(1) by (simp add: normalizeServers_def)
qed

lemma history_bound: "\<not> maxSupportedHistory < h \<longleftrightarrow> unat h \<le> 64"
  by (simp add: maxSupportedHistory_def word_less_nat_alt not_less)

lemma history_nonzero: "1 \<le> unat (or_default 0 defaultKVHistory h)"
  by (cases "h = 0") (auto simp: defaultKVHistory_def Suc_le_eq unat_gt_0)

lemma normalizeKV_Inr:
  assumes "normalizeKV k = Inr k'"
  shows "k' = k\<lparr>kv_Bucket := or_default [] defaultKVBucket (TrimSpace (kv_Bucket k)),
           kv_KeyPattern := or_default [] defaultKVKey (TrimSpace (kv_KeyPattern k)),
           kv_History := or_default 0 defaultKVHistory (kv_History k),
           kv_Replicas := or_default 0 defaultKVReplicas (kv_Replicas k),
           kv_Storage := normalizeStorage (kv_Storage k)\<rparr>"
    and "validateKeyPattern (kv_KeyPattern k') = None" and "unat (kv_History k') \<le> 64"
    and "kv_Storage k' = ''file'' \<or> kv_Storage k' = ''memory''"
  using assms by (auto simp: normalizeKV_def Let_def first_err_None_iff history_bound)

lemma normalizeKV_ok:
  assumes "normalizeKV k = Inr k'" and "0 \<le> kv_TTL k" "0 \<le> kv_MaxValueSize k" "0 \<le> kv_Replicas k"
  shows "kv_ok k'"
proof -
  note r = normalizeKV_Inr [OF assms(1)]
  have "0 < or_default 0 defaultKVReplicas (kv_Replicas k)"
    using assms(4) by (cases "kv_Replicas k = 0") (simp_all add: defaultKVReplicas_def)
  then show ?thesis
    using r assms(2,3) history_nonzero [of "kv_History k"]
      trimmed_default [of defaultKVBucket "kv_Bucket k"]
      trimmed_default [of defaultKVKey "kv_KeyPattern k"]
    by (simp add: kv_ok_def)
qed

lemma storage_fixed: "s = ''file'' \<or> s = ''memory'' \<Longrightarrow> normalizeStorage s = s"
  by (auto simp: normalizeStorage_def lower_byte_def)

lemma normalizeKV_id:
  assumes "kv_ok k"
  shows "normalizeKV k = Inr k"
proof -
  have h: "kv_History k \<noteq> 0" "maxSupportedHistory < kv_History k \<longleftrightarrow> False"
    using assms history_bound [of "kv_History k"] by (auto simp: kv_ok_def)
  have s: "normalizeStorage (kv_Storage k) = kv_Storage k"
    using assms storage_fixed by (simp add: kv_ok_def)
  have st: "kv_Storage k \<noteq> ''file'' \<longrightarrow> kv_Storage k = ''memory''" using assms by (auto simp: kv_ok_def)
  have "kv_Bucket k \<noteq> []" using assms by (auto simp: kv_ok_def is_blank_def)
  then show ?thesis
    using assms st unfolding kv_ok_def
    by (simp add: normalizeKV_def Let_def h s first_err_None_iff)
qed

lemma or_default_pos: "0 < d \<Longrightarrow> (0::int) \<le> x \<Longrightarrow> 0 < or_default 0 d x"
  by (cases "x = 0") simp_all

lemma normalizeTimeouts_ok:
  "0 \<le> to_PublishTimeout t \<Longrightarrow> 0 \<le> to_SubscribeTimeout t \<Longrightarrow> 0 \<le> to_KVTimeout t \<Longrightarrow>
   0 \<le> to_ShutdownTimeout t \<Longrightarrow> 0 \<le> to_HandlerWarnAfter t \<Longrightarrow> timeouts_ok (normalizeTimeouts t)"
  by (simp add: timeouts_ok_def normalizeTimeouts_def or_default_pos default_value_defs)

lemma normalizeNATS_ok:
  assumes "consts_ok nc" and "0 \<le> nats_ConnectTimeout n" "0 \<le> nats_ReconnectWait n"
    "- 1 \<le> nats_MaxReconnects n" "0 \<le> nats_ReconnectBufSize n"
  shows "nats_ok (normalizeNATS nc n)"
proof -
  have "or_default 0 defaultMaxReconnects (nats_MaxReconnects n) = - 1
      \<or> 0 < or_default 0 defaultMaxReconnects (nats_MaxReconnects n)"
    using assms(4) by (cases "nats_MaxReconnects n = 0") (auto simp: defaultMaxReconnects_def)
  then show ?thesis
    using assms normalizeServers_ok [OF assms(1), of "nats_Servers n"]
    by (simp add: nats_ok_def normalizeNATS_def or_default_pos default_value_defs consts_ok_def)
qed

lemma normalizeConfig_ok:
  assumes "consts_ok nc" and "normalizeConfig nc cfg = Inr e"
  shows "config_ok (effective_Config e)"
proof -
  from assms(2) obtain k where k: "normalizeKV (KV cfg) = Inr k" "negativeChecks cfg = None"
    and e: "e = \<lparr>effective_Config = cfg\<lparr>NATS := normalizeNATS nc (NATS cfg),
       JetStream := (JetStream cfg)\<lparr>js_DefaultTimeout :=
         or_default 0 defaultJetStreamTimeout (js_DefaultTimeout (JetStream cfg))\<rparr>,
       KV := k, Timeouts := normalizeTimeouts (Timeouts cfg), Retry := normalizeRetry (Retry cfg)\<rparr>\<rparr>"
    by (auto simp: normalizeConfig_def)
  note neg = k(2) [unfolded negativeChecks_accepts]
  have "kv_ok k" using normalizeKV_ok [OF k(1)] neg by blast
  with e neg show ?thesis
    using normalizeNATS_ok [OF assms(1)] normalizeTimeouts_ok
    by (simp add: config_ok_def normalizeRetry_def or_default_pos default_value_defs)
qed

lemma normalizeConfig_id:
  assumes "config_ok c"
  shows "normalizeConfig nc c = Inr \<lparr>effective_Config = c\<rparr>"
proof -
  have n: "normalizeNATS nc (NATS c) = NATS c"
    using assms normalizeServers_id [of "nats_Servers (NATS c)" nc]
    by (auto simp: config_ok_def nats_ok_def normalizeNATS_def)
  have t: "normalizeTimeouts (Timeouts c) = Timeouts c"
    using assms by (simp add: config_ok_def timeouts_ok_def normalizeTimeouts_def)
  have r: "normalizeRetry (Retry c) = Retry c"
    using assms by (simp add: config_ok_def normalizeRetry_def)
  have k: "normalizeKV (KV c) = Inr (KV c)"
    using assms by (simp add: config_ok_def normalizeKV_id)
  have "negativeChecks c = None"
    using assms by (auto simp: negativeChecks_accepts config_ok_def nats_ok_def timeouts_ok_def kv_ok_def)
  with n t r k assms show ?thesis by (simp add: normalizeConfig_def config_ok_def)
qed

end
