(* ===== verification/Environment.thy ===== *)
theory Environment
  imports Session_Config "HOL-Library.State_Monad"
begin

text \<open>
  The world outside the program.  NATS, JetStream, the operating system, the caller's contexts and
  the caller's hooks are not code of this repository: they are fields of environment records, each
  a function of the world \<open>'w\<close> that returns its answer and the world afterwards, so a statement
  about the program holds for every behaviour of them.  What the program does to the outside is
  appended to a trace of calls.  Stateful code is written in the state monad over a state that
  holds the trace and the world; the components extend it with their own fields.
\<close>

subsection \<open>Contexts and handles\<close>

text \<open>
  Instants are nanoseconds of the process clock.  A caller's context has a number and, possibly, a
  deadline; \<open>context.WithTimeout\<close> and \<open>context.WithCancel\<close> derive new ones.
\<close>

datatype ctx =
    Background | CallerCtx nat "int option" | WithDeadline ctx int | WithCancel ctx nat

fun Deadline :: "ctx \<Rightarrow> int option" where
  "Deadline Background = None"
| "Deadline (CallerCtx i d) = d"
| "Deadline (WithDeadline c d) = (case Deadline c of None \<Rightarrow> Some d | Some d' \<Rightarrow> Some (min d d'))"
| "Deadline (WithCancel c i) = Deadline c"

type_synonym conn = nat
type_synonym js = nat
type_synonym kv_handle = nat
type_synonym watcher = nat

datatype conn_status = DISCONNECTED | CONNECTED | CLOSED | RECONNECTING | CONNECTING | DRAINING

text \<open>The outcome of a \<open>select\<close> between the result of a goroutine and \<open>ctx.Done()\<close>: the goroutine
  finished first, or the context ended first and the goroutine finishes later.\<close>

datatype 'r race = Finished 'r | Expired goerr 'r

subsection \<open>Values handed to the client library\<close>

record tls_config =
  tlsc_MinVersion :: nat
  tlsc_InsecureSkipVerify :: bool
  tlsc_ServerName :: string
  tlsc_RootCAs :: "string option"
  tlsc_Certificates :: "nat list"

datatype nats_option =
    Timeout duration | RetryOnFailedConnect bool | MaxReconnects int | ReconnectWait duration
  | ReconnectBufSize int | DisconnectErrHandler | ReconnectHandler | ClosedHandler | ErrorHandler
  | Name string | UserCredentials string "string option" | NkeyOption nat
  | UserInfo string string | Token string | Secure tls_config

datatype js_mode = Plain | InDomain string | UnderPrefix string

datatype storage_type = FileStorage | MemoryStorage

record KeyValueConfig =
  kvc_Bucket :: string
  kvc_History :: "8 word"
  kvc_TTL :: duration
  kvc_MaxValueSize :: int
  kvc_Replicas :: int
  kvc_Storage :: storage_type

record kv_entry =
  kve_Bucket :: string
  kve_Key :: string
  kve_Value :: string
  kve_Revision :: "64 word"
  kve_Created :: gotime

text \<open>The message a user handler is called with.\<close>

datatype message =
    MConfigure ConfigureNotification | MAction ActionCommand | MResult ResultEnvelope
  | MStatus StatusEnvelope | MDesired StoredDesiredConfig

text \<open>What a call of user code does: it returns nil or an error, or it panics with a value that
  prints as the given text.\<close>

datatype handler_outcome = HReturn "goerr option" | HPanic string

text \<open>Which channel the \<open>select\<close> of \<open>waitForWatchReady\<close> (\<open>internal/kv/watch.go\<close>) saw closed.\<close>

datatype ready_outcome = ReadyClosed | DoneClosed | WaitExpired goerr

subsection \<open>The trace\<close>

datatype log_level = Debug | Info | Warn | ErrorLevel

datatype log_value = LStr string | LErr goerr

datatype call =
    Connect string "nats_option list" "conn result race"
  | CloseConn conn
  | Drain conn
  | NewJS conn js_mode duration
  | JsKeyValue js string
  | JsCreateKeyValue js KeyValueConfig
  | KvPut kv_handle string string "64 word result"
  | KvGet kv_handle string "kv_entry result"
  | KvWatch kv_handle string "watcher result"
  | AwaitReady ready_outcome
  | WatcherStop watcher
  | Cancel ctx
  | NcPublish conn string string "goerr option"
  | NcFlush conn ctx "goerr option"
  | NcSubscribe conn string "string option" msg_handler "sub result"
  | NcFlushTimeout conn duration "goerr option"
  | Unsubscribe sub "goerr option"
  | RunHandler nat ctx message handler_outcome
  | RunReconnectHandler nat
  | IncConnect string
  | SetConnectionState string
  | IncPublish string string string
  | ObservePublishLatency string string duration
  | IncSubscribe string string string
  | Log log_level string "(string \<times> log_value) list"
  | ErrorSink goerr

record 'w world =
  calls :: "call list"
  ext :: 'w

definition ask :: "('w \<Rightarrow> 'r \<times> 'w) \<Rightarrow> (('w, 'm) world_scheme, 'r) state" where
  "ask f = State (\<lambda>s. case f (ext s) of (r, x) \<Rightarrow> (r, s\<lparr>ext := x\<rparr>))"

definition emit :: "call \<Rightarrow> (('w, 'm) world_scheme, unit) state" where
  "emit c = State (\<lambda>s. ((), s\<lparr>calls := calls s @ [c]\<rparr>))"

text \<open>A call whose answer is part of the trace, and one whose answer is not.\<close>

definition ask_log :: "('w \<Rightarrow> 'r \<times> 'w) \<Rightarrow> ('r \<Rightarrow> call) \<Rightarrow> (('w, 'm) world_scheme, 'r) state" where
  "ask_log f c = State (\<lambda>s. case f (ext s) of (r, x) \<Rightarrow> (r, s\<lparr>ext := x, calls := calls s @ [c r]\<rparr>))"

definition gets :: "('s \<Rightarrow> 'a) \<Rightarrow> ('s, 'a) state" where
  "gets f = State (\<lambda>s. (f s, s))"

definition modify :: "('s \<Rightarrow> 's) \<Rightarrow> ('s, unit) state" where
  "modify f = State (\<lambda>s. ((), f s))"

abbreviation return :: "'a \<Rightarrow> ('s, 'a) state" where
  "return \<equiv> State_Monad.return"

definition only_if :: "bool \<Rightarrow> ('s, unit) state \<Rightarrow> ('s, unit) state" where
  "only_if b m = (if b then m else return ())"

subsection \<open>Weakest preconditions\<close>

text \<open>
  \<open>wp m Q s\<close>: running \<open>m\<close> in \<open>s\<close> ends with a result and a state that satisfy \<open>Q\<close>.  The rules are
  equations, so \<open>simp\<close> with the collection \<open>wp_simps\<close> turns a program into its verification
  condition; a sub-program with a contract of its own is passed over with \<open>wp_mono\<close>.
\<close>

named_theorems wp_simps

definition wp :: "('s, 'a) state \<Rightarrow> ('a \<Rightarrow> 's \<Rightarrow> bool) \<Rightarrow> 's \<Rightarrow> bool" where
  "wp m Q s \<longleftrightarrow> (case run_state m s of (r, s') \<Rightarrow> Q r s')"

lemma wp_return [wp_simps]: "wp (return x) Q s \<longleftrightarrow> Q x s"
  by (simp add: wp_def)

lemma wp_bind [wp_simps]: "wp (State_Monad.bind m f) Q s \<longleftrightarrow> wp m (\<lambda>x. wp (f x) Q) s"
  by (simp add: wp_def split: prod.splits)

lemma wp_ask [wp_simps]: "wp (ask f) Q s \<longleftrightarrow> Q (fst (f (ext s))) (s\<lparr>ext := snd (f (ext s))\<rparr>)"
  by (simp add: wp_def ask_def split: prod.splits)

lemma wp_ask_log [wp_simps]:
  "wp (ask_log f c) Q s \<longleftrightarrow>
     Q (fst (f (ext s))) (s\<lparr>ext := snd (f (ext s)), calls := calls s @ [c (fst (f (ext s)))]\<rparr>)"
  by (simp add: wp_def ask_log_def split: prod.splits)

lemma wp_emit [wp_simps]: "wp (emit c) Q s \<longleftrightarrow> Q () (s\<lparr>calls := calls s @ [c]\<rparr>)"
  by (simp add: wp_def emit_def)

lemma wp_gets [wp_simps]: "wp (gets f) Q s \<longleftrightarrow> Q (f s) s"
  by (simp add: wp_def gets_def)

lemma wp_modify [wp_simps]: "wp (modify f) Q s \<longleftrightarrow> Q () (f s)"
  by (simp add: wp_def modify_def)

lemma wp_if [wp_simps]: "wp (if b then m else n) Q s \<longleftrightarrow> (if b then wp m Q s else wp n Q s)"
  by simp

lemma wp_only_if [wp_simps]: "wp (only_if b m) Q s \<longleftrightarrow> (if b then wp m Q s else Q () s)"
  by (simp add: only_if_def wp_return)

lemma wp_option [wp_simps]:
  "wp (case x of None \<Rightarrow> m | Some y \<Rightarrow> f y) Q s \<longleftrightarrow>
     (case x of None \<Rightarrow> wp m Q s | Some y \<Rightarrow> wp (f y) Q s)"
  by (cases x) simp_all

lemma wp_sum [wp_simps]:
  "wp (case x of Inl e \<Rightarrow> f e | Inr y \<Rightarrow> g y) Q s \<longleftrightarrow>
     (case x of Inl e \<Rightarrow> wp (f e) Q s | Inr y \<Rightarrow> wp (g y) Q s)"
  by (cases x) simp_all

lemma wp_race [wp_simps]:
  "wp (case x of Finished r \<Rightarrow> f r | Expired e r \<Rightarrow> g e r) Q s \<longleftrightarrow>
     (case x of Finished r \<Rightarrow> wp (f r) Q s | Expired e r \<Rightarrow> wp (g e r) Q s)"
  by (cases x) simp_all

lemma wp_prod [wp_simps]:
  "wp (case x of (a, b) \<Rightarrow> f a b) Q s \<longleftrightarrow> (case x of (a, b) \<Rightarrow> wp (f a b) Q s)"
  by (cases x) simp

lemma wp_Let [wp_simps]: "wp (let x = e in f x) Q s \<longleftrightarrow> (let x = e in wp (f x) Q s)"
  by (simp add: Let_def)

text \<open>The same rules for a program whose state argument is still missing, as after eta-contraction.\<close>

lemma wp_fun_return: "wp (return x) Q = Q x"
  by (simp add: fun_eq_iff wp_return)

lemma wp_fun_bind: "wp (State_Monad.bind m f) Q = wp m (\<lambda>x. wp (f x) Q)"
  by (simp add: fun_eq_iff wp_bind)

lemma wp_fun_if: "wp (if b then m else n) Q = (if b then wp m Q else wp n Q)"
  by simp

lemma wp_fun_option:
  "wp (case x of None \<Rightarrow> m | Some y \<Rightarrow> f y) Q = (case x of None \<Rightarrow> wp m Q | Some y \<Rightarrow> wp (f y) Q)"
  by (cases x) simp_all

lemma wp_fun_sum:
  "wp (case x of Inl e \<Rightarrow> f e | Inr y \<Rightarrow> g y) Q = (case x of Inl e \<Rightarrow> wp (f e) Q | Inr y \<Rightarrow> wp (g y) Q)"
  by (cases x) simp_all

lemmas wp_fun = wp_fun_return wp_fun_bind wp_fun_if wp_fun_option wp_fun_sum

lemma wp_mono: "wp m P s \<Longrightarrow> (\<And>r s'. P r s' \<Longrightarrow> Q r s') \<Longrightarrow> wp m Q s"
  by (auto simp: wp_def)

lemma wp_conj: "wp m (\<lambda>r s'. P r s' \<and> Q r s') s \<longleftrightarrow> wp m P s \<and> wp m Q s"
  by (auto simp: wp_def)

lemma wp_True [simp]: "wp m (\<lambda>r s'. True) s"
  by (simp add: wp_def split: prod.splits)

lemma wpI: "(\<And>r s'. run_state m s = (r, s') \<Longrightarrow> Q r s') \<Longrightarrow> wp m Q s"
  by (simp add: wp_def split: prod.splits)

lemma wpD: "wp m Q s \<Longrightarrow> run_state m s = (r, s') \<Longrightarrow> Q r s'"
  by (simp add: wp_def)

subsection \<open>The environment of a session\<close>

record 'w session_env =
  env_now :: "'w \<Rightarrow> int \<times> 'w"
  env_ctx_err :: "ctx \<Rightarrow> 'w \<Rightarrow> goerr option \<times> 'w"
  env_connect :: "string \<Rightarrow> nats_option list \<Rightarrow> ctx \<Rightarrow> 'w \<Rightarrow> conn result race \<times> 'w"
  env_status :: "conn \<Rightarrow> 'w \<Rightarrow> conn_status \<times> 'w"
  env_connected_url :: "conn \<Rightarrow> 'w \<Rightarrow> string \<times> 'w"
  env_close :: "conn \<Rightarrow> 'w \<Rightarrow> unit \<times> 'w"
  env_drain :: "conn \<Rightarrow> ctx \<Rightarrow> 'w \<Rightarrow> goerr option race \<times> 'w"
  env_wait_start :: "ctx \<Rightarrow> 'w \<Rightarrow> unit race \<times> 'w"
  env_new_js :: "js_mode \<Rightarrow> conn \<Rightarrow> duration \<Rightarrow> 'w \<Rightarrow> js result \<times> 'w"
  env_bind_kv :: "ctx \<Rightarrow> js \<Rightarrow> string \<Rightarrow> 'w \<Rightarrow> kv_handle result \<times> 'w"
  env_create_kv :: "ctx \<Rightarrow> js \<Rightarrow> KeyValueConfig \<Rightarrow> 'w \<Rightarrow> kv_handle result \<times> 'w"
  env_read_file :: "string \<Rightarrow> 'w \<Rightarrow> string result \<times> 'w"
  env_append_certs :: "string \<Rightarrow> bool"
  env_load_key_pair :: "string \<Rightarrow> string \<Rightarrow> 'w \<Rightarrow> nat result \<times> 'w"
  env_nkey_option :: "string \<Rightarrow> 'w \<Rightarrow> nat result \<times> 'w"
  env_hook :: "call \<Rightarrow> 'w \<Rightarrow> 'w"

text \<open>The hooks return nothing; calling one may still change the world.\<close>

definition hook :: "('w, 'e) session_env_scheme \<Rightarrow> call \<Rightarrow> (('w, 'm) world_scheme, unit) state" where
  "hook env c = ask_log (\<lambda>x. ((), env_hook env c x)) (\<lambda>_. c)"

text \<open>\<open>ctx.Err()\<close>: the background context never ends.\<close>

definition ctx_Err :: "('w, 'e) session_env_scheme \<Rightarrow> ctx \<Rightarrow> (('w, 'm) world_scheme, goerr option) state" where
  "ctx_Err env c = (if c = Background then return None else ask (env_ctx_err env c))"

definition WithTimeout :: "('w, 'e) session_env_scheme \<Rightarrow> ctx \<Rightarrow> duration \<Rightarrow> (('w, 'm) world_scheme, ctx) state" where
  "WithTimeout env c d = do {
     now \<leftarrow> ask (env_now env);
     return (WithDeadline c (now + d))
   }"

text \<open>
  The \<open>withTimeout\<close> of \<open>internal/kv\<close>, \<open>publishContext\<close> and \<open>withKVTimeout\<close> share one shape: a
  context that has a deadline is kept, any other gets one.
\<close>

lemma Deadline_WithDeadline [simp]: "Deadline (WithDeadline c d) \<noteq> None"
  by (simp split: option.splits)

lemma wp_ctx_Err [wp_simps]:
  "wp (ctx_Err env c) Q s \<longleftrightarrow>
     (if c = Background then Q None s
      else Q (fst (env_ctx_err env c (ext s))) (s\<lparr>ext := snd (env_ctx_err env c (ext s))\<rparr>))"
  by (simp add: ctx_Err_def wp_simps)

lemma wp_hook [wp_simps]:
  "wp (hook env c) Q s \<longleftrightarrow> Q () (s\<lparr>ext := env_hook env c (ext s), calls := calls s @ [c]\<rparr>)"
  by (simp add: hook_def wp_simps)

lemma wp_WithTimeout [wp_simps]:
  "wp (WithTimeout env c d) Q s \<longleftrightarrow>
     Q (WithDeadline c (fst (env_now env (ext s)) + d)) (s\<lparr>ext := snd (env_now env (ext s))\<rparr>)"
  by (simp add: WithTimeout_def wp_simps)

subsection \<open>What a call leaves alone\<close>

text \<open>
  A relation between the state before and after a call that says what the call must not touch; it
  never depends on the trace or the world, which every call may extend or consult.
\<close>

locale world_frame =
  fixes keeps :: "('w, 'm) world_scheme \<Rightarrow> ('w, 'm) world_scheme \<Rightarrow> bool"
  assumes keeps_refl: "keeps s s"
    and keeps_trans: "keeps s t \<Longrightarrow> keeps t u \<Longrightarrow> keeps s u"
    and keeps_calls: "keeps s (s\<lparr>calls := cs\<rparr>)"
    and keeps_ext: "keeps s (s\<lparr>ext := x\<rparr>)"
begin

lemma keeps_upd:
  "keeps s t \<Longrightarrow> keeps s (t\<lparr>calls := cs\<rparr>)" "keeps s t \<Longrightarrow> keeps s (t\<lparr>ext := x\<rparr>)"
  using keeps_trans keeps_calls keeps_ext by blast+

end

end
