(* ===== verification/Session.thy ===== *)
theory Session
  imports Environment
begin

text \<open>
  \<open>internal/session\<close>: the manager that owns the NATS connection, the JetStream and KV handles and
  the health snapshot (\<open>session.go\<close>, \<open>health.go\<close>, \<open>callbacks.go\<close>).  Every critical section of the
  mutex \<open>mu\<close> is one definition, the exported operations are composed of them the way the code
  composes them, and the same sections are the steps of the interleaving model at the end.
\<close>

subsection \<open>State\<close>

datatype ConnectionState =
    StateNew | StateConnecting | StateConnected | StateReconnecting | StateDraining | StateClosed
  | StateDegraded

fun state_text :: "ConnectionState \<Rightarrow> string" where
  "state_text StateNew = ''new''"
| "state_text StateConnecting = ''connecting''"
| "state_text StateConnected = ''connected''"
| "state_text StateReconnecting = ''reconnecting''"
| "state_text StateDraining = ''draining''"
| "state_text StateClosed = ''closed''"
| "state_text StateDegraded = ''degraded''"

record HealthSnapshot =
  hs_State :: ConnectionState
  hs_ConnectedURL :: string
  hs_JetStreamReady :: bool
  hs_KVReady :: bool
  hs_RegisteredSubscriptions :: nat
  hs_ActiveSubscriptions :: nat
  hs_LastError :: string

text \<open>A hook is present or nil; the two callbacks set by the client are known by a number.\<close>

record Hooks =
  hk_Logger :: bool
  hk_Metrics :: bool
  hk_ErrorSink :: bool
  hk_OnReconnected :: "nat option"
  hk_OnClosed :: "nat option"

text \<open>The channel \<open>startDone\<close> is known by a number, drawn from a counter where the code allocates it.\<close>

record Manager =
  m_cfg :: Config
  m_effective :: EffectiveConfig
  m_hooks :: Hooks
  m_nc :: "conn option"
  m_js :: "js option"
  m_kv :: "kv_handle option"
  m_health :: HealthSnapshot
  m_starting :: bool
  m_startDone :: "nat option"
  m_chans :: nat
  m_closing :: bool
  m_closeRequested :: bool

record 'w session = "'w world" +
  manager :: Manager

type_synonym ('w, 'm, 'a) session_op = "(('w, 'm) session_scheme, 'a) state"

definition NewManager :: "nats_consts \<Rightarrow> Config \<Rightarrow> Hooks \<Rightarrow> Manager result" where
  "NewManager consts cfg hooks =
     try_bind (normalizeConfig consts cfg) (\<lambda>effective.
       Inr \<lparr>m_cfg = cfg, m_effective = effective, m_hooks = hooks,
            m_nc = None, m_js = None, m_kv = None,
            m_health = \<lparr>hs_State = StateNew, hs_ConnectedURL = [], hs_JetStreamReady = False,
              hs_KVReady = False, hs_RegisteredSubscriptions = 0, hs_ActiveSubscriptions = 0,
              hs_LastError = []\<rparr>,
            m_starting = False, m_startDone = None, m_chans = 0,
            m_closing = False, m_closeRequested = False\<rparr>)"

definition m_EffectiveConfig :: "Manager \<Rightarrow> Config" where
  "m_EffectiveConfig m = effective_Config (m_effective m)"

definition DesiredConfigBucket :: "Manager \<Rightarrow> string" where
  "DesiredConfigBucket m = kv_Bucket (KV (m_EffectiveConfig m))"

definition DesiredConfigKeyPattern :: "Manager \<Rightarrow> string" where
  "DesiredConfigKeyPattern m = kv_KeyPattern (KV (m_EffectiveConfig m))"

definition KVTimeout :: "Manager \<Rightarrow> duration" where
  "KVTimeout m = to_KVTimeout (Timeouts (m_EffectiveConfig m))"

definition SubscribeTimeout :: "Manager \<Rightarrow> duration" where
  "SubscribeTimeout m = to_SubscribeTimeout (Timeouts (m_EffectiveConfig m))"

definition SetSubscriptionCounts :: "nat \<Rightarrow> nat \<Rightarrow> Manager \<Rightarrow> Manager" where
  "SetSubscriptionCounts registered active m = m\<lparr>m_health := (m_health m)\<lparr>
     hs_RegisteredSubscriptions := registered, hs_ActiveSubscriptions := active\<rparr>\<rparr>"

definition SetReconnectHandler :: "nat option \<Rightarrow> Manager \<Rightarrow> Manager" where
  "SetReconnectHandler fn m = m\<lparr>m_hooks := (m_hooks m)\<lparr>hk_OnReconnected := fn\<rparr>\<rparr>"

definition SetClosedHandler :: "nat option \<Rightarrow> Manager \<Rightarrow> Manager" where
  "SetClosedHandler fn m = m\<lparr>m_hooks := (m_hooks m)\<lparr>hk_OnClosed := fn\<rparr>\<rparr>"

definition modify_manager :: "(Manager \<Rightarrow> Manager) \<Rightarrow> ('w, 'm, unit) session_op" where
  "modify_manager f = modify (\<lambda>s. s\<lparr>manager := f (manager s)\<rparr>)"

lemma wp_modify_manager [wp_simps]:
  "wp (modify_manager f) Q s \<longleftrightarrow> Q () (s\<lparr>manager := f (manager s)\<rparr>)"
  by (simp add: modify_manager_def wp_simps)

subsection \<open>Health (\<open>health.go\<close>)\<close>

definition metric :: "('w, 'e) session_env_scheme \<Rightarrow> call \<Rightarrow> ('w, 'm, unit) session_op" where
  "metric env c = do {
     m \<leftarrow> gets manager;
     only_if (hk_Metrics (m_hooks m)) (hook env c)
   }"

definition update_health :: "(HealthSnapshot \<Rightarrow> HealthSnapshot) \<Rightarrow> Manager \<Rightarrow> Manager" where
  "update_health f m = m\<lparr>m_health := f (m_health m)\<rparr>"

definition setStateLocked :: "('w, 'e) session_env_scheme \<Rightarrow> ConnectionState \<Rightarrow> ('w, 'm, unit) session_op" where
  "setStateLocked env st = do {
     modify_manager (update_health (\<lambda>h. h\<lparr>hs_State := st\<rparr>));
     metric env (SetConnectionState (state_text st))
   }"

definition setConnectedLocked :: "('w, 'e) session_env_scheme \<Rightarrow> string \<Rightarrow> bool \<Rightarrow> bool \<Rightarrow> ('w, 'm, unit) session_op" where
  "setConnectedLocked env connectedURL jsReady kvReady = do {
     modify_manager (update_health (\<lambda>h. h\<lparr>hs_ConnectedURL := connectedURL,
       hs_JetStreamReady := jsReady, hs_KVReady := kvReady, hs_LastError := []\<rparr>));
     if jsReady \<and> kvReady then setStateLocked env StateConnected
     else setStateLocked env StateDegraded
   }"

definition note_error :: "goerr option \<Rightarrow> HealthSnapshot \<Rightarrow> HealthSnapshot" where
  "note_error lastError h = (case lastError of None \<Rightarrow> h | Some e \<Rightarrow> h\<lparr>hs_LastError := Error e\<rparr>)"

definition setReconnectingLocked :: "('w, 'e) session_env_scheme \<Rightarrow> goerr option \<Rightarrow> ('w, 'm, unit) session_op" where
  "setReconnectingLocked env lastError = do {
     modify_manager (update_health (\<lambda>h. note_error lastError
       (h\<lparr>hs_JetStreamReady := False, hs_KVReady := False\<rparr>)));
     setStateLocked env StateReconnecting
   }"

definition setDegradedLocked :: "('w, 'e) session_env_scheme \<Rightarrow> goerr option \<Rightarrow> ('w, 'm, unit) session_op" where
  "setDegradedLocked env lastError = do {
     modify_manager (update_health (\<lambda>h. note_error lastError
       (h\<lparr>hs_JetStreamReady := False, hs_KVReady := False\<rparr>)));
     setStateLocked env StateDegraded
   }"

definition setClosedLocked :: "('w, 'e) session_env_scheme \<Rightarrow> goerr option \<Rightarrow> ('w, 'm, unit) session_op" where
  "setClosedLocked env lastError = do {
     modify_manager (update_health (\<lambda>h. note_error lastError
       (h\<lparr>hs_ConnectedURL := [], hs_JetStreamReady := False, hs_KVReady := False\<rparr>)));
     setStateLocked env StateClosed
   }"

lemmas health_setter_defs =
  setStateLocked_def setConnectedLocked_def setReconnectingLocked_def setDegradedLocked_def
  setClosedLocked_def metric_def

subsection \<open>Reading the handles\<close>

definition notConnected :: "string \<Rightarrow> goerr" where
  "notConnected op = RuntimeErr RtDisconnected op [] [] ''client runtime is not connected'' True None"

definition Connection :: "('w, 'e) session_env_scheme \<Rightarrow> ('w, 'm, conn result) session_op" where
  "Connection env = do {
     m \<leftarrow> gets manager;
     case m_nc m of
       None \<Rightarrow> return (Inl (notConnected ''connection''))
     | Some nc \<Rightarrow> do {
         st \<leftarrow> ask (env_status env nc);
         if st \<noteq> CONNECTED then return (Inl (notConnected ''connection''))
         else return (Inr nc)
       }
   }"

definition KeyValue :: "('w, 'e) session_env_scheme \<Rightarrow> ('w, 'm, kv_handle result) session_op" where
  "KeyValue env = do {
     m \<leftarrow> gets manager;
     case m_nc m of
       None \<Rightarrow> return (Inl (notConnected ''key_value''))
     | Some nc \<Rightarrow> do {
         st \<leftarrow> ask (env_status env nc);
         if st \<noteq> CONNECTED then return (Inl (notConnected ''key_value''))
         else (case m_kv m of
                 None \<Rightarrow> return (Inl (notConnected ''key_value''))
               | Some h \<Rightarrow> return (Inr h))
       }
   }"

subsection \<open>Connection options (\<open>session.go\<close>)\<close>

definition clampConnectTimeout :: "('w, 'e) session_env_scheme \<Rightarrow> ctx \<Rightarrow> duration \<Rightarrow> ('w, 'm, duration result) session_op" where
  "clampConnectTimeout env c configured = (case Deadline c of
       None \<Rightarrow> return (Inr configured)
     | Some deadline \<Rightarrow> do {
         now \<leftarrow> ask (env_now env);
         let remaining = deadline - now;
         return (if remaining \<le> 0
                 then Inl (SentinelErr CtxDeadlineExceeded ''context deadline exceeded'')
                 else if configured \<le> 0 \<or> remaining < configured then Inr remaining
                 else Inr configured)
       })"

text \<open>A fallible step that ends the function when it fails.\<close>

definition try_then :: "('s, 'a result) state \<Rightarrow> ('a \<Rightarrow> ('s, 'b result) state) \<Rightarrow> ('s, 'b result) state" where
  "try_then m f = do { r \<leftarrow> m; case r of Inl e \<Rightarrow> return (Inl e) | Inr x \<Rightarrow> f x }"

lemma wp_try_then [wp_simps]:
  "wp (try_then m f) Q s \<longleftrightarrow>
     wp m (\<lambda>r s'. case r of Inl e \<Rightarrow> Q (Inl e) s' | Inr x \<Rightarrow> wp (f x) Q s') s"
  by (auto simp: try_then_def wp_def split: prod.splits sum.splits)

definition VersionTLS12 :: nat where "VersionTLS12 = 0x0303"

definition tls_roots :: "('w, 'e) session_env_scheme \<Rightarrow> TLSConfig \<Rightarrow> ('w, 'm, string option result) session_op" where
  "tls_roots env cfg =
     (if is_blank (tls_CAFile cfg) then return (Inr None)
      else do {
        r \<leftarrow> ask (env_read_file env (tls_CAFile cfg));
        return (case r of
            Inl err \<Rightarrow> Inl (WrapErr ''read tls ca file: '' err)
          | Inr caPEM \<Rightarrow>
              (if env_append_certs env caPEM then Inr (Some caPEM)
               else Inl (PlainErr ''tls ca file contains no valid certificates'')))
      })"

definition tls_certs :: "('w, 'e) session_env_scheme \<Rightarrow> TLSConfig \<Rightarrow> ('w, 'm, nat list result) session_op" where
  "tls_certs env cfg =
     (let certFile = TrimSpace (tls_CertFile cfg); keyFile = TrimSpace (tls_KeyFile cfg) in
      if certFile \<noteq> [] \<or> keyFile \<noteq> [] then
        (if certFile = [] \<or> keyFile = [] then return (Inl (PlainErr
           ''both tls cert_file and key_file are required when configuring client certificates''))
         else do {
           r \<leftarrow> ask (env_load_key_pair env certFile keyFile);
           return (case r of Inl err \<Rightarrow> Inl (WrapErr ''load tls client cert/key: '' err)
                   | Inr cert \<Rightarrow> Inr [cert])
         })
      else return (Inr []))"

definition buildTLSConfig :: "('w, 'e) session_env_scheme \<Rightarrow> TLSConfig option \<Rightarrow> ('w, 'm, tls_config option result) session_op" where
  "buildTLSConfig env co = (case co of
       None \<Rightarrow> return (Inr None)
     | Some cfg \<Rightarrow>
        (if \<not> tls_Enabled cfg then return (Inr None)
         else try_then (tls_roots env cfg) (\<lambda>roots.
              try_then (tls_certs env cfg) (\<lambda>certs.
              return (Inr (Some
                \<lparr>tlsc_MinVersion = VersionTLS12,
                 tlsc_InsecureSkipVerify = tls_InsecureSkipVerify cfg,
                 tlsc_ServerName = tls_ServerName cfg,
                 tlsc_RootCAs = roots, tlsc_Certificates = certs\<rparr>))))))"

text \<open>The first credential that is configured wins.\<close>

definition auth_options :: "('w, 'e) session_env_scheme \<Rightarrow> NATSConfig \<Rightarrow> ('w, 'm, nats_option list result) session_op" where
  "auth_options env ncfg =
     (if \<not> is_blank (nats_CredentialsFile ncfg)
      then return (Inr [UserCredentials (nats_CredentialsFile ncfg) None])
      else if \<not> is_blank (nats_UserJWTFile ncfg) \<and> \<not> is_blank (nats_NKeySeedFile ncfg)
      then return (Inr [UserCredentials (nats_UserJWTFile ncfg) (Some (nats_NKeySeedFile ncfg))])
      else if \<not> is_blank (nats_NKeySeedFile ncfg)
      then try_then (ask (env_nkey_option env (nats_NKeySeedFile ncfg)))
             (\<lambda>opt. return (Inr [NkeyOption opt]))
      else if \<not> is_blank (nats_Username ncfg) \<or> \<not> is_blank (nats_Password ncfg)
      then return (Inr [UserInfo (nats_Username ncfg) (nats_Password ncfg)])
      else if \<not> is_blank (nats_Token ncfg) then return (Inr [Token (nats_Token ncfg)])
      else return (Inr []))"

definition base_options :: "Config \<Rightarrow> duration \<Rightarrow> nats_option list" where
  "base_options cfg connectTimeout =
     (let ncfg = NATS cfg;
          clientName = or_default [] (TrimSpace (AgentName cfg)) (TrimSpace (nats_ClientName ncfg))
      in [Timeout connectTimeout, RetryOnFailedConnect (nats_RetryOnFailedConnect ncfg),
          MaxReconnects (nats_MaxReconnects ncfg), ReconnectWait (nats_ReconnectWait ncfg),
          ReconnectBufSize (nats_ReconnectBufSize ncfg), DisconnectErrHandler, ReconnectHandler,
          ClosedHandler, ErrorHandler]
         @ (if clientName \<noteq> [] then [Name clientName] else []))"

definition buildNATSOptions :: "('w, 'e) session_env_scheme \<Rightarrow> duration \<Rightarrow> ('w, 'm, nats_option list result) session_op" where
  "buildNATSOptions env connectTimeout = do {
     m \<leftarrow> gets manager;
     let cfg = m_EffectiveConfig m;
     try_then (auth_options env (NATS cfg)) (\<lambda>auth.
       try_then (buildTLSConfig env (nats_TLS (NATS cfg))) (\<lambda>tls.
         return (Inr (base_options cfg connectTimeout @ auth
           @ (case tls of None \<Rightarrow> [] | Some t \<Rightarrow> [Secure t])))))
   }"

definition closeConn :: "('w, 'e) session_env_scheme \<Rightarrow> conn \<Rightarrow> ('w, 'm, unit) session_op" where
  "closeConn env nc = ask_log (env_close env nc) (\<lambda>_. CloseConn nc)"

text \<open>
  \<open>connectNATS\<close>: a connection that arrives after the caller's context ended is closed by the
  goroutine that waits for it; here that happens at once.
\<close>

definition dial :: "('w, 'e) session_env_scheme \<Rightarrow> ctx \<Rightarrow> string \<Rightarrow> nats_option list \<Rightarrow> ('w, 'm, conn result) session_op" where
  "dial env c servers opts = do {
     r \<leftarrow> ask_log (env_connect env servers opts c) (Connect servers opts);
     case r of
       Finished result \<Rightarrow> return result
     | Expired err late \<Rightarrow> do {
         (case late of Inl e \<Rightarrow> return () | Inr nc \<Rightarrow> closeConn env nc);
         return (Inl err)
       }
   }"

definition connectNATS :: "('w, 'e) session_env_scheme \<Rightarrow> ctx \<Rightarrow> ('w, 'm, conn result) session_op" where
  "connectNATS env c = do {
     m \<leftarrow> gets manager;
     let ncfg = NATS (m_EffectiveConfig m);
     try_then (clampConnectTimeout env c (nats_ConnectTimeout ncfg)) (\<lambda>timeout.
       try_then (buildNATSOptions env timeout)
         (dial env c (glue '','' (nats_Servers ncfg))))
   }"

subsection \<open>JetStream and the bucket\<close>

definition js_mode_of :: "JetStreamConfig \<Rightarrow> js_mode" where
  "js_mode_of cfg =
     (if \<not> is_blank (js_Domain cfg) then InDomain (TrimSpace (js_Domain cfg))
      else if \<not> is_blank (js_APIPrefix cfg) then UnderPrefix (TrimSpace (js_APIPrefix cfg))
      else Plain)"

definition newJetStream :: "('w, 'e) session_env_scheme \<Rightarrow> conn \<Rightarrow> ('w, 'm, js result) session_op" where
  "newJetStream env nc = do {
     m \<leftarrow> gets manager;
     let cfg = JetStream (m_EffectiveConfig m);
     ask_log (env_new_js env (js_mode_of cfg) nc (js_DefaultTimeout cfg))
       (\<lambda>_. NewJS nc (js_mode_of cfg) (js_DefaultTimeout cfg))
   }"

definition isBucketNotFound :: "goerr \<Rightarrow> bool" where
  "isBucketNotFound err \<longleftrightarrow> is_sentinel NatsBucketNotFound err
     \<or> contains_str ''bucket not found'' (ToLower (Error err))
     \<or> contains_str ''stream not found'' (ToLower (Error err))"

definition bucketConfig :: "KVConfig \<Rightarrow> KeyValueConfig" where
  "bucketConfig k =
     \<lparr>kvc_Bucket = kv_Bucket k, kvc_History = kv_History k, kvc_TTL = kv_TTL k,
      kvc_MaxValueSize = kv_MaxValueSize k, kvc_Replicas = kv_Replicas k,
      kvc_Storage = (if ToLower (kv_Storage k) = ''memory'' then MemoryStorage else FileStorage)\<rparr>"

definition bindOrCreateKV :: "('w, 'e) session_env_scheme \<Rightarrow> ctx \<Rightarrow> js \<Rightarrow> ('w, 'm, kv_handle result) session_op" where
  "bindOrCreateKV env c j = do {
     m \<leftarrow> gets manager;
     let k = KV (m_EffectiveConfig m);
     r \<leftarrow> ask_log (env_bind_kv env c j (kv_Bucket k)) (\<lambda>_. JsKeyValue j (kv_Bucket k));
     case r of
       Inr h \<Rightarrow> return (Inr h)
     | Inl err \<Rightarrow>
         (if \<not> isBucketNotFound err then return (Inl err)
          else if \<not> kv_AutoCreateBucket k then return (Inl err)
          else ask_log (env_create_kv env c j (bucketConfig k))
                 (\<lambda>_. JsCreateKeyValue j (bucketConfig k)))
   }"

definition withKVTimeout :: "('w, 'e) session_env_scheme \<Rightarrow> ctx \<Rightarrow> ('w, 'm, ctx) session_op" where
  "withKVTimeout env c =
     (if Deadline c \<noteq> None then return c
      else do { m \<leftarrow> gets manager; WithTimeout env c (KVTimeout m) })"

definition drainConnection :: "('w, 'e) session_env_scheme \<Rightarrow> ctx \<Rightarrow> conn option \<Rightarrow> duration \<Rightarrow> ('w, 'm, goerr option) session_op" where
  "drainConnection env c nco timeout = (case nco of
       None \<Rightarrow> return None
     | Some nc \<Rightarrow> do {
         drainCtx \<leftarrow> (if Deadline c = None \<and> 0 < timeout then WithTimeout env c timeout else return c);
         r \<leftarrow> ask_log (env_drain env nc drainCtx) (\<lambda>_. Drain nc);
         return (case r of Finished err \<Rightarrow> err | Expired err late \<Rightarrow> Some err)
       })"

subsection \<open>\<open>Start\<close>\<close>

definition startFailed :: "rt_code \<Rightarrow> string \<Rightarrow> string \<Rightarrow> goerr \<Rightarrow> goerr" where
  "startFailed c op msg err = RuntimeErr c op [] [] msg True (Some err)"

definition startAborted :: goerr where
  "startAborted = RuntimeErr RtShutdown ''start'' [] []
     ''start aborted because close was requested'' True None"

text \<open>The first critical section: \<open>Inl\<close> is the early return, \<open>Inr\<close> the channel of this start.\<close>

definition start_begin :: "('w, 'e) session_env_scheme \<Rightarrow> ('w, 'm, goerr option + nat) session_op" where
  "start_begin env = do {
     m \<leftarrow> gets manager;
     if m_starting m then return (Inl (Some (RuntimeErr RtValidation ''start'' [] []
       ''start already in progress'' False None)))
     else if m_closing m then return (Inl (Some (RuntimeErr RtShutdown ''start'' [] []
       ''close already in progress'' True None)))
     else if nats_RetryOnFailedConnect (NATS (m_EffectiveConfig m))
     then return (Inl (Some (RuntimeErr RtValidation ''start'' [] []
       ''nats.retry_on_failed_connect is not supported by synchronous start'' False None)))
     else do {
       live \<leftarrow> (case m_nc m of None \<Rightarrow> return False
                | Some nc \<Rightarrow> do { st \<leftarrow> ask (env_status env nc); return (st \<noteq> CLOSED) });
       if live then return (Inl None)
       else do {
         modify_manager (\<lambda>m. m\<lparr>m_starting := True, m_startDone := Some (m_chans m),
           m_chans := Suc (m_chans m)\<rparr>);
         setStateLocked env StateConnecting;
         return (Inr (m_chans m))
       }
     }
   }"

text \<open>The deferred section: the channel is closed if it is still this start's own.\<close>

definition start_end :: "nat \<Rightarrow> ('w, 'm, unit) session_op" where
  "start_end startDone = modify_manager (\<lambda>m. m\<lparr>
     m_startDone := (if m_startDone m = Some startDone then None else m_startDone m),
     m_starting := False\<rparr>)"

definition start_commit :: "('w, 'e) session_env_scheme \<Rightarrow> conn \<Rightarrow> js \<Rightarrow> kv_handle \<Rightarrow> ('w, 'm, bool) session_op" where
  "start_commit env nc j h = do {
     m \<leftarrow> gets manager;
     if m_closeRequested m \<or> m_closing m then return False
     else do {
       modify_manager (\<lambda>m. m\<lparr>m_nc := Some nc, m_js := Some j, m_kv := Some h\<rparr>);
       url \<leftarrow> ask (env_connected_url env nc);
       setConnectedLocked env url True True;
       return True
     }
   }"

text \<open>A failed attempt gives its connection back and marks the session degraded.\<close>

definition start_abandon :: "('w, 'e) session_env_scheme \<Rightarrow> conn \<Rightarrow> goerr \<Rightarrow> ('w, 'm, unit) session_op" where
  "start_abandon env nc err = do { closeConn env nc; setDegradedLocked env (Some err) }"

definition start_setup :: "('w, 'e) session_env_scheme \<Rightarrow> ctx \<Rightarrow> conn \<Rightarrow> ('w, 'm, goerr option) session_op" where
  "start_setup env c nc = do {
     cerr \<leftarrow> ctx_Err env c;
     case cerr of
       Some err \<Rightarrow> do {
         start_abandon env nc err;
         return (Some (startFailed RtConnectionFailed ''start_connect''
           ''start context canceled during connection setup'' err))
       }
     | None \<Rightarrow> do {
     jr \<leftarrow> newJetStream env nc;
     case jr of
       Inl err \<Rightarrow> do {
         start_abandon env nc err;
         return (Some (startFailed RtJetStreamFailed ''start_jetstream''
           ''failed to initialize JetStream'' err))
       }
     | Inr j \<Rightarrow> do {
     setupCtx \<leftarrow> withKVTimeout env c;
     kr \<leftarrow> bindOrCreateKV env setupCtx j;
     case kr of
       Inl err \<Rightarrow> do {
         start_abandon env nc err;
         return (Some (startFailed RtJetStreamFailed ''start_kv''
           ''failed to bind or create desired-config KV bucket'' err))
       }
     | Inr h \<Rightarrow> do {
     committed \<leftarrow> start_commit env nc j h;
     if \<not> committed then do { closeConn env nc; return (Some startAborted) }
     else do { metric env (IncConnect ''success''); return None }
   }}}}"

definition start_body :: "('w, 'e) session_env_scheme \<Rightarrow> ctx \<Rightarrow> ('w, 'm, goerr option) session_op" where
  "start_body env c = do {
     r \<leftarrow> connectNATS env c;
     case r of
       Inl err \<Rightarrow> do {
         setDegradedLocked env (Some err);
         metric env (IncConnect ''failure'');
         return (Some (startFailed RtConnectionFailed ''start_connect''
           ''failed to connect to NATS'' err))
       }
     | Inr nc \<Rightarrow> start_setup env c nc
   }"

definition or_background :: "ctx option \<Rightarrow> ctx" where
  "or_background co = (case co of None \<Rightarrow> Background | Some c \<Rightarrow> c)"

definition Start :: "('w, 'e) session_env_scheme \<Rightarrow> ctx option \<Rightarrow> ('w, 'm, goerr option) session_op" where
  "Start env co = do {
     let c = or_background co;
     cerr \<leftarrow> ctx_Err env c;
     case cerr of
       Some err \<Rightarrow> return (Some (startFailed RtConnectionFailed ''start''
         ''start context is not usable'' err))
     | None \<Rightarrow> do {
         b \<leftarrow> start_begin env;
         case b of
           Inl early \<Rightarrow> return early
         | Inr startDone \<Rightarrow> do {
             r \<leftarrow> start_body env c;
             start_end startDone;
             return r
           }
       }
   }"

subsection \<open>\<open>Close\<close>\<close>

text \<open>What the first section of \<open>Close\<close> decides.\<close>

datatype close_plan = CloseDone | CloseWait "conn option" | CloseDrain "conn option"

definition close_begin :: "('w, 'e) session_env_scheme \<Rightarrow> ('w, 'm, close_plan) session_op" where
  "close_begin env = do {
     m \<leftarrow> gets manager;
     if m_closing m then return CloseDone
     else if m_startDone m = None \<and> m_nc m = None then do {
       modify_manager (\<lambda>m. m\<lparr>m_closing := True, m_closeRequested := True\<rparr>);
       setClosedLocked env None;
       modify_manager (\<lambda>m. m\<lparr>m_closeRequested := False, m_closing := False\<rparr>);
       return CloseDone
     }
     else do {
       modify_manager (\<lambda>m. m\<lparr>m_closing := True, m_closeRequested := True\<rparr>);
       setStateLocked env StateDraining;
       return (if m_startDone m \<noteq> None then CloseWait (m_nc m) else CloseDrain (m_nc m))
     }
   }"

definition close_canceled :: "('w, 'e) session_env_scheme \<Rightarrow> goerr \<Rightarrow> ('w, 'm, goerr option) session_op" where
  "close_canceled env err = do {
     setDegradedLocked env (Some err);
     modify_manager (\<lambda>m. m\<lparr>m_closeRequested := False, m_closing := False\<rparr>);
     return (Some (RuntimeErr RtShutdown ''close_wait_start'' [] []
       ''close canceled while waiting for startup to finish'' True (Some err)))
   }"

definition close_finish :: "('w, 'e) session_env_scheme \<Rightarrow> goerr option \<Rightarrow> ('w, 'm, goerr option) session_op" where
  "close_finish env drainErr = do {
     modify_manager (\<lambda>m. m\<lparr>m_nc := None, m_js := None, m_kv := None,
       m_closeRequested := False, m_closing := False\<rparr>);
     setClosedLocked env drainErr;
     return (map_option (\<lambda>err. RuntimeErr RtShutdown ''close'' [] []
       ''failed to drain NATS connection cleanly'' True (Some err)) drainErr)
   }"

definition close_drain :: "('w, 'e) session_env_scheme \<Rightarrow> ctx \<Rightarrow> conn option \<Rightarrow> duration \<Rightarrow> ('w, 'm, goerr option) session_op" where
  "close_drain env c nco shutdownTimeout = do {
     drainErr \<leftarrow> drainConnection env c nco shutdownTimeout;
     (case (drainErr, nco) of (Some err, Some nc) \<Rightarrow> closeConn env nc | _ \<Rightarrow> return ());
     close_finish env drainErr
   }"

text \<open>
  While \<open>Close\<close> waits for a start that is in progress, that start runs on: \<open>others\<close> is what it does
  until it closes its channel.  It is the empty program when nothing else runs.
\<close>

definition Close :: "('w, 'e) session_env_scheme \<Rightarrow> ('w, 'm, unit) session_op \<Rightarrow> ctx option \<Rightarrow> ('w, 'm, goerr option) session_op" where
  "Close env others co = do {
     let c = or_background co;
     m \<leftarrow> gets manager;
     let shutdownTimeout = to_ShutdownTimeout (Timeouts (m_EffectiveConfig m));
     plan \<leftarrow> close_begin env;
     case plan of
       CloseDone \<Rightarrow> return None
     | CloseDrain nco \<Rightarrow> close_drain env c nco shutdownTimeout
     | CloseWait nco \<Rightarrow> do {
         w \<leftarrow> ask (env_wait_start env c);
         case w of
           Expired err late \<Rightarrow> close_canceled env err
         | Finished u \<Rightarrow> do {
             others;
             m' \<leftarrow> gets manager;
             close_drain env c (m_nc m') shutdownTimeout
           }
       }
   }"

subsection \<open>Callbacks of the client library (\<open>callbacks.go\<close>)\<close>

definition onAsyncError :: "('w, 'e) session_env_scheme \<Rightarrow> goerr option \<Rightarrow> ('w, 'm, unit) session_op" where
  "onAsyncError env err = (case err of
       None \<Rightarrow> return ()
     | Some e \<Rightarrow> do {
         m \<leftarrow> gets manager;
         only_if (hk_Logger (m_hooks m))
           (hook env (Log ErrorLevel ''session asynchronous error'' [(''error'', LErr e)]));
         only_if (hk_ErrorSink (m_hooks m)) (hook env (ErrorSink e))
       })"

definition onDisconnect :: "('w, 'e) session_env_scheme \<Rightarrow> goerr option \<Rightarrow> ('w, 'm, unit) session_op" where
  "onDisconnect env err = do {
     m \<leftarrow> gets manager;
     only_if (\<not> m_closing m) (setReconnectingLocked env err)
   }"

text \<open>The number of the hook to run once the lock is released is the result.\<close>

definition onClosed_locked :: "('w, 'e) session_env_scheme \<Rightarrow> ('w, 'm, nat option) session_op" where
  "onClosed_locked env = do {
     setClosedLocked env None;
     m \<leftarrow> gets manager;
     return (hk_OnClosed (m_hooks m))
   }"

definition run_callback :: "(nat \<Rightarrow> ('s, unit) state) \<Rightarrow> nat option \<Rightarrow> ('s, unit) state" where
  "run_callback invoke fn = (case fn of None \<Rightarrow> return () | Some i \<Rightarrow> invoke i)"

definition onClosed :: "('w, 'e) session_env_scheme \<Rightarrow> (nat \<Rightarrow> ('w, 'm, unit) session_op) \<Rightarrow> ('w, 'm, unit) session_op" where
  "onClosed env invoke = do { fn \<leftarrow> onClosed_locked env; run_callback invoke fn }"

definition rebindFailed :: "string \<Rightarrow> string \<Rightarrow> goerr \<Rightarrow> goerr" where
  "rebindFailed op msg err = RuntimeErr RtJetStreamFailed op [] [] msg True (Some err)"

definition rebind_commit :: "('w, 'e) session_env_scheme \<Rightarrow> conn \<Rightarrow> js \<Rightarrow> kv_handle \<Rightarrow> ('w, 'm, nat option) session_op" where
  "rebind_commit env nc j h = do {
     m \<leftarrow> gets manager;
     if m_closing m then return None
     else if m_nc m \<noteq> Some nc then return None
     else do {
       modify_manager (\<lambda>m. m\<lparr>m_js := Some j, m_kv := Some h\<rparr>);
       url \<leftarrow> ask (env_connected_url env nc);
       setConnectedLocked env url True True;
       m' \<leftarrow> gets manager;
       return (hk_OnReconnected (m_hooks m'))
     }
   }"

definition rebindAfterReconnect :: "('w, 'e) session_env_scheme \<Rightarrow> (nat \<Rightarrow> ('w, 'm, unit) session_op) \<Rightarrow> conn \<Rightarrow> ('w, 'm, unit) session_op" where
  "rebindAfterReconnect env invoke nc = do {
     m \<leftarrow> gets manager;
     c \<leftarrow> WithTimeout env Background (KVTimeout m);
     jr \<leftarrow> newJetStream env nc;
     case jr of
       Inl err \<Rightarrow> do {
         setDegradedLocked env (Some err);
         onAsyncError env (Some (rebindFailed ''reconnect_jetstream''
           ''failed to rebuild JetStream handle after reconnect'' err))
       }
     | Inr j \<Rightarrow> do {
         kr \<leftarrow> bindOrCreateKV env c j;
         case kr of
           Inl err \<Rightarrow> do {
             setDegradedLocked env (Some err);
             onAsyncError env (Some (rebindFailed ''reconnect_kv''
               ''failed to rebind KV bucket after reconnect'' err))
           }
         | Inr h \<Rightarrow> do { fn \<leftarrow> rebind_commit env nc j h; run_callback invoke fn }
       }
   }"

text \<open>\<open>onReconnect\<close> starts the rebind goroutine unless the session is closing.\<close>

definition onReconnect :: "('w, 'e) session_env_scheme \<Rightarrow> (nat \<Rightarrow> ('w, 'm, unit) session_op) \<Rightarrow> conn \<Rightarrow> ('w, 'm, unit) session_op" where
  "onReconnect env invoke nc = do {
     m \<leftarrow> gets manager;
     if m_closing m then return () else rebindAfterReconnect env invoke nc
   }"

text \<open>Operations that only read the session leave the manager, and what a client adds to the state.\<close>

definition same_session :: "('w, 'm) session_scheme \<Rightarrow> ('w, 'm) session_scheme \<Rightarrow> bool" where
  "same_session s t \<longleftrightarrow> manager t = manager s \<and> session.more t = session.more s"

interpretation session_frame: world_frame same_session
  by unfold_locales (simp_all add: same_session_def)

end
