(* ===== verification/Session_Lifecycle.thy ===== *)
theory Session_Lifecycle
  imports Session
begin

text \<open>
  What \<open>Start\<close>, \<open>Close\<close> and the callbacks guarantee when they run one at a time: the invariant of the
  manager, the outcome of every branch, and that no connection is lost.
\<close>

subsection \<open>The effect of a critical section as an equation\<close>

definition metric_state :: "('w, 'e) session_env_scheme \<Rightarrow> call \<Rightarrow> ('w, 'm) session_scheme \<Rightarrow> ('w, 'm) session_scheme" where
  "metric_state env c s =
     (if hk_Metrics (m_hooks (manager s)) then s\<lparr>ext := env_hook env c (ext s), calls := calls s @ [c]\<rparr>
      else s)"

lemma metric_state_simps [simp]:
  "manager (metric_state env c s) = manager s"
  "session.more (metric_state env c s) = session.more s"
  "calls (metric_state env c s) = calls s @ (if hk_Metrics (m_hooks (manager s)) then [c] else [])"
  by (simp_all add: metric_state_def)

lemma wp_metric [wp_simps]: "wp (metric env c) Q s \<longleftrightarrow> Q () (metric_state env c s)"
  by (simp add: metric_def metric_state_def wp_simps)

lemma wp_setStateLocked [wp_simps]:
  "wp (setStateLocked env st) Q s \<longleftrightarrow> Q () (metric_state env (SetConnectionState (state_text st))
     (s\<lparr>manager := update_health (\<lambda>h. h\<lparr>hs_State := st\<rparr>) (manager s)\<rparr>))"
  by (simp add: setStateLocked_def wp_simps)

lemma wp_setConnectedLocked [wp_simps]:
  "wp (setConnectedLocked env url True True) Q s \<longleftrightarrow> Q () (metric_state env (SetConnectionState ''connected'')
     (s\<lparr>manager := update_health (\<lambda>h. h\<lparr>hs_ConnectedURL := url, hs_JetStreamReady := True,
        hs_KVReady := True, hs_LastError := [], hs_State := StateConnected\<rparr>) (manager s)\<rparr>))"
  by (simp add: setConnectedLocked_def update_health_def wp_simps)

lemma wp_setReconnectingLocked [wp_simps]:
  "wp (setReconnectingLocked env e) Q s \<longleftrightarrow> Q () (metric_state env (SetConnectionState ''reconnecting'')
     (s\<lparr>manager := update_health (\<lambda>h. (note_error e (h\<lparr>hs_JetStreamReady := False,
        hs_KVReady := False\<rparr>))\<lparr>hs_State := StateReconnecting\<rparr>) (manager s)\<rparr>))"
  by (simp add: setReconnectingLocked_def update_health_def wp_simps)

lemma wp_setDegradedLocked [wp_simps]:
  "wp (setDegradedLocked env e) Q s \<longleftrightarrow> Q () (metric_state env (SetConnectionState ''degraded'')
     (s\<lparr>manager := update_health (\<lambda>h. (note_error e (h\<lparr>hs_JetStreamReady := False,
        hs_KVReady := False\<rparr>))\<lparr>hs_State := StateDegraded\<rparr>) (manager s)\<rparr>))"
  by (simp add: setDegradedLocked_def update_health_def wp_simps)

lemma wp_setClosedLocked [wp_simps]:
  "wp (setClosedLocked env e) Q s \<longleftrightarrow> Q () (metric_state env (SetConnectionState ''closed'')
     (s\<lparr>manager := update_health (\<lambda>h. (note_error e (h\<lparr>hs_ConnectedURL := [],
        hs_JetStreamReady := False, hs_KVReady := False\<rparr>))\<lparr>hs_State := StateClosed\<rparr>) (manager s)\<rparr>))"
  by (simp add: setClosedLocked_def update_health_def wp_simps)

lemma update_health_simps [simp]:
  "m_health (update_health f m) = f (m_health m)" "m_nc (update_health f m) = m_nc m"
  "m_js (update_health f m) = m_js m" "m_kv (update_health f m) = m_kv m"
  "m_starting (update_health f m) = m_starting m" "m_startDone (update_health f m) = m_startDone m"
  "m_closing (update_health f m) = m_closing m" "m_chans (update_health f m) = m_chans m"
  "m_closeRequested (update_health f m) = m_closeRequested m" "m_hooks (update_health f m) = m_hooks m"
  "m_effective (update_health f m) = m_effective m" "m_cfg (update_health f m) = m_cfg m"
  by (simp_all add: update_health_def)

lemma note_error_simps [simp]:
  "hs_State (note_error e h) = hs_State h" "hs_ConnectedURL (note_error e h) = hs_ConnectedURL h"
  "hs_JetStreamReady (note_error e h) = hs_JetStreamReady h"
  "hs_KVReady (note_error e h) = hs_KVReady h"
  "hs_RegisteredSubscriptions (note_error e h) = hs_RegisteredSubscriptions h"
  "hs_ActiveSubscriptions (note_error e h) = hs_ActiveSubscriptions h"
  by (simp_all add: note_error_def split: option.splits)

lemma wp_closeConn [wp_simps]:
  "wp (closeConn env nc) Q s \<longleftrightarrow>
     Q () (s\<lparr>ext := snd (env_close env nc (ext s)), calls := calls s @ [CloseConn nc]\<rparr>)"
  by (simp add: closeConn_def wp_simps)

subsection \<open>The invariant of the manager\<close>

definition health_ok :: "HealthSnapshot \<Rightarrow> bool" where
  "health_ok h \<longleftrightarrow> hs_JetStreamReady h = hs_KVReady h
     \<and> (hs_State h = StateConnected \<longrightarrow> hs_KVReady h \<and> hs_LastError h = [])
     \<and> (hs_State h \<in> {StateNew, StateReconnecting, StateClosed, StateDegraded} \<longrightarrow> \<not> hs_KVReady h)
     \<and> (hs_State h = StateClosed \<longrightarrow> hs_ConnectedURL h = [])"

definition handles_ok :: "Manager \<Rightarrow> bool" where
  "handles_ok m \<longleftrightarrow> (m_js m = None \<longleftrightarrow> m_nc m = None) \<and> (m_kv m = None \<longleftrightarrow> m_nc m = None)"

definition flags_ok :: "Manager \<Rightarrow> bool" where
  "flags_ok m \<longleftrightarrow> (m_starting m \<longleftrightarrow> m_startDone m \<noteq> None) \<and> (m_closing m \<longleftrightarrow> m_closeRequested m)
     \<and> (\<forall>ch. m_startDone m = Some ch \<longrightarrow> ch < m_chans m)"

definition manager_ok :: "Manager \<Rightarrow> bool" where
  "manager_ok m \<longleftrightarrow> health_ok (m_health m) \<and> handles_ok m \<and> flags_ok m"

lemmas manager_ok_defs = manager_ok_def health_ok_def handles_ok_def flags_ok_def

lemma manager_ok_New: "NewManager consts cfg hooks = Inr m \<Longrightarrow> manager_ok m"
  by (auto simp: NewManager_def manager_ok_defs)

lemma manager_ok_counts [simp]: "manager_ok (SetSubscriptionCounts r a m) = manager_ok m"
  by (simp add: SetSubscriptionCounts_def manager_ok_defs)

lemma ok_start_begin:
  "manager_ok (manager s) \<Longrightarrow> wp (start_begin env) (\<lambda>r s'. manager_ok (manager s')) s"
  by (auto simp: start_begin_def wp_simps manager_ok_defs split: option.splits)

lemma ok_start_commit:
  "manager_ok (manager s) \<Longrightarrow> wp (start_commit env nc j h) (\<lambda>r s'. manager_ok (manager s')) s"
  by (auto simp: start_commit_def wp_simps manager_ok_defs)

lemma ok_setDegraded:
  "manager_ok (manager s) \<Longrightarrow> wp (setDegradedLocked env e) (\<lambda>r s'. manager_ok (manager s')) s"
  by (auto simp: wp_simps manager_ok_defs)

lemma ok_start_end:
  "manager_ok (manager s) \<Longrightarrow> m_startDone (manager s) = Some ch \<Longrightarrow>
   wp (start_end ch) (\<lambda>r s'. manager_ok (manager s')) s"
  by (auto simp: start_end_def wp_simps manager_ok_defs)

lemma ok_close_begin:
  "manager_ok (manager s) \<Longrightarrow> wp (close_begin env) (\<lambda>r s'. manager_ok (manager s')) s"
  by (auto simp: close_begin_def wp_simps manager_ok_defs)

lemma ok_close_canceled:
  "manager_ok (manager s) \<Longrightarrow> wp (close_canceled env e) (\<lambda>r s'. manager_ok (manager s')) s"
  by (auto simp: close_canceled_def wp_simps manager_ok_defs)

lemma ok_close_finish:
  "manager_ok (manager s) \<Longrightarrow> wp (close_finish env e) (\<lambda>r s'. manager_ok (manager s')) s"
  by (auto simp: close_finish_def wp_simps manager_ok_defs)

lemma ok_onDisconnect:
  "manager_ok (manager s) \<Longrightarrow> wp (onDisconnect env e) (\<lambda>r s'. manager_ok (manager s')) s"
  by (auto simp: onDisconnect_def wp_simps manager_ok_defs)

lemma ok_onClosed_locked:
  "manager_ok (manager s) \<Longrightarrow> wp (onClosed_locked env) (\<lambda>r s'. manager_ok (manager s')) s"
  by (auto simp: onClosed_locked_def wp_simps manager_ok_defs)

lemma ok_rebind_commit:
  "manager_ok (manager s) \<Longrightarrow> wp (rebind_commit env nc j h) (\<lambda>r s'. manager_ok (manager s')) s"
  by (auto simp: rebind_commit_def wp_simps manager_ok_defs)

subsection \<open>What the steps outside the lock do\<close>

text \<open>A step that only asks the world: manager and trace are as before.\<close>

definition quiet :: "('w, 'm, 'a) session_op \<Rightarrow> bool" where
  "quiet p \<longleftrightarrow> (\<forall>s. wp p (\<lambda>r s'. manager s' = manager s \<and> calls s' = calls s
     \<and> session.more s' = session.more s) s)"

lemma quiet_return [intro, simp]: "quiet (return x)"
  by (simp add: quiet_def wp_simps)

lemma quiet_ask [intro, simp]: "quiet (ask f)"
  by (simp add: quiet_def wp_simps)

lemma quiet_gets [intro, simp]: "quiet (gets f)"
  by (simp add: quiet_def wp_simps)

lemma quiet_bind [intro]:
  fixes m :: "('w, 'm, 'a) session_op" and f :: "'a \<Rightarrow> ('w, 'm, 'b) session_op"
  shows "quiet m \<Longrightarrow> (\<And>x. quiet (f x)) \<Longrightarrow> quiet (State_Monad.bind m f)"
  unfolding quiet_def wp_bind
proof (intro allI)
  fix s :: "('w, 'm) session_scheme"
  assume m: "\<forall>s. wp m (\<lambda>r s'. manager s' = manager s \<and> calls s' = calls s \<and> session.more s' = session.more s) s"
    and f: "\<And>x. \<forall>s. wp (f x) (\<lambda>r s'. manager s' = manager s \<and> calls s' = calls s \<and> session.more s' = session.more s) s"
  show "wp m (\<lambda>x. wp (f x) (\<lambda>r s'. manager s' = manager s \<and> calls s' = calls s
      \<and> session.more s' = session.more s)) s"
  proof (rule wp_mono [OF m [rule_format, of s]])
    fix x and t :: "('w, 'm) session_scheme"
    assume "manager t = manager s \<and> calls t = calls s \<and> session.more t = session.more s"
    then show "wp (f x) (\<lambda>r s'. manager s' = manager s \<and> calls s' = calls s
        \<and> session.more s' = session.more s) t"
      using f [of x, rule_format, of t] by simp
  qed
qed

lemma quiet_try_then [intro]: "quiet m \<Longrightarrow> (\<And>x. quiet (f x)) \<Longrightarrow> quiet (try_then m f)"
  unfolding try_then_def by (rule quiet_bind) (auto split: sum.splits)

lemma quiet_if [intro]: "quiet m \<Longrightarrow> quiet n \<Longrightarrow> quiet (if b then m else n)"
  by simp

lemma quiet_option [intro]:
  "quiet m \<Longrightarrow> (\<And>y. quiet (f y)) \<Longrightarrow> quiet (case x of None \<Rightarrow> m | Some y \<Rightarrow> f y)"
  by (cases x) simp_all

lemma quiet_WithTimeout [intro, simp]: "quiet (WithTimeout env c d)"
  unfolding WithTimeout_def by (intro quiet_bind quiet_ask quiet_return)

lemma quiet_clamp [intro, simp]: "quiet (clampConnectTimeout env c d)"
  unfolding clampConnectTimeout_def Let_def by (intro quiet_option quiet_bind quiet_ask quiet_return)

lemma quiet_tls_roots [intro, simp]: "quiet (tls_roots env cfg)"
  unfolding tls_roots_def by (intro quiet_if quiet_bind quiet_ask quiet_return)

lemma quiet_tls_certs [intro, simp]: "quiet (tls_certs env cfg)"
  unfolding tls_certs_def Let_def by (intro quiet_if quiet_bind quiet_ask quiet_return)

lemma quiet_buildTLS [intro, simp]: "quiet (buildTLSConfig env co)"
  unfolding buildTLSConfig_def
  by (intro quiet_option quiet_if quiet_try_then quiet_tls_roots quiet_tls_certs quiet_return)

lemma quiet_auth [intro, simp]: "quiet (auth_options env n)"
  unfolding auth_options_def by (intro quiet_if quiet_try_then quiet_ask quiet_return)

lemma quiet_options [intro, simp]: "quiet (buildNATSOptions env d)"
  unfolding buildNATSOptions_def Let_def
  by (intro quiet_bind quiet_gets quiet_try_then quiet_auth quiet_buildTLS quiet_return)

lemma quiet_withKVTimeout [intro, simp]: "quiet (withKVTimeout env c)"
  unfolding withKVTimeout_def
  by (intro quiet_if quiet_bind quiet_gets quiet_WithTimeout quiet_return)

lemma quietD:
  "quiet p \<Longrightarrow> wp p (\<lambda>r s'. manager s' = manager s \<and> calls s' = calls s \<and> session.more s' = session.more s) s"
  by (simp add: quiet_def)

text \<open>The connections a stretch of the trace opened, and the ones it closed.\<close>

fun opened_by :: "call \<Rightarrow> conn set" where
  "opened_by (Connect servers opts (Finished (Inr nc))) = {nc}"
| "opened_by (Connect servers opts (Expired e (Inr nc))) = {nc}"
| "opened_by _ = {}"

definition opened :: "call list \<Rightarrow> conn set" where
  "opened cs = (\<Union>c \<in> set cs. opened_by c)"

definition released :: "call list \<Rightarrow> conn set" where
  "released cs = {nc. CloseConn nc \<in> set cs}"

lemma opened_simps [simp]:
  "opened [] = {}" "opened (c # cs) = opened_by c \<union> opened cs" "opened (cs @ ds) = opened cs \<union> opened ds"
  by (auto simp: opened_def)

lemma released_simps [simp]:
  "released [] = {}" "released (cs @ ds) = released cs \<union> released ds"
  "released (c # cs) = (case c of CloseConn nc \<Rightarrow> {nc} | _ \<Rightarrow> {}) \<union> released cs"
  by (auto simp: released_def split: call.splits)

text \<open>The part of the trace a program added.\<close>

definition since :: "('w, 'm) session_scheme \<Rightarrow> ('w, 'm) session_scheme \<Rightarrow> call list" where
  "since s s' = drop (length (calls s)) (calls s')"

definition extends :: "('w, 'm) session_scheme \<Rightarrow> ('w, 'm) session_scheme \<Rightarrow> bool" where
  "extends s s' \<longleftrightarrow> (\<exists>new. calls s' = calls s @ new)"

lemma extends_refl [simp]: "extends s s"
  by (simp add: extends_def)

lemma extends_trans: "extends s t \<Longrightarrow> extends t u \<Longrightarrow> extends s u"
  by (auto simp: extends_def)

lemma since_append: "calls s' = calls s @ new \<Longrightarrow> since s s' = new"
  by (simp add: since_def)

lemma since_trans: "extends s t \<Longrightarrow> extends t u \<Longrightarrow> since s u = since s t @ since t u"
  by (auto simp: extends_def since_def)

lemma connectNATS_spec:
  "wp (connectNATS env c) (\<lambda>r s'. manager s' = manager s \<and> session.more s' = session.more s
     \<and> (\<exists>new. calls s' = calls s @ new
          \<and> (case r of Inl e \<Rightarrow> opened new \<subseteq> released new
             | Inr nc \<Rightarrow> opened new = {nc} \<and> released new = {}))) s"
proof -
  have dial: "wp (dial env c servers opts) (\<lambda>r s'. manager s' = manager t \<and> session.more s' = session.more t
     \<and> (\<exists>new. calls s' = calls t @ new
          \<and> (case r of Inl e \<Rightarrow> opened new \<subseteq> released new
             | Inr nc \<Rightarrow> opened new = {nc} \<and> released new = {}))) t" for servers opts t
    by (auto simp: dial_def wp_simps split: race.splits sum.splits)
  show ?thesis
    unfolding connectNATS_def wp_simps Let_def
    apply (rule wp_mono [OF quietD [OF quiet_clamp]])
    apply (auto split: sum.splits)
    apply (rule wp_mono [OF quietD [OF quiet_options]])
    apply (auto split: sum.splits)
    apply (rule wp_mono [OF dial])
    apply (auto split: sum.splits)
    done
qed

subsection \<open>\<open>Start\<close>\<close>

text \<open>The part of the manager a start attempt does not write between its first and last section.\<close>

definition same_control :: "Manager \<Rightarrow> Manager \<Rightarrow> bool" where
  "same_control m m' \<longleftrightarrow> m_starting m' = m_starting m \<and> m_startDone m' = m_startDone m
     \<and> m_chans m' = m_chans m \<and> m_closing m' = m_closing m \<and> m_closeRequested m' = m_closeRequested m
     \<and> m_effective m' = m_effective m \<and> m_cfg m' = m_cfg m \<and> m_hooks m' = m_hooks m"

definition same_handles :: "Manager \<Rightarrow> Manager \<Rightarrow> bool" where
  "same_handles m m' \<longleftrightarrow> m_nc m' = m_nc m \<and> m_js m' = m_js m \<and> m_kv m' = m_kv m"

lemma same_refl [simp]: "same_control m m" "same_handles m m"
  by (simp_all add: same_control_def same_handles_def)

definition connected_to :: "conn \<Rightarrow> Manager \<Rightarrow> bool" where
  "connected_to nc m \<longleftrightarrow> m_nc m = Some nc \<and> m_js m \<noteq> None \<and> m_kv m \<noteq> None
     \<and> hs_State (m_health m) = StateConnected \<and> hs_JetStreamReady (m_health m)
     \<and> hs_KVReady (m_health m) \<and> hs_LastError (m_health m) = []"

text \<open>The manager is as before and the calls added neither opened nor closed a connection.\<close>

definition beside :: "('w, 'm) session_scheme \<Rightarrow> ('w, 'm) session_scheme \<Rightarrow> bool" where
  "beside s t \<longleftrightarrow> manager t = manager s \<and> session.more t = session.more s
     \<and> (\<exists>new. calls t = calls s @ new \<and> opened new = {} \<and> released new = {})"

lemma beside_refl [simp]: "beside s s"
  by (simp add: beside_def)

lemma beside_trans: "beside s t \<Longrightarrow> beside t u \<Longrightarrow> beside s u"
  by (auto simp: beside_def)

lemma quiet_beside: "quiet p \<Longrightarrow> wp p (\<lambda>r s'. beside s s') s"
  by (drule quietD [of _ s]) (erule wp_mono, simp add: beside_def)

lemma newJetStream_spec: "wp (newJetStream env nc) (\<lambda>r s'. beside s s') s"
  by (simp add: newJetStream_def beside_def wp_simps Let_def)

lemma bindOrCreateKV_spec: "wp (bindOrCreateKV env c j) (\<lambda>r s'. beside s s') s"
  by (auto simp: bindOrCreateKV_def beside_def wp_simps Let_def split: sum.splits)

lemma ctx_Err_beside: "wp (ctx_Err env c) (\<lambda>r s'. beside s s') s"
  by (simp add: beside_def wp_simps)

lemma start_abandon_spec:
  "wp (start_abandon env nc err) (\<lambda>r s'. session.more s' = session.more s
     \<and> same_control (manager s) (manager s') \<and> same_handles (manager s) (manager s')
     \<and> hs_State (m_health (manager s')) = StateDegraded \<and> health_ok (m_health (manager s'))
     \<and> (\<exists>new. calls s' = calls s @ new \<and> opened new = {} \<and> released new = {nc})) s"
  by (auto simp: start_abandon_def wp_simps same_control_def same_handles_def health_ok_def)

text \<open>What holds after an attempt that already has the connection \<open>nc\<close>.\<close>

definition setup_result :: "conn \<Rightarrow> ('w, 'm) session_scheme \<Rightarrow> goerr option \<Rightarrow> ('w, 'm) session_scheme \<Rightarrow> bool" where
  "setup_result nc s r s' \<longleftrightarrow>
     session.more s' = session.more s \<and> same_control (manager s) (manager s')
     \<and> (health_ok (m_health (manager s)) \<longrightarrow> health_ok (m_health (manager s')))
     \<and> (\<exists>new. calls s' = calls s @ new \<and> opened new = {}
          \<and> (case r of
               None \<Rightarrow> released new = {} \<and> connected_to nc (manager s')
                 \<and> \<not> m_closing (manager s) \<and> \<not> m_closeRequested (manager s)
             | Some e \<Rightarrow> released new = {nc} \<and> same_handles (manager s) (manager s')
                 \<and> (hs_State (m_health (manager s')) = StateDegraded
                    \<or> e = startAborted \<and> (m_closing (manager s) \<or> m_closeRequested (manager s))
                      \<and> manager s' = manager s)))"

lemma start_commit_spec:
  "wp (start_commit env nc j h) (\<lambda>b s'. session.more s' = session.more s
     \<and> same_control (manager s) (manager s')
     \<and> (if b then connected_to nc (manager s') \<and> \<not> m_closing (manager s) \<and> \<not> m_closeRequested (manager s)
        else s' = s \<and> (m_closing (manager s) \<or> m_closeRequested (manager s)))
     \<and> (\<exists>new. calls s' = calls s @ new \<and> opened new = {} \<and> released new = {})) s"
  by (auto simp: start_commit_def wp_simps same_control_def connected_to_def)

lemma abandon_result:
  "beside s t \<Longrightarrow> wp (do { start_abandon env nc err; return (Some e) }) (\<lambda>r s'. setup_result nc s r s') t"
  unfolding wp_bind
  by (rule wp_mono [OF start_abandon_spec]) (auto simp: setup_result_def beside_def wp_return)

lemma commit_result:
  "beside s t \<Longrightarrow> wp (do { committed \<leftarrow> start_commit env nc j h;
     if \<not> committed then do { closeConn env nc; return (Some startAborted) }
     else do { metric env (IncConnect ''success''); return None } }) (\<lambda>r s'. setup_result nc s r s') t"
  unfolding wp_bind
  by (rule wp_mono [OF start_commit_spec])
     (auto simp: setup_result_def beside_def wp_simps connected_to_def same_control_def health_ok_def
       split: if_splits)

text \<open>The three stages of the setup, last first.\<close>

lemma kv_stage:
  assumes "beside s t"
  shows "wp (do { setupCtx \<leftarrow> withKVTimeout env c;
       kr \<leftarrow> bindOrCreateKV env setupCtx j;
       case kr of
         Inl err \<Rightarrow> do { start_abandon env nc err; return (Some (fail err)) }
       | Inr h \<Rightarrow> do { committed \<leftarrow> start_commit env nc j h;
           if \<not> committed then do { closeConn env nc; return (Some startAborted) }
           else do { metric env (IncConnect ''success''); return None } } })
     (\<lambda>r s'. setup_result nc s r s') t"
proof (subst wp_bind, rule wp_mono [OF quiet_beside [OF quiet_withKVTimeout]],
    subst wp_bind, rule wp_mono [OF bindOrCreateKV_spec])
  fix setupCtx kr and u v :: "('a, 'b) session_scheme"
  assume "beside t u" "beside u v"
  then have "beside s v" using assms beside_trans by blast
  then show "wp (case kr of
         Inl err \<Rightarrow> do { start_abandon env nc err; return (Some (fail err)) }
       | Inr h \<Rightarrow> do { committed \<leftarrow> start_commit env nc j h;
           if \<not> committed then do { closeConn env nc; return (Some startAborted) }
           else do { metric env (IncConnect ''success''); return None } })
     (\<lambda>r s'. setup_result nc s r s') v"
    by (cases kr) (simp_all add: abandon_result commit_result)
qed

lemma start_setup_spec: "wp (start_setup env c nc) (\<lambda>r s'. setup_result nc s r s') s"
  unfolding start_setup_def
proof (subst wp_bind, rule wp_mono [OF ctx_Err_beside], subst wp_option, split option.split,
    intro conjI impI allI)
  fix cerr :: "goerr option" and t
  assume t: "beside s t"
  show "wp (do { start_abandon env nc err; return (Some (startFailed RtConnectionFailed ''start_connect''
           ''start context canceled during connection setup'' err)) })
     (\<lambda>r s'. setup_result nc s r s') t" for err
    using t by (rule abandon_result)
  show "wp (do { jr \<leftarrow> newJetStream env nc;
     case jr of
       Inl err \<Rightarrow> do { start_abandon env nc err;
         return (Some (startFailed RtJetStreamFailed ''start_jetstream''
           ''failed to initialize JetStream'' err)) }
     | Inr j \<Rightarrow> do {
         setupCtx \<leftarrow> withKVTimeout env c;
         kr \<leftarrow> bindOrCreateKV env setupCtx j;
         case kr of
           Inl err \<Rightarrow> do { start_abandon env nc err;
             return (Some (startFailed RtJetStreamFailed ''start_kv''
               ''failed to bind or create desired-config KV bucket'' err)) }
         | Inr h \<Rightarrow> do { committed \<leftarrow> start_commit env nc j h;
             if \<not> committed then do { closeConn env nc; return (Some startAborted) }
             else do { metric env (IncConnect ''success''); return None } } } })
     (\<lambda>r s'. setup_result nc s r s') t"
    apply (subst wp_bind)
    apply (rule wp_mono [OF newJetStream_spec])
    subgoal for jr u
      using beside_trans [OF t, of u] by (cases jr) (simp_all add: abandon_result kv_stage)
    done
qed

text \<open>A whole attempt, between the first and the last section.\<close>

definition attempt_result :: "('w, 'm) session_scheme \<Rightarrow> goerr option \<Rightarrow> ('w, 'm) session_scheme \<Rightarrow> bool" where
  "attempt_result s r s' \<longleftrightarrow>
     session.more s' = session.more s \<and> same_control (manager s) (manager s')
     \<and> (health_ok (m_health (manager s)) \<longrightarrow> health_ok (m_health (manager s')))
     \<and> (\<exists>new. calls s' = calls s @ new
          \<and> (case r of
               None \<Rightarrow> \<exists>nc. opened new = {nc} \<and> released new = {} \<and> connected_to nc (manager s')
                 \<and> \<not> m_closing (manager s)
             | Some e \<Rightarrow> opened new \<subseteq> released new \<and> same_handles (manager s) (manager s')
                 \<and> (hs_State (m_health (manager s')) = StateDegraded
                    \<or> (m_closing (manager s) \<or> m_closeRequested (manager s)))))"

lemma setup_attempt:
  assumes "setup_result nc t r s'" and "manager t = manager s" "session.more t = session.more s"
    and "calls t = calls s @ old" "opened old = {nc}" "released old = {}"
  shows "attempt_result s r s'"
  using assms by (cases r) (auto simp: setup_result_def attempt_result_def)

lemma start_body_spec:
  fixes s :: "('w, 'm) session_scheme"
  shows "wp (start_body env c) (\<lambda>r s'. attempt_result s r s') s"
  unfolding start_body_def
proof (subst wp_bind, rule wp_mono [OF connectNATS_spec])
  fix r :: "conn result" and t :: "('w, 'm) session_scheme"
  assume t: "manager t = manager s \<and> session.more t = session.more s
     \<and> (\<exists>new. calls t = calls s @ new
          \<and> (case r of Inl e \<Rightarrow> opened new \<subseteq> released new
             | Inr nc \<Rightarrow> opened new = {nc} \<and> released new = {}))"
  show "wp (case r of Inl err \<Rightarrow> do { setDegradedLocked env (Some err); metric env (IncConnect ''failure'');
         return (Some (startFailed RtConnectionFailed ''start_connect'' ''failed to connect to NATS'' err)) }
     | Inr nc \<Rightarrow> start_setup env c nc) (\<lambda>r s'. attempt_result s r s') t"
  proof (cases r)
    case (Inl err)
    with t show ?thesis
      by (auto simp: wp_simps attempt_result_def same_control_def same_handles_def health_ok_def)
  next
    case (Inr nc)
    with t obtain old where old: "calls t = calls s @ old" "opened old = {nc}" "released old = {}"
      by auto
    show ?thesis
      using t old Inr by (auto intro!: wp_mono [OF start_setup_spec] setup_attempt)
  qed
qed

definition begun :: "('w, 'm) session_scheme \<Rightarrow> goerr option + nat \<Rightarrow> ('w, 'm) session_scheme \<Rightarrow> bool" where
  "begun s b s' \<longleftrightarrow>
     session.more s' = session.more s \<and> same_handles (manager s) (manager s')
     \<and> m_closing (manager s') = m_closing (manager s)
     \<and> m_closeRequested (manager s') = m_closeRequested (manager s)
     \<and> (health_ok (m_health (manager s)) \<longrightarrow> health_ok (m_health (manager s')))
     \<and> (\<exists>new. calls s' = calls s @ new \<and> opened new = {} \<and> released new = {})
     \<and> (case b of
          Inl r \<Rightarrow> manager s' = manager s \<and> (r = None \<longrightarrow> m_nc (manager s) \<noteq> None)
        | Inr ch \<Rightarrow> \<not> m_starting (manager s) \<and> \<not> m_closing (manager s)
            \<and> m_starting (manager s') \<and> m_startDone (manager s') = Some ch
            \<and> ch = m_chans (manager s) \<and> m_chans (manager s') = Suc ch
            \<and> m_effective (manager s') = m_effective (manager s)
            \<and> m_hooks (manager s') = m_hooks (manager s)
            \<and> hs_State (m_health (manager s')) = StateConnecting)"

lemma start_begin_spec: "wp (start_begin env) (\<lambda>b s'. begun s b s') s"
  by (auto simp: start_begin_def begun_def wp_simps same_handles_def health_ok_def split: option.splits)

text \<open>What a call of \<open>Start\<close> leaves behind, in one predicate.\<close>

definition started :: "('w, 'm) session_scheme \<Rightarrow> goerr option \<Rightarrow> ('w, 'm) session_scheme \<Rightarrow> bool" where
  "started s r s' \<longleftrightarrow>
     session.more s' = session.more s
     \<and> m_starting (manager s') = m_starting (manager s) \<and> m_closing (manager s') = m_closing (manager s)
     \<and> manager_ok (manager s')
     \<and> (\<exists>new. calls s' = calls s @ new
          \<and> (case r of
               None \<Rightarrow>
                 manager s' = manager s \<and> m_nc (manager s) \<noteq> None \<and> opened new = {} \<and> released new = {}
                 \<or> (\<exists>nc. opened new = {nc} \<and> released new = {} \<and> connected_to nc (manager s'))
             | Some e \<Rightarrow> opened new \<subseteq> released new \<and> same_handles (manager s) (manager s')
                 \<and> (manager s' = manager s \<or> hs_State (m_health (manager s')) = StateDegraded)))"

lemma Start_early:
  "manager_ok (manager s) \<Longrightarrow> beside s t \<Longrightarrow> r = None \<longrightarrow> m_nc (manager s) \<noteq> None \<Longrightarrow> started s r t"
  by (cases r) (auto simp: started_def beside_def)

lemma begun_early: "beside s t \<Longrightarrow> begun t (Inl r) u \<Longrightarrow> beside s u"
  by (auto simp: begun_def beside_def)

lemma begun_attempt:
  assumes "manager_ok (manager s)" and "beside s t" and "begun t (Inr ch) u"
  shows "wp (start_body env c) (\<lambda>r. wp (start_end ch) (\<lambda>x. wp (return r) (\<lambda>r s'. started s r s'))) u"
  apply (rule wp_mono [OF start_body_spec])
  using assms
  apply (auto simp: start_end_def wp_simps started_def attempt_result_def beside_def begun_def
      manager_ok_def flags_ok_def same_control_def same_handles_def handles_ok_def
      connected_to_def split: option.splits)
  done

lemma Start_spec:
  fixes s :: "('w, 'm) session_scheme"
  assumes ok: "manager_ok (manager s)"
  shows "wp (Start env co) (\<lambda>r s'. started s r s') s"
  unfolding Start_def Let_def
proof (subst wp_bind, rule wp_mono [OF ctx_Err_beside], subst wp_option, split option.split,
    intro conjI impI allI)
  fix cerr :: "goerr option" and t :: "('w, 'm) session_scheme"
  assume t: "beside s t"
  show "wp (return (Some (startFailed RtConnectionFailed ''start''
       ''start context is not usable'' err))) (\<lambda>r s'. started s r s') t" for err
    using Start_early [OF ok t] by (simp add: wp_return)
  show "wp (do { b \<leftarrow> start_begin env;
       case b of Inl early \<Rightarrow> return early
       | Inr startDone \<Rightarrow> do { r \<leftarrow> start_body env (or_background co); start_end startDone; return r } })
     (\<lambda>r s'. started s r s') t"
    unfolding wp_bind wp_sum
  proof (rule wp_mono [OF start_begin_spec])
    fix b :: "goerr option + nat" and u :: "('w, 'm) session_scheme"
    assume u: "begun t b u"
    show "case b of Inl early \<Rightarrow> wp (return early) (\<lambda>r s'. started s r s') u
       | Inr startDone \<Rightarrow> wp (start_body env (or_background co))
           (\<lambda>r. wp (start_end startDone) (\<lambda>x. wp (return r) (\<lambda>r s'. started s r s'))) u"
    proof (cases b)
      case (Inl r)
      with u t have "beside s u" "r = None \<longrightarrow> m_nc (manager s) \<noteq> None"
        by (auto simp: begun_def beside_def)
      with Inl Start_early [OF ok] show ?thesis by (simp add: wp_return)
    next
      case (Inr ch)
      with u begun_attempt [OF ok t] show ?thesis by simp
    qed
  qed
qed

subsection \<open>\<open>Close\<close>\<close>

definition torn_down :: "Manager \<Rightarrow> bool" where
  "torn_down m \<longleftrightarrow> m_nc m = None \<and> m_js m = None \<and> m_kv m = None
     \<and> \<not> m_closing m \<and> \<not> m_closeRequested m \<and> hs_State (m_health m) = StateClosed
     \<and> hs_ConnectedURL (m_health m) = [] \<and> \<not> hs_JetStreamReady (m_health m)
     \<and> \<not> hs_KVReady (m_health m)"

text \<open>
  What a \<open>Close\<close> leaves behind that had nobody to wait for: everything is released, the old
  connection was asked to drain, and it was closed outright when draining did not succeed.
\<close>

definition closed_from :: "('w, 'm) session_scheme \<Rightarrow> goerr option \<Rightarrow> ('w, 'm) session_scheme \<Rightarrow> bool" where
  "closed_from s r s' \<longleftrightarrow>
     session.more s' = session.more s \<and> torn_down (manager s') \<and> manager_ok (manager s')
     \<and> m_starting (manager s') = m_starting (manager s)
     \<and> (\<exists>new. calls s' = calls s @ new \<and> opened new = {}
          \<and> (case m_nc (manager s) of
               None \<Rightarrow> r = None \<and> released new = {}
             | Some nc \<Rightarrow> Drain nc \<in> set new \<and> released new = (if r = None then {} else {nc})))"

lemma drainConnection_spec:
  "wp (drainConnection env c nco d) (\<lambda>r s'. manager s' = manager s \<and> session.more s' = session.more s
     \<and> (\<exists>new. calls s' = calls s @ new \<and> opened new = {} \<and> released new = {}
          \<and> (case nco of None \<Rightarrow> r = None | Some nc \<Rightarrow> Drain nc \<in> set new))) s"
  by (auto simp: drainConnection_def wp_simps split: option.splits race.splits)

lemma close_finish_spec:
  "manager_ok (manager s) \<Longrightarrow> wp (close_finish env e) (\<lambda>r s'. session.more s' = session.more s
     \<and> torn_down (manager s') \<and> manager_ok (manager s') \<and> m_starting (manager s') = m_starting (manager s)
     \<and> (r = None \<longleftrightarrow> e = None)
     \<and> (\<exists>new. calls s' = calls s @ new \<and> opened new = {} \<and> released new = {})) s"
  by (auto simp: close_finish_def wp_simps torn_down_def manager_ok_defs)

lemma close_drain_spec:
  fixes s :: "('w, 'm) session_scheme"
  assumes nco: "m_nc (manager s) = nco" and ok: "manager_ok (manager s)"
  shows "wp (close_drain env c nco d) (\<lambda>r s'. closed_from s r s') s"
  unfolding close_drain_def wp_bind
proof (rule wp_mono [OF drainConnection_spec])
  fix e :: "goerr option" and t :: "('w, 'm) session_scheme"
  assume t: "manager t = manager s \<and> session.more t = session.more s
     \<and> (\<exists>new. calls t = calls s @ new \<and> opened new = {} \<and> released new = {}
          \<and> (case nco of None \<Rightarrow> e = None | Some nc \<Rightarrow> Drain nc \<in> set new))"
  have fin: "wp (close_finish env e) (\<lambda>r s'. closed_from s r s') u"
    if "manager u = manager s" "session.more u = session.more s"
      "calls u = calls s @ old" "opened old = {}"
      "case nco of None \<Rightarrow> e = None \<and> released old = {}
       | Some nc \<Rightarrow> Drain nc \<in> set old \<and> released old = (if e = None then {} else {nc})" for u old
    apply (rule wp_mono [OF close_finish_spec])
    using that ok nco by (auto simp: closed_from_def split: option.splits)
  from t obtain old where old: "calls t = calls s @ old" "opened old = {}" "released old = {}"
    "case nco of None \<Rightarrow> e = None | Some nc \<Rightarrow> Drain nc \<in> set old" by blast
  show "wp (case (e, nco) of (Some err, Some nc) \<Rightarrow> closeConn env nc | _ \<Rightarrow> return ())
      (\<lambda>x. wp (close_finish env e) (\<lambda>r s'. closed_from s r s')) t"
  proof (cases "e = None \<or> nco = None")
    case True
    with t old fin [of t old] show ?thesis
      by (cases e; cases nco) (auto simp: wp_return)
  next
    case False
    then obtain err nc where e: "e = Some err" "nco = Some nc" by auto
    with t old fin [of "t\<lparr>ext := snd (env_close env nc (ext t)), calls := calls t @ [CloseConn nc]\<rparr>"
        "old @ [CloseConn nc]"]
    show ?thesis by (simp add: wp_closeConn)
  qed
qed

lemma Close_spec:
  assumes ok: "manager_ok (manager s)" and idle: "\<not> m_closing (manager s)" "\<not> m_starting (manager s)"
  shows "wp (Close env others co) (\<lambda>r s'. closed_from s r s') s"
proof -
  have sd: "m_startDone (manager s) = None"
    using ok idle by (auto simp: manager_ok_defs)
  show ?thesis
  proof (cases "m_nc (manager s)")
    case None
    then show ?thesis
      using ok idle sd
      by (auto simp: Close_def close_begin_def wp_simps closed_from_def torn_down_def manager_ok_defs Let_def)
  next
    case (Some nc)
    let ?u = "metric_state env (SetConnectionState ''draining'') (s\<lparr>manager := update_health
        (\<lambda>h. h\<lparr>hs_State := StateDraining\<rparr>) ((manager s)\<lparr>m_closing := True, m_closeRequested := True\<rparr>)\<rparr>)"
    have u: "manager_ok (manager ?u)" "m_nc (manager ?u) = Some nc"
      using ok Some by (auto simp: manager_ok_defs)
    have "wp (close_drain env c (Some nc) d) (\<lambda>r s'. closed_from s r s') ?u" for c d
      apply (rule wp_mono [OF close_drain_spec [OF u(2) u(1)]])
      using Some by (auto simp: closed_from_def split: if_splits)
    then show ?thesis
      using Some idle sd by (simp add: Close_def close_begin_def wp_simps Let_def)
  qed
qed

lemma Close_idempotent:
  "m_closing (manager s) \<Longrightarrow> run_state (Close env others co) s = (None, s)"
  by (simp add: Close_def close_begin_def gets_def Let_def)

subsection \<open>Connect timeout, credentials and TLS\<close>

lemma clampConnectTimeout_bounds:
  assumes "0 < configured"
  shows "wp (clampConnectTimeout env c configured) (\<lambda>r s'. case r of
       Inr t \<Rightarrow> 0 < t \<and> t \<le> configured
         \<and> (\<forall>d. Deadline c = Some d \<longrightarrow> t \<le> d - fst (env_now env (ext s)))
     | Inl e \<Rightarrow> \<exists>d. Deadline c = Some d \<and> d \<le> fst (env_now env (ext s))) s"
  using assms by (auto simp: clampConnectTimeout_def wp_simps Let_def split: option.splits)

definition is_auth :: "nats_option \<Rightarrow> bool" where
  "is_auth o' \<longleftrightarrow> (case o' of UserCredentials a b \<Rightarrow> True | NkeyOption n \<Rightarrow> True
     | UserInfo u p \<Rightarrow> True | Token t \<Rightarrow> True | _ \<Rightarrow> False)"

lemma auth_options_one:
  "wp (auth_options env n) (\<lambda>r s'. \<forall>os. r = Inr os \<longrightarrow> length os \<le> 1 \<and> (\<forall>x \<in> set os. is_auth x)) s"
  by (auto simp: auth_options_def wp_simps is_auth_def split: sum.splits)

lemma buildTLSConfig_safe:
  "wp (buildTLSConfig env co) (\<lambda>r s'. \<forall>t. r = Inr (Some t) \<longrightarrow>
      (\<exists>cfg. co = Some cfg \<and> tls_Enabled cfg \<and> tlsc_MinVersion t = VersionTLS12
        \<and> tlsc_InsecureSkipVerify t = tls_InsecureSkipVerify cfg
        \<and> (tlsc_RootCAs t = None \<longleftrightarrow> is_blank (tls_CAFile cfg))
        \<and> (tlsc_Certificates t = [] \<longleftrightarrow> is_blank (tls_CertFile cfg) \<and> is_blank (tls_KeyFile cfg)))) s"
  by (auto simp: buildTLSConfig_def tls_roots_def tls_certs_def wp_simps Let_def is_blank_def
      split: option.splits sum.splits)

end
