(* ===== verification/Kv_Store.thy ===== *)
theory Kv_Store
  imports Session_Lifecycle
begin

text \<open>
  \<open>internal/kv\<close>: the desired-config store on top of a JetStream bucket.  The store reaches the
  session only through the interface \<open>RuntimeProvider\<close>; here that is a record of operations, and
  what the store relies on is the locale \<open>runtime_provider\<close>, interpreted on the session manager.
\<close>

subsection \<open>Data (\<open>store.go\<close>)\<close>

record KVRecord =
  kr_Version :: string
  kr_RPCID :: string
  kr_Target :: string
  kr_UUID :: string
  kr_Payload :: string
  kr_Timestamp :: gotime

record KVStored =
  ks_Record :: KVRecord
  ks_Bucket :: string
  ks_Key :: string
  ks_Revision :: "64 word"
  ks_CreatedAt :: gotime

record 's RuntimeProvider =
  rp_KeyValue :: "('s, kv_handle result) state"
  rp_DesiredConfigBucket :: "('s, string) state"
  rp_DesiredConfigKeyPattern :: "('s, string) state"
  rp_KVTimeout :: "('s, duration) state"

record 'w kv_env = "'w session_env" +
  env_kv_put :: "ctx \<Rightarrow> kv_handle \<Rightarrow> string \<Rightarrow> string \<Rightarrow> 'w \<Rightarrow> 64 word result \<times> 'w"
  env_kv_get :: "ctx \<Rightarrow> kv_handle \<Rightarrow> string \<Rightarrow> 'w \<Rightarrow> kv_entry result \<times> 'w"
  env_kv_watch :: "ctx \<Rightarrow> kv_handle \<Rightarrow> string \<Rightarrow> 'w \<Rightarrow> watcher result \<times> 'w"
  env_watcher_stop :: "watcher \<Rightarrow> 'w \<Rightarrow> goerr option \<times> 'w"
  env_fresh :: "'w \<Rightarrow> nat \<times> 'w"
  env_ready_select :: "ctx \<Rightarrow> 'w \<Rightarrow> ready_outcome \<times> 'w"

text \<open>The store: its runtime, and whether an error sink was injected.\<close>

record 's Store =
  st_runtime :: "'s RuntimeProvider"
  st_errorSink :: bool

definition NewStore :: "'s RuntimeProvider option \<Rightarrow> bool \<Rightarrow> 's Store result" where
  "NewStore runtime errorSink = (case runtime of
       None \<Rightarrow> Inl (rt_validationError ''new_kv_store'' ''runtime provider is required'')
     | Some r \<Rightarrow> Inr \<lparr>st_runtime = r, st_errorSink = errorSink\<rparr>)"

subsection \<open>Helpers (\<open>helpers.go\<close>)\<close>

definition kv_validateToken :: "string \<Rightarrow> string \<Rightarrow> string \<Rightarrow> goerr option" where
  "kv_validateToken op field value = first_err
     [reject_if (is_blank value) (rt_validationError op (field @ '' is required'')),
      reject_if (ContainsAny value ascii_ws)
        (rt_validationError op (field @ '' cannot contain whitespace'')),
      reject_if (Contains value CHR ''.'')
        (rt_validationError op (field @ '' cannot contain '' @ [CHR 0x27, CHR ''.'', CHR 0x27])),
      reject_if (Contains value CHR ''*'' \<or> Contains value CHR ''>'')
        (rt_validationError op (field @ '' cannot contain wildcard tokens'')),
      reject_if (\<not> list_all token_rune_ok (runes value))
        (rt_validationError op (field @ '' contains unsupported characters''))]"

definition buildDesiredConfigKey :: "string \<Rightarrow> string \<Rightarrow> string result" where
  "buildDesiredConfigKey pat target =
     (let trimmed = TrimSpace pat; op = ''build_desired_config_key'' in
      guard_err (first_err
        [reject_if (trimmed = []) (rt_validationError op ''kv key pattern is required''),
         reject_if (ContainsAny trimmed ascii_ws)
           (rt_validationError op ''kv key pattern cannot contain whitespace''),
         reject_if (CountS trimmed \<noteq> 1)
           (rt_validationError op ''kv key pattern must contain exactly one %s placeholder''),
         reject_if (Contains (RemoveS trimmed) CHR ''%'')
           (rt_validationError op ''kv key pattern contains unsupported format directives''),
         kv_validateToken ''validate_target'' ''target'' target])
        (Inr (Sprintf trimmed [target])))"

definition kvStoreError :: "string \<Rightarrow> string \<Rightarrow> goerr \<Rightarrow> goerr" where
  "kvStoreError op msg cause = RuntimeErr RtKVStoreFailed op [] [] msg True (Some cause)"

definition kvReadError :: "string \<Rightarrow> string \<Rightarrow> goerr \<Rightarrow> goerr" where
  "kvReadError op msg cause = RuntimeErr RtKVReadFailed op [] [] msg True (Some cause)"

subsection \<open>The stored record\<close>

definition kv_validateRecord :: "KVRecord \<Rightarrow> goerr option" where
  "kv_validateRecord rec =
     (let op = ''validate_desired_config_record'' in first_err
     [reject_if (is_blank (kr_Version rec)) (rt_validationError op ''version is required''),
      reject_if (is_blank (kr_RPCID rec)) (rt_validationError op ''rpc_id is required''),
      reject_if (is_blank (kr_Target rec)) (rt_validationError op ''target is required''),
      reject_if (is_blank (kr_UUID rec)) (rt_validationError op ''uuid is required''),
      reject_if (IsZero (kr_Timestamp rec)) (rt_validationError op ''timestamp is required''),
      reject_if (kr_Payload rec = []) (rt_validationError op ''payload is required''),
      reject_if (\<not> Valid (kr_Payload rec)) (rt_validationError op ''payload must contain valid JSON''),
      kv_validateToken ''validate_target'' ''target'' (kr_Target rec)])"

text \<open>The struct has no JSON tags, so the members carry the names of the Go fields.\<close>

definition kv_wire :: "KVRecord \<Rightarrow> struct" where
  "kv_wire rec =
     [(''Version'', JString (kr_Version rec)), (''RPCID'', JString (kr_RPCID rec)),
      (''Target'', JString (kr_Target rec)), (''UUID'', JString (kr_UUID rec)),
      (''Payload'', JRaw (kr_Payload rec)), (''Timestamp'', JTime (kr_Timestamp rec))]"

definition kv_schema :: "(string \<times> field_kind) list" where
  "kv_schema =
     [(''Version'', StringField), (''RPCID'', StringField), (''Target'', StringField),
      (''UUID'', StringField), (''Payload'', RawField), (''Timestamp'', TimeField)]"

definition kv_read :: "struct \<Rightarrow> KVRecord" where
  "kv_read st =
     \<lparr>kr_Version = get_string st ''Version'', kr_RPCID = get_string st ''RPCID'',
      kr_Target = get_string st ''Target'', kr_UUID = get_string st ''UUID'',
      kr_Payload = get_raw st ''Payload'', kr_Timestamp = get_time st ''Timestamp''\<rparr>"

definition kv_encodeRecord :: "KVRecord \<Rightarrow> string result" where
  "kv_encodeRecord rec = guard_err (kv_validateRecord rec)
     (map_err (\<lambda>err. RuntimeErr RtEncodeFailed ''store_desired_config'' [] []
        ''failed to encode desired config'' False (Some err)) (Marshal (kv_wire rec)))"

definition kv_decodeRecord :: "string \<Rightarrow> KVRecord result" where
  "kv_decodeRecord data =
     (if data = [] then Inl (rt_validationError ''load_desired_config'' ''payload is required'')
      else try_bind (map_err (\<lambda>err. RuntimeErr RtDecodeFailed ''load_desired_config'' [] []
             ''failed to decode desired config'' False (Some err)) (Unmarshal kv_schema data))
        (\<lambda>st. let rec = kv_read st in guard_err (kv_validateRecord rec) (Inr rec)))"

definition isConfigNotFound :: "goerr \<Rightarrow> bool" where
  "isConfigNotFound err \<longleftrightarrow>
     is_sentinel NatsKeyNotFound err \<or> is_sentinel NatsKeyDeleted err
     \<or> is_sentinel JsKeyNotFound err \<or> is_sentinel JsKeyDeleted err
     \<or> contains_str ''key not found'' (ToLower (Error err))
     \<or> contains_str ''key was deleted'' (ToLower (Error err))"

subsection \<open>Operations (\<open>store.go\<close>)\<close>

definition kv_withTimeout :: "('w, 'e) session_env_scheme \<Rightarrow> ctx option \<Rightarrow> duration \<Rightarrow> (('w, 'm) world_scheme, ctx) state" where
  "kv_withTimeout env co d =
     (let c = or_background co in
      if Deadline c \<noteq> None \<or> d \<le> 0 then return c else WithTimeout env c d)"

definition reportAsync :: "('w, 'e) session_env_scheme \<Rightarrow> bool \<Rightarrow> goerr option \<Rightarrow> (('w, 'm) world_scheme, unit) state" where
  "reportAsync env sink err = (case err of
       None \<Rightarrow> return ()
     | Some e \<Rightarrow> only_if sink (hook env (ErrorSink e)))"

definition kvPut :: "('w, 'e) kv_env_scheme \<Rightarrow> ctx \<Rightarrow> kv_handle \<Rightarrow> string \<Rightarrow> string \<Rightarrow> (('w, 'm) world_scheme, 64 word result) state" where
  "kvPut env c h key data = ask_log (env_kv_put env c h key data) (KvPut h key data)"

definition kvGet :: "('w, 'e) kv_env_scheme \<Rightarrow> ctx \<Rightarrow> kv_handle \<Rightarrow> string \<Rightarrow> (('w, 'm) world_scheme, kv_entry result) state" where
  "kvGet env c h key = ask_log (env_kv_get env c h key) (KvGet h key)"

text \<open>The second half of \<open>StoreDesiredConfig\<close>: write, then read the metadata back.\<close>

definition kv_writeRecord :: "('w, 'e) kv_env_scheme \<Rightarrow> ('w, 'm) world_scheme Store \<Rightarrow> ctx option \<Rightarrow> KVRecord
    \<Rightarrow> string \<Rightarrow> kv_handle \<Rightarrow> string \<Rightarrow> (('w, 'm) world_scheme, KVStored result) state" where
  "kv_writeRecord env st co rec key h payload = do {
     d \<leftarrow> rp_KVTimeout (st_runtime st);
     opCtx \<leftarrow> kv_withTimeout env co d;
     put \<leftarrow> kvPut env opCtx h key payload;
     case put of
       Inl err \<Rightarrow> return (Inl (kvStoreError ''store_desired_config''
         ''failed to write desired config to KV'' err))
     | Inr revision \<Rightarrow> do {
         got \<leftarrow> kvGet env opCtx h key;
         (case got of
            Inl getErr \<Rightarrow> reportAsync env (st_errorSink st) (Some (kvReadError
              ''store_desired_config_post_read'' ''stored config metadata lookup failed'' getErr))
          | Inr e \<Rightarrow> return ());
         bucket \<leftarrow> rp_DesiredConfigBucket (st_runtime st);
         return (Inr \<lparr>ks_Record = rec, ks_Bucket = bucket, ks_Key = key,
           ks_Revision = (case got of Inl _ \<Rightarrow> revision | Inr e \<Rightarrow> kve_Revision e),
           ks_CreatedAt = (case got of Inl _ \<Rightarrow> kr_Timestamp rec
             | Inr e \<Rightarrow> if IsZero (kve_Created e) then kr_Timestamp rec else kve_Created e)\<rparr>)
       }
   }"

definition kv_StoreDesiredConfig :: "('w, 'e) kv_env_scheme \<Rightarrow> ('w, 'm) world_scheme Store \<Rightarrow> ctx option \<Rightarrow> KVRecord
    \<Rightarrow> (('w, 'm) world_scheme, KVStored result) state" where
  "kv_StoreDesiredConfig env st co rec = (case kv_validateRecord rec of
       Some err \<Rightarrow> return (Inl err)
     | None \<Rightarrow> do {
         pat \<leftarrow> rp_DesiredConfigKeyPattern (st_runtime st);
         try_then (return (buildDesiredConfigKey pat (kr_Target rec))) (\<lambda>key.
         try_then (rp_KeyValue (st_runtime st)) (\<lambda>h.
         try_then (return (kv_encodeRecord rec)) (\<lambda>payload.
         kv_writeRecord env st co rec key h payload)))
       })"

text \<open>How a KV entry becomes a stored config, on the load and on the watch path.\<close>

definition storedOfEntry :: "kv_entry \<Rightarrow> KVRecord \<Rightarrow> KVStored" where
  "storedOfEntry e rec =
     \<lparr>ks_Record = rec, ks_Bucket = kve_Bucket e, ks_Key = kve_Key e, ks_Revision = kve_Revision e,
      ks_CreatedAt = (if IsZero (kve_Created e) then kr_Timestamp rec else kve_Created e)\<rparr>"

definition configNotFound :: "string \<Rightarrow> goerr \<Rightarrow> goerr" where
  "configNotFound key err = RuntimeErr RtConfigNotFound ''load_desired_config'' [] key
     ''desired config not found'' False (Some err)"

definition kv_LoadDesiredConfig :: "('w, 'e) kv_env_scheme \<Rightarrow> ('w, 'm) world_scheme Store \<Rightarrow> ctx option \<Rightarrow> string
    \<Rightarrow> (('w, 'm) world_scheme, KVStored result) state" where
  "kv_LoadDesiredConfig env st co target = do {
     pat \<leftarrow> rp_DesiredConfigKeyPattern (st_runtime st);
     try_then (return (buildDesiredConfigKey pat target)) (\<lambda>key.
     try_then (rp_KeyValue (st_runtime st)) (\<lambda>h. do {
       d \<leftarrow> rp_KVTimeout (st_runtime st);
       opCtx \<leftarrow> kv_withTimeout env co d;
       got \<leftarrow> kvGet env opCtx h key;
       return (case got of
           Inl err \<Rightarrow> Inl (if isConfigNotFound err then configNotFound key err
             else kvReadError ''load_desired_config'' ''failed to read desired config from KV'' err)
         | Inr e \<Rightarrow> try_bind (kv_decodeRecord (kve_Value e)) (\<lambda>rec. Inr (storedOfEntry e rec)))
     }))
   }"

subsection \<open>Watching (\<open>watch.go\<close>)\<close>

text \<open>What the loop of \<open>consumeWatch\<close> receives: its context ends, the update channel is closed, the nil
  entry that marks the end of the initial values, or an entry.\<close>

datatype watch_event = WatchCtxDone | UpdatesClosed | NilEntry | Update kv_entry

text \<open>The loop still waits, has returned, or was ended by a panic of the handler.\<close>

datatype watch_status = Waiting | Ended | Crashed string

text \<open>
  \<open>consumeWatch\<close> on the events it has received so far; the first component says whether the channel
  \<open>ready\<close> is closed, which the deferred \<open>markReady\<close> also does when the loop returns.
\<close>

fun consumeWatch :: "('w, 'e) kv_env_scheme \<Rightarrow> bool \<Rightarrow> ctx
    \<Rightarrow> (ctx \<Rightarrow> KVStored \<Rightarrow> (('w, 'm) world_scheme, handler_outcome) state)
    \<Rightarrow> watch_event list \<Rightarrow> bool \<Rightarrow> (('w, 'm) world_scheme, bool \<times> watch_status) state" where
  "consumeWatch env sink c handler [] ready = return (ready, Waiting)"
| "consumeWatch env sink c handler (WatchCtxDone # evs) ready = return (True, Ended)"
| "consumeWatch env sink c handler (UpdatesClosed # evs) ready = return (True, Ended)"
| "consumeWatch env sink c handler (NilEntry # evs) ready = consumeWatch env sink c handler evs True"
| "consumeWatch env sink c handler (Update e # evs) ready =
     (if kve_Value e = [] then consumeWatch env sink c handler evs ready
      else (case kv_decodeRecord (kve_Value e) of
          Inl err \<Rightarrow> do {
            reportAsync env sink (Some (kvReadError ''watch_desired_config_decode''
              ''failed to decode desired-config watch entry'' err));
            consumeWatch env sink c handler evs ready
          }
        | Inr rec \<Rightarrow> do {
            out \<leftarrow> handler c (storedOfEntry e rec);
            case out of
              HPanic t \<Rightarrow> return (True, Crashed t)
            | HReturn herr \<Rightarrow> do {
                reportAsync env sink (map_option (kvReadError ''watch_desired_config_handler''
                  ''desired-config watch handler returned error'') herr);
                consumeWatch env sink c handler evs ready
              }
          }))"

record KVWatch =
  kw_ctx :: ctx
  kw_watcher :: watcher

definition waitForWatchReady :: "('w, 'e) kv_env_scheme \<Rightarrow> ctx option \<Rightarrow> duration \<Rightarrow> (('w, 'm) world_scheme, goerr option) state" where
  "waitForWatchReady env co d = do {
     waitCtx \<leftarrow> kv_withTimeout env co d;
     r \<leftarrow> ask_log (env_ready_select env waitCtx) AwaitReady;
     return (case r of ReadyClosed \<Rightarrow> None
       | DoneClosed \<Rightarrow> Some (SentinelErr CtxCanceled ''context canceled'')
       | WaitExpired err \<Rightarrow> Some err)
   }"

definition stopWatcher :: "('w, 'e) kv_env_scheme \<Rightarrow> KVWatch \<Rightarrow> (('w, 'm) world_scheme, unit) state" where
  "stopWatcher env w = do {
     emit (Cancel (kw_ctx w));
     ask_log (env_watcher_stop env (kw_watcher w)) (\<lambda>_. WatcherStop (kw_watcher w));
     return ()
   }"

text \<open>The returned \<open>StopFunc\<close>: \<open>once\<close> lets only the first call through, and the answer is nil.\<close>

definition kv_stop :: "('w, 'e) kv_env_scheme \<Rightarrow> KVWatch \<Rightarrow> bool \<Rightarrow> (('w, 'm) world_scheme, goerr option) state" where
  "kv_stop env w already = do { only_if (\<not> already) (stopWatcher env w); return None }"

text \<open>The handler is nil or present; the loop that runs it is \<open>consumeWatch\<close> on the returned watch.\<close>

definition kv_WatchDesiredConfig :: "('w, 'e) kv_env_scheme \<Rightarrow> ('w, 'm) world_scheme Store \<Rightarrow> ctx option \<Rightarrow> string
    \<Rightarrow> nat option \<Rightarrow> (('w, 'm) world_scheme, KVWatch result) state" where
  "kv_WatchDesiredConfig env st co target handler =
     (if handler = None
      then return (Inl (rt_validationError ''watch_desired_config'' ''watch handler is required''))
      else do {
        pat \<leftarrow> rp_DesiredConfigKeyPattern (st_runtime st);
        try_then (return (buildDesiredConfigKey pat target)) (\<lambda>key.
        try_then (rp_KeyValue (st_runtime st)) (\<lambda>h. do {
          i \<leftarrow> ask (env_fresh env);
          let watchCtx = WithCancel Background i;
          wr \<leftarrow> ask_log (env_kv_watch env watchCtx h key) (KvWatch h key);
          case wr of
            Inl err \<Rightarrow> do {
              emit (Cancel watchCtx);
              return (Inl (kvReadError ''watch_desired_config'' ''failed to start desired-config watch'' err))
            }
          | Inr watcher \<Rightarrow> do {
              d \<leftarrow> rp_KVTimeout (st_runtime st);
              werr \<leftarrow> waitForWatchReady env co d;
              case werr of
                None \<Rightarrow> return (Inr \<lparr>kw_ctx = watchCtx, kw_watcher = watcher\<rparr>)
              | Some err \<Rightarrow> do {
                  stopWatcher env \<lparr>kw_ctx = watchCtx, kw_watcher = watcher\<rparr>;
                  return (Inl (kvReadError ''watch_desired_config''
                    ''desired-config watch did not become ready'' err))
                }
            }
        }))
      })"

subsection \<open>What the helpers accept\<close>

text \<open>The store checks targets exactly as the subject builder does.\<close>

lemma kv_validateToken_target: "kv_validateToken ''validate_target'' ''target'' t = ValidateTarget t"
  by (simp add: kv_validateToken_def ValidateTarget_def validateToken_def first_err_Cons reject_if_def
      split: option.splits)

interpretation kv_target: token_validator "kv_validateToken op field"
  by unfold_locales (auto simp: kv_validateToken_def first_err_None_iff)

lemma kv_validateRecord_accepts [validation_simps]:
  "kv_validateRecord r = None \<longleftrightarrow>
     \<not> is_blank (kr_Version r) \<and> \<not> is_blank (kr_RPCID r) \<and> \<not> is_blank (kr_UUID r)
     \<and> \<not> IsZero (kr_Timestamp r) \<and> Valid (kr_Payload r) \<and> ValidateTarget (kr_Target r) = None"
  by (auto simp: kv_validateRecord_def Let_def first_err_None_iff kv_validateToken_target validation_simps)

lemma buildDesiredConfigKey_Inr:
  "buildDesiredConfigKey p t = Inr k \<longleftrightarrow>
     TrimSpace p \<noteq> [] \<and> validateKeyPattern (TrimSpace p) = None \<and> ValidateTarget t = None
     \<and> k = Sprintf (TrimSpace p) [t]"
  by (auto simp: buildDesiredConfigKey_def Let_def first_err_None_iff kv_validateToken_target
      validateKeyPattern_accepts Contains_def guard_err_def first_err_Some_mem split: option.splits)

text \<open>A normalised pattern accepts every valid target.\<close>

lemma key_of_normalised:
  assumes "kv_ok k" and "ValidateTarget t = None"
  shows "buildDesiredConfigKey (kv_KeyPattern k) t = Inr (Sprintf (kv_KeyPattern k) [t])"
  using assms by (simp add: buildDesiredConfigKey_Inr kv_ok_def)

end
