(* ===== verification/Kv_Contract.thy ===== *)
theory Kv_Contract
  imports Kv_Store
begin

text \<open>
  What the desired-config store guarantees, proved once for any runtime that keeps the contract of
  the interface \<open>RuntimeProvider\<close>, and the session manager as such a runtime.
\<close>

subsection \<open>The writes in a trace\<close>

fun is_put :: "call \<Rightarrow> bool" where
  "is_put (KvPut h key data r) \<longleftrightarrow> True"
| "is_put _ \<longleftrightarrow> False"

fun put_done :: "call \<Rightarrow> bool" where
  "put_done (KvPut h key data (Inr revn)) \<longleftrightarrow> True"
| "put_done _ \<longleftrightarrow> False"

fun is_publish :: "call \<Rightarrow> bool" where
  "is_publish (NcPublish nc subject data r) \<longleftrightarrow> True"
| "is_publish _ \<longleftrightarrow> False"

definition puts :: "call list \<Rightarrow> call list" where
  "puts cs = filter is_put cs"

definition publishes :: "call list \<Rightarrow> call list" where
  "publishes cs = filter is_publish cs"

lemma puts_simps [simp]:
  "puts [] = []" "puts (cs @ ds) = puts cs @ puts ds"
  "puts (c # cs) = (if is_put c then c # puts cs else puts cs)"
  "publishes [] = []" "publishes (cs @ ds) = publishes cs @ publishes ds"
  "publishes (c # cs) = (if is_publish c then c # publishes cs else publishes cs)"
  by (simp_all add: puts_def publishes_def)

lemma is_put_hook [simp]: "\<not> is_put (ErrorSink e)" "\<not> is_publish (ErrorSink e)"
  by simp_all

subsection \<open>The contract of a runtime\<close>

text \<open>
  The settings are read without effect and without changing; asking for the KV handle may consult
  the world, but changes neither the settings nor the trace.
\<close>

locale runtime_provider = world_frame keeps
  for keeps :: "('w, 'm) world_scheme \<Rightarrow> ('w, 'm) world_scheme \<Rightarrow> bool" +
  fixes rp :: "('w, 'm) world_scheme RuntimeProvider"
    and conf :: "('w, 'm) world_scheme \<Rightarrow> KVConfig"
  assumes pattern: "run_state (rp_DesiredConfigKeyPattern rp) s = (kv_KeyPattern (conf s), s)"
    and bucket: "run_state (rp_DesiredConfigBucket rp) s = (kv_Bucket (conf s), s)"
    and timeout: "\<exists>d. run_state (rp_KVTimeout rp) s = (d, s)"
    and handle: "run_state (rp_KeyValue rp) s = (r, s') \<Longrightarrow> calls s' = calls s \<and> keeps s s'"
    and conf_keeps: "keeps s t \<Longrightarrow> conf t = conf s"
begin

lemma wp_provider [wp_simps]:
  "wp (rp_DesiredConfigKeyPattern rp) Q s \<longleftrightarrow> Q (kv_KeyPattern (conf s)) s"
  "wp (rp_DesiredConfigBucket rp) Q s \<longleftrightarrow> Q (kv_Bucket (conf s)) s"
  by (simp_all add: wp_def pattern bucket)

lemma wp_timeout: "(\<And>d. Q d s) \<Longrightarrow> wp (rp_KVTimeout rp) Q s"
  using timeout [of s] by (auto simp: wp_def)

lemma wp_handle: "(\<And>r t. calls t = calls s \<Longrightarrow> keeps s t \<Longrightarrow> Q r t) \<Longrightarrow> wp (rp_KeyValue rp) Q s"
  using handle [of s] by (auto intro!: wpI)

lemma conf_world [simp]:
  "conf (s\<lparr>ext := x\<rparr>) = conf s" "conf (s\<lparr>calls := cs\<rparr>) = conf s"
  by (rule conf_keeps, rule keeps_ext) (rule conf_keeps, rule keeps_calls)

text \<open>What a store call leaves in the trace and answers.\<close>

definition store_result :: "KVRecord \<Rightarrow> ('w, 'm) world_scheme \<Rightarrow> KVStored result \<Rightarrow> ('w, 'm) world_scheme \<Rightarrow> bool" where
  "store_result rec s r s' \<longleftrightarrow> keeps s s'
     \<and> (\<exists>new. calls s' = calls s @ new \<and> publishes new = []
        \<and> (case r of
             Inl e \<Rightarrow> \<not> list_ex put_done new \<and> length (puts new) \<le> 1
           | Inr st \<Rightarrow> kv_validateRecord rec = None \<and> ks_Record st = rec
               \<and> ks_Bucket st = kv_Bucket (conf s)
               \<and> buildDesiredConfigKey (kv_KeyPattern (conf s)) (kr_Target rec) = Inr (ks_Key st)
               \<and> (\<exists>h payload revn. kv_encodeRecord rec = Inr payload
                    \<and> puts new = [KvPut h (ks_Key st) payload (Inr revn)])))"

lemma wp_withTimeout:
  "(\<And>c t. calls t = calls s \<Longrightarrow> keeps s t \<Longrightarrow> Q c t) \<Longrightarrow> wp (kv_withTimeout env co d) Q s"
  by (simp add: kv_withTimeout_def Let_def wp_simps keeps_refl keeps_upd)

lemma write_spec:
  assumes "kv_validateRecord rec = None" and "kv_encodeRecord rec = Inr payload"
    and "buildDesiredConfigKey (kv_KeyPattern (conf s)) (kr_Target rec) = Inr key"
    and t: "calls t = calls s" "keeps s t"
  shows "wp (kv_writeRecord env \<lparr>st_runtime = rp, st_errorSink = sink\<rparr> co rec key h payload)
     (\<lambda>r s'. store_result rec s r s') t"
  unfolding kv_writeRecord_def wp_bind Store.simps
proof (rule wp_timeout, rule wp_withTimeout)
  fix d c and u :: "('w, 'm) world_scheme"
  assume "calls u = calls t" "keeps t u"
  then have u: "calls u = calls s" "keeps s u" "conf u = conf s"
    using t keeps_trans [OF t(2)] conf_keeps by auto
  show "wp (kvPut env c h key payload) (\<lambda>put. wp (case put of
       Inl err \<Rightarrow> return (Inl (kvStoreError ''store_desired_config''
         ''failed to write desired config to KV'' err))
     | Inr revision \<Rightarrow> do {
         got \<leftarrow> kvGet env c h key;
         (case got of
            Inl getErr \<Rightarrow> reportAsync env sink (Some (kvReadError
              ''store_desired_config_post_read'' ''stored config metadata lookup failed'' getErr))
          | Inr e \<Rightarrow> return ());
         bucket \<leftarrow> rp_DesiredConfigBucket rp;
         return (Inr \<lparr>ks_Record = rec, ks_Bucket = bucket, ks_Key = key,
           ks_Revision = (case got of Inl _ \<Rightarrow> revision | Inr e \<Rightarrow> kve_Revision e),
           ks_CreatedAt = (case got of Inl _ \<Rightarrow> kr_Timestamp rec
             | Inr e \<Rightarrow> if IsZero (kve_Created e) then kr_Timestamp rec else kve_Created e)\<rparr>)
       }) (\<lambda>r s'. store_result rec s r s')) u"
    using assms(1-3) u
    by (auto simp: kvPut_def kvGet_def reportAsync_def wp_simps store_result_def keeps_upd
        split: sum.splits)
qed

lemma store_spec:
  "wp (kv_StoreDesiredConfig env \<lparr>st_runtime = rp, st_errorSink = sink\<rparr> co rec)
     (\<lambda>r s'. store_result rec s r s') s"
proof (cases "kv_validateRecord rec")
  case (Some err)
  then show ?thesis
    by (simp add: kv_StoreDesiredConfig_def wp_simps store_result_def keeps_refl)
next
  case None
  show ?thesis
  proof (cases "buildDesiredConfigKey (kv_KeyPattern (conf s)) (kr_Target rec)")
    case (Inl e)
    then show ?thesis using None
      by (simp add: kv_StoreDesiredConfig_def wp_simps store_result_def keeps_refl)
  next
    case (Inr key)
    have "wp (rp_KeyValue rp) (\<lambda>r t. case r of
          Inl e \<Rightarrow> store_result rec s (Inl e) t
        | Inr h \<Rightarrow> case kv_encodeRecord rec of
            Inl e \<Rightarrow> store_result rec s (Inl e) t
          | Inr payload \<Rightarrow> wp (kv_writeRecord env \<lparr>st_runtime = rp, st_errorSink = sink\<rparr> co rec key h payload)
              (\<lambda>r s'. store_result rec s r s') t) s"
      by (rule wp_handle) (auto simp: store_result_def None Inr write_spec split: sum.splits)
    with Inr None show ?thesis
      by (simp add: kv_StoreDesiredConfig_def wp_simps cong: sum.case_cong)
  qed
qed

text \<open>Loading writes nothing and answers only records that pass the validator.\<close>

definition load_result :: "string \<Rightarrow> ('w, 'm) world_scheme \<Rightarrow> KVStored result \<Rightarrow> ('w, 'm) world_scheme \<Rightarrow> bool" where
  "load_result target s r s' \<longleftrightarrow> keeps s s'
     \<and> (\<exists>new. calls s' = calls s @ new \<and> puts new = [] \<and> publishes new = []
        \<and> (\<forall>st. r = Inr st \<longrightarrow> ValidateTarget target = None
             \<and> kv_validateRecord (ks_Record st) = None
             \<and> (\<exists>h e key. buildDesiredConfigKey (kv_KeyPattern (conf s)) target = Inr key
                  \<and> new = [KvGet h key (Inr e)] \<and> kv_decodeRecord (kve_Value e) = Inr (ks_Record st)
                  \<and> st = storedOfEntry e (ks_Record st))))"

lemma decode_valid: "kv_decodeRecord data = Inr rec \<Longrightarrow> kv_validateRecord rec = None"
  by (auto simp: kv_decodeRecord_def Let_def split: if_splits)

lemma load_spec:
  "wp (kv_LoadDesiredConfig env \<lparr>st_runtime = rp, st_errorSink = sink\<rparr> co target)
     (\<lambda>r s'. load_result target s r s') s"
proof (cases "buildDesiredConfigKey (kv_KeyPattern (conf s)) target")
  case (Inl e)
  then show ?thesis
    by (simp add: kv_LoadDesiredConfig_def wp_simps load_result_def keeps_refl)
next
  case (Inr key)
  have v: "ValidateTarget target = None"
    using Inr by (simp add: buildDesiredConfigKey_Inr)
  have "wp (rp_KeyValue rp) (\<lambda>r t. case r of
        Inl e \<Rightarrow> load_result target s (Inl e) t
      | Inr h \<Rightarrow> wp (rp_KVTimeout rp) (\<lambda>d. wp (kv_withTimeout env co d) (\<lambda>c. wp (kvGet env c h key)
          (\<lambda>got t. load_result target s (case got of
             Inl err \<Rightarrow> Inl (if isConfigNotFound err then configNotFound key err
               else kvReadError ''load_desired_config'' ''failed to read desired config from KV'' err)
           | Inr e \<Rightarrow> try_bind (kv_decodeRecord (kve_Value e)) (\<lambda>rec. Inr (storedOfEntry e rec))) t))) t) s"
    apply (rule wp_handle)
    apply (simp split: sum.split)
    apply (intro conjI allI impI)
     apply (simp add: load_result_def)
    apply (rule wp_timeout, rule wp_withTimeout)
    using Inr v decode_valid
    apply (auto simp: kvGet_def wp_simps load_result_def try_bind_def storedOfEntry_def split: sum.splits
        intro!: keeps_upd intro: keeps_trans)
    done
  with Inr show ?thesis
    by (simp add: kv_LoadDesiredConfig_def wp_simps wp_fun cong: sum.case_cong)
qed

end

subsection \<open>The session manager as a runtime\<close>

definition session_provider :: "('w, 'e) session_env_scheme \<Rightarrow> ('w, 'm) session_scheme RuntimeProvider" where
  "session_provider env =
     \<lparr>rp_KeyValue = KeyValue env,
      rp_DesiredConfigBucket = gets (\<lambda>s. DesiredConfigBucket (manager s)),
      rp_DesiredConfigKeyPattern = gets (\<lambda>s. DesiredConfigKeyPattern (manager s)),
      rp_KVTimeout = gets (\<lambda>s. KVTimeout (manager s))\<rparr>"

definition session_conf :: "('w, 'm) session_scheme \<Rightarrow> KVConfig" where
  "session_conf s = KV (m_EffectiveConfig (manager s))"

lemma KeyValue_quiet: "quiet (KeyValue env)"
  unfolding KeyValue_def
  by (intro quiet_bind quiet_gets quiet_option quiet_return quiet_ask quiet_if)

interpretation session_kv: runtime_provider same_session "session_provider env" session_conf
proof
  fix s s' :: "('a, 'b) session_scheme" and r
  assume "run_state (rp_KeyValue (session_provider env)) s = (r, s')"
  then have "run_state (KeyValue env) s = (r, s')" by (simp add: session_provider_def)
  from wpD [OF quietD [OF KeyValue_quiet] this]
  show "calls s' = calls s \<and> same_session s s'" by (simp add: same_session_def)
qed (auto simp: session_provider_def session_conf_def DesiredConfigKeyPattern_def DesiredConfigBucket_def
      gets_def same_session_def)

subsection \<open>The watch loop\<close>

text \<open>The user handlers a stretch of the trace ran, with the messages they got.\<close>

fun run_message :: "call \<Rightarrow> message list" where
  "run_message (RunHandler i c m r) = [m]"
| "run_message _ = []"

definition handler_runs :: "call list \<Rightarrow> message list" where
  "handler_runs cs = concat (map run_message cs)"

lemma handler_runs_simps [simp]:
  "handler_runs [] = []" "handler_runs (cs @ ds) = handler_runs cs @ handler_runs ds"
  "handler_runs (c # cs) = run_message c @ handler_runs cs"
  by (simp_all add: handler_runs_def)

text \<open>What the loop is to deliver: the records of the updates before its end that decode, in order.\<close>

fun deliveries :: "watch_event list \<Rightarrow> KVStored list" where
  "deliveries [] = []"
| "deliveries (WatchCtxDone # evs) = []"
| "deliveries (UpdatesClosed # evs) = []"
| "deliveries (NilEntry # evs) = deliveries evs"
| "deliveries (Update e # evs) =
     (case kv_decodeRecord (kve_Value e) of Inl err \<Rightarrow> deliveries evs
      | Inr rec \<Rightarrow> storedOfEntry e rec # deliveries evs)"

fun terminated :: "watch_event list \<Rightarrow> bool" where
  "terminated [] \<longleftrightarrow> False"
| "terminated (WatchCtxDone # evs) \<longleftrightarrow> True"
| "terminated (UpdatesClosed # evs) \<longleftrightarrow> True"
| "terminated (_ # evs) \<longleftrightarrow> terminated evs"

fun initial_seen :: "watch_event list \<Rightarrow> bool" where
  "initial_seen [] \<longleftrightarrow> False"
| "initial_seen (WatchCtxDone # evs) \<longleftrightarrow> False"
| "initial_seen (UpdatesClosed # evs) \<longleftrightarrow> False"
| "initial_seen (NilEntry # evs) \<longleftrightarrow> True"
| "initial_seen (Update e # evs) \<longleftrightarrow> initial_seen evs"

lemma kv_decode_empty: "\<exists>err. kv_decodeRecord [] = Inl err"
  by (simp add: kv_decodeRecord_def)

text \<open>The answers of the user handlers a stretch of the trace ran, with the messages they got.\<close>

fun answer_of :: "call \<Rightarrow> (message \<times> handler_outcome) list" where
  "answer_of (RunHandler i c m r) = [(m, r)]"
| "answer_of _ = []"

definition answers :: "call list \<Rightarrow> (message \<times> handler_outcome) list" where
  "answers cs = concat (map answer_of cs)"

lemma answers_simps [simp]:
  "answers [] = []" "answers (cs @ ds) = answers cs @ answers ds"
  "answers (c # cs) = answer_of c @ answers cs"
  by (simp_all add: answers_def)

fun returned :: "message \<times> handler_outcome \<Rightarrow> bool" where
  "returned (m, HReturn e) \<longleftrightarrow> True"
| "returned (m, HPanic t) \<longleftrightarrow> False"

lemma reportAsync_answers:
  "wp (reportAsync env sink err) (\<lambda>r t. \<exists>new. calls t = calls s @ new \<and> answers new = []) s"
  by (auto simp: reportAsync_def wp_simps split: option.splits)

text \<open>A handler that runs the user function once, with a message made of the stored config, and hands
  on its answer.\<close>

definition asks_once :: "(KVStored \<Rightarrow> message) \<Rightarrow> (KVStored \<Rightarrow> (('w, 'm) world_scheme, handler_outcome) state) \<Rightarrow> bool" where
  "asks_once msg handler \<longleftrightarrow> (\<forall>st s. wp (handler st) (\<lambda>out t.
     \<exists>new. calls t = calls s @ new \<and> answers new = [(msg st, out)]) s)"

text \<open>
  What the loop does with its events: it serves all of them and the handler returned every time, or the
  handler panicked on one of them and nothing after it was delivered.
\<close>

definition served :: "message list \<Rightarrow> (message \<times> handler_outcome) list \<Rightarrow> bool \<Rightarrow> watch_status \<Rightarrow> bool \<times> watch_status \<Rightarrow> bool" where
  "served ms as ready st r \<longleftrightarrow> (case snd r of
       Crashed p \<Rightarrow> fst r \<and> (\<exists>pre m rest. as = pre @ [(m, HPanic p)] \<and> list_all returned pre
         \<and> ms = map fst pre @ m # rest)
     | _ \<Rightarrow> map fst as = ms \<and> list_all returned as \<and> r = (ready, st))"

definition watched :: "(KVStored \<Rightarrow> message) \<Rightarrow> watch_event list \<Rightarrow> bool \<Rightarrow> ('w, 'm) world_scheme
    \<Rightarrow> bool \<times> watch_status \<Rightarrow> ('w, 'm) world_scheme \<Rightarrow> bool" where
  "watched msg evs ready s r t \<longleftrightarrow> (\<exists>new. calls t = calls s @ new
     \<and> served (map msg (deliveries evs)) (answers new) (ready \<or> initial_seen evs \<or> terminated evs)
         (if terminated evs then Ended else Waiting) r)"

lemma served_more:
  assumes "served ms as ready st r" "returned a"
  shows "served (fst a # ms) (a # as) ready st r"
proof (cases "snd r")
  case (Crashed p)
  with assms obtain pre m rest where "fst r" "as = pre @ [(m, HPanic p)]" "list_all returned pre" "ms = map fst pre @ m # rest"
    by (auto simp: served_def)
  with Crashed assms(2) show ?thesis
    by (auto simp: served_def intro: exI [of _ "a # pre"])
qed (use assms in \<open>auto simp: served_def\<close>)

lemma watched_skip:
  "watched msg evs ready u r t \<Longrightarrow> calls u = calls s @ old \<Longrightarrow> answers old = [] \<Longrightarrow>
   deliveries evs' = deliveries evs \<Longrightarrow> initial_seen evs' = initial_seen evs \<Longrightarrow>
   terminated evs' = terminated evs \<Longrightarrow> watched msg evs' ready s r t"
  by (auto simp: watched_def)

lemma watched_next:
  assumes "watched msg evs ready u r t" "calls u = calls s @ old" "answers old = [(msg st, HReturn e)]"
    and "deliveries evs' = st # deliveries evs" "initial_seen evs' = initial_seen evs" "terminated evs' = terminated evs"
  shows "watched msg evs' ready s r t"
  using assms served_more [of _ _ _ _ r "(msg st, HReturn e)"] by (auto simp: watched_def)

lemma consumeWatch_spec:
  fixes s :: "('w, 'm) world_scheme"
  assumes h: "asks_once msg (handler c)"
  shows "wp (consumeWatch env sink c handler evs ready) (\<lambda>r t. watched msg evs ready s r t) s"
proof (induction evs arbitrary: ready s)
  case Nil
  then show ?case by (simp add: wp_return watched_def served_def)
next
  case (Cons ev evs)
  show ?case
  proof (cases ev)
    case (Update e)
    show ?thesis
    proof (cases "kv_decodeRecord (kve_Value e)")
      case (Inl err)
      have "wp (reportAsync env sink rep) (\<lambda>_ u. wp (consumeWatch env sink c handler evs ready)
          (\<lambda>r t. watched msg (ev # evs) ready s r t) u) s" for rep
        by (rule wp_mono [OF reportAsync_answers], rule wp_mono [OF Cons.IH])
           (use Update Inl in \<open>auto elim!: watched_skip\<close>)
      moreover have "wp (consumeWatch env sink c handler evs ready) (\<lambda>r t. watched msg (ev # evs) ready s r t) s"
        by (rule wp_mono [OF Cons.IH]) (use Update Inl in \<open>auto elim!: watched_skip\<close>)
      ultimately show ?thesis using Update Inl by (simp add: wp_bind)
    next
      case (Inr rec)
      let ?st = "storedOfEntry e rec"
      have ne: "kve_Value e \<noteq> []" using Inr kv_decode_empty by auto
      have "wp (handler c ?st) (\<lambda>out. wp (case out of
             HPanic t \<Rightarrow> return (True, Crashed t)
           | HReturn herr \<Rightarrow> do {
               reportAsync env sink (map_option (kvReadError ''watch_desired_config_handler''
                 ''desired-config watch handler returned error'') herr);
               consumeWatch env sink c handler evs ready })
           (\<lambda>r t. watched msg (ev # evs) ready s r t)) s"
      proof (rule wp_mono [OF h [unfolded asks_once_def, rule_format]])
        fix out and t :: "('w, 'm) world_scheme"
        assume "\<exists>new. calls t = calls s @ new \<and> answers new = [(msg ?st, out)]"
        then obtain n1 where t: "calls t = calls s @ n1" "answers n1 = [(msg ?st, out)]" by blast
        show "wp (case out of
             HPanic t \<Rightarrow> return (True, Crashed t)
           | HReturn herr \<Rightarrow> do {
               reportAsync env sink (map_option (kvReadError ''watch_desired_config_handler''
                 ''desired-config watch handler returned error'') herr);
               consumeWatch env sink c handler evs ready })
           (\<lambda>r t. watched msg (ev # evs) ready s r t) t"
        proof (cases out)
          case (HPanic p)
          with t Update Inr show ?thesis by (auto simp: wp_return watched_def served_def)
        next
          case (HReturn herr)
          show ?thesis
            unfolding HReturn handler_outcome.case wp_bind
          proof (rule wp_mono [OF reportAsync_answers], rule wp_mono [OF Cons.IH])
            fix u v :: "('w, 'm) world_scheme" and x r
            assume "\<exists>new. calls u = calls t @ new \<and> answers new = []" "watched msg evs ready u r v"
            with t HReturn Update Inr show "watched msg (ev # evs) ready s r v"
              by (auto elim!: watched_next [where st = ?st])
          qed
        qed
      qed
      with Update Inr ne show ?thesis by (simp add: wp_bind)
    qed
  next
    case NilEntry
    show ?thesis
      unfolding NilEntry consumeWatch.simps
      by (rule wp_mono [OF Cons.IH]) (auto simp: watched_def)
  qed (simp_all add: wp_return watched_def served_def)
qed

end
