(* ===== verification/Transport.thy ===== *)
theory Transport
  imports Kv_Contract
begin

text \<open>
  \<open>internal/transport/publisher.go\<close>: one publish is a write to the connection followed by a flush
  within the caller's deadline or the publish timeout.  The publisher sees the session only as a
  \<open>ConnectionProvider\<close>.
\<close>

record 's Publisher =
  pb_conn :: "('s, conn result) state"
  pb_publishTimeout :: "('s, duration) state"
  pb_metrics :: bool

record 'w transport_env = "'w kv_env" +
  env_publish :: "conn \<Rightarrow> string \<Rightarrow> string \<Rightarrow> 'w \<Rightarrow> goerr option \<times> 'w"
  env_flush :: "conn \<Rightarrow> ctx \<Rightarrow> 'w \<Rightarrow> goerr option \<times> 'w"

definition NewPublisher :: "('s, conn result) state option \<Rightarrow> ('s, duration) state option \<Rightarrow> bool \<Rightarrow> 's Publisher result" where
  "NewPublisher conn publishTimeout metrics = (case conn of
       None \<Rightarrow> Inl (rt_validationError ''new_publisher'' ''connection provider is required'')
     | Some c \<Rightarrow> Inr \<lparr>pb_conn = c,
         pb_publishTimeout = (case publishTimeout of None \<Rightarrow> return 0 | Some t \<Rightarrow> t),
         pb_metrics = metrics\<rparr>)"

definition publishContext :: "('w, 'e) transport_env_scheme \<Rightarrow> ctx option \<Rightarrow> duration \<Rightarrow> (('w, 'm) world_scheme, ctx) state" where
  "publishContext env co d = (case co of
       None \<Rightarrow> do { i \<leftarrow> ask (env_fresh env); return (WithCancel Background i) }
     | Some c \<Rightarrow> (if Deadline c \<noteq> None \<or> d \<le> 0 then return c else WithTimeout env c d))"

definition incPublish :: "('w, 'e) transport_env_scheme \<Rightarrow> ('w, 'm) world_scheme Publisher \<Rightarrow> string \<Rightarrow> string \<Rightarrow> string
    \<Rightarrow> (('w, 'm) world_scheme, unit) state" where
  "incPublish env p k subject result = only_if (pb_metrics p) (hook env (IncPublish k subject result))"

definition observePublishLatency :: "('w, 'e) transport_env_scheme \<Rightarrow> ('w, 'm) world_scheme Publisher \<Rightarrow> string \<Rightarrow> string \<Rightarrow> duration
    \<Rightarrow> (('w, 'm) world_scheme, unit) state" where
  "observePublishLatency env p k subject d =
     only_if (pb_metrics p) (hook env (ObservePublishLatency k subject d))"

definition publishFailed :: "string \<Rightarrow> string \<Rightarrow> string \<Rightarrow> goerr \<Rightarrow> goerr" where
  "publishFailed op subject msg err = RuntimeErr RtPublishFailed op subject [] msg True (Some err)"

text \<open>The guards of \<open>Publish\<close>, in their order; the second needs the context.\<close>

definition publishInvalid :: "string \<Rightarrow> string \<Rightarrow> string \<Rightarrow> goerr option" where
  "publishInvalid op subject payload = first_err
     [reject_if (is_blank subject) (rt_validationError op ''publish subject is required''),
      reject_if (payload = [])
        (RuntimeErr RtValidation op subject [] ''payload is required'' False None)]"

definition flushAndCount :: "('w, 'e) transport_env_scheme \<Rightarrow> ('w, 'm) world_scheme Publisher \<Rightarrow> ctx \<Rightarrow> string \<Rightarrow> string \<Rightarrow> string
    \<Rightarrow> conn \<Rightarrow> int \<Rightarrow> (('w, 'm) world_scheme, goerr option) state" where
  "flushAndCount env p c op k subject nc t0 = do {
     d \<leftarrow> pb_publishTimeout p;
     flushCtx \<leftarrow> publishContext env (Some c) d;
     flushed \<leftarrow> ask_log (env_flush env nc flushCtx) (NcFlush nc flushCtx);
     case flushed of
       Some err \<Rightarrow> do {
         incPublish env p k subject ''failure'';
         return (Some (publishFailed op subject ''flush failed'' err))
       }
     | None \<Rightarrow> do {
         incPublish env p k subject ''success'';
         finished \<leftarrow> ask (env_now env);
         observePublishLatency env p k subject (finished - t0);
         return None
       }
   }"

definition sendAndFlush :: "('w, 'e) transport_env_scheme \<Rightarrow> ('w, 'm) world_scheme Publisher \<Rightarrow> ctx \<Rightarrow> string \<Rightarrow> string \<Rightarrow> string
    \<Rightarrow> string \<Rightarrow> conn \<Rightarrow> (('w, 'm) world_scheme, goerr option) state" where
  "sendAndFlush env p c op k subject payload nc = do {
     started \<leftarrow> ask (env_now env);
     sent \<leftarrow> ask_log (env_publish env nc subject payload) (NcPublish nc subject payload);
     case sent of
       Some err \<Rightarrow> do {
         incPublish env p k subject ''failure'';
         return (Some (publishFailed op subject ''publish failed'' err))
       }
     | None \<Rightarrow> flushAndCount env p c op k subject nc started
   }"

definition Publish :: "('w, 'e) transport_env_scheme \<Rightarrow> ('w, 'm) world_scheme Publisher \<Rightarrow> ctx option \<Rightarrow> string \<Rightarrow> string
    \<Rightarrow> string \<Rightarrow> string \<Rightarrow> (('w, 'm) world_scheme, goerr option) state" where
  "Publish env p co op0 k subject payload =
     (let op = (if op0 = [] then ''publish_payload'' else op0) in
      case co of
        None \<Rightarrow> return (Some (RuntimeErr RtValidation op subject [] ''context is required'' False None))
      | Some c \<Rightarrow> do {
          cerr \<leftarrow> ctx_Err env c;
          case cerr of
            Some err \<Rightarrow> return (Some (RuntimeErr RtValidation op subject []
              ''context is not usable'' False (Some err)))
          | None \<Rightarrow> (case publishInvalid op subject payload of
              Some err \<Rightarrow> return (Some err)
            | None \<Rightarrow> do {
                r \<leftarrow> pb_conn p;
                case r of
                  Inl err \<Rightarrow> return (Some err)
                | Inr nc \<Rightarrow> sendAndFlush env p c op k subject payload nc
              })
        })"

lemma ctx_Err_world:
  "wp (ctx_Err env c) (\<lambda>r t. calls t = calls s \<and> (t = s \<or> (\<exists>x. t = s\<lparr>ext := x\<rparr>))) s"
  by (auto simp: wp_simps)

subsection \<open>The contract of a connection provider\<close>

text \<open>Publish outcomes that were counted in the metrics.\<close>

fun counted :: "call \<Rightarrow> string list" where
  "counted (IncPublish k subject r) = [r]"
| "counted _ = []"

definition outcomes :: "call list \<Rightarrow> string list" where
  "outcomes cs = concat (map counted cs)"

lemma outcomes_simps [simp]:
  "outcomes [] = []" "outcomes (cs @ ds) = outcomes cs @ outcomes ds"
  "outcomes (c # cs) = counted c @ outcomes cs"
  by (simp_all add: outcomes_def)

locale connection_provider = world_frame keeps
  for keeps :: "('w, 'm) world_scheme \<Rightarrow> ('w, 'm) world_scheme \<Rightarrow> bool" +
  fixes conn_op :: "(('w, 'm) world_scheme, conn result) state"
    and timeout_op :: "(('w, 'm) world_scheme, duration) state"
  assumes conn_quiet: "run_state conn_op s = (r, s') \<Longrightarrow> calls s' = calls s \<and> keeps s s'"
    and conn_error: "run_state conn_op s = (Inl e, s') \<Longrightarrow> is_runtime e"
    and timeout_quiet: "run_state timeout_op s = (d, s') \<Longrightarrow> calls s' = calls s \<and> keeps s s'"
begin

abbreviation pub :: "bool \<Rightarrow> ('w, 'm) world_scheme Publisher" where
  "pub metrics \<equiv> \<lparr>pb_conn = conn_op, pb_publishTimeout = timeout_op, pb_metrics = metrics\<rparr>"

definition publish_result :: "bool \<Rightarrow> string \<Rightarrow> string \<Rightarrow> ('w, 'm) world_scheme \<Rightarrow> goerr option \<Rightarrow> ('w, 'm) world_scheme \<Rightarrow> bool" where
  "publish_result metrics subject payload s r s' \<longleftrightarrow> keeps s s'
     \<and> (\<exists>new. calls s' = calls s @ new \<and> puts new = []
        \<and> (case r of
             None \<Rightarrow> (\<exists>nc c. publishes new = [NcPublish nc subject payload None] \<and> NcFlush nc c None \<in> set new)
               \<and> outcomes new = (if metrics then [''success''] else [])
           | Some e \<Rightarrow> is_runtime e
               \<and> (publishes new = [] \<and> new = []
                  \<or> (\<exists>nc sent. publishes new = [NcPublish nc subject payload sent])
                    \<and> rt_code e = RtPublishFailed \<and> err_subject e = subject
                    \<and> outcomes new = (if metrics then [''failure''] else []))))"

lemma wp_conn:
  "(\<And>r t. calls t = calls s \<Longrightarrow> keeps s t \<Longrightarrow> (\<forall>e. r = Inl e \<longrightarrow> is_runtime e) \<Longrightarrow> Q r t) \<Longrightarrow>
   wp conn_op Q s"
proof (rule wpI)
  fix r s'
  assume Q: "\<And>r t. calls t = calls s \<Longrightarrow> keeps s t \<Longrightarrow> (\<forall>e. r = Inl e \<longrightarrow> is_runtime e) \<Longrightarrow> Q r t"
    and run: "run_state conn_op s = (r, s')"
  show "Q r s'"
    by (rule Q) (use conn_quiet [OF run] conn_error run in auto)
qed

lemma wp_timeout: "(\<And>d t. calls t = calls s \<Longrightarrow> keeps s t \<Longrightarrow> Q d t) \<Longrightarrow> wp timeout_op Q s"
  by (rule wpI) (use timeout_quiet in blast)

lemma wp_publishContext:
  "(\<And>x t. calls t = calls s \<Longrightarrow> keeps s t \<Longrightarrow> Q x t) \<Longrightarrow> wp (publishContext env (Some c) d) Q s"
  by (simp add: publishContext_def wp_simps keeps_refl keeps_upd)

text \<open>After the message was handed over the flush decides.\<close>

lemma flush_stage:
  assumes t: "calls t = calls s @ [NcPublish nc subject payload None]" "keeps s t"
  shows "wp (flushAndCount env (pub metrics) c op k subject nc t0)
     (\<lambda>r s'. publish_result metrics subject payload s r s') t"
  unfolding flushAndCount_def wp_bind Publisher.simps
proof (rule wp_timeout, rule wp_publishContext)
  fix d x and u v :: "('w, 'm) world_scheme"
  assume "calls u = calls t" "keeps t u" "calls v = calls u" "keeps u v"
  then have v: "calls v = calls s @ [NcPublish nc subject payload None]" "keeps s v"
    using t keeps_trans by (metis, metis)
  show "wp (ask_log (env_flush env nc x) (NcFlush nc x)) (\<lambda>flushed. wp (case flushed of
         Some err \<Rightarrow> do {
           incPublish env (pub metrics) k subject ''failure'';
           return (Some (publishFailed op subject ''flush failed'' err)) }
       | None \<Rightarrow> do {
           incPublish env (pub metrics) k subject ''success'';
           finished \<leftarrow> ask (env_now env);
           observePublishLatency env (pub metrics) k subject (finished - t0);
           return None }) (\<lambda>r s'. publish_result metrics subject payload s r s')) v"
    using v
    by (auto simp: wp_simps incPublish_def observePublishLatency_def publish_result_def publishFailed_def keeps_upd
        split: option.splits)
qed

lemma send_spec:
  assumes t: "calls t = calls s" "keeps s t"
  shows "wp (sendAndFlush env (pub metrics) c op k subject payload nc)
     (\<lambda>r s'. publish_result metrics subject payload s r s') t"
proof -
  let ?t = "t\<lparr>ext := snd (env_publish env nc subject payload (snd (env_now env (ext t)))),
      calls := calls t @ [NcPublish nc subject payload (fst (env_publish env nc subject payload (snd (env_now env (ext t)))))]\<rparr>"
  have flush: "wp (flushAndCount env (pub metrics) c op k subject nc (fst (env_now env (ext t))))
      (\<lambda>r s'. publish_result metrics subject payload s r s') ?t"
    if "fst (env_publish env nc subject payload (snd (env_now env (ext t)))) = None"
    by (rule flush_stage) (use t that in \<open>simp_all add: keeps_upd\<close>)
  have fail: "wp (incPublish env (pub metrics) k subject ''failure'')
      (\<lambda>u s'. publish_result metrics subject payload s (Some (publishFailed op subject ''publish failed'' err)) s') ?t" for err
    using t by (simp add: wp_simps incPublish_def publish_result_def publishFailed_def keeps_upd)
  show ?thesis
  proof (cases "fst (env_publish env nc subject payload (snd (env_now env (ext t))))")
    case None
    with flush show ?thesis by (simp add: sendAndFlush_def wp_simps wp_fun)
  next
    case (Some err)
    with fail [of err] show ?thesis by (simp add: sendAndFlush_def wp_simps wp_fun)
  qed
qed

lemma publish_spec:
  "wp (Publish env (pub metrics) co op k subject payload)
     (\<lambda>r s'. publish_result metrics subject payload s r s') s"
proof (cases co)
  case None
  then show ?thesis by (simp add: Publish_def wp_simps publish_result_def keeps_refl)
next
  case (Some c)
  have stage: "wp (case publishInvalid op' subject payload of
        Some err \<Rightarrow> return (Some err)
      | None \<Rightarrow> do {
          r \<leftarrow> conn_op;
          case r of
            Inl err \<Rightarrow> return (Some err)
          | Inr nc \<Rightarrow> sendAndFlush env (pub metrics) c op' k subject payload nc })
      (\<lambda>r s'. publish_result metrics subject payload s r s') t"
    if t: "calls t = calls s" "keeps s t" for t op'
  proof (cases "publishInvalid op' subject payload")
    case (Some e)
    then have "is_runtime e"
      by (auto simp: publishInvalid_def first_err_Cons reject_if_def rt_validationError_def split: if_splits)
    with Some t show ?thesis by (simp add: wp_return publish_result_def)
  next
    case None
    show ?thesis
      unfolding None option.case wp_bind
    proof (rule wp_conn)
      fix r :: "conn result" and u
      assume "calls u = calls t" "keeps t u" "\<forall>e. r = Inl e \<longrightarrow> is_runtime e"
      show "wp (case r of Inl err \<Rightarrow> return (Some err)
          | Inr nc \<Rightarrow> sendAndFlush env (pub metrics) c op' k subject payload nc)
        (\<lambda>r s'. publish_result metrics subject payload s r s') u"
      proof (cases r)
        case (Inl e)
        with \<open>calls u = calls t\<close> \<open>\<forall>e. r = Inl e \<longrightarrow> is_runtime e\<close> t keeps_trans [OF t(2) \<open>keeps t u\<close>]
        show ?thesis by (simp add: wp_return publish_result_def)
      next
        case (Inr nc)
        with \<open>calls u = calls t\<close> t keeps_trans [OF t(2) \<open>keeps t u\<close>] send_spec [of u s]
        show ?thesis by simp
      qed
    qed
  qed
  show ?thesis
    unfolding Publish_def Let_def Some option.case wp_bind
  proof (rule wp_mono [OF ctx_Err_world])
    fix cerr u
    assume u: "calls u = calls s \<and> (u = s \<or> (\<exists>x. u = s\<lparr>ext := x\<rparr>))"
    then have k: "calls u = calls s" "keeps s u" using keeps_refl keeps_ext by auto
    then show "wp (case cerr of
        Some err \<Rightarrow> return (Some (RuntimeErr RtValidation (if op = [] then ''publish_payload'' else op)
          subject [] ''context is not usable'' False (Some err)))
      | None \<Rightarrow> (case publishInvalid (if op = [] then ''publish_payload'' else op) subject payload of
          Some err \<Rightarrow> return (Some err)
        | None \<Rightarrow> do {
            r \<leftarrow> pb_conn (pub metrics);
            case r of
              Inl err \<Rightarrow> return (Some err)
            | Inr nc \<Rightarrow> sendAndFlush env (pub metrics) c (if op = [] then ''publish_payload'' else op)
                k subject payload nc }))
      (\<lambda>r s'. publish_result metrics subject payload s r s') u"
    proof (cases cerr)
      case None
      then show ?thesis using stage [OF k] by (simp only: option.case Publisher.simps)
    next
      case (Some err)
      then show ?thesis using k by (simp add: wp_return publish_result_def)
    qed
  qed
qed

end

subsection \<open>The session manager as a connection provider\<close>

lemma Connection_quiet: "quiet (Connection env)"
  unfolding Connection_def
  by (intro quiet_bind quiet_gets quiet_option quiet_return quiet_ask quiet_if)

lemma Connection_error:
  "wp (Connection env) (\<lambda>r s'. \<forall>e. r = Inl e \<longrightarrow> is_runtime e) s"
  by (auto simp: Connection_def wp_simps notConnected_def split: option.splits)

definition session_publishTimeout :: "(('w, 'm) session_scheme, duration) state" where
  "session_publishTimeout = gets (\<lambda>s. to_PublishTimeout (Timeouts (m_EffectiveConfig (manager s))))"

interpretation session_conn: connection_provider same_session "Connection env" session_publishTimeout
proof
  fix s s' :: "('a, 'b) session_scheme" and r
  assume run: "run_state (Connection env) s = (r, s')"
  show "calls s' = calls s \<and> same_session s s'"
    using wpD [OF quietD [OF Connection_quiet] run] by (simp add: same_session_def)
next
  fix s s' :: "('a, 'b) session_scheme" and e
  assume "run_state (Connection env) s = (Inl e, s')"
  from wpD [OF Connection_error this] show "is_runtime e" by simp
qed (auto simp: same_session_def session_publishTimeout_def gets_def)

end
