(* ===== verification/Client_State.thy ===== *)
theory Client_State
  imports Transport
begin

text \<open>
  The state of the public client (\<open>agentcore/client.go\<close>), its options and construction, and the
  helpers every operation of the client uses: logging, metrics, the handler context, and the
  validators and decoders that \<open>agentcore\<close> keeps for itself beside those of \<open>internal/contract\<close>.
\<close>

subsection \<open>Options\<close>

text \<open>A hook is present or nil; the reconnect handler is known by a number.\<close>

record clientOptions =
  opt_logger :: bool
  opt_metrics :: bool
  opt_errorSink :: bool
  opt_reconnectHandler :: "nat option"

datatype client_option =
    WithLogger bool | WithMetrics bool | WithClock bool | WithErrorSink bool
  | WithReconnectHandler "nat option"

text \<open>\<open>WithClock\<close> rejects a nil function; which clock is used is a matter of the environment.\<close>

fun apply_option :: "client_option \<Rightarrow> clientOptions \<Rightarrow> clientOptions result" where
  "apply_option (WithLogger l) o' = Inr (o'\<lparr>opt_logger := l\<rparr>)"
| "apply_option (WithMetrics m) o' = Inr (o'\<lparr>opt_metrics := m\<rparr>)"
| "apply_option (WithClock present) o' =
     (if present then Inr o'
      else Inl (PublicErr CodeValidation ''with_clock'' [] [] ''clock function is nil'' False None))"
| "apply_option (WithErrorSink present) o' = Inr (o'\<lparr>opt_errorSink := present\<rparr>)"
| "apply_option (WithReconnectHandler h) o' = Inr (o'\<lparr>opt_reconnectHandler := h\<rparr>)"

fun apply_options :: "client_option option list \<Rightarrow> clientOptions \<Rightarrow> clientOptions result" where
  "apply_options [] o' = Inr o'"
| "apply_options (None # opts) o' = apply_options opts o'"
| "apply_options (Some op # opts) o' = try_bind (apply_option op o') (apply_options opts)"

subsection \<open>State\<close>

record 'w client = "'w session" +
  c_cfg :: PublicConfig
  c_options :: clientOptions
  c_subscriptions :: Registry
  c_subjects :: Builder
  c_handlerCtx :: "ctx option"
  c_nextWatchID :: "64 word"
  c_watches :: "(64 word \<times> KVWatch) list"
  c_callbacksEnabled :: bool

type_synonym ('w, 'm, 'a) client_op = "(('w, 'm) client_scheme, 'a) state"

record 'w client_env = "'w transport_env" +
  env_clock :: "'w \<Rightarrow> gotime \<times> 'w"
  env_ctx_done :: "ctx \<Rightarrow> 'w \<Rightarrow> bool \<times> 'w"
  env_subscribe :: "conn \<Rightarrow> string \<Rightarrow> string option \<Rightarrow> msg_handler \<Rightarrow> 'w \<Rightarrow> sub result \<times> 'w"
  env_flush_timeout :: "conn \<Rightarrow> duration \<Rightarrow> 'w \<Rightarrow> goerr option \<times> 'w"
  env_unsubscribe :: "sub \<Rightarrow> 'w \<Rightarrow> goerr option \<times> 'w"
  env_run_handler :: "nat \<Rightarrow> ctx \<Rightarrow> message \<Rightarrow> 'w \<Rightarrow> handler_outcome \<times> 'w"
  env_run_reconnect :: "nat \<Rightarrow> 'w \<Rightarrow> string option \<times> 'w"

text \<open>The numbers of the two hooks the client registers with the session.\<close>

definition reconnect_hook :: nat where "reconnect_hook = 0"
definition closed_hook :: nat where "closed_hook = 1"

definition syncSubscriptionHealth :: "('w, 'm, unit) client_op" where
  "syncSubscriptionHealth = modify (\<lambda>s. s\<lparr>manager :=
     (case Counts (c_subscriptions s) of (registered, active) \<Rightarrow>
        SetSubscriptionCounts registered active (manager s))\<rparr>)"

text \<open>
  \<open>New\<close>: options, subjects, session, store, publisher, in that order; then the session is given the
  client's two hooks.  The state starts with the trace and world it is built in.
\<close>

definition New :: "nats_consts \<Rightarrow> ('w, 'e) client_env_scheme \<Rightarrow> PublicConfig \<Rightarrow> client_option option list
    \<Rightarrow> call list \<Rightarrow> 'w \<Rightarrow> 'w client result" where
  "New ncs env cfg opts cs w =
     try_bind (apply_options opts
       \<lparr>opt_logger = False, opt_metrics = False, opt_errorSink = False, opt_reconnectHandler = None\<rparr>)
     (\<lambda>o0. let o1 = o0\<lparr>opt_logger := opt_logger o0 \<or> pub_Observe_Logger cfg,
                       opt_metrics := opt_metrics o0 \<or> pub_Observe_Metrics cfg\<rparr> in
     try_bind (map_err toPublicError (PatternsFromConfig (pub_Subjects cfg))) (\<lambda>subPatterns.
     try_bind (map_err toPublicError (NewBuilder subPatterns)) (\<lambda>subjectBuilder.
     try_bind (map_err toPublicError (NewManager ncs (toSessionConfig cfg)
       \<lparr>hk_Logger = opt_logger o1, hk_Metrics = opt_metrics o1, hk_ErrorSink = opt_errorSink o1,
        hk_OnReconnected = None, hk_OnClosed = None\<rparr>)) (\<lambda>runtime.
     try_bind (map_err toPublicError (NewStore (Some (session_provider env :: 'w client RuntimeProvider))
       (opt_errorSink o1))) (\<lambda>store.
     try_bind (map_err toPublicError (NewPublisher (Some (Connection env :: ('w client, conn result) state))
       (Some session_publishTimeout) (opt_metrics o1))) (\<lambda>publisher.
     Inr (snd (run_state syncSubscriptionHealth
       \<lparr>calls = cs, ext = w,
        manager = SetClosedHandler (Some closed_hook) (SetReconnectHandler (Some reconnect_hook) runtime),
        c_cfg = cfg, c_options = o1, c_subscriptions = New_Registry, c_subjects = subjectBuilder,
        c_handlerCtx = None, c_nextWatchID = 0, c_watches = [], c_callbacksEnabled = False\<rparr>))))))))"

subsection \<open>Logging, metrics, error sink\<close>

definition c_log :: "('w, 'e) client_env_scheme \<Rightarrow> log_level \<Rightarrow> string \<Rightarrow> (string \<times> log_value) list \<Rightarrow> ('w, 'm, unit) client_op" where
  "c_log env lvl msg kvs = do {
     o' \<leftarrow> gets c_options;
     only_if (opt_logger o') (hook env (Log lvl msg kvs))
   }"

definition c_metric :: "('w, 'e) client_env_scheme \<Rightarrow> call \<Rightarrow> ('w, 'm, unit) client_op" where
  "c_metric env c = do { o' \<leftarrow> gets c_options; only_if (opt_metrics o') (hook env c) }"

definition c_sink :: "('w, 'e) client_env_scheme \<Rightarrow> goerr \<Rightarrow> ('w, 'm, unit) client_op" where
  "c_sink env err = do { o' \<leftarrow> gets c_options; only_if (opt_errorSink o') (hook env (ErrorSink err)) }"

subsection \<open>The handler context\<close>

definition newHandlerContext :: "('w, 'e) client_env_scheme \<Rightarrow> ('w, 'm, unit) client_op" where
  "newHandlerContext env = do {
     i \<leftarrow> ask (env_fresh env);
     modify (\<lambda>s. s\<lparr>c_handlerCtx := Some (WithCancel Background i)\<rparr>)
   }"

text \<open>A live context is kept, one that has ended is replaced.\<close>

definition ensureHandlerContext :: "('w, 'e) client_env_scheme \<Rightarrow> ('w, 'm, unit) client_op" where
  "ensureHandlerContext env = do {
     h \<leftarrow> gets c_handlerCtx;
     case h of
       None \<Rightarrow> newHandlerContext env
     | Some c \<Rightarrow> do {
         ended \<leftarrow> ask (env_ctx_done env c);
         if ended then newHandlerContext env else return ()
       }
   }"

definition cancelHandlerContext :: "('w, 'm, unit) client_op" where
  "cancelHandlerContext = do {
     h \<leftarrow> gets c_handlerCtx;
     modify (\<lambda>s. s\<lparr>c_handlerCtx := None\<rparr>);
     case h of None \<Rightarrow> return () | Some c \<Rightarrow> emit (Cancel c)
   }"

definition handlerContext :: "('w, 'm, ctx) client_op" where
  "handlerContext = gets (\<lambda>s. or_background (c_handlerCtx s))"

definition setCallbacksEnabled :: "bool \<Rightarrow> ('w, 'm, unit) client_op" where
  "setCallbacksEnabled b = modify (\<lambda>s. s\<lparr>c_callbacksEnabled := b\<rparr>)"

subsection \<open>Validators of \<open>agentcore\<close>\<close>

definition core_requiredString :: "string \<Rightarrow> string \<Rightarrow> string \<Rightarrow> goerr option" where
  "core_requiredString op field value =
     reject_if (is_blank value) (validationError op (field @ '' is required''))"

definition core_optionalString :: "string \<Rightarrow> string \<Rightarrow> string \<Rightarrow> goerr option" where
  "core_optionalString op field value =
     (if value = [] then None
      else reject_if (is_blank value) (validationError op (field @ '' cannot be whitespace'')))"

definition core_requiredTimestamp :: "string \<Rightarrow> string \<Rightarrow> gotime \<Rightarrow> goerr option" where
  "core_requiredTimestamp op field value =
     reject_if (IsZero value) (validationError op (field @ '' is required''))"

definition core_requiredJSON :: "string \<Rightarrow> string \<Rightarrow> string \<Rightarrow> goerr option" where
  "core_requiredJSON op field value =
     (if value = [] then Some (validationError op (field @ '' is required''))
      else reject_if (\<not> Valid value) (validationError op (field @ '' must contain valid JSON'')))"

definition core_optionalJSON :: "string \<Rightarrow> string \<Rightarrow> string \<Rightarrow> goerr option" where
  "core_optionalJSON op field value =
     (if value = [] then None
      else reject_if (\<not> Valid value) (validationError op (field @ '' must contain valid JSON'')))"

definition validateConfigureCommand :: "string \<Rightarrow> ConfigureCommand \<Rightarrow> goerr option" where
  "validateConfigureCommand op cmd = first_err
     [core_requiredString op ''version'' (cc_Version cmd),
      core_requiredString op ''rpc_id'' (cc_RPCID cmd),
      core_requiredString op ''target'' (cc_Target cmd),
      core_requiredString op ''uuid'' (cc_UUID cmd),
      core_requiredTimestamp op ''timestamp'' (cc_Timestamp cmd),
      core_requiredJSON op ''payload'' (cc_Payload cmd)]"

definition validateConfigureNotification :: "string \<Rightarrow> ConfigureNotification \<Rightarrow> goerr option" where
  "validateConfigureNotification op msg = first_err
     [core_requiredString op ''version'' (cn_Version msg),
      core_requiredString op ''rpc_id'' (cn_RPCID msg),
      core_requiredString op ''target'' (cn_Target msg),
      core_requiredString op ''command_type'' (cn_CommandType msg),
      core_requiredString op ''uuid'' (cn_UUID msg),
      core_requiredString op ''kv_bucket'' (cn_KVBucket msg),
      core_requiredString op ''kv_key'' (cn_KVKey msg),
      core_requiredTimestamp op ''timestamp'' (cn_Timestamp msg)]"

definition validateActionCommand :: "string \<Rightarrow> ActionCommand \<Rightarrow> goerr option" where
  "validateActionCommand op msg = first_err
     [core_requiredString op ''version'' (ac_Version msg),
      core_requiredString op ''rpc_id'' (ac_RPCID msg),
      core_requiredString op ''target'' (ac_Target msg),
      core_requiredString op ''command_type'' (ac_CommandType msg),
      core_requiredString op ''action'' (ac_Action msg),
      core_requiredTimestamp op ''timestamp'' (ac_Timestamp msg),
      core_requiredJSON op ''payload'' (ac_Payload msg)]"

definition validateResultEnvelope :: "string \<Rightarrow> ResultEnvelope \<Rightarrow> goerr option" where
  "validateResultEnvelope op msg = first_err
     [core_requiredString op ''version'' (re_Version msg),
      core_requiredString op ''rpc_id'' (re_RPCID msg),
      core_requiredString op ''target'' (re_Target msg),
      core_requiredString op ''result'' (re_Result msg),
      core_requiredTimestamp op ''timestamp'' (re_Timestamp msg),
      core_optionalString op ''command_type'' (re_CommandType msg),
      core_optionalString op ''uuid'' (re_UUID msg),
      core_optionalString op ''action'' (re_Action msg),
      core_optionalString op ''error_code'' (re_ErrorCode msg),
      core_optionalJSON op ''payload'' (re_Payload msg)]"

definition validateStatusEnvelope :: "string \<Rightarrow> StatusEnvelope \<Rightarrow> goerr option" where
  "validateStatusEnvelope op msg = first_err
     [core_requiredString op ''version'' (se_Version msg),
      core_requiredString op ''target'' (se_Target msg),
      core_requiredString op ''status'' (se_Status msg),
      core_requiredTimestamp op ''timestamp'' (se_Timestamp msg),
      core_optionalString op ''rpc_id'' (se_RPCID msg),
      core_optionalString op ''uuid'' (se_UUID msg),
      core_optionalString op ''stage'' (se_Stage msg),
      core_optionalJSON op ''payload'' (se_Payload msg)]"

definition validateOperationContext :: "('w, 'e) session_env_scheme \<Rightarrow> string \<Rightarrow> ctx option \<Rightarrow> (('w, 'm) world_scheme, goerr option) state" where
  "validateOperationContext env op co = (case co of
       None \<Rightarrow> return (Some (validationError op ''context is required''))
     | Some c \<Rightarrow> do {
         cerr \<leftarrow> ctx_Err env c;
         return (case cerr of None \<Rightarrow> None
           | Some err \<Rightarrow> Some (PublicErr CodeValidation op [] [] ''context is not usable'' False (Some err)))
       })"

subsection \<open>Decoders of \<open>agentcore\<close>\<close>

definition decodePayload :: "string \<Rightarrow> string \<Rightarrow> (string \<times> field_kind) list \<Rightarrow> struct result" where
  "decodePayload op data fs =
     (if data = [] then Inl (PublicErr CodeValidation op [] [] ''payload is required'' False None)
      else map_err (\<lambda>err. PublicErr CodeDecodeFailed op [] [] ''failed to decode payload'' False (Some err))
        (Unmarshal fs data))"

definition decodeConfigureNotification :: "string \<Rightarrow> string \<Rightarrow> ConfigureNotification result" where
  "decodeConfigureNotification op data =
     try_bind (decodePayload op data schema_ConfigureNotification) (\<lambda>st.
       let msg = read_ConfigureNotification st in guard_err (validateConfigureNotification op msg) (Inr msg))"

definition decodeActionCommand :: "string \<Rightarrow> string \<Rightarrow> ActionCommand result" where
  "decodeActionCommand op data =
     try_bind (decodePayload op data schema_ActionCommand) (\<lambda>st.
       let msg = read_ActionCommand st in guard_err (validateActionCommand op msg) (Inr msg))"

definition decodeResultEnvelope :: "string \<Rightarrow> string \<Rightarrow> ResultEnvelope result" where
  "decodeResultEnvelope op data =
     try_bind (decodePayload op data schema_ResultEnvelope) (\<lambda>st.
       let msg = read_ResultEnvelope st in guard_err (validateResultEnvelope op msg) (Inr msg))"

definition decodeStatusEnvelope :: "string \<Rightarrow> string \<Rightarrow> StatusEnvelope result" where
  "decodeStatusEnvelope op data =
     try_bind (decodePayload op data schema_StatusEnvelope) (\<lambda>st.
       let msg = read_StatusEnvelope st in guard_err (validateStatusEnvelope op msg) (Inr msg))"

end
