(* ===== verification/Handlers_Runtime.thy ===== *)
theory Handlers_Runtime
  imports Client_State
begin

text \<open>
  \<open>agentcore/handlers_runtime.go\<close>: registering handlers, turning registrations into subscriptions
  and back, and dispatching a message to the handler behind its subscription.
\<close>

subsection \<open>Subscription options\<close>

type_synonym SubscriptionOption = "string \<Rightarrow> string"

text \<open>\<open>SubscriptionOptions\<close> has the one field \<open>QueueGroup\<close>; an option is a function on it.\<close>

definition WithQueueGroup :: "string \<Rightarrow> SubscriptionOption" where
  "WithQueueGroup queueGroup = (\<lambda>_. queueGroup)"

definition resolveSubscriptionOptions :: "SubscriptionOption option list \<Rightarrow> string result" where
  "resolveSubscriptionOptions opts =
     (let out = foldl (\<lambda>q opt. case opt of None \<Rightarrow> q | Some f \<Rightarrow> f q) [] opts in
      if ContainsAny out ascii_ws
      then Inl (validationError ''register_handler_options'' ''queue group cannot contain whitespace'')
      else Inr out)"

subsection \<open>Registry and subscriptions\<close>

definition with_registry :: "(Registry \<Rightarrow> 'a \<times> Registry) \<Rightarrow> ('w, 'm, 'a) client_op" where
  "with_registry f = State (\<lambda>s. case f (c_subscriptions s) of (a, r) \<Rightarrow> (a, s\<lparr>c_subscriptions := r\<rparr>))"

lemma wp_with_registry [wp_simps]:
  "wp (with_registry f) Q s \<longleftrightarrow>
     Q (fst (f (c_subscriptions s))) (s\<lparr>c_subscriptions := snd (f (c_subscriptions s))\<rparr>)"
  by (simp add: wp_def with_registry_def split: prod.splits)

definition unsubscribe :: "('w, 'e) client_env_scheme \<Rightarrow> sub \<Rightarrow> ('w, 'm, goerr option) client_op" where
  "unsubscribe env sb = ask_log (env_unsubscribe env sb) (Unsubscribe sb)"

definition kvs_of :: "string \<Rightarrow> string \<Rightarrow> string \<Rightarrow> goerr \<Rightarrow> (string \<times> log_value) list" where
  "kvs_of op registrationID subject err =
     [(''operation'', LStr op), (''registration_id'', LStr registrationID),
      (''subject'', LStr subject), (''error'', LErr err)]"

definition cleanupSubscription :: "('w, 'e) client_env_scheme \<Rightarrow> sub option \<Rightarrow> string \<Rightarrow> string \<Rightarrow> string \<Rightarrow> string \<Rightarrow> ('w, 'm, unit) client_op" where
  "cleanupSubscription env so op registrationID subject message = (case so of
       None \<Rightarrow> return ()
     | Some sb \<Rightarrow> do {
         r \<leftarrow> unsubscribe env sb;
         case r of
           None \<Rightarrow> return ()
         | Some err \<Rightarrow> do {
             c_log env Warn message (kvs_of op registrationID subject err);
             c_sink env err
           }
       })"

definition subscribeFailed :: "string \<Rightarrow> string \<Rightarrow> string \<Rightarrow> goerr \<Rightarrow> goerr" where
  "subscribeFailed op subject msg err = PublicErr CodeSubscribeFailed op subject [] msg True (Some err)"

definition subscribeOn :: "('w, 'e) client_env_scheme \<Rightarrow> conn \<Rightarrow> string \<Rightarrow> string \<Rightarrow> msg_handler \<Rightarrow> ('w, 'm, sub result) client_op" where
  "subscribeOn env nc subject queueGroup cb =
     (let q = (if is_blank queueGroup then None else Some queueGroup)
      in ask_log (env_subscribe env nc subject q cb) (NcSubscribe nc subject q cb))"

definition subscribeInternal :: "('w, 'e) client_env_scheme \<Rightarrow> string \<Rightarrow> kind \<Rightarrow> string \<Rightarrow> string \<Rightarrow> msg_handler option
    \<Rightarrow> ('w, 'm, sub result) client_op" where
  "subscribeInternal env op k subject queueGroup callback = (case callback of
       None \<Rightarrow> return (Inl (validationError op ''subscription callback is required''))
     | Some cb \<Rightarrow>
        (if is_blank subject then return (Inl (validationError op ''subscription subject is required''))
         else do {
           cr \<leftarrow> Connection env;
           case cr of
             Inl err \<Rightarrow> return (Inl (toPublicError err))
           | Inr nc \<Rightarrow> do {
               sr \<leftarrow> subscribeOn env nc subject queueGroup cb;
               case sr of
                 Inl err \<Rightarrow> return (Inl (subscribeFailed op subject ''subscribe operation failed'' err))
               | Inr sb \<Rightarrow> do {
                   m \<leftarrow> gets manager;
                   let d = SubscribeTimeout m;
                   flushed \<leftarrow> ask_log (env_flush_timeout env nc d) (NcFlushTimeout nc d);
                   case flushed of
                     Some err \<Rightarrow> do {
                       unsubscribe env sb;
                       return (Inl (subscribeFailed op subject ''subscribe readiness flush failed'' err))
                     }
                   | None \<Rightarrow> do {
                       c_log env Debug ''subscription created''
                         [(''kind'', LStr k), (''subject'', LStr subject), (''queue_group'', LStr queueGroup)];
                       return (Inr sb)
                     }
                 }
             }
         }))"

definition createSubscriptionForRecord :: "('w, 'e) client_env_scheme \<Rightarrow> ActivationRecord \<Rightarrow> string \<Rightarrow> ('w, 'm, sub result) client_op" where
  "createSubscriptionForRecord env rec op =
     (let k = act_Kind rec; subscribe = (\<lambda>o'. subscribeInternal env o' k (act_Subject rec)
            (act_QueueGroup rec) (act_Callback rec)) in
      if k = KindConfigure then subscribe ''subscribe_configure''
      else if k = KindAction then subscribe ''subscribe_action''
      else if k = KindResult then subscribe ''subscribe_result''
      else if k = KindStatus then subscribe ''subscribe_status''
      else return (Inl (PublicErr CodeValidation op (act_Subject rec) []
        ''unsupported subscription kind'' False None)))"

subsection \<open>Activation\<close>

text \<open>The critical section after the subscription was made: it is recorded if the registration is
  still there.\<close>

definition publish_handle :: "string \<Rightarrow> sub \<Rightarrow> Registry \<Rightarrow> bool \<times> Registry" where
  "publish_handle rid sb r =
     (if GetActivationRecord r rid \<noteq> None then (True, MarkActive r rid (Some sb)) else (False, r))"

definition activateRecord :: "('w, 'e) client_env_scheme \<Rightarrow> ActivationRecord \<Rightarrow> bool \<Rightarrow> string \<Rightarrow> ('w, 'm, goerr option) client_op" where
  "activateRecord env rec force op =
     (if act_Active rec \<and> \<not> force then return None
      else do {
        only_if force (cleanupSubscription env (act_ActiveSub rec) op (act_ID rec) (act_Subject rec)
          ''failed to unsubscribe stale subscription before restore'');
        sr \<leftarrow> createSubscriptionForRecord env rec op;
        case sr of
          Inl err \<Rightarrow> do {
            with_registry (\<lambda>r. ((), MarkInactive r (act_ID rec) (Some err)));
            c_log env ErrorLevel ''subscription activation failed''
              [(''operation'', LStr op), (''registration_id'', LStr (act_ID rec)),
               (''subject'', LStr (act_Subject rec)), (''kind'', LStr (act_Kind rec)), (''error'', LErr err)];
            c_metric env (IncSubscribe (act_Kind rec) (act_Subject rec) ''failure'');
            return (Some err)
          }
        | Inr sb \<Rightarrow> do {
            exists \<leftarrow> with_registry (publish_handle (act_ID rec) sb);
            if \<not> exists then do {
              cleanupSubscription env (Some sb) op (act_ID rec) (act_Subject rec)
                ''failed to cleanup active subscription after registration was removed during activation'';
              return None
            }
            else do {
              c_log env Info ''subscription activated''
                [(''operation'', LStr op), (''registration_id'', LStr (act_ID rec)),
                 (''subject'', LStr (act_Subject rec)), (''kind'', LStr (act_Kind rec)),
                 (''queue_group'', LStr (act_QueueGroup rec))];
              c_metric env (IncSubscribe (act_Kind rec) (act_Subject rec) ''success'');
              return None
            }
          }
      })"

definition activationRecordByID :: "string \<Rightarrow> bool \<Rightarrow> ('w, 'm, ActivationRecord option) client_op" where
  "activationRecordByID rid force = do {
     r \<leftarrow> gets c_subscriptions;
     return (case GetActivationRecord r rid of
         None \<Rightarrow> None
       | Some rec \<Rightarrow> (if act_Active rec \<and> \<not> force then None else Some rec))
   }"

definition activateRegisteredSubscriptionByID :: "('w, 'e) client_env_scheme \<Rightarrow> string \<Rightarrow> bool \<Rightarrow> string \<Rightarrow> ('w, 'm, goerr option) client_op" where
  "activateRegisteredSubscriptionByID env rid force op = do {
     ro \<leftarrow> activationRecordByID rid force;
     case ro of None \<Rightarrow> return None | Some rec \<Rightarrow> activateRecord env rec force op
   }"

text \<open>The loop over records that joins the errors of the ones that failed.\<close>

fun activate_each :: "('w, 'e) client_env_scheme \<Rightarrow> bool \<Rightarrow> string \<Rightarrow> ActivationRecord list \<Rightarrow> goerr option \<Rightarrow> ('w, 'm, goerr option) client_op" where
  "activate_each env force op [] joined = return joined"
| "activate_each env force op (rec # recs) joined = do {
     r \<leftarrow> activateRecord env rec force op;
     activate_each env force op recs (case r of None \<Rightarrow> joined | Some err \<Rightarrow> Join [joined, Some err])
   }"

definition activateAllRegisteredSubscriptions :: "('w, 'e) client_env_scheme \<Rightarrow> string \<Rightarrow> ('w, 'm, goerr option) client_op" where
  "activateAllRegisteredSubscriptions env op = do {
     r \<leftarrow> gets c_subscriptions;
     joined \<leftarrow> activate_each env False op (ListActivations r) None;
     syncSubscriptionHealth;
     return joined
   }"

definition restoreAllRegisteredSubscriptions :: "('w, 'e) client_env_scheme \<Rightarrow> ('w, 'm, goerr option) client_op" where
  "restoreAllRegisteredSubscriptions env = do {
     r \<leftarrow> gets c_subscriptions;
     joined \<leftarrow> activate_each env True ''restore_subscriptions'' (RestoreRecords r) None;
     syncSubscriptionHealth;
     return joined
   }"

definition activateAfterRegistration :: "('w, 'e) client_env_scheme \<Rightarrow> string \<Rightarrow> string \<Rightarrow> ('w, 'm, goerr option) client_op" where
  "activateAfterRegistration env rid op = do {
     m \<leftarrow> gets manager;
     let st = hs_State (m_health m);
     if st = StateNew \<or> st = StateConnecting then return None
     else do {
       r \<leftarrow> activateRegisteredSubscriptionByID env rid False op;
       case r of
         Some err \<Rightarrow> return (Some err)
       | None \<Rightarrow> do { syncSubscriptionHealth; return None }
     }
   }"

subsection \<open>Deactivation and rollback\<close>

fun unsubscribe_each :: "('w, 'e) client_env_scheme \<Rightarrow> string \<Rightarrow> ActiveHandle list \<Rightarrow> goerr option \<Rightarrow> ('w, 'm, goerr option) client_op" where
  "unsubscribe_each env op [] joined = return joined"
| "unsubscribe_each env op (h # hs) joined = (case handle_Sub h of
       None \<Rightarrow> unsubscribe_each env op hs joined
     | Some sb \<Rightarrow> do {
         r \<leftarrow> unsubscribe env sb;
         unsubscribe_each env op hs (case r of None \<Rightarrow> joined
           | Some err \<Rightarrow> Join [joined, Some (PublicErr CodeShutdown op (handle_Subject h) []
               ''failed to unsubscribe active handler'' True (Some err))])
       })"

definition deactivateAllSubscriptions :: "('w, 'e) client_env_scheme \<Rightarrow> string \<Rightarrow> ('w, 'm, goerr option) client_op" where
  "deactivateAllSubscriptions env op = do {
     handles \<leftarrow> with_registry ClearActiveHandles;
     joined \<leftarrow> unsubscribe_each env op handles None;
     syncSubscriptionHealth;
     return joined
   }"

definition rollbackRegistration :: "('w, 'e) client_env_scheme \<Rightarrow> string \<Rightarrow> string \<Rightarrow> ('w, 'm, unit) client_op" where
  "rollbackRegistration env rid op = do {
     removed \<leftarrow> with_registry (\<lambda>r. Remove r rid);
     (case removed of
        None \<Rightarrow> return ()
      | Some h \<Rightarrow> cleanupSubscription env (handle_Sub h) op (handle_ID h) (handle_Subject h)
          ''failed to cleanup active subscription during registration rollback'');
     syncSubscriptionHealth
   }"

subsection \<open>Session hooks\<close>

definition runReconnectHandler :: "('w, 'e) client_env_scheme \<Rightarrow> ('w, 'm, unit) client_op" where
  "runReconnectHandler env = do {
     o' \<leftarrow> gets c_options;
     case opt_reconnectHandler o' of
       None \<Rightarrow> return ()
     | Some h \<Rightarrow> do {
         panicked \<leftarrow> ask_log (env_run_reconnect env h) (\<lambda>_. RunReconnectHandler h);
         case panicked of
           None \<Rightarrow> return ()
         | Some r \<Rightarrow> do {
             let err = PlainErr (''reconnect handler panicked: '' @ r);
             c_log env ErrorLevel ''reconnect handler panicked'' [(''error'', LErr err)];
             c_sink env err
           }
       }
   }"

definition onSessionReconnected :: "('w, 'e) client_env_scheme \<Rightarrow> ('w, 'm, unit) client_op" where
  "onSessionReconnected env = do {
     enabled \<leftarrow> gets c_callbacksEnabled;
     if \<not> enabled then return ()
     else do {
       c_log env Info ''restoring subscriptions after reconnect'' [];
       r \<leftarrow> restoreAllRegisteredSubscriptions env;
       case r of
         Some err \<Rightarrow> do {
           c_log env ErrorLevel ''subscription restore failed'' [(''error'', LErr err)];
           c_sink env err
         }
       | None \<Rightarrow> do {
           c_log env Info ''subscription restore completed'' [];
           runReconnectHandler env
         }
     }
   }"

definition onSessionClosed :: "('w, 'e) client_env_scheme \<Rightarrow> ('w, 'm, unit) client_op" where
  "onSessionClosed env = do {
     setCallbacksEnabled False;
     cancelHandlerContext;
     r \<leftarrow> deactivateAllSubscriptions env ''session_closed'';
     case r of
       None \<Rightarrow> return ()
     | Some err \<Rightarrow> do {
         c_log env Warn ''failed to clear active subscriptions after session closed'' [(''error'', LErr err)];
         c_sink env err
       }
   }"

text \<open>The session calls its hooks by number.\<close>

definition run_hook :: "('w, 'e) client_env_scheme \<Rightarrow> nat \<Rightarrow> ('w, 'm, unit) client_op" where
  "run_hook env i =
     (if i = reconnect_hook then onSessionReconnected env
      else if i = closed_hook then onSessionClosed env else return ())"

subsection \<open>Registration\<close>

text \<open>The common second half of the four \<open>register...Handler\<close> functions.\<close>

definition addAndActivate :: "('w, 'e) client_env_scheme \<Rightarrow> AddSpec \<Rightarrow> string \<Rightarrow> (string \<times> log_value) list \<Rightarrow> string
    \<Rightarrow> ('w, 'm, goerr option) client_op" where
  "addAndActivate env spec msg kvs op = do {
     added \<leftarrow> with_registry (\<lambda>r. Add r spec);
     case added of
       Inl err \<Rightarrow> return (Some (toPublicError err))
     | Inr snapshot \<Rightarrow> do {
         syncSubscriptionHealth;
         c_log env Debug msg (kvs @ [(''registration_id'', LStr (snap_ID snapshot))]);
         c_metric env (IncSubscribe (spec_Kind spec) (spec_Subject spec) ''registered'');
         r \<leftarrow> activateAfterRegistration env (snap_ID snapshot) op;
         case r of
           None \<Rightarrow> return None
         | Some err \<Rightarrow> do {
             rollbackRegistration env (snap_ID snapshot) (op @ ''_rollback'');
             return (Some err)
           }
       }
   }"

definition registerConfigureHandler :: "('w, 'e) client_env_scheme \<Rightarrow> string \<Rightarrow> nat option \<Rightarrow> SubscriptionOption option list
    \<Rightarrow> ('w, 'm, goerr option) client_op" where
  "registerConfigureHandler env target handler opts = (case handler of
       None \<Rightarrow> return (Some (validationError ''register_configure_handler'' ''configure handler is required''))
     | Some h \<Rightarrow> do {
         b \<leftarrow> gets c_subjects;
         case ConfigureSubject b target of
           Inl err \<Rightarrow> return (Some (toPublicError err))
         | Inr subject \<Rightarrow> (case resolveSubscriptionOptions opts of
             Inl err \<Rightarrow> return (Some err)
           | Inr queueGroup \<Rightarrow> addAndActivate env
               \<lparr>spec_Kind = KindConfigure, spec_Target = target, spec_Action = [], spec_Subject = subject,
                spec_QueueGroup = queueGroup, spec_Callback = Some (ConfigureCallback h)\<rparr>
               ''registered configure handler''
               [(''target'', LStr target), (''subject'', LStr subject), (''queue_group'', LStr queueGroup)]
               ''register_configure_handler'')
       })"

definition registerActionHandler :: "('w, 'e) client_env_scheme \<Rightarrow> string \<Rightarrow> string \<Rightarrow> nat option \<Rightarrow> SubscriptionOption option list
    \<Rightarrow> ('w, 'm, goerr option) client_op" where
  "registerActionHandler env target action handler opts = (case handler of
       None \<Rightarrow> return (Some (validationError ''register_action_handler'' ''action handler is required''))
     | Some h \<Rightarrow> do {
         b \<leftarrow> gets c_subjects;
         case ActionSubject b target action of
           Inl err \<Rightarrow> return (Some (toPublicError err))
         | Inr subject \<Rightarrow> (case resolveSubscriptionOptions opts of
             Inl err \<Rightarrow> return (Some err)
           | Inr queueGroup \<Rightarrow> addAndActivate env
               \<lparr>spec_Kind = KindAction, spec_Target = target, spec_Action = action, spec_Subject = subject,
                spec_QueueGroup = queueGroup, spec_Callback = Some (ActionCallback h)\<rparr>
               ''registered action handler''
               [(''target'', LStr target), (''action'', LStr action), (''subject'', LStr subject),
                (''queue_group'', LStr queueGroup)]
               ''register_action_handler'')
       })"

definition registerResultHandler :: "('w, 'e) client_env_scheme \<Rightarrow> string \<Rightarrow> nat option \<Rightarrow> SubscriptionOption option list
    \<Rightarrow> ('w, 'm, goerr option) client_op" where
  "registerResultHandler env target handler opts = (case handler of
       None \<Rightarrow> return (Some (validationError ''register_result_handler'' ''result handler is required''))
     | Some h \<Rightarrow> do {
         b \<leftarrow> gets c_subjects;
         case ResultSubject b target of
           Inl err \<Rightarrow> return (Some (toPublicError err))
         | Inr subject \<Rightarrow> (case resolveSubscriptionOptions opts of
             Inl err \<Rightarrow> return (Some err)
           | Inr queueGroup \<Rightarrow> addAndActivate env
               \<lparr>spec_Kind = KindResult, spec_Target = target, spec_Action = [], spec_Subject = subject,
                spec_QueueGroup = queueGroup, spec_Callback = Some (ResultCallback h)\<rparr>
               ''registered result handler''
               [(''target'', LStr target), (''subject'', LStr subject), (''queue_group'', LStr queueGroup)]
               ''register_result_handler'')
       })"

definition registerStatusHandler :: "('w, 'e) client_env_scheme \<Rightarrow> string \<Rightarrow> nat option \<Rightarrow> SubscriptionOption option list
    \<Rightarrow> ('w, 'm, goerr option) client_op" where
  "registerStatusHandler env target handler opts = (case handler of
       None \<Rightarrow> return (Some (validationError ''register_status_handler'' ''status handler is required''))
     | Some h \<Rightarrow> do {
         b \<leftarrow> gets c_subjects;
         case StatusSubject b target of
           Inl err \<Rightarrow> return (Some (toPublicError err))
         | Inr subject \<Rightarrow> (case resolveSubscriptionOptions opts of
             Inl err \<Rightarrow> return (Some err)
           | Inr queueGroup \<Rightarrow> addAndActivate env
               \<lparr>spec_Kind = KindStatus, spec_Target = target, spec_Action = [], spec_Subject = subject,
                spec_QueueGroup = queueGroup, spec_Callback = Some (StatusCallback h)\<rparr>
               ''registered status handler''
               [(''target'', LStr target), (''subject'', LStr subject), (''queue_group'', LStr queueGroup)]
               ''register_status_handler'')
       })"

subsection \<open>Dispatch\<close>

record Msg =
  msg_Subject :: string
  msg_Data :: string

text \<open>The user handler runs under a deferred \<open>recover\<close>: a panic becomes an error of the call.\<close>

definition callHandler :: "('w, 'e) client_env_scheme \<Rightarrow> string \<Rightarrow> string \<Rightarrow> nat \<Rightarrow> message \<Rightarrow> ('w, 'm, goerr option) client_op" where
  "callHandler env op panicMsg h m = do {
     c \<leftarrow> handlerContext;
     out \<leftarrow> ask_log (env_run_handler env h c m) (RunHandler h c m);
     return (case out of
         HReturn err \<Rightarrow> err
       | HPanic recovered \<Rightarrow> Some (PublicErr CodeSubscribeFailed op [] [] panicMsg False
           (Some (PlainErr (''panic: '' @ recovered)))))
   }"

definition callConfigureHandler :: "('w, 'e) client_env_scheme \<Rightarrow> nat \<Rightarrow> ConfigureNotification \<Rightarrow> ('w, 'm, goerr option) client_op" where
  "callConfigureHandler env h msg =
     callHandler env ''dispatch_configure_handler'' ''configure handler panicked'' h (MConfigure msg)"

definition callActionHandler :: "('w, 'e) client_env_scheme \<Rightarrow> nat \<Rightarrow> ActionCommand \<Rightarrow> ('w, 'm, goerr option) client_op" where
  "callActionHandler env h msg =
     callHandler env ''dispatch_action_handler'' ''action handler panicked'' h (MAction msg)"

definition callResultHandler :: "('w, 'e) client_env_scheme \<Rightarrow> nat \<Rightarrow> ResultEnvelope \<Rightarrow> ('w, 'm, goerr option) client_op" where
  "callResultHandler env h msg =
     callHandler env ''dispatch_result_handler'' ''result handler panicked'' h (MResult msg)"

definition callStatusHandler :: "('w, 'e) client_env_scheme \<Rightarrow> nat \<Rightarrow> StatusEnvelope \<Rightarrow> ('w, 'm, goerr option) client_op" where
  "callStatusHandler env h msg =
     callHandler env ''dispatch_status_handler'' ''status handler panicked'' h (MStatus msg)"

text \<open>
  The body the four \<open>bind...Callback\<close> closures share: drop while callbacks are off, drop nil and
  undecodable messages, run the handler, account for the outcome.
\<close>

definition bindCallback :: "('w, 'e) client_env_scheme \<Rightarrow> kind \<Rightarrow> string \<Rightarrow> (string \<Rightarrow> 'p result)
    \<Rightarrow> ('p \<Rightarrow> ('w, 'm, goerr option) client_op) \<Rightarrow> Msg option \<Rightarrow> ('w, 'm, unit) client_op" where
  "bindCallback env k label decode handle mo = do {
     enabled \<leftarrow> gets c_callbacksEnabled;
     if \<not> enabled then return ()
     else (case mo of
         None \<Rightarrow> do {
           c_log env Warn (''dropping nil '' @ label @ '' message'') [];
           c_metric env (IncSubscribe k [] ''decode_failed'')
         }
       | Some msg \<Rightarrow> do {
           started_at \<leftarrow> ask (env_now env);
           case decode (msg_Data msg) of
             Inl err \<Rightarrow> do {
               c_log env Warn (''dropping '' @ label @ '' message after decode/validate failure'')
                 [(''subject'', LStr (msg_Subject msg)), (''error'', LErr err)];
               c_metric env (IncSubscribe k (msg_Subject msg) ''decode_failed'')
             }
           | Inr payload \<Rightarrow> do {
               r \<leftarrow> handle payload;
               case r of
                 Some err \<Rightarrow> do {
                   c_log env ErrorLevel (label @ '' handler returned error'')
                     [(''subject'', LStr (msg_Subject msg)), (''error'', LErr err)];
                   c_metric env (IncSubscribe k (msg_Subject msg) ''handler_failed'')
                 }
               | None \<Rightarrow> do {
                   o' \<leftarrow> gets c_options;
                   only_if (opt_metrics o') (do {
                     finished_at \<leftarrow> ask (env_now env);
                     hook env (ObservePublishLatency k (msg_Subject msg) (finished_at - started_at))
                   })
                 }
             }
         })
   }"

definition bindConfigureCallback :: "('w, 'e) client_env_scheme \<Rightarrow> nat \<Rightarrow> Msg option \<Rightarrow> ('w, 'm, unit) client_op" where
  "bindConfigureCallback env h = bindCallback env KindConfigure ''configure''
     (decodeConfigureNotification ''decode_configure_notification'') (callConfigureHandler env h)"

definition bindActionCallback :: "('w, 'e) client_env_scheme \<Rightarrow> nat \<Rightarrow> Msg option \<Rightarrow> ('w, 'm, unit) client_op" where
  "bindActionCallback env h = bindCallback env KindAction ''action''
     (decodeActionCommand ''decode_action_command'') (callActionHandler env h)"

definition bindResultCallback :: "('w, 'e) client_env_scheme \<Rightarrow> nat \<Rightarrow> Msg option \<Rightarrow> ('w, 'm, unit) client_op" where
  "bindResultCallback env h = bindCallback env KindResult ''result''
     (decodeResultEnvelope ''decode_result_envelope'') (callResultHandler env h)"

definition bindStatusCallback :: "('w, 'e) client_env_scheme \<Rightarrow> nat \<Rightarrow> Msg option \<Rightarrow> ('w, 'm, unit) client_op" where
  "bindStatusCallback env h = bindCallback env KindStatus ''status''
     (decodeStatusEnvelope ''decode_status_envelope'') (callStatusHandler env h)"

text \<open>A message arriving on a subscription runs the closure it was made with.\<close>

fun deliver :: "('w, 'e) client_env_scheme \<Rightarrow> msg_handler \<Rightarrow> Msg option \<Rightarrow> ('w, 'm, unit) client_op" where
  "deliver env (ConfigureCallback h) mo = bindConfigureCallback env h mo"
| "deliver env (ActionCallback h) mo = bindActionCallback env h mo"
| "deliver env (ResultCallback h) mo = bindResultCallback env h mo"
| "deliver env (StatusCallback h) mo = bindStatusCallback env h mo"

end
