(* ===== verification/Handlers_Contract.thy ===== *)
theory Handlers_Contract
  imports Handlers_Runtime
begin

text \<open>
  What the handler runtime guarantees: dispatch runs exactly the handlers it should, no NATS
  subscription is lost, a failed registration leaves no trace, and deactivation releases everything.
\<close>

subsection \<open>Frames\<close>

lemma client_frame:
  assumes "session.more t = session.more s"
  shows "c_cfg t = c_cfg s" "c_options t = c_options s" "c_subscriptions t = c_subscriptions s"
    "c_subjects t = c_subjects s" "c_handlerCtx t = c_handlerCtx s" "c_nextWatchID t = c_nextWatchID s"
    "c_watches t = c_watches s" "c_callbacksEnabled t = c_callbacksEnabled s"
  using assms by (cases s; cases t; simp)+

text \<open>Equal but for the trace, the world and the registry.\<close>

definition same_client :: "('w, 'm) client_scheme \<Rightarrow> ('w, 'm) client_scheme \<Rightarrow> bool" where
  "same_client s t \<longleftrightarrow> manager t = manager s \<and> session.more t = session.more s"

lemma same_client_refl [simp]: "same_client s s"
  by (simp add: same_client_def)

lemma same_client_trans: "same_client s t \<Longrightarrow> same_client t u \<Longrightarrow> same_client s u"
  by (simp add: same_client_def)

lemma same_clientD:
  assumes "same_client s t"
  shows "manager t = manager s" "c_cfg t = c_cfg s" "c_options t = c_options s"
    "c_subscriptions t = c_subscriptions s"
    "c_subjects t = c_subjects s" "c_handlerCtx t = c_handlerCtx s" "c_nextWatchID t = c_nextWatchID s"
    "c_watches t = c_watches s" "c_callbacksEnabled t = c_callbacksEnabled s"
  using assms client_frame [of t s] by (auto simp: same_client_def)

subsection \<open>Subscriptions in a trace\<close>

fun made_by :: "call \<Rightarrow> sub set" where
  "made_by (NcSubscribe nc subject q cb (Inr sb)) = {sb}"
| "made_by _ = {}"

fun dropped_by :: "call \<Rightarrow> sub set" where
  "dropped_by (Unsubscribe sb r) = {sb}"
| "dropped_by _ = {}"

definition made :: "call list \<Rightarrow> sub set" where
  "made cs = (\<Union>c \<in> set cs. made_by c)"

definition dropped :: "call list \<Rightarrow> sub set" where
  "dropped cs = (\<Union>c \<in> set cs. dropped_by c)"

lemma made_simps [simp]:
  "made [] = {}" "made (c # cs) = made_by c \<union> made cs" "made (cs @ ds) = made cs \<union> made ds"
  "dropped [] = {}" "dropped (c # cs) = dropped_by c \<union> dropped cs"
  "dropped (cs @ ds) = dropped cs \<union> dropped ds"
  by (auto simp: made_def dropped_def)

text \<open>A stretch of the trace that is only logging, metrics and reports.\<close>

fun is_note :: "call \<Rightarrow> bool" where
  "is_note (Log lvl msg kvs) \<longleftrightarrow> True"
| "is_note (IncSubscribe k subject r) \<longleftrightarrow> True"
| "is_note (ErrorSink e) \<longleftrightarrow> True"
| "is_note (ObservePublishLatency k subject d) \<longleftrightarrow> True"
| "is_note _ \<longleftrightarrow> False"

definition noted :: "call list \<Rightarrow> bool" where
  "noted cs \<longleftrightarrow> list_all is_note cs"

lemma noted_simps [simp]:
  "noted []" "noted (c # cs) \<longleftrightarrow> is_note c \<and> noted cs" "noted (cs @ ds) \<longleftrightarrow> noted cs \<and> noted ds"
  by (simp_all add: noted_def)

lemma is_note_silent: "is_note c \<Longrightarrow> made_by c = {} \<and> dropped_by c = {} \<and> run_message c = [] \<and> \<not> is_put c \<and> \<not> is_publish c"
  by (cases c) simp_all

lemma noted_silent:
  "noted cs \<Longrightarrow> made cs = {} \<and> dropped cs = {} \<and> handler_runs cs = [] \<and> puts cs = [] \<and> publishes cs = []"
  by (induction cs) (auto dest: is_note_silent)

text \<open>A step that only takes notes.\<close>

definition takes_notes :: "('w, 'm, 'a) client_op \<Rightarrow> bool" where
  "takes_notes p \<longleftrightarrow> (\<forall>s. wp p (\<lambda>r t. same_client s t \<and> (\<exists>new. calls t = calls s @ new \<and> noted new)) s)"

lemma notes_return [simp]: "takes_notes (return x)"
  by (simp add: takes_notes_def wp_return)

lemma notes_log [simp]: "takes_notes (c_log env lvl msg kvs)"
  by (simp add: takes_notes_def c_log_def wp_simps same_client_def)

lemma notes_metric [simp]: "is_note c \<Longrightarrow> takes_notes (c_metric env c)"
  by (simp add: takes_notes_def c_metric_def wp_simps same_client_def)

lemma notes_sink [simp]: "takes_notes (c_sink env err)"
  by (simp add: takes_notes_def c_sink_def wp_simps same_client_def)

lemma wp_notes:
  assumes "takes_notes p" and "\<And>r t new. same_client s t \<Longrightarrow> calls t = calls s @ new \<Longrightarrow> noted new \<Longrightarrow> Q r t"
  shows "wp p Q s"
  by (rule wp_mono [OF assms(1) [unfolded takes_notes_def, rule_format]]) (use assms(2) in blast)

lemma notes_bind:
  fixes p :: "('w, 'm, 'a) client_op" and f :: "'a \<Rightarrow> ('w, 'm, 'b) client_op"
  assumes "takes_notes p" and "\<And>x. takes_notes (f x)"
  shows "takes_notes (State_Monad.bind p f)"
  unfolding takes_notes_def wp_bind
proof (intro allI)
  fix s :: "('w, 'm) client_scheme"
  show "wp p (\<lambda>x. wp (f x) (\<lambda>r t. same_client s t \<and> (\<exists>new. calls t = calls s @ new \<and> noted new))) s"
  proof (rule wp_notes [OF assms(1)])
    fix r and t :: "('w, 'm) client_scheme" and new
    assume t: "same_client s t" "calls t = calls s @ new" "noted new"
    show "wp (f r) (\<lambda>r t. same_client s t \<and> (\<exists>new. calls t = calls s @ new \<and> noted new)) t"
      by (rule wp_notes [OF assms(2)]) (use t in \<open>auto intro: same_client_trans\<close>)
  qed
qed

lemma notes_pair: "is_note c \<Longrightarrow> takes_notes (do { c_log env lvl msg kvs; c_metric env c })"
  by (intro notes_bind notes_log notes_metric)

lemma notes_report: "takes_notes (do { c_log env lvl msg kvs; c_sink env err })"
  by (intro notes_bind notes_log notes_sink)

subsection \<open>Dispatch\<close>

text \<open>What a message asks for: the handler and the decoded, valid payload.\<close>

definition expected :: "msg_handler \<Rightarrow> Msg \<Rightarrow> (nat \<times> message) option" where
  "expected cb msg = (case cb of
       ConfigureCallback h \<Rightarrow> (case decodeConfigureNotification ''decode_configure_notification'' (msg_Data msg) of
         Inl e \<Rightarrow> None | Inr m \<Rightarrow> Some (h, MConfigure m))
     | ActionCallback h \<Rightarrow> (case decodeActionCommand ''decode_action_command'' (msg_Data msg) of
         Inl e \<Rightarrow> None | Inr m \<Rightarrow> Some (h, MAction m))
     | ResultCallback h \<Rightarrow> (case decodeResultEnvelope ''decode_result_envelope'' (msg_Data msg) of
         Inl e \<Rightarrow> None | Inr m \<Rightarrow> Some (h, MResult m))
     | StatusCallback h \<Rightarrow> (case decodeStatusEnvelope ''decode_status_envelope'' (msg_Data msg) of
         Inl e \<Rightarrow> None | Inr m \<Rightarrow> Some (h, MStatus m)))"

text \<open>The calls of a trace that run a user handler.\<close>

definition runs :: "call list \<Rightarrow> (nat \<times> ctx \<times> message) list" where
  "runs cs = concat (map (\<lambda>c. case c of RunHandler h x m r \<Rightarrow> [(h, x, m)] | _ \<Rightarrow> []) cs)"

lemma runs_simps [simp]:
  "runs [] = []" "runs (cs @ ds) = runs cs @ runs ds"
  "runs (c # cs) = (case c of RunHandler h x m r \<Rightarrow> [(h, x, m)] | _ \<Rightarrow> []) @ runs cs"
  by (simp_all add: runs_def)

lemma noted_runs: "noted cs \<Longrightarrow> runs cs = []"
proof (induction cs)
  case (Cons c cs)
  then show ?case by (cases c) auto
qed simp

definition dispatched :: "(nat \<times> message) option \<Rightarrow> ('w, 'm) client_scheme \<Rightarrow> ('w, 'm) client_scheme \<Rightarrow> bool" where
  "dispatched e s t \<longleftrightarrow> same_client s t
     \<and> (\<exists>new. calls t = calls s @ new \<and> puts new = [] \<and> publishes new = []
        \<and> made new = {} \<and> dropped new = {}
        \<and> runs new = (case e of None \<Rightarrow> [] | Some (h, m) \<Rightarrow> [(h, or_background (c_handlerCtx s), m)]))"

lemma dispatched_notes:
  "takes_notes p \<Longrightarrow> wp p (\<lambda>r t. dispatched None s t) s"
  by (erule wp_notes) (auto simp: dispatched_def noted_runs dest: noted_silent)

lemma callHandler_spec:
  "wp (callHandler env op panicMsg h m) (\<lambda>r t. dispatched (Some (h, m)) s t) s"
  by (simp add: callHandler_def handlerContext_def wp_simps dispatched_def same_client_def)

lemma after_notes:
  assumes "takes_notes p" and t: "dispatched e s t"
  shows "wp p (\<lambda>r u. dispatched e s u) t"
proof (rule wp_notes [OF assms(1)])
  fix r u new
  assume u: "same_client t u" "calls u = calls t @ new" "noted new"
  from t u noted_silent [OF u(3)] noted_runs [OF u(3)] show "dispatched e s u"
    by (auto simp: dispatched_def intro: same_client_trans)
qed

lemma ask_dispatched: "wp (ask f) (\<lambda>r t. dispatched None s t) s"
  by (simp add: wp_simps dispatched_def same_client_def)

lemma dispatched_refl: "dispatched None s s"
  by (simp add: dispatched_def)

lemma dispatched_after_none:
  "dispatched None s t \<Longrightarrow> dispatched e t u \<Longrightarrow> dispatched e s u"
  by (auto simp: dispatched_def same_clientD intro: same_client_trans split: option.splits)

lemma bindCallback_spec:
  fixes s :: "('w, 'm) client_scheme"
  assumes handle: "\<And>p s. wp (handle p) (\<lambda>r t. dispatched (Some (h, wrap p)) s t) s"
  shows "wp (bindCallback env k label decode handle mo) (\<lambda>r t. dispatched
    (if c_callbacksEnabled s then (case mo of None \<Rightarrow> None | Some msg \<Rightarrow>
       (case decode (msg_Data msg) of Inl e \<Rightarrow> None | Inr p \<Rightarrow> Some (h, wrap p))) else None) s t) s"
proof (cases "c_callbacksEnabled s")
  case False
  then show ?thesis by (simp add: bindCallback_def wp_simps dispatched_refl)
next
  case True
  note note2 = dispatched_notes [OF notes_pair]
  show ?thesis
  proof (cases mo)
    case None
    have "wp (do { c_log env Warn (''dropping nil '' @ label @ '' message'') [];
        c_metric env (IncSubscribe k [] ''decode_failed'') }) (\<lambda>r t. dispatched None s t) s"
      by (rule note2) simp
    with True None show ?thesis by (simp add: bindCallback_def wp_simps)
  next
    case (Some msg)
    show ?thesis
    proof (cases "decode (msg_Data msg)")
      case (Inl err)
      let ?t = "s\<lparr>ext := snd (env_now env (ext s))\<rparr>"
      have t: "dispatched None s ?t" by (simp add: dispatched_def same_client_def)
      have "wp (do { c_log env Warn (''dropping '' @ label @ '' message after decode/validate failure'')
            [(''subject'', LStr (msg_Subject msg)), (''error'', LErr err)];
          c_metric env (IncSubscribe k (msg_Subject msg) ''decode_failed'') })
        (\<lambda>r t. dispatched None s t) ?t"
        by (rule wp_mono [OF note2]) (simp, blast intro: dispatched_after_none t)
      with True Some Inl show ?thesis by (simp add: bindCallback_def wp_simps)
    next
      case (Inr p)
      let ?t = "s\<lparr>ext := snd (env_now env (ext s))\<rparr>"
      have t: "dispatched None s ?t" by (simp add: dispatched_def same_client_def)
      have "wp (handle p) (\<lambda>r. wp (case r of
          Some err \<Rightarrow> do {
            c_log env ErrorLevel (label @ '' handler returned error'')
              [(''subject'', LStr (msg_Subject msg)), (''error'', LErr err)];
            c_metric env (IncSubscribe k (msg_Subject msg) ''handler_failed'') }
        | None \<Rightarrow> do {
            o' \<leftarrow> gets c_options;
            only_if (opt_metrics o') (do {
              finished_at \<leftarrow> ask (env_now env);
              hook env (ObservePublishLatency k (msg_Subject msg) (finished_at - t0)) }) })
        (\<lambda>r t. dispatched (Some (h, wrap p)) s t)) ?t" for t0
      proof (rule wp_mono [OF handle])
        fix r :: "goerr option" and u :: "('w, 'm) client_scheme"
        assume "dispatched (Some (h, wrap p)) ?t u"
        with t have u: "dispatched (Some (h, wrap p)) s u" by (rule dispatched_after_none)
        have fin: "dispatched (Some (h, wrap p)) s (u\<lparr>ext := x, calls := calls u @ [ObservePublishLatency k (msg_Subject msg) d]\<rparr>)" for x d
          using u by (auto simp: dispatched_def same_client_def)
        show "wp (case r of
          Some err \<Rightarrow> do {
            c_log env ErrorLevel (label @ '' handler returned error'')
              [(''subject'', LStr (msg_Subject msg)), (''error'', LErr err)];
            c_metric env (IncSubscribe k (msg_Subject msg) ''handler_failed'') }
        | None \<Rightarrow> do {
            o' \<leftarrow> gets c_options;
            only_if (opt_metrics o') (do {
              finished_at \<leftarrow> ask (env_now env);
              hook env (ObservePublishLatency k (msg_Subject msg) (finished_at - t0)) }) })
        (\<lambda>r t. dispatched (Some (h, wrap p)) s t) u"
        proof (cases r)
          case None
          with u fin show ?thesis by (simp add: wp_simps)
        next
          case (Some err)
          show ?thesis unfolding Some option.case by (rule after_notes [OF notes_pair u]) simp
        qed
      qed
      with True Some Inr show ?thesis by (simp add: bindCallback_def wp_simps)
    qed
  qed
qed

lemma deliver_spec:
  "wp (deliver env cb mo) (\<lambda>r t. dispatched
    (if c_callbacksEnabled s then (case mo of None \<Rightarrow> None | Some msg \<Rightarrow> expected cb msg) else None) s t) s"
proof (cases cb)
  case (ConfigureCallback h)
  show ?thesis
    unfolding ConfigureCallback deliver.simps bindConfigureCallback_def expected_def msg_handler.case
    by (rule bindCallback_spec) (simp add: callConfigureHandler_def callHandler_spec)
next
  case (ActionCallback h)
  show ?thesis
    unfolding ActionCallback deliver.simps bindActionCallback_def expected_def msg_handler.case
    by (rule bindCallback_spec) (simp add: callActionHandler_def callHandler_spec)
next
  case (ResultCallback h)
  show ?thesis
    unfolding ResultCallback deliver.simps bindResultCallback_def expected_def msg_handler.case
    by (rule bindCallback_spec) (simp add: callResultHandler_def callHandler_spec)
next
  case (StatusCallback h)
  show ?thesis
    unfolding StatusCallback deliver.simps bindStatusCallback_def expected_def msg_handler.case
    by (rule bindCallback_spec) (simp add: callStatusHandler_def callHandler_spec)
qed

subsection \<open>Open subscriptions\<close>

text \<open>The subscriptions NATS still holds after a trace, and that none of them is forgotten.\<close>

definition opens :: "sub set \<Rightarrow> call list \<Rightarrow> sub set" where
  "opens S cs = foldl (\<lambda>S c. (S - dropped_by c) \<union> made_by c) S cs"

lemma opens_simps [simp]:
  "opens S [] = S" "opens S (c # cs) = opens ((S - dropped_by c) \<union> made_by c) cs"
  "opens S (cs @ ds) = opens (opens S cs) ds"
  by (simp_all add: opens_def)

lemma opens_noted: "noted cs \<Longrightarrow> opens S cs = S"
  by (induction cs arbitrary: S) (auto dest: is_note_silent)

definition open_subs :: "('w, 'm) client_scheme \<Rightarrow> sub set" where
  "open_subs s = opens {} (calls s)"

definition no_leak :: "('w, 'm) client_scheme \<Rightarrow> bool" where
  "no_leak s \<longleftrightarrow> open_subs s \<subseteq> ran (live (c_subscriptions s))"

lemma open_subs_after: "calls t = calls s @ new \<Longrightarrow> open_subs t = opens (open_subs s) new"
  by (simp add: open_subs_def)

text \<open>Calls that neither write to KV nor publish nor run a user handler.\<close>

fun is_reconnect :: "call \<Rightarrow> bool" where
  "is_reconnect (RunReconnectHandler h) \<longleftrightarrow> True"
| "is_reconnect _ \<longleftrightarrow> False"

definition reconnect_runs :: "call list \<Rightarrow> call list" where
  "reconnect_runs cs = filter is_reconnect cs"

lemma reconnect_runs_simps [simp]:
  "reconnect_runs [] = []" "reconnect_runs (cs @ ds) = reconnect_runs cs @ reconnect_runs ds"
  "reconnect_runs (c # cs) = (if is_reconnect c then c # reconnect_runs cs else reconnect_runs cs)"
  by (simp_all add: reconnect_runs_def)

lemma noted_reconnect: "noted cs \<Longrightarrow> reconnect_runs cs = []"
proof (induction cs)
  case (Cons c cs)
  then show ?case by (cases c) auto
qed simp

definition io_quiet :: "call list \<Rightarrow> bool" where
  "io_quiet cs \<longleftrightarrow> puts cs = [] \<and> publishes cs = [] \<and> runs cs = [] \<and> reconnect_runs cs = []"

lemma io_quiet_simps [simp]: "io_quiet []" "io_quiet (cs @ ds) \<longleftrightarrow> io_quiet cs \<and> io_quiet ds"
  by (auto simp: io_quiet_def)

lemma noted_io: "noted cs \<Longrightarrow> io_quiet cs"
  using noted_silent noted_runs noted_reconnect by (simp add: io_quiet_def)

definition same_but_registry :: "('w, 'm) client_scheme \<Rightarrow> ('w, 'm) client_scheme \<Rightarrow> bool" where
  "same_but_registry s t \<longleftrightarrow> manager t = manager s \<and> c_cfg t = c_cfg s \<and> c_options t = c_options s
     \<and> c_subjects t = c_subjects s \<and> c_handlerCtx t = c_handlerCtx s
     \<and> c_nextWatchID t = c_nextWatchID s \<and> c_watches t = c_watches s
     \<and> c_callbacksEnabled t = c_callbacksEnabled s"

lemma same_but_registry_refl [simp]: "same_but_registry s s"
  by (simp add: same_but_registry_def)

lemma same_but_registry_trans: "same_but_registry s t \<Longrightarrow> same_but_registry t u \<Longrightarrow> same_but_registry s u"
  by (simp add: same_but_registry_def)

lemma same_client_registry: "same_client s t \<Longrightarrow> same_but_registry s t"
  using same_clientD [of s t] by (simp add: same_but_registry_def)

text \<open>A step of the subscription machinery: what it does to the open subscriptions is \<open>f\<close>.\<close>

definition sub_step :: "(sub set \<Rightarrow> sub set) \<Rightarrow> ('w, 'm) client_scheme \<Rightarrow> ('w, 'm) client_scheme \<Rightarrow> bool" where
  "sub_step f s t \<longleftrightarrow> same_client s t
     \<and> (\<exists>new. calls t = calls s @ new \<and> io_quiet new \<and> (\<forall>S. opens S new = f S))"

lemma sub_step_refl: "sub_step (\<lambda>S. S) s s"
  by (auto simp: sub_step_def)

lemma sub_step_trans: "sub_step f s t \<Longrightarrow> sub_step g t u \<Longrightarrow> sub_step (\<lambda>S. g (f S)) s u"
  unfolding sub_step_def
  by (metis append_assoc io_quiet_simps(2) opens_simps(3) same_client_trans)

lemma sub_step_open: "sub_step f s t \<Longrightarrow> open_subs t = f (open_subs s)"
  by (auto simp: sub_step_def open_subs_after)

lemma sub_step_notes: "takes_notes p \<Longrightarrow> wp p (\<lambda>r t. sub_step (\<lambda>S. S) s t) s"
  by (erule wp_notes) (auto simp: sub_step_def noted_io opens_noted)

lemma sub_step_after_notes:
  assumes "takes_notes p" and t: "sub_step f s t"
  shows "wp p (\<lambda>r u. sub_step f s u) t"
  by (rule wp_mono [OF sub_step_notes [OF assms(1)]]) (use sub_step_trans [OF t] in auto)

lemma unsubscribe_spec: "wp (unsubscribe env sb) (\<lambda>r t. sub_step (\<lambda>S. S - {sb}) s t) s"
  by (simp add: unsubscribe_def wp_simps sub_step_def same_client_def io_quiet_def)

lemma cleanup_spec:
  fixes s :: "('w, 'm) client_scheme"
  shows "wp (cleanupSubscription env so op rid subject msg) (\<lambda>r t. sub_step (\<lambda>S. S - set_option so) s t) s"
proof (cases so)
  case None
  then show ?thesis by (simp add: cleanupSubscription_def wp_return sub_step_refl)
next
  case (Some sb)
  have "wp (unsubscribe env sb) (\<lambda>r. wp (case r of None \<Rightarrow> return () | Some err \<Rightarrow> do {
      c_log env Warn msg (kvs_of op rid subject err); c_sink env err })
    (\<lambda>r t. sub_step (\<lambda>S. S - {sb}) s t)) s"
  proof (rule wp_mono [OF unsubscribe_spec])
    fix r :: "goerr option" and t :: "('w, 'm) client_scheme"
    assume t: "sub_step (\<lambda>S. S - {sb}) s t"
    show "wp (case r of None \<Rightarrow> return () | Some err \<Rightarrow> do {
        c_log env Warn msg (kvs_of op rid subject err); c_sink env err })
      (\<lambda>r t. sub_step (\<lambda>S. S - {sb}) s t) t"
    proof (cases r)
      case (Some err)
      show ?thesis unfolding Some option.case by (rule sub_step_after_notes [OF notes_report t])
    qed (simp add: t wp_return)
  qed
  with Some show ?thesis by (simp add: cleanupSubscription_def wp_bind)
qed

text \<open>A new subscription, or an error that leaves none behind.\<close>

definition subscribed :: "string \<Rightarrow> string \<Rightarrow> msg_handler option \<Rightarrow> ('w, 'm) client_scheme
    \<Rightarrow> sub result \<Rightarrow> ('w, 'm) client_scheme \<Rightarrow> bool" where
  "subscribed subject queueGroup callback s r t \<longleftrightarrow> (case r of
       Inl e \<Rightarrow> sub_step (\<lambda>S. S) s t \<or> (\<exists>sb. sub_step (\<lambda>S. S - {sb}) s t)
     | Inr sb \<Rightarrow> sub_step (\<lambda>S. insert sb S) s t
         \<and> (\<exists>nc cb. callback = Some cb \<and> NcSubscribe nc subject
              (if is_blank queueGroup then None else Some queueGroup) cb (Inr sb) \<in> set (since s t)))"

lemma Connection_client:
  "wp (Connection env) (\<lambda>r t. same_client s t \<and> calls t = calls s) s"
  by (rule wp_mono [OF quietD [OF Connection_quiet]]) (simp add: same_client_def)

lemma subscribe_tail:
  fixes t :: "('w, 'm) client_scheme"
  assumes t: "same_client s t" "calls t = calls s"
  shows "wp (do {
      sr \<leftarrow> subscribeOn env nc subject queueGroup cb;
      case sr of
        Inl err \<Rightarrow> return (Inl (f err))
      | Inr sb \<Rightarrow> do {
          m \<leftarrow> gets manager;
          let d = SubscribeTimeout m;
          flushed \<leftarrow> ask_log (env_flush_timeout env nc d) (NcFlushTimeout nc d);
          case flushed of
            Some err \<Rightarrow> do { unsubscribe env sb; return (Inl (g err)) }
          | None \<Rightarrow> do {
              c_log env Debug ''subscription created''
                [(''kind'', LStr k), (''subject'', LStr subject), (''queue_group'', LStr queueGroup)];
              return (Inr sb) } } })
    (\<lambda>r u. subscribed subject queueGroup (Some cb) s r u) t"
  using t
  by (auto simp: subscribeOn_def Let_def wp_simps unsubscribe_def c_log_def subscribed_def sub_step_def
      same_client_def since_def io_quiet_def split: sum.splits option.splits)

lemma subscribeInternal_spec:
  fixes s :: "('w, 'm) client_scheme"
  shows "wp (subscribeInternal env op k subject queueGroup callback)
     (\<lambda>r t. subscribed subject queueGroup callback s r t) s"
proof (cases "callback = None \<or> is_blank subject")
  case True
  then show ?thesis
    by (auto simp: subscribeInternal_def wp_return subscribed_def sub_step_refl split: option.split)
next
  case False
  then obtain cb where cb: "callback = Some cb" "\<not> is_blank subject" by auto
  have "wp (Connection env) (\<lambda>cr. wp (case cr of
       Inl err \<Rightarrow> return (Inl (toPublicError err))
     | Inr nc \<Rightarrow> do {
         sr \<leftarrow> subscribeOn env nc subject queueGroup cb;
         case sr of
           Inl err \<Rightarrow> return (Inl (subscribeFailed op subject ''subscribe operation failed'' err))
         | Inr sb \<Rightarrow> do {
             m \<leftarrow> gets manager;
             let d = SubscribeTimeout m;
             flushed \<leftarrow> ask_log (env_flush_timeout env nc d) (NcFlushTimeout nc d);
             case flushed of
               Some err \<Rightarrow> do { unsubscribe env sb;
                 return (Inl (subscribeFailed op subject ''subscribe readiness flush failed'' err)) }
             | None \<Rightarrow> do {
                 c_log env Debug ''subscription created''
                   [(''kind'', LStr k), (''subject'', LStr subject), (''queue_group'', LStr queueGroup)];
                 return (Inr sb) } } })
     (\<lambda>r t. subscribed subject queueGroup (Some cb) s r t)) s"
  proof (rule wp_mono [OF Connection_client])
    fix cr :: "conn result" and t :: "('w, 'm) client_scheme"
    assume t: "same_client s t \<and> calls t = calls s"
    then have tail: "same_client s t" "calls t = calls s" by simp_all
    show "wp (case cr of
       Inl err \<Rightarrow> return (Inl (toPublicError err))
     | Inr nc \<Rightarrow> do {
         sr \<leftarrow> subscribeOn env nc subject queueGroup cb;
         case sr of
           Inl err \<Rightarrow> return (Inl (subscribeFailed op subject ''subscribe operation failed'' err))
         | Inr sb \<Rightarrow> do {
             m \<leftarrow> gets manager;
             let d = SubscribeTimeout m;
             flushed \<leftarrow> ask_log (env_flush_timeout env nc d) (NcFlushTimeout nc d);
             case flushed of
               Some err \<Rightarrow> do { unsubscribe env sb;
                 return (Inl (subscribeFailed op subject ''subscribe readiness flush failed'' err)) }
             | None \<Rightarrow> do {
                 c_log env Debug ''subscription created''
                   [(''kind'', LStr k), (''subject'', LStr subject), (''queue_group'', LStr queueGroup)];
                 return (Inr sb) } } })
     (\<lambda>r t. subscribed subject queueGroup (Some cb) s r t) t"
    proof (cases cr)
      case (Inl e)
      with tail show ?thesis by (simp add: wp_return subscribed_def sub_step_def)
    next
      case (Inr nc)
      show ?thesis unfolding Inr sum.case by (rule subscribe_tail [OF tail])
    qed
  qed
  with cb show ?thesis by (simp add: subscribeInternal_def wp_bind)
qed

lemma subscribed_refl: "subscribed subject queueGroup callback s (Inl e) s"
  by (simp add: subscribed_def sub_step_refl)

lemma create_spec:
  "wp (createSubscriptionForRecord env rec op)
     (\<lambda>r t. subscribed (act_Subject rec) (act_QueueGroup rec) (act_Callback rec) s r t) s"
  by (simp add: createSubscriptionForRecord_def Let_def wp_return subscribed_refl subscribeInternal_spec)

text \<open>
  Why a registration can be left without a subscription: the session has no usable connection, NATS
  refused the subscription, or the flush that confirms it failed and it was given back.  A record of
  an unknown kind, without a callback or without a subject is not subscribed at all.
\<close>

definition no_connection :: "('w, 'e) session_env_scheme \<Rightarrow> Manager \<Rightarrow> bool" where
  "no_connection env m \<longleftrightarrow> (case m_nc m of None \<Rightarrow> True | Some nc \<Rightarrow> \<exists>w. fst (env_status env nc w) \<noteq> CONNECTED)"

definition withheld :: "('w, 'e) session_env_scheme \<Rightarrow> Manager \<Rightarrow> ActivationRecord \<Rightarrow> call list \<Rightarrow> bool" where
  "withheld env m rec new \<longleftrightarrow> no_connection env m
     \<or> (\<exists>nc q cb e. NcSubscribe nc (act_Subject rec) q cb (Inl e) \<in> set new)
     \<or> (\<exists>nc q cb sb d e r. NcSubscribe nc (act_Subject rec) q cb (Inr sb) \<in> set new
          \<and> NcFlushTimeout nc d (Some e) \<in> set new \<and> Unsubscribe sb r \<in> set new)"

definition refused :: "('w, 'e) session_env_scheme \<Rightarrow> Manager \<Rightarrow> ActivationRecord \<Rightarrow> call list \<Rightarrow> bool" where
  "refused env m rec new \<longleftrightarrow>
     act_Kind rec \<notin> {KindConfigure, KindAction, KindResult, KindStatus}
     \<or> act_Callback rec = None \<or> is_blank (act_Subject rec) \<or> withheld env m rec new"

lemma refused_mono: "refused env m rec new \<Longrightarrow> set new \<subseteq> set new' \<Longrightarrow> refused env m rec new'"
  unfolding refused_def withheld_def by blast

lemma create_why:
  fixes s :: "('w, 'm) client_scheme"
  shows "wp (createSubscriptionForRecord env rec op)
     (\<lambda>r t. isl r \<longrightarrow> refused env (manager s) rec (since s t)) s"
proof -
  have sub: "wp (subscribeInternal env op' (act_Kind rec) (act_Subject rec) (act_QueueGroup rec) (act_Callback rec))
     (\<lambda>r t. isl r \<longrightarrow> refused env (manager s) rec (since s t)) s" for op'
    by (auto simp: subscribeInternal_def Connection_def subscribeOn_def unsubscribe_def c_log_def Let_def wp_simps
        since_def refused_def withheld_def no_connection_def split: option.splits sum.splits)
  show ?thesis
    using sub by (auto simp: createSubscriptionForRecord_def Let_def wp_return refused_def)
qed

lemma create_result:
  "wp (createSubscriptionForRecord env rec op)
     (\<lambda>r t. subscribed (act_Subject rec) (act_QueueGroup rec) (act_Callback rec) s r t
        \<and> (isl r \<longrightarrow> refused env (manager s) rec (since s t))) s"
  unfolding wp_conj using create_spec create_why by blast

subsection \<open>Activation\<close>

text \<open>What the registry operations of an activation do to the entries and the two views.\<close>

lemma MarkActive_entries:
  "map_of (entries (MarkActive r rid (Some sb))) x =
     (if x = rid then map_option (\<lambda>e. e\<lparr>ActiveSub := Some sb, Active := True, LastActivationErr := []\<rparr>)
        (map_of (entries r) rid) else map_of (entries r) x)"
  by (auto simp: MarkActive_def split: option.split)

lemma MarkInactive_other:
  "x \<noteq> rid \<Longrightarrow> map_of (entries (MarkInactive r rid err)) x = map_of (entries r) x"
  by (auto simp: MarkInactive_def Let_def split: option.split)

lemma nextID_Mark [simp]: "nextID (MarkActive r rid so) = nextID r" "nextID (MarkInactive r rid err) = nextID r"
  by (auto simp: MarkActive_def MarkInactive_def Let_def split: option.split)

text \<open>The live handle of a record is a subscription that \<open>new\<close> made, as the record asks.\<close>

definition made_for :: "ActivationRecord \<Rightarrow> Registry \<Rightarrow> call list \<Rightarrow> bool" where
  "made_for rec R new \<longleftrightarrow> (\<exists>nc cb sb. live R (act_ID rec) = Some sb \<and> act_Callback rec = Some cb
     \<and> NcSubscribe nc (act_Subject rec) (if is_blank (act_QueueGroup rec) then None
          else Some (act_QueueGroup rec)) cb (Inr sb) \<in> set new)"

definition activated :: "('w, 'e) session_env_scheme \<Rightarrow> ActivationRecord \<Rightarrow> bool \<Rightarrow> ('w, 'm) client_scheme \<Rightarrow> goerr option \<Rightarrow> ('w, 'm) client_scheme \<Rightarrow> bool" where
  "activated env rec force s r t \<longleftrightarrow>
     same_but_registry s t \<and> registry_inv (c_subscriptions t)
     \<and> nextID (c_subscriptions t) = nextID (c_subscriptions s)
     \<and> intents (c_subscriptions t) = intents (c_subscriptions s)
     \<and> (\<forall>x. x \<noteq> act_ID rec \<longrightarrow> map_of (entries (c_subscriptions t)) x = map_of (entries (c_subscriptions s)) x)
     \<and> (no_leak s \<longrightarrow> no_leak t)
     \<and> (\<exists>new. calls t = calls s @ new \<and> io_quiet new
          \<and> (case r of
               Some e \<Rightarrow> live (c_subscriptions t) (act_ID rec) = None \<and> refused env (manager s) rec new
             | None \<Rightarrow> act_Active rec \<and> \<not> force \<and> t = s \<or> made_for rec (c_subscriptions t) new))"

lemma record_live:
  "registry_inv R \<Longrightarrow> GetActivationRecord R rid = Some rec \<Longrightarrow>
     act_ID rec = rid \<and> live R rid = act_ActiveSub rec \<and> (act_Active rec \<longleftrightarrow> act_ActiveSub rec \<noteq> None)
     \<and> intents R rid \<noteq> None \<and> act_Callback rec \<noteq> None"
  using registry_invD(3) [of R rid]
  by (auto simp: GetActivationRecord_def activationFromEntry_def live_def intents_def entry_ok_def
      split: option.splits)

text \<open>A live handle that goes away was unsubscribed first, so nothing open is forgotten.\<close>

lemma no_leak_replace:
  assumes "open_subs s \<subseteq> ran (live R)" and "open_subs t \<subseteq> (open_subs s - set_option (live R rid)) \<union> N"
    and "live R' = (live R)(rid := h)" and "N \<subseteq> set_option h"
  shows "open_subs t \<subseteq> ran (live R')"
proof
  fix x assume "x \<in> open_subs t"
  with assms(2) consider "x \<in> N" | "x \<in> open_subs s" "x \<notin> set_option (live R rid)" by blast
  then show "x \<in> ran (live R')"
  proof cases
    case 1
    with assms(4) have "h = Some x" by (cases h) auto
    with assms(3) show ?thesis by (auto simp: ran_def)
  next
    case 2
    with assms(1) obtain y where y: "live R y = Some x" by (auto simp: ran_def)
    with 2 have "y \<noteq> rid" by auto
    with y assms(3) show ?thesis by (auto simp: ran_def)
  qed
qed

text \<open>The state in which the subscription is requested: a stale handle has been given back.\<close>

lemma stale_spec:
  fixes s :: "('w, 'm) client_scheme"
  assumes "\<not> (act_Active rec \<and> \<not> force)" and "act_Active rec \<longleftrightarrow> act_ActiveSub rec \<noteq> None"
  shows "wp (only_if force (cleanupSubscription env (act_ActiveSub rec) op rid subject msg))
     (\<lambda>r t. sub_step (\<lambda>S. S - set_option (act_ActiveSub rec)) s t) s"
  using assms by (auto simp: wp_only_if cleanup_spec sub_step_refl)

lemma activate_failed:
  fixes s :: "('w, 'm) client_scheme"
  assumes inv: "registry_inv (c_subscriptions s)"
    and rec: "GetActivationRecord (c_subscriptions s) (act_ID rec) = Some rec"
    and t: "sub_step f s t" and f: "\<And>S. f S \<subseteq> S - set_option (act_ActiveSub rec)"
    and why: "refused env (manager s) rec (since s t)"
  shows "wp (do {
      with_registry (\<lambda>r. ((), MarkInactive r (act_ID rec) (Some err)));
      c_log env lvl msg kvs;
      c_metric env (IncSubscribe k subject res);
      return (Some err') }) (\<lambda>r u. activated env rec force s r u) t"
proof -
  note l = record_live [OF inv rec]
  let ?R = "MarkInactive (c_subscriptions s) (act_ID rec) (Some err)"
  let ?u = "t\<lparr>c_subscriptions := ?R\<rparr>"
  have st: "c_subscriptions t = c_subscriptions s" "same_but_registry s t" "open_subs t = f (open_subs s)"
    using t same_clientD [of s t] same_client_registry sub_step_open [OF t] by (auto simp: sub_step_def)
  have leak: "no_leak s \<longrightarrow> opens {} (calls t) \<subseteq> ran (live ?R)"
    using no_leak_replace [of s "c_subscriptions s" t "act_ID rec" "{}" ?R None] st(3) f [of "open_subs s"] l
    by (auto simp: no_leak_def live_MarkInactive open_subs_def)
  have "wp (do { c_log env lvl msg kvs; c_metric env (IncSubscribe k subject res) })
      (\<lambda>x u. activated env rec force s (Some err') u) ?u"
  proof (rule wp_notes [OF notes_pair])
    fix r u new
    assume u: "same_client ?u u" "calls u = calls ?u @ new" "noted new"
    from t obtain old where old: "calls t = calls s @ old" "io_quiet old" by (auto simp: sub_step_def)
    have "refused env (manager s) rec (old @ new)"
      using why old(1) by (auto simp: since_def elim: refused_mono)
    moreover have "c_subscriptions u = ?R" "same_but_registry s u"
      using same_clientD [OF u(1)] same_client_registry [OF u(1)] st(2)
      by (auto simp: same_but_registry_def)
    moreover have "open_subs u = opens {} (calls t)"
      using u opens_noted [OF u(3)] by (simp add: open_subs_def)
    ultimately show "activated env rec force s (Some err') u"
      using inv_MarkInactive [OF inv] MarkInactive_other leak old u noted_io [OF u(3)]
      by (auto simp: activated_def live_MarkInactive no_leak_def)
  qed simp
  with st(1) show ?thesis by (simp add: wp_fun wp_with_registry)
qed

lemma activate_published:
  fixes s :: "('w, 'm) client_scheme"
  assumes inv: "registry_inv (c_subscriptions s)"
    and rec: "GetActivationRecord (c_subscriptions s) (act_ID rec) = Some rec"
    and t: "sub_step (\<lambda>S. insert sb (S - set_option (act_ActiveSub rec))) s t"
    and made: "act_Callback rec = Some cb" "NcSubscribe nc (act_Subject rec) (if is_blank (act_QueueGroup rec)
      then None else Some (act_QueueGroup rec)) cb (Inr sb) \<in> set (since s t)"
  shows "wp (do {
      exists \<leftarrow> with_registry (publish_handle (act_ID rec) sb);
      if \<not> exists then do { cleanupSubscription env (Some sb) op rid' subject' msg'; return None }
      else do { c_log env lvl msg kvs; c_metric env (IncSubscribe k subject res); return None } })
    (\<lambda>r u. activated env rec force s r u) t"
proof -
  note l = record_live [OF inv rec]
  let ?R = "MarkActive (c_subscriptions s) (act_ID rec) (Some sb)"
  let ?u = "t\<lparr>c_subscriptions := ?R\<rparr>"
  have st: "c_subscriptions t = c_subscriptions s" "same_but_registry s t"
      "open_subs t = insert sb (open_subs s - set_option (act_ActiveSub rec))"
    using t same_clientD [of s t] same_client_registry sub_step_open [OF t] by (auto simp: sub_step_def)
  have live: "live ?R = (live (c_subscriptions s))(act_ID rec := Some sb)"
    using l by (auto simp: live_MarkActive)
  have leak: "no_leak s \<longrightarrow> opens {} (calls t) \<subseteq> ran (live ?R)"
    using no_leak_replace [of s "c_subscriptions s" t "act_ID rec" "{sb}" ?R "Some sb"] st(3) l live
    by (auto simp: no_leak_def open_subs_def)
  have "wp (do { c_log env lvl msg kvs; c_metric env (IncSubscribe k subject res) })
      (\<lambda>x u. activated env rec force s None u) ?u"
  proof (rule wp_notes [OF notes_pair])
    fix r u new
    assume u: "same_client ?u u" "calls u = calls ?u @ new" "noted new"
    from t obtain old where old: "calls t = calls s @ old" "io_quiet old" by (auto simp: sub_step_def)
    have m: "NcSubscribe nc (act_Subject rec) (if is_blank (act_QueueGroup rec)
      then None else Some (act_QueueGroup rec)) cb (Inr sb) \<in> set (old @ new)"
      using made(2) old(1) by (simp add: since_def)
    have "c_subscriptions u = ?R" "same_but_registry s u"
      using same_clientD [OF u(1)] same_client_registry [OF u(1)] st(2)
      by (auto simp: same_but_registry_def)
    moreover have "open_subs u = opens {} (calls t)"
      using u opens_noted [OF u(3)] by (simp add: open_subs_def)
    ultimately show "activated env rec force s None u"
      using inv_MarkActive [OF inv] MarkActive_entries leak old u noted_io [OF u(3)] live made(1) m
      unfolding activated_def no_leak_def made_for_def by auto
  qed simp
  with st(1) rec show ?thesis by (simp add: wp_fun wp_with_registry publish_handle_def)
qed

lemma activateRecord_spec:
  fixes s :: "('w, 'm) client_scheme"
  assumes inv: "registry_inv (c_subscriptions s)"
    and rec: "GetActivationRecord (c_subscriptions s) (act_ID rec) = Some rec"
  shows "wp (activateRecord env rec force op) (\<lambda>r t. activated env rec force s r t) s"
proof (cases "act_Active rec \<and> \<not> force")
  case True
  with inv show ?thesis by (auto simp: activateRecord_def wp_return activated_def)
next
  case False
  note l = record_live [OF inv rec]
  show ?thesis
    unfolding activateRecord_def if_not_P [OF False] wp_bind
  proof (rule wp_mono [OF stale_spec [OF False]])
    show "act_Active rec \<longleftrightarrow> act_ActiveSub rec \<noteq> None" using l by blast
    fix x :: unit and t :: "('w, 'm) client_scheme"
    assume t: "sub_step (\<lambda>S. S - set_option (act_ActiveSub rec)) s t"
    show "wp (createSubscriptionForRecord env rec op) (\<lambda>sr. wp (case sr of
          Inl err \<Rightarrow> do {
            with_registry (\<lambda>r. ((), MarkInactive r (act_ID rec) (Some err)));
            c_log env ErrorLevel ''subscription activation failed''
              [(''operation'', LStr op), (''registration_id'', LStr (act_ID rec)),
               (''subject'', LStr (act_Subject rec)), (''kind'', LStr (act_Kind rec)), (''error'', LErr err)];
            c_metric env (IncSubscribe (act_Kind rec) (act_Subject rec) ''failure'');
            return (Some err) }
        | Inr sb \<Rightarrow> do {
            exists \<leftarrow> with_registry (publish_handle (act_ID rec) sb);
            if \<not> exists then do {
              cleanupSubscription env (Some sb) op (act_ID rec) (act_Subject rec)
                ''failed to cleanup active subscription after registration was removed during activation'';
              return None }
            else do {
              c_log env Info ''subscription activated''
                [(''operation'', LStr op), (''registration_id'', LStr (act_ID rec)),
                 (''subject'', LStr (act_Subject rec)), (''kind'', LStr (act_Kind rec)),
                 (''queue_group'', LStr (act_QueueGroup rec))];
              c_metric env (IncSubscribe (act_Kind rec) (act_Subject rec) ''success'');
              return None } }) (\<lambda>r t. activated env rec force s r t)) t"
    proof (rule wp_mono [OF create_result])
      fix sr :: "sub result" and u :: "('w, 'm) client_scheme"
      assume res: "subscribed (act_Subject rec) (act_QueueGroup rec) (act_Callback rec) t sr u
        \<and> (isl sr \<longrightarrow> refused env (manager t) rec (since t u))"
      then have u: "subscribed (act_Subject rec) (act_QueueGroup rec) (act_Callback rec) t sr u" by simp
      have m: "manager t = manager s" using t same_clientD by (auto simp: sub_step_def)
      show "wp (case sr of
          Inl err \<Rightarrow> do {
            with_registry (\<lambda>r. ((), MarkInactive r (act_ID rec) (Some err)));
            c_log env ErrorLevel ''subscription activation failed''
              [(''operation'', LStr op), (''registration_id'', LStr (act_ID rec)),
               (''subject'', LStr (act_Subject rec)), (''kind'', LStr (act_Kind rec)), (''error'', LErr err)];
            c_metric env (IncSubscribe (act_Kind rec) (act_Subject rec) ''failure'');
            return (Some err) }
        | Inr sb \<Rightarrow> do {
            exists \<leftarrow> with_registry (publish_handle (act_ID rec) sb);
            if \<not> exists then do {
              cleanupSubscription env (Some sb) op (act_ID rec) (act_Subject rec)
                ''failed to cleanup active subscription after registration was removed during activation'';
              return None }
            else do {
              c_log env Info ''subscription activated''
                [(''operation'', LStr op), (''registration_id'', LStr (act_ID rec)),
                 (''subject'', LStr (act_Subject rec)), (''kind'', LStr (act_Kind rec)),
                 (''queue_group'', LStr (act_QueueGroup rec))];
              c_metric env (IncSubscribe (act_Kind rec) (act_Subject rec) ''success'');
              return None } }) (\<lambda>r t. activated env rec force s r t) u"
      proof (cases sr)
        case (Inl err)
        with u have tu: "sub_step (\<lambda>S. S) t u \<or> (\<exists>sb. sub_step (\<lambda>S. S - {sb}) t u)"
          by (simp add: subscribed_def)
        then consider "sub_step (\<lambda>S. S) t u" | sb where "sub_step (\<lambda>S. S - {sb}) t u" by blast
        then obtain f where f: "sub_step f s u" "\<And>S. f S \<subseteq> S - set_option (act_ActiveSub rec)"
          using sub_step_trans [OF t] by cases blast+
        have "set (since t u) \<subseteq> set (since s u)"
          using t f(1) tu
          by (auto simp: sub_step_def since_def)
        then have "refused env (manager s) rec (since s u)"
          using res Inl m by (auto elim: refused_mono)
        then show ?thesis unfolding Inl sum.case by (rule activate_failed [OF inv rec f])
      next
        case (Inr sb)
        with u obtain nc cb where cb: "act_Callback rec = Some cb"
          and m: "NcSubscribe nc (act_Subject rec) (if is_blank (act_QueueGroup rec)
            then None else Some (act_QueueGroup rec)) cb (Inr sb) \<in> set (since t u)"
          and tu: "sub_step (\<lambda>S. insert sb S) t u"
          by (auto simp: subscribed_def simp del: if_split)
        have su: "sub_step (\<lambda>S. insert sb (S - set_option (act_ActiveSub rec))) s u"
          by (rule sub_step_trans [OF t tu])
        have "set (since t u) \<subseteq> set (since s u)"
          using t tu by (auto simp: sub_step_def since_def)
        with m have "NcSubscribe nc (act_Subject rec) (if is_blank (act_QueueGroup rec)
            then None else Some (act_QueueGroup rec)) cb (Inr sb) \<in> set (since s u)" by blast
        then show ?thesis unfolding Inr sum.case by (rule activate_published [OF inv rec su cb])
      qed
    qed
  qed
qed

text \<open>The loop over all records: every record is still the registry's own when its turn comes.\<close>

definition record_done :: "ActivationRecord \<Rightarrow> bool \<Rightarrow> Registry \<Rightarrow> call list \<Rightarrow> bool" where
  "record_done rec force R new \<longleftrightarrow>
     act_Active rec \<and> \<not> force \<and> live R (act_ID rec) = act_ActiveSub rec \<or> made_for rec R new"

definition outcome_of :: "('w, 'e) session_env_scheme \<Rightarrow> Manager \<Rightarrow> ActivationRecord \<Rightarrow> bool \<Rightarrow> Registry \<Rightarrow> call list \<Rightarrow> bool" where
  "outcome_of env m rec force R new \<longleftrightarrow>
     record_done rec force R new \<or> live R (act_ID rec) = None \<and> refused env m rec new"

definition all_activated :: "('w, 'e) session_env_scheme \<Rightarrow> ActivationRecord list \<Rightarrow> bool \<Rightarrow> ('w, 'm) client_scheme \<Rightarrow> bool \<Rightarrow> ('w, 'm) client_scheme \<Rightarrow> bool" where
  "all_activated env recs force s ok t \<longleftrightarrow>
     same_but_registry s t \<and> registry_inv (c_subscriptions t)
     \<and> nextID (c_subscriptions t) = nextID (c_subscriptions s)
     \<and> intents (c_subscriptions t) = intents (c_subscriptions s)
     \<and> (\<forall>x. x \<notin> act_ID ` set recs \<longrightarrow> map_of (entries (c_subscriptions t)) x = map_of (entries (c_subscriptions s)) x)
     \<and> (no_leak s \<longrightarrow> no_leak t)
     \<and> (\<exists>new. calls t = calls s @ new \<and> io_quiet new
        \<and> (\<forall>rec \<in> set recs. outcome_of env (manager s) rec force (c_subscriptions t) new)
        \<and> (ok \<longrightarrow> (\<forall>rec \<in> set recs. record_done rec force (c_subscriptions t) new)))"

lemma live_cong: "map_of (entries R) x = map_of (entries R') x \<Longrightarrow> live R x = live R' x"
  by (simp add: live_def)

lemma GetActivationRecord_cong:
  "map_of (entries R) x = map_of (entries R') x \<Longrightarrow> GetActivationRecord R x = GetActivationRecord R' x"
  by (simp add: GetActivationRecord_def)

lemma Join_Some [simp]: "Join [joined, Some err] \<noteq> None"
  by (simp add: Join_None_iff)

lemma record_done_live: "record_done rec force R new \<Longrightarrow> (act_Active rec \<longleftrightarrow> act_ActiveSub rec \<noteq> None)
    \<Longrightarrow> live R (act_ID rec) \<noteq> None"
  by (auto simp: record_done_def made_for_def)

lemma record_done_cong:
  "record_done rec force R new \<Longrightarrow> live R' (act_ID rec) = live R (act_ID rec) \<Longrightarrow> set new \<subseteq> set new'
    \<Longrightarrow> record_done rec force R' new'"
  unfolding record_done_def made_for_def by (metis subsetD)

lemma outcome_of_cong:
  "outcome_of env m rec force R new \<Longrightarrow> live R' (act_ID rec) = live R (act_ID rec) \<Longrightarrow> set new \<subseteq> set new'
    \<Longrightarrow> outcome_of env m rec force R' new'"
  unfolding outcome_of_def by (metis record_done_cong refused_mono)

lemma activated_done:
  assumes inv: "registry_inv (c_subscriptions s)"
    and rec: "GetActivationRecord (c_subscriptions s) (act_ID rec) = Some rec"
    and t: "activated env rec force s None t" "calls t = calls s @ new"
  shows "record_done rec force (c_subscriptions t) new"
proof -
  from t consider "act_Active rec" "\<not> force" "t = s" | "made_for rec (c_subscriptions t) new"
    unfolding activated_def option.case by auto
  then show ?thesis
    using record_live [OF inv rec] by cases (simp_all add: record_done_def)
qed

lemma activated_outcome:
  assumes inv: "registry_inv (c_subscriptions s)"
    and rec: "GetActivationRecord (c_subscriptions s) (act_ID rec) = Some rec"
    and t: "activated env rec force s r t" "calls t = calls s @ new"
  shows "outcome_of env (manager s) rec force (c_subscriptions t) new"
proof (cases r)
  case None
  with activated_done [OF inv rec _ t(2)] t(1) show ?thesis by (auto simp: outcome_of_def)
next
  case (Some e)
  with t show ?thesis by (auto simp: activated_def outcome_of_def)
qed

lemma activate_each_spec:
  fixes s :: "('w, 'm) client_scheme"
  assumes "registry_inv (c_subscriptions s)"
    and "\<forall>rec \<in> set recs. GetActivationRecord (c_subscriptions s) (act_ID rec) = Some rec"
    and "distinct (map act_ID recs)"
  shows "wp (activate_each env force op recs joined)
     (\<lambda>r t. all_activated env recs force s (r = None) t \<and> (r = None \<longrightarrow> joined = None)
        \<and> (r \<noteq> None \<longrightarrow> joined \<noteq> None \<or> (\<exists>rec \<in> set recs. live (c_subscriptions t) (act_ID rec) = None))) s"
  using assms
proof (induction recs arbitrary: s joined)
  case Nil
  then show ?case by (auto simp: wp_return all_activated_def)
next
  case (Cons rec recs)
  from Cons.prems have inv: "registry_inv (c_subscriptions s)"
    and rec: "GetActivationRecord (c_subscriptions s) (act_ID rec) = Some rec" by auto
  show ?case
    unfolding activate_each.simps wp_bind
  proof (rule wp_mono [OF activateRecord_spec [OF inv rec]])
    fix r :: "goerr option" and t :: "('w, 'm) client_scheme"
    assume t: "activated env rec force s r t"
    let ?j = "case r of None \<Rightarrow> joined | Some err \<Rightarrow> Join [joined, Some err]"
    have other: "map_of (entries (c_subscriptions t)) x = map_of (entries (c_subscriptions s)) x"
      if "x \<noteq> act_ID rec" for x using t that by (simp add: activated_def)
    have pre: "registry_inv (c_subscriptions t)"
      "\<forall>rec' \<in> set recs. GetActivationRecord (c_subscriptions t) (act_ID rec') = Some rec'"
      "distinct (map act_ID recs)"
      using t Cons.prems GetActivationRecord_cong [OF other] by (auto simp: activated_def image_iff)
    show "wp (activate_each env force op recs ?j)
      (\<lambda>r u. all_activated env (rec # recs) force s (r = None) u \<and> (r = None \<longrightarrow> joined = None)
        \<and> (r \<noteq> None \<longrightarrow> joined \<noteq> None \<or> (\<exists>rec' \<in> set (rec # recs). live (c_subscriptions u) (act_ID rec') = None))) t"
    proof (rule wp_mono [OF Cons.IH [OF pre, of ?j]], intro conjI impI)
      fix r' :: "goerr option" and u :: "('w, 'm) client_scheme"
      assume u: "all_activated env recs force t (r' = None) u \<and> (r' = None \<longrightarrow> ?j = None)
        \<and> (r' \<noteq> None \<longrightarrow> ?j \<noteq> None \<or> (\<exists>rec \<in> set recs. live (c_subscriptions u) (act_ID rec) = None))"
      have keep: "live (c_subscriptions u) (act_ID rec) = live (c_subscriptions t) (act_ID rec)"
        using u Cons.prems(3) by (intro live_cong) (auto simp: all_activated_def)
      show "joined \<noteq> None \<or> (\<exists>rec' \<in> set (rec # recs). live (c_subscriptions u) (act_ID rec') = None)" if "r' \<noteq> None"
      proof (cases r)
        case None
        with u that show ?thesis by auto
      next
        case (Some e)
        with t have "live (c_subscriptions t) (act_ID rec) = None" by (auto simp: activated_def)
        with keep show ?thesis by simp
      qed
      show "joined = None" if "r' = None" using u that by (auto split: option.splits)
      have r: "r = None" if "r' = None" using u that by (auto split: option.splits)
      obtain old where old: "calls t = calls s @ old" "io_quiet old" using t by (auto simp: activated_def)
      obtain new where new: "calls u = calls t @ new" "io_quiet new"
        "\<forall>rec \<in> set recs. outcome_of env (manager t) rec force (c_subscriptions u) new"
        "r' = None \<longrightarrow> (\<forall>rec \<in> set recs. record_done rec force (c_subscriptions u) new)"
        using u by (auto simp: all_activated_def)
      have mine: "record_done rec force (c_subscriptions u) (old @ new)" if "r' = None"
      proof -
        have "record_done rec force (c_subscriptions t) old"
          using activated_done [OF inv rec _ old(1)] t r [OF that] by simp
        with keep show ?thesis by (auto elim: record_done_cong)
      qed
      have "record_done rec' force (c_subscriptions u) (old @ new)" if "r' = None" "rec' \<in> set recs" for rec'
        by (rule record_done_cong [of rec' force "c_subscriptions u" new]) (use new(4) that in auto)
      moreover have "manager t = manager s" using t by (simp add: activated_def same_but_registry_def)
      then have "outcome_of env (manager s) rec' force (c_subscriptions u) (old @ new)" if "rec' \<in> set (rec # recs)" for rec'
        using that new(3) outcome_of_cong [OF activated_outcome [OF inv rec t old(1)] keep, of "old @ new"]
        by (auto intro: outcome_of_cong)
      ultimately show "all_activated env (rec # recs) force s (r' = None) u"
        using u t other mine old new(1,2) unfolding all_activated_def activated_def
        by (auto intro: same_but_registry_trans)
    qed
  qed
qed

end
