(* ===== verification/Registration.thy ===== *)
theory Registration
  imports Handlers_Contract
begin

text \<open>
  The subscription operations as a whole (\<open>agentcore/handlers_runtime.go\<close>): activating and restoring
  every registration, deactivating and rolling back, and the four ways to register a handler.
\<close>

subsection \<open>Health counters\<close>

text \<open>The counters in the health snapshot agree with the registry.\<close>

definition synced :: "('w, 'm) client_scheme \<Rightarrow> bool" where
  "synced s \<longleftrightarrow>
     (hs_RegisteredSubscriptions (m_health (manager s)), hs_ActiveSubscriptions (m_health (manager s)))
       = Counts (c_subscriptions s)"

text \<open>Two clients that differ only in the registry, its counters, the trace and the world.\<close>

definition counts_only :: "Manager \<Rightarrow> Manager \<Rightarrow> bool" where
  "counts_only m m' \<longleftrightarrow> (\<exists>a b. m' = SetSubscriptionCounts a b m)"

lemma counts_only_refl [simp]: "counts_only m m"
  unfolding counts_only_def
  by (rule exI [of _ "hs_RegisteredSubscriptions (m_health m)"], rule exI [of _ "hs_ActiveSubscriptions (m_health m)"])
     (simp add: SetSubscriptionCounts_def)

lemma counts_only_sync: "counts_only m m' \<Longrightarrow> counts_only m (SetSubscriptionCounts a b m')"
  unfolding counts_only_def
  by (elim exE, rule exI [of _ a], rule exI [of _ b]) (simp add: SetSubscriptionCounts_def)

lemma counts_only_trans: "counts_only m m' \<Longrightarrow> counts_only m' m'' \<Longrightarrow> counts_only m m''"
  by (metis counts_only_def counts_only_sync)

lemma counts_only_ok: "counts_only m m' \<Longrightarrow> manager_ok m' = manager_ok m"
  by (auto simp: counts_only_def)

lemma counts_only_state: "counts_only m m' \<Longrightarrow> hs_State (m_health m') = hs_State (m_health m)"
  by (auto simp: counts_only_def SetSubscriptionCounts_def)

definition registry_frame :: "('w, 'm) client_scheme \<Rightarrow> ('w, 'm) client_scheme \<Rightarrow> bool" where
  "registry_frame s t \<longleftrightarrow> counts_only (manager s) (manager t) \<and> c_cfg t = c_cfg s \<and> c_options t = c_options s
     \<and> c_subjects t = c_subjects s \<and> c_handlerCtx t = c_handlerCtx s
     \<and> c_nextWatchID t = c_nextWatchID s \<and> c_watches t = c_watches s
     \<and> c_callbacksEnabled t = c_callbacksEnabled s
     \<and> (\<exists>new. calls t = calls s @ new \<and> io_quiet new)"

lemma registry_frame_refl [simp]: "registry_frame s s"
  by (simp add: registry_frame_def)

lemma registry_frame_trans: "registry_frame s t \<Longrightarrow> registry_frame t u \<Longrightarrow> registry_frame s u"
  by (auto simp: registry_frame_def intro: counts_only_trans)

lemma registry_frame_same:
  "same_but_registry s t \<Longrightarrow> calls t = calls s @ new \<Longrightarrow> io_quiet new \<Longrightarrow> registry_frame s t"
  by (simp add: registry_frame_def same_but_registry_def)

lemma registry_frame_step: "sub_step f s t \<Longrightarrow> registry_frame s t"
  unfolding sub_step_def using registry_frame_same same_client_registry by blast

lemma registry_frame_notes: "same_client s t \<Longrightarrow> calls t = calls s @ new \<Longrightarrow> noted new \<Longrightarrow> registry_frame s t"
  by (erule (1) registry_frame_same [OF same_client_registry]) (rule noted_io)

lemma registry_frame_registry [simp]: "registry_frame s (t\<lparr>c_subscriptions := r\<rparr>) \<longleftrightarrow> registry_frame s t"
  by (simp add: registry_frame_def)

lemma wp_sync:
  assumes "registry_frame s (t\<lparr>manager := SetSubscriptionCounts (fst (Counts (c_subscriptions t)))
      (snd (Counts (c_subscriptions t))) (manager t)\<rparr>) \<Longrightarrow>
    synced (t\<lparr>manager := SetSubscriptionCounts (fst (Counts (c_subscriptions t)))
      (snd (Counts (c_subscriptions t))) (manager t)\<rparr>) \<Longrightarrow>
    Q () (t\<lparr>manager := SetSubscriptionCounts (fst (Counts (c_subscriptions t)))
      (snd (Counts (c_subscriptions t))) (manager t)\<rparr>)"
    and "registry_frame s t"
  shows "wp syncSubscriptionHealth Q t"
proof -
  let ?u = "t\<lparr>manager := SetSubscriptionCounts (fst (Counts (c_subscriptions t)))
      (snd (Counts (c_subscriptions t))) (manager t)\<rparr>"
  have "registry_frame s ?u"
    using assms(2) by (simp add: registry_frame_def counts_only_sync)
  moreover have "synced ?u" by (simp add: synced_def SetSubscriptionCounts_def)
  ultimately show ?thesis
    using assms(1) by (simp add: syncSubscriptionHealth_def wp_simps split_beta)
qed

lemma open_subs_manager [simp]: "open_subs (t\<lparr>manager := m\<rparr>) = open_subs t" "no_leak (t\<lparr>manager := m\<rparr>) = no_leak t"
  by (simp_all add: open_subs_def no_leak_def)

subsection \<open>The records of a registry\<close>

lemma ListActivations_own:
  assumes "registry_inv R"
  shows "\<forall>rec \<in> set (ListActivations R). GetActivationRecord R (act_ID rec) = Some rec"
    and "distinct (map act_ID (ListActivations R))"
    and "act_ID ` set (ListActivations R) = dom (intents R)"
proof -
  note d = registry_invD(1) [OF assms]
  have own: "ID e = rid" if "(rid, e) \<in> set (entries R)" for rid e
    using registry_invD(3) [OF assms map_of_is_SomeI [OF d that]] by (simp add: entry_ok_def)
  show "\<forall>rec \<in> set (ListActivations R). GetActivationRecord R (act_ID rec) = Some rec"
    using own map_of_is_SomeI [OF d]
    by (auto simp: ListActivations_def GetActivationRecord_def activationFromEntry_def)
  have "map act_ID (ListActivations R) = map fst (entries R)"
    using own by (auto simp: ListActivations_def activationFromEntry_def)
  with d show "distinct (map act_ID (ListActivations R))" by simp
  have "act_ID ` set (ListActivations R) = fst ` set (entries R)"
    using \<open>map act_ID (ListActivations R) = map fst (entries R)\<close> by (metis list.set_map)
  then show "act_ID ` set (ListActivations R) = dom (intents R)"
    by (auto simp: intents_def dom_map_of_conv_image_fst [symmetric])
qed

subsection \<open>Activating and restoring everything\<close>

definition reactivated :: "('w, 'e) session_env_scheme \<Rightarrow> bool \<Rightarrow> ('w, 'm) client_scheme \<Rightarrow> goerr option \<Rightarrow> ('w, 'm) client_scheme \<Rightarrow> bool" where
  "reactivated env force s r t \<longleftrightarrow> registry_frame s t \<and> synced t
     \<and> registry_inv (c_subscriptions t)
     \<and> nextID (c_subscriptions t) = nextID (c_subscriptions s)
     \<and> intents (c_subscriptions t) = intents (c_subscriptions s)
     \<and> (no_leak s \<longrightarrow> no_leak t)
     \<and> (r = None \<longleftrightarrow> dom (live (c_subscriptions t)) = dom (intents (c_subscriptions t)))
     \<and> (\<forall>rec \<in> set (ListActivations (c_subscriptions s)).
          outcome_of env (manager s) rec force (c_subscriptions t) (since s t))
     \<and> (r = None \<longrightarrow> (\<forall>rec \<in> set (ListActivations (c_subscriptions s)).
          record_done rec force (c_subscriptions t) (since s t)))"

lemma reactivatedD:
  assumes "reactivated env force s r t"
  shows "registry_frame s t" "synced t" "registry_inv (c_subscriptions t)" "nextID (c_subscriptions t) = nextID (c_subscriptions s)"
    "intents (c_subscriptions t) = intents (c_subscriptions s)" "no_leak s \<Longrightarrow> no_leak t"
    "r = None \<Longrightarrow> dom (live (c_subscriptions t)) = dom (intents (c_subscriptions t))"
    "r = None \<Longrightarrow> rec \<in> set (ListActivations (c_subscriptions s)) \<Longrightarrow> record_done rec force (c_subscriptions t) (since s t)"
  using assms unfolding reactivated_def by simp_all

lemma reactivate_spec:
  fixes s :: "('w, 'm) client_scheme"
  assumes inv: "registry_inv (c_subscriptions s)"
  shows "wp (do {
      joined \<leftarrow> activate_each env force op (ListActivations (c_subscriptions s)) None;
      syncSubscriptionHealth;
      return joined }) (\<lambda>r t. reactivated env force s r t) s"
  unfolding wp_bind
proof (rule wp_mono [OF activate_each_spec [OF inv ListActivations_own(1,2) [OF inv]]])
  let ?recs = "ListActivations (c_subscriptions s)"
  fix r :: "goerr option" and t :: "('w, 'm) client_scheme"
  assume all: "all_activated env ?recs force s (r = None) t \<and> (r = None \<longrightarrow> None = None)
    \<and> (r \<noteq> None \<longrightarrow> None \<noteq> None \<or> (\<exists>rec \<in> set ?recs. live (c_subscriptions t) (act_ID rec) = None))"
  then obtain new where t: "same_but_registry s t" "registry_inv (c_subscriptions t)"
      "nextID (c_subscriptions t) = nextID (c_subscriptions s)"
      "intents (c_subscriptions t) = intents (c_subscriptions s)"
      "no_leak s \<longrightarrow> no_leak t" and new: "calls t = calls s @ new" "io_quiet new"
      "r = None \<longrightarrow> (\<forall>rec \<in> set ?recs. record_done rec force (c_subscriptions t) new)"
      "\<forall>rec \<in> set ?recs. outcome_of env (manager s) rec force (c_subscriptions t) new"
    unfolding all_activated_def by blast
  have dom: "dom (live (c_subscriptions t)) = dom (intents (c_subscriptions t))" if "r = None"
  proof
    show "dom (live (c_subscriptions t)) \<subseteq> dom (intents (c_subscriptions t))"
      using live_wanted by (auto simp: domIff)
    show "dom (intents (c_subscriptions t)) \<subseteq> dom (live (c_subscriptions t))"
    proof
      fix rid assume "rid \<in> dom (intents (c_subscriptions t))"
      then have "rid \<in> act_ID ` set ?recs" using ListActivations_own(3) [OF inv] t(4) by simp
      then obtain rec where rec: "rec \<in> set ?recs" "rid = act_ID rec" by blast
      have "act_Active rec \<longleftrightarrow> act_ActiveSub rec \<noteq> None"
        using record_live [OF inv] ListActivations_own(1) [OF inv] rec(1) by blast
      then show "rid \<in> dom (live (c_subscriptions t))"
        using record_done_live new(3) that rec by blast
    qed
  qed
  have "dom (live (c_subscriptions t)) \<noteq> dom (intents (c_subscriptions t))" if "r \<noteq> None"
  proof -
    from all that obtain rec where rec: "rec \<in> set ?recs" "live (c_subscriptions t) (act_ID rec) = None" by auto
    then have "act_ID rec \<in> dom (intents (c_subscriptions t))"
      using ListActivations_own(3) [OF inv] t(4) by auto
    with rec(2) show ?thesis by (auto simp: domIff)
  qed
  with dom have dom: "r = None \<longleftrightarrow> dom (live (c_subscriptions t)) = dom (intents (c_subscriptions t))" by blast
  show "wp syncSubscriptionHealth (\<lambda>x. wp (return r) (\<lambda>r t. reactivated env force s r t)) t"
    by (rule wp_sync [OF _ registry_frame_same [OF t(1) new(1,2)]])
       (use t new dom in \<open>auto simp: wp_return reactivated_def since_def\<close>)
qed

lemma activateAll_spec:
  "registry_inv (c_subscriptions s) \<Longrightarrow>
   wp (activateAllRegisteredSubscriptions env op) (\<lambda>r t. reactivated env False s r t) s"
  unfolding activateAllRegisteredSubscriptions_def wp_bind wp_gets
  using reactivate_spec [of s env False op] by (simp add: wp_bind wp_fun)

lemma restoreAll_spec:
  "registry_inv (c_subscriptions s) \<Longrightarrow>
   wp (restoreAllRegisteredSubscriptions env) (\<lambda>r t. reactivated env True s r t) s"
  unfolding restoreAllRegisteredSubscriptions_def wp_bind wp_gets RestoreRecords_def
  using reactivate_spec [of s env True "''restore_subscriptions''"] by (simp add: wp_bind wp_fun)

subsection \<open>Deactivating everything\<close>

definition handle_subs :: "ActiveHandle list \<Rightarrow> sub set" where
  "handle_subs hs = (\<Union>h \<in> set hs. set_option (handle_Sub h))"

lemma handle_subs_simps [simp]:
  "handle_subs [] = {}" "handle_subs (h # hs) = set_option (handle_Sub h) \<union> handle_subs hs"
  by (simp_all add: handle_subs_def)

lemma sub_step_cong: "sub_step f s t \<Longrightarrow> (\<And>S. f S = g S) \<Longrightarrow> sub_step g s t"
  by (simp add: sub_step_def)

lemma unsubscribe_each_spec:
  fixes s :: "('w, 'm) client_scheme"
  shows "wp (unsubscribe_each env op hs joined) (\<lambda>r t. sub_step (\<lambda>S. S - handle_subs hs) s t) s"
proof (induction hs arbitrary: s joined)
  case Nil
  then show ?case by (simp add: wp_return sub_step_refl)
next
  case (Cons h hs)
  show ?case
  proof (cases "handle_Sub h")
    case None
    then show ?thesis using Cons.IH by simp
  next
    case (Some sb)
    have "wp (unsubscribe env sb) (\<lambda>r. wp (unsubscribe_each env op hs (j r))
      (\<lambda>r t. sub_step (\<lambda>S. S - handle_subs (h # hs)) s t)) s" for j
    proof (rule wp_mono [OF unsubscribe_spec])
      fix r and t :: "('w, 'm) client_scheme"
      assume t: "sub_step (\<lambda>S. S - {sb}) s t"
      show "wp (unsubscribe_each env op hs (j r)) (\<lambda>r u. sub_step (\<lambda>S. S - handle_subs (h # hs)) s u) t"
        by (rule wp_mono [OF Cons.IH], rule sub_step_cong [OF sub_step_trans [OF t]]) (auto simp: Some)
    qed
    with Some show ?thesis by (simp add: wp_bind)
  qed
qed

definition deactivated :: "('w, 'm) client_scheme \<Rightarrow> ('w, 'm) client_scheme \<Rightarrow> bool" where
  "deactivated s t \<longleftrightarrow> registry_frame s t \<and> synced t
     \<and> registry_inv (c_subscriptions t)
     \<and> nextID (c_subscriptions t) = nextID (c_subscriptions s)
     \<and> intents (c_subscriptions t) = intents (c_subscriptions s)
     \<and> live (c_subscriptions t) = (\<lambda>_. None)
     \<and> (no_leak s \<longrightarrow> open_subs t = {})"

lemma ClearActiveHandles_subs:
  "registry_inv R \<Longrightarrow> ran (live R) \<subseteq> handle_subs (fst (ClearActiveHandles R))"
  by (force simp: ran_def live_def handle_subs_def ClearActiveHandles_def handleFromEntry_def
      dest: map_of_SomeD split: option.splits)

lemma nextID_Clear [simp]: "nextID (snd (ClearActiveHandles r)) = nextID r"
  by (simp add: ClearActiveHandles_def)

lemma deactivateAll_spec:
  fixes s :: "('w, 'm) client_scheme"
  assumes inv: "registry_inv (c_subscriptions s)"
  shows "wp (deactivateAllSubscriptions env op) (\<lambda>r t. deactivated s t) s"
  unfolding deactivateAllSubscriptions_def wp_bind wp_with_registry
proof (rule wp_mono [OF unsubscribe_each_spec])
  let ?R = "snd (ClearActiveHandles (c_subscriptions s))"
  let ?hs = "fst (ClearActiveHandles (c_subscriptions s))"
  let ?s = "s\<lparr>c_subscriptions := ?R\<rparr>"
  fix r :: "goerr option" and t :: "('w, 'm) client_scheme"
  assume t: "sub_step (\<lambda>S. S - handle_subs ?hs) ?s t"
  then have reg: "c_subscriptions t = ?R" using same_clientD by (fastforce simp: sub_step_def)
  have fr: "registry_frame s t"
    using registry_frame_step [OF t] registry_frame_trans [of s ?s t] by simp
  have "open_subs t = {}" if "no_leak s"
    using sub_step_open [OF t] that ClearActiveHandles_subs [OF inv]
    by (auto simp: no_leak_def open_subs_def)
  then show "wp syncSubscriptionHealth (\<lambda>x. wp (return r) (\<lambda>r t. deactivated s t)) t"
    by (intro wp_sync [OF _ fr]) (simp add: wp_return deactivated_def reg inv_ClearActiveHandles [OF inv])
qed

subsection \<open>Registering a handler\<close>

lemma nextID_Remove [simp]: "nextID (snd (Remove r rid)) = nextID r"
  by (simp add: Remove_def split: option.split)

lemma Remove_handle:
  "fst (Remove r rid) = Some h \<Longrightarrow> handle_Sub h = live r rid"
  "fst (Remove r rid) = None \<Longrightarrow> live r rid = None"
  by (auto simp: Remove_def live_def handleFromEntry_def split: option.splits)

definition rolled_back :: "string \<Rightarrow> ('w, 'm) client_scheme \<Rightarrow> ('w, 'm) client_scheme \<Rightarrow> bool" where
  "rolled_back rid s t \<longleftrightarrow> registry_frame s t \<and> synced t
     \<and> c_subscriptions t = snd (Remove (c_subscriptions s) rid)
     \<and> (no_leak s \<longrightarrow> no_leak t)"

lemma rollback_spec:
  fixes s :: "('w, 'm) client_scheme"
  shows "wp (rollbackRegistration env rid op) (\<lambda>r t. rolled_back rid s t) s"
proof -
  let ?R = "snd (Remove (c_subscriptions s) rid)"
  let ?so = "live (c_subscriptions s) rid"
  let ?s = "s\<lparr>c_subscriptions := ?R\<rparr>"
  have clean: "wp (case fst (Remove (c_subscriptions s) rid) of
        None \<Rightarrow> return ()
      | Some h \<Rightarrow> cleanupSubscription env (handle_Sub h) op (handle_ID h) (handle_Subject h)
          ''failed to cleanup active subscription during registration rollback'')
      (\<lambda>r t. sub_step (\<lambda>S. S - set_option ?so) ?s t) ?s"
  proof (cases "fst (Remove (c_subscriptions s) rid)")
    case None
    then show ?thesis using Remove_handle(2) [OF None] by (simp add: wp_return sub_step_refl)
  next
    case (Some h)
    then show ?thesis using Remove_handle(1) [OF Some] cleanup_spec [of env ?so op "handle_ID h" "handle_Subject h" _ ?s] by simp
  qed
  show ?thesis
    unfolding rollbackRegistration_def wp_bind wp_with_registry
  proof (rule wp_mono [OF clean])
    fix r and t :: "('w, 'm) client_scheme"
    assume t: "sub_step (\<lambda>S. S - set_option ?so) ?s t"
    then have reg: "c_subscriptions t = ?R" using same_clientD by (fastforce simp: sub_step_def)
    have fr: "registry_frame s t"
      using registry_frame_step [OF t] registry_frame_trans [of s ?s t] by simp
    have "no_leak t" if "no_leak s"
      using no_leak_replace [of s "c_subscriptions s" t rid "{}" ?R None] that sub_step_open [OF t] live_Remove reg
      by (auto simp: no_leak_def open_subs_def)
    then show "wp syncSubscriptionHealth (\<lambda>r t. rolled_back rid s t) t"
      by (intro wp_sync [OF _ fr]) (simp add: rolled_back_def reg)
  qed
qed

text \<open>
  A registration that fails leaves intents and live handles as they were; one that succeeds adds
  exactly its intent and, once the session has been connected, a live subscription for it.
\<close>

definition registered :: "AddSpec \<Rightarrow> ('w, 'm) client_scheme \<Rightarrow> goerr option \<Rightarrow> ('w, 'm) client_scheme \<Rightarrow> bool" where
  "registered spec s r t \<longleftrightarrow> registry_frame s t
     \<and> registry_inv (c_subscriptions t) \<and> (synced s \<longrightarrow> synced t) \<and> (no_leak s \<longrightarrow> no_leak t)
     \<and> (case r of
          Some e \<Rightarrow> intents (c_subscriptions t) = intents (c_subscriptions s)
            \<and> live (c_subscriptions t) = live (c_subscriptions s)
        | None \<Rightarrow> (\<exists>rid. intents (c_subscriptions s) rid = None
            \<and> intents (c_subscriptions t) = (intents (c_subscriptions s))(rid \<mapsto> intent_of_spec spec)
            \<and> (if hs_State (m_health (manager s)) \<in> {StateNew, StateConnecting}
               then live (c_subscriptions t) = live (c_subscriptions s)
               else \<exists>nc cb sb. live (c_subscriptions t) = (live (c_subscriptions s))(rid \<mapsto> sb)
                 \<and> spec_Callback spec = Some cb
                 \<and> NcSubscribe nc (spec_Subject spec) (if is_blank (spec_QueueGroup spec) then None
                      else Some (spec_QueueGroup spec)) cb (Inr sb) \<in> set (since s t))))"

lemma registered_refl: "registry_inv (c_subscriptions s) \<Longrightarrow> registered spec s (Some e) s"
  by (simp add: registered_def)

text \<open>The entry that \<open>Add\<close> made, as the record that is activated.\<close>

lemma Add_record:
  assumes "registry_inv r" "counter_room 1 r" "Add r spec = (Inr snap, r')"
  shows "GetActivationRecord r' (snap_ID snap) = Some
    \<lparr>act_ID = snap_ID snap, act_Kind = spec_Kind spec, act_Subject = spec_Subject spec,
     act_QueueGroup = spec_QueueGroup spec, act_Callback = spec_Callback spec,
     act_ActiveSub = None, act_Active = False\<rparr>"
  using assms
  by (auto simp: Add_def Let_def GetActivationRecord_def activationFromEntry_def snapshotFromEntry_def
      newEntry_def split: option.splits)

lemma Add_fail_Counts: "Add r spec = (Inl err, r') \<Longrightarrow> Counts r' = Counts r \<and> entries r' = entries r"
  by (auto simp: Add_def Let_def Counts_def split: option.splits)

definition record_of :: "AddSpec \<Rightarrow> string \<Rightarrow> ActivationRecord" where
  "record_of spec rid = \<lparr>act_ID = rid, act_Kind = spec_Kind spec, act_Subject = spec_Subject spec,
     act_QueueGroup = spec_QueueGroup spec, act_Callback = spec_Callback spec,
     act_ActiveSub = None, act_Active = False\<rparr>"

text \<open>The registration is recorded, nothing else has changed.\<close>

definition added :: "AddSpec \<Rightarrow> string \<Rightarrow> ('w, 'm) client_scheme \<Rightarrow> ('w, 'm) client_scheme \<Rightarrow> bool" where
  "added spec rid s t \<longleftrightarrow> registry_frame s t \<and> synced t \<and> registry_inv (c_subscriptions t)
     \<and> intents (c_subscriptions s) rid = None
     \<and> intents (c_subscriptions t) = (intents (c_subscriptions s))(rid \<mapsto> intent_of_spec spec)
     \<and> live (c_subscriptions t) = live (c_subscriptions s)
     \<and> GetActivationRecord (c_subscriptions t) rid = Some (record_of spec rid)
     \<and> open_subs t = open_subs s"

text \<open>The activation of the new registration went wrong.\<close>

definition half_added :: "AddSpec \<Rightarrow> string \<Rightarrow> ('w, 'm) client_scheme \<Rightarrow> ('w, 'm) client_scheme \<Rightarrow> bool" where
  "half_added spec rid s t \<longleftrightarrow> registry_frame s t \<and> registry_inv (c_subscriptions t)
     \<and> intents (c_subscriptions s) rid = None
     \<and> intents (c_subscriptions t) = (intents (c_subscriptions s))(rid \<mapsto> intent_of_spec spec)
     \<and> live (c_subscriptions t) = live (c_subscriptions s)
     \<and> (no_leak s \<longrightarrow> no_leak t)"

lemma since_mono: "calls u = calls t @ new \<Longrightarrow> calls t = calls s @ old \<Longrightarrow> set new \<subseteq> set (since s u)"
  by (auto simp: since_def)

lemma live_unwanted: "intents r rid = None \<Longrightarrow> live r rid = None"
  using live_wanted by blast

lemma added_live_none: "added spec rid s t \<Longrightarrow> live (c_subscriptions s) rid = None"
  by (simp add: added_def live_unwanted)

lemma live_off: "(\<And>x. x \<noteq> rid \<Longrightarrow> map_of (entries R') x = map_of (entries R) x) \<Longrightarrow>
   live R' = (live R)(rid := live R' rid)"
  by (rule ext) (simp add: live_def)

lemma added_activated:
  fixes t :: "('w, 'm) client_scheme"
  assumes t: "added spec rid s t" and st: "hs_State (m_health (manager s)) \<notin> {StateNew, StateConnecting}"
    and u: "activated env (record_of spec rid) False t None u"
  shows "registered spec s None (u\<lparr>manager := SetSubscriptionCounts (fst (Counts (c_subscriptions u)))
      (snd (Counts (c_subscriptions u))) (manager u)\<rparr>)"
proof -
  let ?v = "u\<lparr>manager := SetSubscriptionCounts (fst (Counts (c_subscriptions u)))
      (snd (Counts (c_subscriptions u))) (manager u)\<rparr>"
  from u obtain new where new: "calls u = calls t @ new" "io_quiet new"
      "made_for (record_of spec rid) (c_subscriptions u) new"
    by (auto simp: activated_def record_of_def)
  then obtain nc cb sb where sb: "live (c_subscriptions u) rid = Some sb" "spec_Callback spec = Some cb"
      "NcSubscribe nc (spec_Subject spec) (if is_blank (spec_QueueGroup spec) then None
                      else Some (spec_QueueGroup spec)) cb (Inr sb) \<in> set new"
    unfolding made_for_def record_of_def ActivationRecord.simps by blast
  have "registry_frame t u" using u new registry_frame_same by (auto simp: activated_def)
  then have fr: "registry_frame s u" using t registry_frame_trans by (auto simp: added_def)
  then have fr': "registry_frame s ?v" by (simp add: registry_frame_def counts_only_sync)
  have live: "live (c_subscriptions u) = (live (c_subscriptions s))(rid \<mapsto> sb)"
    using live_off [of rid "c_subscriptions u" "c_subscriptions t"] sb(1) t u
    by (simp add: added_def activated_def record_of_def)
  obtain old where old: "calls t = calls s @ old" using t by (auto simp: added_def registry_frame_def)
  have since: "set new \<subseteq> set (since s ?v)" by (rule since_mono [OF _ old]) (simp add: new(1))
  have made: "\<exists>nc cb sb. live (c_subscriptions ?v) = (live (c_subscriptions s))(rid \<mapsto> sb)
      \<and> spec_Callback spec = Some cb
      \<and> NcSubscribe nc (spec_Subject spec) (if is_blank (spec_QueueGroup spec) then None
                      else Some (spec_QueueGroup spec)) cb (Inr sb) \<in> set (since s ?v)"
    using live sb(2,3) since by (intro exI [of _ nc] exI [of _ cb] exI [of _ sb]) auto
  have "no_leak s \<longrightarrow> no_leak ?v" using t u by (simp add: added_def activated_def no_leak_def)
  moreover have "synced ?v" by (simp add: synced_def SetSubscriptionCounts_def)
  moreover have "registry_inv (c_subscriptions ?v)" "intents (c_subscriptions s) rid = None"
    "intents (c_subscriptions ?v) = (intents (c_subscriptions s))(rid \<mapsto> intent_of_spec spec)"
    using t u by (simp_all add: added_def activated_def)
  ultimately show ?thesis
    unfolding registered_def option.case if_not_P [OF st] using fr' made by blast
qed

lemma added_failed:
  fixes t :: "('w, 'm) client_scheme"
  assumes t: "added spec rid s t" and u: "activated env (record_of spec rid) False t (Some e) u"
  shows "half_added spec rid s u"
proof -
  have "registry_frame t u" using u registry_frame_same by (auto simp: activated_def)
  then have fr: "registry_frame s u" using t registry_frame_trans by (auto simp: added_def)
  have "live (c_subscriptions u) rid = None" using u by (auto simp: activated_def record_of_def)
  then have "live (c_subscriptions u) = (live (c_subscriptions s))(rid := None)"
    using live_off [of rid "c_subscriptions u" "c_subscriptions t"] t u
    by (simp add: added_def activated_def record_of_def)
  then have "live (c_subscriptions u) = live (c_subscriptions s)"
    using added_live_none [OF t] by (auto simp: fun_eq_iff)
  with fr t u show ?thesis by (auto simp: half_added_def added_def activated_def no_leak_def)
qed

lemma half_added_rolled_back:
  fixes u :: "('w, 'm) client_scheme"
  assumes u: "half_added spec rid s u" and v: "rolled_back rid u v"
  shows "registered spec s (Some e) v"
proof -
  have "live (c_subscriptions s) rid = None" using live_unwanted u by (auto simp: half_added_def)
  then have "intents (c_subscriptions v) = intents (c_subscriptions s)"
    "live (c_subscriptions v) = live (c_subscriptions s)"
    using u v by (auto simp: half_added_def rolled_back_def intents_Remove live_Remove fun_eq_iff)
  moreover have "registry_frame s v" using u v registry_frame_trans by (auto simp: half_added_def rolled_back_def)
  ultimately show ?thesis
    using u v inv_Remove by (auto simp: registered_def half_added_def rolled_back_def)
qed

lemma activateAfter_spec:
  fixes t :: "('w, 'm) client_scheme"
  assumes t: "added spec rid s t"
  shows "wp (activateAfterRegistration env rid op)
     (\<lambda>r u. case r of None \<Rightarrow> registered spec s None u | Some e \<Rightarrow> half_added spec rid s u) t"
proof -
  have state: "hs_State (m_health (manager t)) = hs_State (m_health (manager s))"
    using t counts_only_state by (auto simp: added_def registry_frame_def)
  show ?thesis
  proof (cases "hs_State (m_health (manager s)) \<in> {StateNew, StateConnecting}")
    case True
    then have "registered spec s None t"
      unfolding registered_def option.case using t
      by (intro conjI impI exI [of _ rid]) (auto simp: added_def no_leak_def)
    with True state show ?thesis
      by (auto simp: activateAfterRegistration_def wp_bind wp_gets wp_return Let_def)
  next
    case False
    have rec: "GetActivationRecord (c_subscriptions t) (act_ID (record_of spec rid)) = Some (record_of spec rid)"
      and inv: "registry_inv (c_subscriptions t)"
      using t by (simp_all add: added_def record_of_def)
    have "wp (activateRecord env (record_of spec rid) False op) (\<lambda>r. wp (case r of
        Some err \<Rightarrow> return (Some err)
      | None \<Rightarrow> do { syncSubscriptionHealth; return None })
      (\<lambda>r u. case r of None \<Rightarrow> registered spec s None u | Some e \<Rightarrow> half_added spec rid s u)) t"
    proof (rule wp_mono [OF activateRecord_spec [OF inv rec]])
      fix r :: "goerr option" and u :: "('w, 'm) client_scheme"
      assume u: "activated env (record_of spec rid) False t r u"
      show "wp (case r of
          Some err \<Rightarrow> return (Some err)
        | None \<Rightarrow> do { syncSubscriptionHealth; return None })
        (\<lambda>r u. case r of None \<Rightarrow> registered spec s None u | Some e \<Rightarrow> half_added spec rid s u) u"
        using u added_activated [OF t False] added_failed [OF t]
        by (cases r) (simp_all add: wp_simps syncSubscriptionHealth_def split_beta)
    qed
    with False state rec t show ?thesis
      by (simp add: activateAfterRegistration_def activateRegisteredSubscriptionByID_def activationRecordByID_def
          wp_simps wp_fun Let_def added_def record_of_def cong: option.case_cong)
  qed
qed

lemma added_notes:
  assumes "added spec rid s t" "same_client t u" "calls u = calls t @ new" "noted new"
  shows "added spec rid s u"
proof -
  have "registry_frame s u"
    using assms registry_frame_notes registry_frame_trans by (metis added_def)
  then show ?thesis
    using assms same_clientD [OF assms(2)] opens_noted [OF assms(4)]
    by (auto simp: added_def synced_def open_subs_def)
qed

lemma Add_added:
  fixes s :: "('w, 'm) client_scheme"
  assumes inv: "registry_inv (c_subscriptions s)" and room: "counter_room 1 (c_subscriptions s)"
    and add: "Add (c_subscriptions s) spec = (Inr snap, r')"
  shows "wp syncSubscriptionHealth (\<lambda>x t. added spec (snap_ID snap) s t) (s\<lparr>c_subscriptions := r'\<rparr>)"
proof -
  have inv': "registry_inv r'" using inv_Add [OF inv room, of spec] add by simp
  note ok = Add_ok [OF inv room add] and rec = Add_record [OF inv room add]
  show ?thesis
    by (rule wp_sync [of s]) (use ok inv' rec in \<open>simp_all add: added_def record_of_def open_subs_def\<close>)
qed

lemma addAndActivate_spec:
  fixes s :: "('w, 'm) client_scheme"
  assumes inv: "registry_inv (c_subscriptions s)" and room: "counter_room 1 (c_subscriptions s)"
  shows "wp (addAndActivate env spec msg kvs op) (\<lambda>r t. registered spec s r t) s"
proof (cases "Add (c_subscriptions s) spec")
  case (Pair added_r r')
  show ?thesis
  proof (cases added_r)
    case (Inl err)
    with Pair have add: "Add (c_subscriptions s) spec = (Inl err, r')" by simp
    have "registered spec s (Some (toPublicError err)) (s\<lparr>c_subscriptions := r'\<rparr>)"
      using inv_Add [OF inv room, of spec] add Add_fail [OF add] Add_fail_Counts [OF add]
      by (simp add: registered_def synced_def no_leak_def open_subs_def)
    with add show ?thesis by (simp add: addAndActivate_def wp_simps)
  next
    case (Inr snap)
    let ?rid = "snap_ID snap"
    from Inr Pair have add: "Add (c_subscriptions s) spec = (Inr snap, r')" by simp
    have tail: "wp (activateAfterRegistration env ?rid op) (\<lambda>r. wp (case r of
         None \<Rightarrow> return None
       | Some err \<Rightarrow> do { rollbackRegistration env ?rid (op @ ''_rollback''); return (Some err) })
       (\<lambda>r t. registered spec s r t)) u" if "added spec ?rid s u" for u
    proof (rule wp_mono [OF activateAfter_spec [OF that]])
      fix r :: "goerr option" and v :: "('w, 'm) client_scheme"
      assume v: "case r of None \<Rightarrow> registered spec s None v | Some e \<Rightarrow> half_added spec ?rid s v"
      show "wp (case r of
           None \<Rightarrow> return None
         | Some err \<Rightarrow> do { rollbackRegistration env ?rid (op @ ''_rollback''); return (Some err) })
         (\<lambda>r t. registered spec s r t) v"
      proof (cases r)
        case None
        with v show ?thesis by (simp add: wp_return)
      next
        case (Some err)
        with v have "half_added spec ?rid s v" by simp
        then show ?thesis
          unfolding Some option.case wp_bind
          by (intro wp_mono [OF rollback_spec]) (auto simp: wp_return intro: half_added_rolled_back)
      qed
    qed
    have "wp syncSubscriptionHealth (\<lambda>x. wp (do {
        c_log env Debug msg (kvs @ [(''registration_id'', LStr ?rid)]);
        c_metric env (IncSubscribe (spec_Kind spec) (spec_Subject spec) ''registered'');
        r \<leftarrow> activateAfterRegistration env ?rid op;
        case r of
          None \<Rightarrow> return None
        | Some err \<Rightarrow> do { rollbackRegistration env ?rid (op @ ''_rollback''); return (Some err) } })
      (\<lambda>r t. registered spec s r t)) (s\<lparr>c_subscriptions := r'\<rparr>)"
    proof (rule wp_mono [OF Add_added [OF inv room add]])
      fix x and t :: "('w, 'm) client_scheme"
      assume t: "added spec ?rid s t"
      show "wp (do {
          c_log env Debug msg (kvs @ [(''registration_id'', LStr ?rid)]);
          c_metric env (IncSubscribe (spec_Kind spec) (spec_Subject spec) ''registered'');
          r \<leftarrow> activateAfterRegistration env ?rid op;
          case r of
            None \<Rightarrow> return None
          | Some err \<Rightarrow> do { rollbackRegistration env ?rid (op @ ''_rollback''); return (Some err) } })
        (\<lambda>r t. registered spec s r t) t"
        unfolding wp_bind
      proof (rule wp_notes [OF notes_log], rule wp_notes [OF notes_metric])
        fix x y and u v :: "('w, 'm) client_scheme" and new new'
        assume "same_client t u" "calls u = calls t @ new" "noted new"
          "same_client u v" "calls v = calls u @ new'" "noted new'"
        then have "added spec ?rid s v" using added_notes t by blast
        then show "wp (activateAfterRegistration env ?rid op) (\<lambda>r. wp (case r of
             None \<Rightarrow> return None
           | Some err \<Rightarrow> do { rollbackRegistration env ?rid (op @ ''_rollback''); return (Some err) })
           (\<lambda>r t. registered spec s r t)) v"
          by (rule tail)
      qed simp
    qed
    with add show ?thesis by (simp add: addAndActivate_def wp_bind wp_with_registry wp_fun)
  qed
qed

subsection \<open>The four kinds of handler\<close>

text \<open>What a call of \<open>Register...Handler\<close> asks the registry for, when it asks for anything.\<close>

definition registration_of :: "kind \<Rightarrow> string \<Rightarrow> string \<Rightarrow> (nat \<Rightarrow> msg_handler) \<Rightarrow> string result
    \<Rightarrow> nat option \<Rightarrow> SubscriptionOption option list \<Rightarrow> AddSpec option" where
  "registration_of k target action wrap subj handler opts =
     (case (handler, subj, resolveSubscriptionOptions opts) of
        (Some h, Inr subject, Inr q) \<Rightarrow> Some \<lparr>spec_Kind = k, spec_Target = target, spec_Action = action,
          spec_Subject = subject, spec_QueueGroup = q, spec_Callback = Some (wrap h)\<rparr>
      | _ \<Rightarrow> None)"

definition handled :: "AddSpec option \<Rightarrow> ('w, 'm) client_scheme \<Rightarrow> goerr option \<Rightarrow> ('w, 'm) client_scheme \<Rightarrow> bool" where
  "handled so s r t \<longleftrightarrow> (case so of None \<Rightarrow> r \<noteq> None \<and> t = s | Some spec \<Rightarrow> registered spec s r t)"

lemma register_handler_spec:
  fixes s :: "('w, 'm) client_scheme"
  assumes inv: "registry_inv (c_subscriptions s)" "counter_room 1 (c_subscriptions s)"
  shows "wp (case handler of
      None \<Rightarrow> return (Some missing)
    | Some h \<Rightarrow> do {
        b \<leftarrow> gets c_subjects;
        case subj b of
          Inl err \<Rightarrow> return (Some (toPublicError err))
        | Inr subject \<Rightarrow> (case resolveSubscriptionOptions opts of
            Inl err \<Rightarrow> return (Some err)
          | Inr q \<Rightarrow> addAndActivate env \<lparr>spec_Kind = k, spec_Target = target, spec_Action = action,
              spec_Subject = subject, spec_QueueGroup = q, spec_Callback = Some (wrap h)\<rparr> msg
              (kvs subject q) op) })
    (\<lambda>r t. handled (registration_of k target action wrap (subj (c_subjects s)) handler opts) s r t) s"
  by (simp add: addAndActivate_spec [OF inv] wp_simps registration_of_def handled_def split: option.split sum.split)

lemma registerConfigureHandler_spec:
  "registry_inv (c_subscriptions s) \<Longrightarrow> counter_room 1 (c_subscriptions s) \<Longrightarrow>
   wp (registerConfigureHandler env target handler opts)
     (\<lambda>r t. handled (registration_of KindConfigure target [] ConfigureCallback
        (ConfigureSubject (c_subjects s) target) handler opts) s r t) s"
  unfolding registerConfigureHandler_def by (rule register_handler_spec)

lemma registerActionHandler_spec:
  "registry_inv (c_subscriptions s) \<Longrightarrow> counter_room 1 (c_subscriptions s) \<Longrightarrow>
   wp (registerActionHandler env target action handler opts)
     (\<lambda>r t. handled (registration_of KindAction target action ActionCallback
        (ActionSubject (c_subjects s) target action) handler opts) s r t) s"
  unfolding registerActionHandler_def by (rule register_handler_spec)

lemma registerResultHandler_spec:
  "registry_inv (c_subscriptions s) \<Longrightarrow> counter_room 1 (c_subscriptions s) \<Longrightarrow>
   wp (registerResultHandler env target handler opts)
     (\<lambda>r t. handled (registration_of KindResult target [] ResultCallback
        (ResultSubject (c_subjects s) target) handler opts) s r t) s"
  unfolding registerResultHandler_def by (rule register_handler_spec)

lemma registerStatusHandler_spec:
  "registry_inv (c_subscriptions s) \<Longrightarrow> counter_room 1 (c_subscriptions s) \<Longrightarrow>
   wp (registerStatusHandler env target handler opts)
     (\<lambda>r t. handled (registration_of KindStatus target [] StatusCallback
        (StatusSubject (c_subjects s) target) handler opts) s r t) s"
  unfolding registerStatusHandler_def by (rule register_handler_spec)

subsection \<open>Session hooks\<close>

text \<open>
  After a reconnect every live handle is a fresh subscription; the user's reconnect handler runs
  only once all registrations are live again.
\<close>

definition beside_registry :: "('w, 'm) client_scheme \<Rightarrow> ('w, 'm) client_scheme \<Rightarrow> bool" where
  "beside_registry s t \<longleftrightarrow> counts_only (manager s) (manager t) \<and> c_cfg t = c_cfg s \<and> c_options t = c_options s
     \<and> c_subjects t = c_subjects s \<and> c_handlerCtx t = c_handlerCtx s
     \<and> c_nextWatchID t = c_nextWatchID s \<and> c_watches t = c_watches s
     \<and> c_callbacksEnabled t = c_callbacksEnabled s"

lemma beside_registry_trans: "beside_registry s t \<Longrightarrow> beside_registry t u \<Longrightarrow> beside_registry s u"
  by (auto simp: beside_registry_def intro: counts_only_trans)

lemma beside_registry_client: "same_client s t \<Longrightarrow> beside_registry s t"
  using same_clientD [of s t] by (simp add: beside_registry_def)

lemma registry_frame_beside: "registry_frame s t \<Longrightarrow> beside_registry s t"
  by (simp add: registry_frame_def beside_registry_def)

definition runs_of :: "nat option \<Rightarrow> call list" where
  "runs_of ho = (case ho of None \<Rightarrow> [] | Some h \<Rightarrow> [RunReconnectHandler h])"

definition reconnected :: "('w, 'e) session_env_scheme \<Rightarrow> ('w, 'm) client_scheme \<Rightarrow> ('w, 'm) client_scheme \<Rightarrow> bool" where
  "reconnected env s t \<longleftrightarrow> beside_registry s t \<and> synced t \<and> registry_inv (c_subscriptions t)
     \<and> intents (c_subscriptions t) = intents (c_subscriptions s)
     \<and> (no_leak s \<longrightarrow> no_leak t)
     \<and> (\<forall>rec \<in> set (ListActivations (c_subscriptions s)). made_for rec (c_subscriptions t) (since s t)
          \<or> live (c_subscriptions t) (act_ID rec) = None \<and> refused env (manager s) rec (since s t))
     \<and> (if dom (live (c_subscriptions t)) = dom (intents (c_subscriptions s))
        then reconnect_runs (since s t) = runs_of (opt_reconnectHandler (c_options s))
        else reconnect_runs (since s t) = []
          \<and> (opt_errorSink (c_options s) \<longrightarrow> (\<exists>e. ErrorSink e \<in> set (since s t))))"

lemma made_for_mono: "made_for rec R new \<Longrightarrow> set new \<subseteq> set new' \<Longrightarrow> made_for rec R new'"
  unfolding made_for_def by blast

lemma runReconnectHandler_spec:
  "wp (runReconnectHandler env) (\<lambda>r t. same_client s t
     \<and> (\<exists>new. calls t = calls s @ new \<and> (\<forall>S. opens S new = S)
          \<and> reconnect_runs new = runs_of (opt_reconnectHandler (c_options s)))) s"
  by (simp add: runReconnectHandler_def Let_def c_log_def c_sink_def wp_simps same_client_def runs_of_def split: option.split)

lemma report_sinks:
  "wp (do { c_log env lvl msg kvs; c_sink env err }) (\<lambda>r t. same_client s t
     \<and> (\<exists>new. calls t = calls s @ new \<and> (\<forall>S. opens S new = S) \<and> reconnect_runs new = []
          \<and> (opt_errorSink (c_options s) \<longrightarrow> ErrorSink err \<in> set new))) s"
  by (simp add: c_log_def c_sink_def wp_simps same_client_def)

lemma reconnected_after:
  fixes u :: "('w, 'm) client_scheme"
  assumes t: "same_client s t" "calls t = calls s @ old" "noted old"
    and u: "reactivated env True t r u"
    and v: "same_client u v" "calls v = calls u @ new" "\<forall>S. opens S new = S"
    and ok: "r = None \<longrightarrow> reconnect_runs new = runs_of (opt_reconnectHandler (c_options s))"
    and bad: "r \<noteq> None \<longrightarrow> reconnect_runs new = []
      \<and> (opt_errorSink (c_options s) \<longrightarrow> (\<exists>e. ErrorSink e \<in> set new))"
  shows "reconnected env s v"
proof -
  note st = same_clientD [OF t(1)] and uv = same_clientD [OF v(1)]
  obtain mid where mid: "calls u = calls t @ mid" "io_quiet mid"
    using u by (auto simp: reactivated_def registry_frame_def)
  then have since: "since t u = mid" "since s v = old @ mid @ new"
    using t v by (simp_all add: since_def)
  have rr: "reconnect_runs (since s v) = reconnect_runs new"
    using mid(2) noted_reconnect [OF t(3)] by (simp add: since io_quiet_def)
  have "no_leak v" if "no_leak s"
  proof -
    have "no_leak t" using that t opens_noted st by (simp add: no_leak_def open_subs_def)
    then have "no_leak u" using u by (simp add: reactivated_def)
    then show ?thesis using v uv by (simp add: no_leak_def open_subs_def)
  qed
  moreover have "made_for rec (c_subscriptions v) (since s v)
      \<or> live (c_subscriptions v) (act_ID rec) = None \<and> refused env (manager s) rec (since s v)"
    if "rec \<in> set (ListActivations (c_subscriptions s))" for rec
  proof -
    have "made_for rec (c_subscriptions u) mid
      \<or> live (c_subscriptions u) (act_ID rec) = None \<and> refused env (manager s) rec mid"
      using u that st by (auto simp: reactivated_def since record_done_def outcome_of_def)
    moreover have "set mid \<subseteq> set (since s v)" by (auto simp: since)
    ultimately show ?thesis using uv(4) made_for_mono refused_mono by metis
  qed
  moreover have "registry_frame t u" using u by (simp add: reactivated_def)
  then have "beside_registry s v"
    using beside_registry_trans [OF beside_registry_trans [OF beside_registry_client [OF t(1)]
        registry_frame_beside] beside_registry_client [OF v(1)]] by simp
  moreover have "r = None \<longleftrightarrow> dom (live (c_subscriptions v)) = dom (intents (c_subscriptions s))"
    using u uv st by (simp add: reactivated_def)
  then have "if dom (live (c_subscriptions v)) = dom (intents (c_subscriptions s))
        then reconnect_runs (since s v) = runs_of (opt_reconnectHandler (c_options s))
        else reconnect_runs (since s v) = []
          \<and> (opt_errorSink (c_options s) \<longrightarrow> (\<exists>e. ErrorSink e \<in> set (since s v)))"
    unfolding rr using ok bad by (auto simp: since)
  moreover have "synced v" "registry_inv (c_subscriptions v)" "intents (c_subscriptions v) = intents (c_subscriptions s)"
    using u uv st by (simp_all add: reactivated_def synced_def)
  ultimately show ?thesis unfolding reconnected_def by blast
qed

lemma onSessionReconnected_spec:
  fixes s :: "('w, 'm) client_scheme"
  assumes inv: "registry_inv (c_subscriptions s)"
  shows "wp (onSessionReconnected env) (\<lambda>r t. if c_callbacksEnabled s then reconnected env s t else t = s) s"
proof (cases "c_callbacksEnabled s")
  case False
  then show ?thesis by (simp add: onSessionReconnected_def wp_simps)
next
  case True
  have "wp (do {
      c_log env Info ''restoring subscriptions after reconnect'' [];
      r \<leftarrow> restoreAllRegisteredSubscriptions env;
      case r of
        Some err \<Rightarrow> do {
          c_log env ErrorLevel ''subscription restore failed'' [(''error'', LErr err)];
          c_sink env err }
      | None \<Rightarrow> do {
          c_log env Info ''subscription restore completed'' [];
          runReconnectHandler env } }) (\<lambda>r t. reconnected env s t) s"
    unfolding wp_bind
  proof (rule wp_notes [OF notes_log])
    fix x :: unit and t :: "('w, 'm) client_scheme" and old
    assume t: "same_client s t" "calls t = calls s @ old" "noted old"
    then have inv': "registry_inv (c_subscriptions t)" using inv same_clientD by metis
    show "wp (restoreAllRegisteredSubscriptions env) (\<lambda>r. wp (case r of
        Some err \<Rightarrow> do {
          c_log env ErrorLevel ''subscription restore failed'' [(''error'', LErr err)];
          c_sink env err }
      | None \<Rightarrow> do {
          c_log env Info ''subscription restore completed'' [];
          runReconnectHandler env }) (\<lambda>r t. reconnected env s t)) t"
    proof (rule wp_mono [OF restoreAll_spec [OF inv']])
      fix r :: "goerr option" and u :: "('w, 'm) client_scheme"
      assume u: "reactivated env True t r u"
      then have opt: "c_options u = c_options s"
        using same_clientD [OF t(1)] by (simp add: reactivated_def registry_frame_def)
      show "wp (case r of
          Some err \<Rightarrow> do {
            c_log env ErrorLevel ''subscription restore failed'' [(''error'', LErr err)];
            c_sink env err }
        | None \<Rightarrow> do {
            c_log env Info ''subscription restore completed'' [];
            runReconnectHandler env }) (\<lambda>r t. reconnected env s t) u"
      proof (cases r)
        case (Some err)
        show ?thesis unfolding Some option.case
        proof (rule wp_mono [OF report_sinks])
          fix y :: unit and v :: "('w, 'm) client_scheme"
          assume "same_client u v \<and> (\<exists>new. calls v = calls u @ new \<and> (\<forall>S. opens S new = S) \<and> reconnect_runs new = []
            \<and> (opt_errorSink (c_options u) \<longrightarrow> ErrorSink err \<in> set new))"
          with Some opt show "reconnected env s v" by (auto intro: reconnected_after [OF t u])
        qed
      next
        case None
        show ?thesis unfolding None option.case wp_bind
        proof (rule wp_notes [OF notes_log], rule wp_mono [OF runReconnectHandler_spec])
          fix y z :: unit and v w :: "('w, 'm) client_scheme" and n1
          assume v: "same_client u v" "calls v = calls u @ n1" "noted n1"
            and w: "same_client v w \<and> (\<exists>new. calls w = calls v @ new \<and> (\<forall>S. opens S new = S)
              \<and> reconnect_runs new = runs_of (opt_reconnectHandler (c_options v)))"
          from w obtain n2 where n2: "same_client v w" "calls w = calls v @ n2" "\<forall>S. opens S n2 = S"
            "reconnect_runs n2 = runs_of (opt_reconnectHandler (c_options v))" by blast
          have "calls w = calls u @ (n1 @ n2)" "\<forall>S. opens S (n1 @ n2) = S" "same_client u w"
            using v n2 opens_noted same_client_trans by auto
          moreover have "reconnect_runs (n1 @ n2) = runs_of (opt_reconnectHandler (c_options s))"
            using n2(4) noted_reconnect [OF v(3)] same_clientD [OF v(1)] opt by simp
          ultimately show "reconnected env s w"
            by (intro reconnected_after [OF t u, of w "n1 @ n2"]) (simp_all add: None)
        qed
      qed
    qed
  qed
  with True show ?thesis by (simp add: onSessionReconnected_def wp_bind wp_gets wp_fun)
qed

text \<open>When the session is closed nothing is dispatched any more and nothing stays subscribed.\<close>

definition silenced :: "('w, 'm) client_scheme \<Rightarrow> ('w, 'm) client_scheme \<Rightarrow> bool" where
  "silenced s t \<longleftrightarrow> \<not> c_callbacksEnabled t \<and> c_handlerCtx t = None \<and> synced t
     \<and> registry_inv (c_subscriptions t)
     \<and> intents (c_subscriptions t) = intents (c_subscriptions s)
     \<and> live (c_subscriptions t) = (\<lambda>_. None)
     \<and> (no_leak s \<longrightarrow> open_subs t = {})
     \<and> (\<exists>new. calls t = calls s @ new \<and> io_quiet new)
     \<and> counts_only (manager s) (manager t) \<and> c_watches t = c_watches s \<and> c_options t = c_options s
     \<and> c_subjects t = c_subjects s"

lemma silence_spec:
  fixes s :: "('w, 'm) client_scheme"
  assumes inv: "registry_inv (c_subscriptions s)"
  shows "wp (do { setCallbacksEnabled False; cancelHandlerContext; deactivateAllSubscriptions env op })
     (\<lambda>r t. silenced s t) s"
proof -
  have "wp (deactivateAllSubscriptions env op) (\<lambda>r t. silenced s t) u"
    if u: "u = s\<lparr>c_callbacksEnabled := False, c_handlerCtx := None, calls := calls s @ cs\<rparr>" "io_quiet cs"
      "\<forall>S. opens S cs = S" for u :: "('w, 'm) client_scheme" and cs
    by (rule wp_mono [OF deactivateAll_spec])
       (use inv u in \<open>auto simp: deactivated_def silenced_def registry_frame_def no_leak_def open_subs_def\<close>)
  from this [OF refl, of "[]"] this [OF refl, of "[Cancel (the (c_handlerCtx s))]"] show ?thesis
    by (auto simp: setCallbacksEnabled_def cancelHandlerContext_def wp_simps io_quiet_def split: option.splits)
qed

lemma silenced_notes:
  assumes "silenced s t" "same_client t u" "calls u = calls t @ new" "noted new"
  shows "silenced s u"
  using assms same_clientD [OF assms(2)] noted_io [OF assms(4)] opens_noted [OF assms(4)]
  by (auto simp: silenced_def synced_def open_subs_def)

lemma onSessionClosed_spec:
  fixes s :: "('w, 'm) client_scheme"
  assumes inv: "registry_inv (c_subscriptions s)"
  shows "wp (onSessionClosed env) (\<lambda>r t. silenced s t) s"
proof -
  have "wp (do { setCallbacksEnabled False; cancelHandlerContext; deactivateAllSubscriptions env ''session_closed'' })
    (\<lambda>r. wp (case r of
       None \<Rightarrow> return ()
     | Some err \<Rightarrow> do {
         c_log env Warn ''failed to clear active subscriptions after session closed'' [(''error'', LErr err)];
         c_sink env err }) (\<lambda>r t. silenced s t)) s"
  proof (rule wp_mono [OF silence_spec [OF inv]])
    fix r :: "goerr option" and t :: "('w, 'm) client_scheme"
    assume t: "silenced s t"
    show "wp (case r of
         None \<Rightarrow> return ()
       | Some err \<Rightarrow> do {
           c_log env Warn ''failed to clear active subscriptions after session closed'' [(''error'', LErr err)];
           c_sink env err }) (\<lambda>r t. silenced s t) t"
    proof (cases r)
      case None
      with t show ?thesis by (simp add: wp_return)
    next
      case (Some err)
      show ?thesis unfolding Some option.case
        by (rule wp_notes [OF notes_report]) (rule silenced_notes [OF t])
    qed
  qed
  then show ?thesis by (simp add: onSessionClosed_def wp_bind wp_fun_bind)
qed

end
