(* ===== verification/Client.thy ===== *)
theory Client
  imports Handlers_Runtime
begin

text \<open>
  \<open>agentcore/client.go\<close>: the operations of the public client over the session, the desired-config
  store, the publisher and the registered handlers.
\<close>

subsection \<open>Conversions\<close>

definition toKVRecord :: "DesiredConfigRecord \<Rightarrow> KVRecord" where
  "toKVRecord rec =
     \<lparr>kr_Version = dc_Version rec, kr_RPCID = dc_RPCID rec, kr_Target = dc_Target rec,
      kr_UUID = dc_UUID rec, kr_Payload = dc_Payload rec, kr_Timestamp = dc_Timestamp rec\<rparr>"

definition publicStored :: "KVStored \<Rightarrow> StoredDesiredConfig" where
  "publicStored st =
     \<lparr>sd_Record = \<lparr>dc_Version = kr_Version (ks_Record st), dc_RPCID = kr_RPCID (ks_Record st),
        dc_Target = kr_Target (ks_Record st), dc_UUID = kr_UUID (ks_Record st),
        dc_Payload = kr_Payload (ks_Record st), dc_Timestamp = kr_Timestamp (ks_Record st)\<rparr>,
      sd_Bucket = ks_Bucket st, sd_Key = ks_Key st, sd_Revision = ks_Revision st,
      sd_CreatedAt = ks_CreatedAt st\<rparr>"

definition fromKVStored :: "KVStored option \<Rightarrow> StoredDesiredConfig option" where
  "fromKVStored stored = map_option publicStored stored"

record PublicHealth =
  ph_State :: ConnectionState
  ph_ConnectedURL :: string
  ph_JetStreamReady :: bool
  ph_KVReady :: bool
  ph_RegisteredSubscriptions :: nat
  ph_ActiveSubscriptions :: nat
  ph_LastError :: string

definition fromSessionHealth :: "HealthSnapshot \<Rightarrow> PublicHealth" where
  "fromSessionHealth h =
     \<lparr>ph_State = hs_State h, ph_ConnectedURL = hs_ConnectedURL h,
      ph_JetStreamReady = hs_JetStreamReady h, ph_KVReady = hs_KVReady h,
      ph_RegisteredSubscriptions = hs_RegisteredSubscriptions h,
      ph_ActiveSubscriptions = hs_ActiveSubscriptions h, ph_LastError = hs_LastError h\<rparr>"

definition Health :: "('w, 'm) client_scheme \<Rightarrow> PublicHealth" where
  "Health s = fromSessionHealth (m_health (manager s))"

subsection \<open>The store and the publisher of a client\<close>

definition c_kv :: "('w, 'e) client_env_scheme \<Rightarrow> ('w, 'm) client_scheme \<Rightarrow> ('w, 'm) client_scheme Store" where
  "c_kv env s = \<lparr>st_runtime = session_provider env, st_errorSink = opt_errorSink (c_options s)\<rparr>"

definition c_publisher :: "('w, 'e) client_env_scheme \<Rightarrow> ('w, 'm) client_scheme \<Rightarrow> ('w, 'm) client_scheme Publisher" where
  "c_publisher env s = \<lparr>pb_conn = Connection env, pb_publishTimeout = session_publishTimeout,
     pb_metrics = opt_metrics (c_options s)\<rparr>"

definition c_publish :: "('w, 'e) client_env_scheme \<Rightarrow> ctx option \<Rightarrow> string \<Rightarrow> kind \<Rightarrow> string \<Rightarrow> string \<Rightarrow> ('w, 'm, goerr option) client_op" where
  "c_publish env co op k subject payload = do {
     p \<leftarrow> gets (c_publisher env);
     Publish env p co op k subject payload
   }"

subsection \<open>Desired config\<close>

definition StoreDesiredConfig :: "('w, 'e) client_env_scheme \<Rightarrow> ctx option \<Rightarrow> DesiredConfigRecord
    \<Rightarrow> ('w, 'm, StoredDesiredConfig option result) client_op" where
  "StoreDesiredConfig env co rec = do {
     st \<leftarrow> gets (c_kv env);
     r \<leftarrow> kv_StoreDesiredConfig env st co (toKVRecord rec);
     return (case r of Inl err \<Rightarrow> Inl (toPublicError err) | Inr stored \<Rightarrow> Inr (fromKVStored (Some stored)))
   }"

definition LoadDesiredConfig :: "('w, 'e) client_env_scheme \<Rightarrow> ctx option \<Rightarrow> string
    \<Rightarrow> ('w, 'm, StoredDesiredConfig option result) client_op" where
  "LoadDesiredConfig env co target = do {
     st \<leftarrow> gets (c_kv env);
     r \<leftarrow> kv_LoadDesiredConfig env st co target;
     return (case r of Inl err \<Rightarrow> Inl (toPublicError err) | Inr stored \<Rightarrow> Inr (fromKVStored (Some stored)))
   }"

definition StartupReconcile :: "('w, 'e) client_env_scheme \<Rightarrow> ctx option \<Rightarrow> string
    \<Rightarrow> ('w, 'm, StoredDesiredConfig option result) client_op" where
  "StartupReconcile env co target = LoadDesiredConfig env co target"

subsection \<open>Submitting and publishing\<close>

definition SubmitConfigure :: "('w, 'e) client_env_scheme \<Rightarrow> ctx option \<Rightarrow> ConfigureCommand \<Rightarrow> ('w, 'm, SubmissionAck result) client_op" where
  "SubmitConfigure env co cmd = (let op = ''submit_configure'' in do {
     cerr \<leftarrow> validateOperationContext env op co;
     case cerr of Some err \<Rightarrow> return (Inl err) | None \<Rightarrow>
     (case validateConfigureCommand op cmd of Some err \<Rightarrow> return (Inl err) | None \<Rightarrow>
     try_then (StoreDesiredConfig env co
       \<lparr>dc_Version = cc_Version cmd, dc_RPCID = cc_RPCID cmd, dc_Target = cc_Target cmd,
        dc_UUID = cc_UUID cmd, dc_Payload = cc_Payload cmd, dc_Timestamp = cc_Timestamp cmd\<rparr>) (\<lambda>so.
     case so of
       None \<Rightarrow> return (Inl (PublicErr CodeKVStoreFailed ''submit_configure_store_desired'' [] []
         ''desired config store returned nil result'' True None))
     | Some stored \<Rightarrow> do {
         b \<leftarrow> gets c_subjects;
         case ConfigureSubject b (cc_Target cmd) of
           Inl err \<Rightarrow> return (Inl (toPublicError err))
         | Inr subject \<Rightarrow> do {
             now \<leftarrow> ask (env_clock env);
             let notification = \<lparr>cn_Version = cc_Version cmd, cn_RPCID = cc_RPCID cmd,
               cn_Target = cc_Target cmd, cn_CommandType = ''configure'', cn_UUID = cc_UUID cmd,
               cn_KVBucket = sd_Bucket stored, cn_KVKey = sd_Key stored, cn_Timestamp = UTC now\<rparr>;
             case validateConfigureNotification op notification of Some err \<Rightarrow> return (Inl err) | None \<Rightarrow>
             (case Marshal (wire_ConfigureNotification notification) of
                Inl err \<Rightarrow> return (Inl (PublicErr CodeEncodeFailed ''submit_configure_encode_notification''
                  subject [] ''failed to encode configure notification'' False (Some err)))
              | Inr payload \<Rightarrow> do {
                  perr \<leftarrow> c_publish env co ''submit_configure_publish_notification'' KindConfigure subject payload;
                  return (case perr of
                      Some err \<Rightarrow> Inl (toPublicError err)
                    | None \<Rightarrow> Inr \<lparr>ack_Accepted = True, ack_RPCID = cc_RPCID cmd,
                        ack_Target = cc_Target cmd, ack_Subject = subject,
                        ack_AcceptedAt = cn_Timestamp notification, ack_KVBucket = sd_Bucket stored,
                        ack_KVKey = sd_Key stored, ack_KVRevision = sd_Revision stored\<rparr>)
                })
           }
       }))
   })"

definition SubmitAction :: "('w, 'e) client_env_scheme \<Rightarrow> ctx option \<Rightarrow> ActionCommand \<Rightarrow> ('w, 'm, SubmissionAck result) client_op" where
  "SubmitAction env co cmd = (let op = ''submit_action'' in do {
     cerr \<leftarrow> validateOperationContext env op co;
     case cerr of Some err \<Rightarrow> return (Inl err) | None \<Rightarrow>
     (case validateActionCommand op cmd of Some err \<Rightarrow> return (Inl err) | None \<Rightarrow> do {
     b \<leftarrow> gets c_subjects;
     case ActionSubject b (ac_Target cmd) (ac_Action cmd) of
       Inl err \<Rightarrow> return (Inl (toPublicError err))
     | Inr subject \<Rightarrow> (case Marshal (wire_ActionCommand cmd) of
         Inl err \<Rightarrow> return (Inl (PublicErr CodeEncodeFailed ''submit_action_encode'' subject []
           ''failed to encode action command'' False (Some err)))
       | Inr payload \<Rightarrow> do {
           perr \<leftarrow> c_publish env co ''submit_action_publish'' KindAction subject payload;
           case perr of
             Some err \<Rightarrow> return (Inl (toPublicError err))
           | None \<Rightarrow> do {
               now \<leftarrow> ask (env_clock env);
               return (Inr \<lparr>ack_Accepted = True, ack_RPCID = ac_RPCID cmd, ack_Target = ac_Target cmd,
                 ack_Subject = subject, ack_AcceptedAt = UTC now, ack_KVBucket = [], ack_KVKey = [],
                 ack_KVRevision = 0\<rparr>)
             }
         })
     })
   })"

text \<open>\<open>PublishResult\<close> and \<open>PublishStatus\<close> share the tail after validation.\<close>

definition publishEnvelope :: "('w, 'e) client_env_scheme \<Rightarrow> ctx option \<Rightarrow> string \<Rightarrow> kind \<Rightarrow> string \<Rightarrow> string result \<Rightarrow> string result
    \<Rightarrow> ('w, 'm, goerr option) client_op" where
  "publishEnvelope env co op k encodeMsg subj encoded = (case subj of
       Inl err \<Rightarrow> return (Some (toPublicError err))
     | Inr subject \<Rightarrow> (case encoded of
         Inl err \<Rightarrow> return (Some (PublicErr CodeEncodeFailed (op @ ''_encode'') subject [] encodeMsg False (Some err)))
       | Inr payload \<Rightarrow> do {
           perr \<leftarrow> c_publish env co op k subject payload;
           return (map_option toPublicError perr)
         }))"

definition PublishResult :: "('w, 'e) client_env_scheme \<Rightarrow> ctx option \<Rightarrow> ResultEnvelope \<Rightarrow> ('w, 'm, goerr option) client_op" where
  "PublishResult env co msg = (let op = ''publish_result'' in do {
     cerr \<leftarrow> validateOperationContext env op co;
     case cerr of Some err \<Rightarrow> return (Some err) | None \<Rightarrow>
     (case validateResultEnvelope op msg of Some err \<Rightarrow> return (Some err) | None \<Rightarrow> do {
        b \<leftarrow> gets c_subjects;
        publishEnvelope env co op KindResult ''failed to encode result envelope''
          (ResultSubject b (re_Target msg)) (Marshal (wire_ResultEnvelope msg))
      })
   })"

definition PublishStatus :: "('w, 'e) client_env_scheme \<Rightarrow> ctx option \<Rightarrow> StatusEnvelope \<Rightarrow> ('w, 'm, goerr option) client_op" where
  "PublishStatus env co msg = (let op = ''publish_status'' in do {
     cerr \<leftarrow> validateOperationContext env op co;
     case cerr of Some err \<Rightarrow> return (Some err) | None \<Rightarrow>
     (case validateStatusEnvelope op msg of Some err \<Rightarrow> return (Some err) | None \<Rightarrow> do {
        b \<leftarrow> gets c_subjects;
        publishEnvelope env co op KindStatus ''failed to encode status envelope''
          (StatusSubject b (se_Target msg)) (Marshal (wire_StatusEnvelope msg))
      })
   })"

subsection \<open>Watches\<close>

text \<open>The closure around a desired-config watch handler: the user function on the public value.\<close>

definition watch_handler :: "('w, 'e) client_env_scheme \<Rightarrow> nat \<Rightarrow> ctx \<Rightarrow> KVStored \<Rightarrow> (('w, 'm) world_scheme, handler_outcome) state" where
  "watch_handler env h c st =
     ask_log (env_run_handler env h c (MDesired (publicStored st)))
       (RunHandler h c (MDesired (publicStored st)))"

text \<open>\<open>trackWatch\<close>: the returned stop function is known by the number of its entry.\<close>

definition trackWatch :: "KVWatch \<Rightarrow> ('w, 'm, 64 word) client_op" where
  "trackWatch w = do {
     n \<leftarrow> gets (\<lambda>s. c_nextWatchID s + 1);
     modify (\<lambda>s. s\<lparr>c_nextWatchID := n, c_watches := alist_put n w (c_watches s)\<rparr>);
     return n
   }"

definition stopTracked :: "('w, 'e) client_env_scheme \<Rightarrow> 64 word \<Rightarrow> ('w, 'm, goerr option) client_op" where
  "stopTracked env n = do {
     stored \<leftarrow> gets (\<lambda>s. map_of (c_watches s) n);
     modify (\<lambda>s. s\<lparr>c_watches := alist_del n (c_watches s)\<rparr>);
     case stored of None \<Rightarrow> return None | Some w \<Rightarrow> kv_stop env w False
   }"

definition WatchDesiredConfig :: "('w, 'e) client_env_scheme \<Rightarrow> ctx option \<Rightarrow> string \<Rightarrow> nat option \<Rightarrow> ('w, 'm, 64 word result) client_op" where
  "WatchDesiredConfig env co target handler =
     (if handler = None
      then return (Inl (PublicErr CodeValidation ''watch_desired_config'' [] []
        ''watch handler is required'' False None))
      else do {
        st \<leftarrow> gets (c_kv env);
        r \<leftarrow> kv_WatchDesiredConfig env st co target handler;
        case r of
          Inl err \<Rightarrow> return (Inl (toPublicError err))
        | Inr w \<Rightarrow> do { n \<leftarrow> trackWatch w; return (Inr n) }
      })"

fun stop_each :: "('w, 'e) client_env_scheme \<Rightarrow> KVWatch list \<Rightarrow> goerr option \<Rightarrow> ('w, 'm, goerr option) client_op" where
  "stop_each env [] joined = return joined"
| "stop_each env (w # ws) joined = do {
     r \<leftarrow> kv_stop env w False;
     stop_each env ws (case r of None \<Rightarrow> joined
       | Some err \<Rightarrow> (case joined of None \<Rightarrow> Some err | Some j \<Rightarrow> Join [Some j, Some err]))
   }"

definition stopAllWatches :: "('w, 'e) client_env_scheme \<Rightarrow> ('w, 'm, goerr option) client_op" where
  "stopAllWatches env = do {
     ws \<leftarrow> gets c_watches;
     modify (\<lambda>s. s\<lparr>c_watches := []\<rparr>);
     stop_each env (map snd ws) None
   }"

subsection \<open>Lifecycle\<close>

definition startSession :: "('w, 'e) client_env_scheme \<Rightarrow> ctx option \<Rightarrow> ('w, 'm, goerr option) client_op" where
  "startSession env co = do { r \<leftarrow> Start env co; return (map_option toPublicError r) }"

definition c_Start :: "('w, 'e) client_env_scheme \<Rightarrow> ctx option \<Rightarrow> ('w, 'm, goerr option) client_op" where
  "c_Start env co = do {
     serr \<leftarrow> startSession env co;
     case serr of Some err \<Rightarrow> return (Some err) | None \<Rightarrow> do {
     aerr \<leftarrow> activateAllRegisteredSubscriptions env ''start'';
     case aerr of
       Some err \<Rightarrow> do {
         setCallbacksEnabled False;
         cancelHandlerContext;
         cleanup \<leftarrow> deactivateAllSubscriptions env ''start_activation_cleanup'';
         (case cleanup of
            None \<Rightarrow> return ()
          | Some cerr \<Rightarrow> do {
              c_log env Warn ''failed to cleanup subscriptions after start activation failure''
                [(''error'', LErr cerr)];
              c_sink env cerr
            });
         return (Some err)
       }
     | None \<Rightarrow> do {
         ensureHandlerContext env;
         setCallbacksEnabled True;
         return None
       }
   }}"

definition closeError :: "goerr option \<Rightarrow> goerr option \<Rightarrow> goerr option \<Rightarrow> goerr option" where
  "closeError subErr watchErr sessionErr =
     (if subErr \<noteq> None \<and> watchErr = None \<and> sessionErr = None then subErr
      else if watchErr \<noteq> None \<and> sessionErr = None \<and> subErr = None
      then Some (PublicErr CodeShutdown ''close_stop_watches'' [] []
        ''failed to stop one or more desired-config watches'' False watchErr)
      else if subErr \<noteq> None \<or> watchErr \<noteq> None \<or> sessionErr \<noteq> None
      then Some (PublicErr CodeShutdown ''close'' [] []
        ''close failed with subscription, watch-stop, or session shutdown errors'' True
        (Join [subErr, watchErr, sessionErr]))
      else sessionErr)"

definition c_Close :: "('w, 'e) client_env_scheme \<Rightarrow> ('w, 'm, unit) client_op \<Rightarrow> ctx option \<Rightarrow> ('w, 'm, goerr option) client_op" where
  "c_Close env others co = do {
     setCallbacksEnabled False;
     cancelHandlerContext;
     subErr \<leftarrow> deactivateAllSubscriptions env ''close'';
     watchErr \<leftarrow> stopAllWatches env;
     r \<leftarrow> Close env others co;
     return (closeError subErr watchErr (map_option toPublicError r))
   }"

end
