(* ===== verification/Client_Contract.thy ===== *)
theory Client_Contract
  imports Registration Client
begin

text \<open>
  What the operations of the public client guarantee (\<open>agentcore/client.go\<close>): a command is durable
  before it is announced, nothing is sent that does not pass the validators, and starting and
  closing the client leaves handlers, subscriptions, watches and session consistent.
\<close>

subsection \<open>Sessions seen from the client\<close>

lemma same_session_client: "same_session s t \<longleftrightarrow> same_client s t"
  by (simp add: same_session_def same_client_def)

lemma validateOperationContext_spec:
  fixes s :: "('w, 'm) client_scheme"
  shows "wp (validateOperationContext env op co) (\<lambda>r t. same_client s t \<and> calls t = calls s) s"
  by (auto simp: validateOperationContext_def wp_simps same_client_def split: option.splits)

subsection \<open>Storing and loading the desired config\<close>

definition config_stored :: "DesiredConfigRecord \<Rightarrow> ('w, 'm) client_scheme \<Rightarrow> StoredDesiredConfig option result
    \<Rightarrow> ('w, 'm) client_scheme \<Rightarrow> bool" where
  "config_stored rec s r t \<longleftrightarrow> same_client s t
     \<and> (\<exists>new. calls t = calls s @ new \<and> publishes new = []
        \<and> (case r of
             Inl e \<Rightarrow> \<not> list_ex put_done new \<and> length (puts new) \<le> 1
           | Inr so \<Rightarrow> (\<exists>st h payload revn. so = Some st \<and> sd_Record st = rec
               \<and> kv_validateRecord (toKVRecord rec) = None
               \<and> sd_Bucket st = kv_Bucket (session_conf s)
               \<and> buildDesiredConfigKey (kv_KeyPattern (session_conf s)) (dc_Target rec) = Inr (sd_Key st)
               \<and> kv_encodeRecord (toKVRecord rec) = Inr payload
               \<and> puts new = [KvPut h (sd_Key st) payload (Inr revn)])))"

lemma store_result_client:
  assumes "session_kv.store_result (toKVRecord rec) s r t"
  shows "config_stored rec s (case r of Inl err \<Rightarrow> Inl (toPublicError err)
    | Inr stored \<Rightarrow> Inr (fromKVStored (Some stored))) t"
proof (cases r)
  case (Inl e)
  with assms show ?thesis
    by (auto simp: session_kv.store_result_def config_stored_def same_session_client)
next
  case (Inr st)
  with assms obtain new h payload revn where
    st: "same_client s t" "calls t = calls s @ new" "publishes new = []"
      "kv_validateRecord (toKVRecord rec) = None" "ks_Record st = toKVRecord rec"
      "ks_Bucket st = kv_Bucket (session_conf s)"
      "buildDesiredConfigKey (kv_KeyPattern (session_conf s)) (kr_Target (toKVRecord rec)) = Inr (ks_Key st)"
      "kv_encodeRecord (toKVRecord rec) = Inr payload" "puts new = [KvPut h (ks_Key st) payload (Inr revn)]"
    by (auto simp: session_kv.store_result_def same_session_client)
  have "sd_Record (publicStored st) = rec" "sd_Bucket (publicStored st) = ks_Bucket st"
    "sd_Key (publicStored st) = ks_Key st" "kr_Target (toKVRecord rec) = dc_Target rec"
    using st(5) by (simp_all add: publicStored_def toKVRecord_def)
  with st show ?thesis
    unfolding Inr config_stored_def sum.case fromKVStored_def option.map by auto
qed

lemma StoreDesiredConfig_spec:
  fixes s :: "('w, 'm) client_scheme"
  shows "wp (StoreDesiredConfig env co rec) (\<lambda>r t. config_stored rec s r t) s"
  unfolding StoreDesiredConfig_def wp_bind wp_gets c_kv_def wp_return
  by (rule wp_mono [OF session_kv.store_spec]) (rule store_result_client)

definition config_loaded :: "string \<Rightarrow> ('w, 'm) client_scheme \<Rightarrow> StoredDesiredConfig option result
    \<Rightarrow> ('w, 'm) client_scheme \<Rightarrow> bool" where
  "config_loaded target s r t \<longleftrightarrow> same_client s t
     \<and> (\<exists>new. calls t = calls s @ new \<and> puts new = [] \<and> publishes new = []
        \<and> (case r of
             Inl e \<Rightarrow> True
           | Inr so \<Rightarrow> (\<exists>st h e key. so = Some st
               \<and> kv_validateRecord (toKVRecord (sd_Record st)) = None
               \<and> buildDesiredConfigKey (kv_KeyPattern (session_conf s)) target = Inr key
               \<and> new = [KvGet h key (Inr e)]
               \<and> kv_decodeRecord (kve_Value e) = Inr (toKVRecord (sd_Record st))
               \<and> sd_Key st = kve_Key e \<and> sd_Bucket st = kve_Bucket e
               \<and> sd_Revision st = kve_Revision e)))"

lemma toKVRecord_public [simp]: "toKVRecord (sd_Record (publicStored st)) = ks_Record st"
  by (simp add: toKVRecord_def publicStored_def)

lemma storedOfEntry_simps [simp]:
  "ks_Record (storedOfEntry e rec) = rec" "ks_Bucket (storedOfEntry e rec) = kve_Bucket e"
  "ks_Key (storedOfEntry e rec) = kve_Key e" "ks_Revision (storedOfEntry e rec) = kve_Revision e"
  by (simp_all add: storedOfEntry_def)

lemma publicStored_simps [simp]:
  "sd_Bucket (publicStored st) = ks_Bucket st" "sd_Key (publicStored st) = ks_Key st"
  "sd_Revision (publicStored st) = ks_Revision st"
  by (simp_all add: publicStored_def)

lemma load_result_client:
  assumes "session_kv.load_result target s r t"
  shows "config_loaded target s (case r of Inl err \<Rightarrow> Inl (toPublicError err)
    | Inr stored \<Rightarrow> Inr (fromKVStored (Some stored))) t"
proof (cases r)
  case (Inl e)
  with assms show ?thesis
    by (auto simp: session_kv.load_result_def config_loaded_def same_session_client)
next
  case (Inr st)
  with assms obtain h e key where
    st: "same_client s t" "calls t = calls s @ [KvGet h key (Inr e)]"
      "kv_validateRecord (ks_Record st) = None"
      "buildDesiredConfigKey (kv_KeyPattern (session_conf s)) target = Inr key"
      "kv_decodeRecord (kve_Value e) = Inr (ks_Record st)" "st = storedOfEntry e (ks_Record st)"
    by (auto simp: session_kv.load_result_def same_session_client)
  have "ks_Key st = kve_Key e" "ks_Bucket st = kve_Bucket e" "ks_Revision st = kve_Revision e"
    using arg_cong [OF st(6), of ks_Key] arg_cong [OF st(6), of ks_Bucket]
      arg_cong [OF st(6), of ks_Revision] by simp_all
  with st(1-5) show ?thesis
    unfolding Inr config_loaded_def sum.case fromKVStored_def option.map by auto
qed

lemma LoadDesiredConfig_spec:
  fixes s :: "('w, 'm) client_scheme"
  shows "wp (LoadDesiredConfig env co target) (\<lambda>r t. config_loaded target s r t) s"
  unfolding LoadDesiredConfig_def wp_bind wp_gets c_kv_def wp_return
  by (rule wp_mono [OF session_kv.load_spec]) (rule load_result_client)

subsection \<open>Publishing\<close>

definition published :: "string \<Rightarrow> string \<Rightarrow> ('w, 'm) client_scheme \<Rightarrow> goerr option \<Rightarrow> ('w, 'm) client_scheme \<Rightarrow> bool" where
  "published subject payload s r t \<longleftrightarrow> same_client s t
     \<and> (\<exists>new. calls t = calls s @ new \<and> puts new = []
        \<and> (case r of
             None \<Rightarrow> (\<exists>nc c. publishes new = [NcPublish nc subject payload None] \<and> NcFlush nc c None \<in> set new)
           | Some e \<Rightarrow> (\<exists>nc sent. publishes new \<in> {[], [NcPublish nc subject payload sent]})))"

lemma publish_result_client:
  assumes "session_conn.publish_result metrics subject payload s r t"
  shows "published subject payload s r t"
proof (cases r)
  case None
  with assms show ?thesis
    by (auto simp: session_conn.publish_result_def published_def same_session_client simp del: outcomes_simps)
next
  case (Some e)
  with assms show ?thesis
    by (auto simp: session_conn.publish_result_def published_def same_session_client simp del: outcomes_simps)
qed

lemma c_publish_spec:
  fixes s :: "('w, 'm) client_scheme"
  shows "wp (c_publish env co op k subject payload) (\<lambda>r t. published subject payload s r t) s"
  unfolding c_publish_def wp_bind wp_gets c_publisher_def
  by (rule wp_mono [OF session_conn.publish_spec]) (rule publish_result_client)

subsection \<open>Submitting a configuration\<close>

definition configRecord :: "ConfigureCommand \<Rightarrow> DesiredConfigRecord" where
  "configRecord cmd = \<lparr>dc_Version = cc_Version cmd, dc_RPCID = cc_RPCID cmd, dc_Target = cc_Target cmd,
     dc_UUID = cc_UUID cmd, dc_Payload = cc_Payload cmd, dc_Timestamp = cc_Timestamp cmd\<rparr>"

definition notificationFor :: "ConfigureCommand \<Rightarrow> StoredDesiredConfig \<Rightarrow> gotime \<Rightarrow> ConfigureNotification" where
  "notificationFor cmd stored now = \<lparr>cn_Version = cc_Version cmd, cn_RPCID = cc_RPCID cmd,
     cn_Target = cc_Target cmd, cn_CommandType = ''configure'', cn_UUID = cc_UUID cmd,
     cn_KVBucket = sd_Bucket stored, cn_KVKey = sd_Key stored, cn_Timestamp = UTC now\<rparr>"

text \<open>
  The trace of a submission is a stretch that writes at most once to the bucket and publishes
  nothing, and then one that publishes at most once and writes nothing.  A command is acknowledged
  only if the record was written and the notification that names its bucket and key went out; a
  notification is only ever handed to NATS after the record is durable.
\<close>

definition submitted :: "ConfigureCommand \<Rightarrow> ('w, 'm) client_scheme \<Rightarrow> SubmissionAck result \<Rightarrow> ('w, 'm) client_scheme \<Rightarrow> bool" where
  "submitted cmd s r t \<longleftrightarrow> same_client s t
     \<and> (\<exists>n1 n2. calls t = calls s @ n1 @ n2 \<and> publishes n1 = [] \<and> puts n2 = []
        \<and> length (puts n1) \<le> 1 \<and> length (publishes n2) \<le> 1
        \<and> (publishes n2 = [] \<or> list_ex put_done n1)
        \<and> (case r of
             Inl e \<Rightarrow> True
           | Inr ack \<Rightarrow> (\<exists>h key payload revn nc data stored now.
               validateConfigureCommand ''submit_configure'' cmd = None
               \<and> buildDesiredConfigKey (kv_KeyPattern (session_conf s)) (cc_Target cmd) = Inr key
               \<and> kv_encodeRecord (toKVRecord (configRecord cmd)) = Inr payload
               \<and> puts n1 = [KvPut h key payload (Inr revn)]
               \<and> sd_Key stored = key \<and> sd_Bucket stored = kv_Bucket (session_conf s)
               \<and> validateConfigureNotification ''submit_configure'' (notificationFor cmd stored now) = None
               \<and> Marshal (wire_ConfigureNotification (notificationFor cmd stored now)) = Inr data
               \<and> ConfigureSubject (c_subjects s) (cc_Target cmd) = Inr (ack_Subject ack)
               \<and> publishes n2 = [NcPublish nc (ack_Subject ack) data None]
               \<and> ack_Accepted ack \<and> ack_RPCID ack = cc_RPCID cmd \<and> ack_Target ack = cc_Target cmd
               \<and> ack_KVKey ack = key \<and> ack_KVBucket ack = kv_Bucket (session_conf s)
               \<and> ack_AcceptedAt ack = UTC now)))"

lemma submitted_early:
  "same_client s t \<Longrightarrow> calls t = calls s \<Longrightarrow> submitted cmd s (Inl e) t"
  unfolding submitted_def by (intro conjI exI [of _ "[]"]) simp_all

lemma submitted_stored:
  "same_client s t \<Longrightarrow> calls t = calls s @ n1 \<Longrightarrow> publishes n1 = [] \<Longrightarrow> length (puts n1) \<le> 1 \<Longrightarrow>
   submitted cmd s (Inl e) t"
  unfolding submitted_def by (intro conjI exI [of _ n1] exI [of _ "[]"]) simp_all

text \<open>The second half of the operation: the record is durable, the notification is to be sent.\<close>

definition announce :: "('w, 'e) client_env_scheme \<Rightarrow> ctx option \<Rightarrow> ConfigureCommand \<Rightarrow> StoredDesiredConfig
    \<Rightarrow> string \<Rightarrow> gotime \<Rightarrow> ('w, 'm, SubmissionAck result) client_op" where
  "announce env co cmd stored subject now =
     (case validateConfigureNotification ''submit_configure'' (notificationFor cmd stored now) of
        Some err \<Rightarrow> return (Inl err)
      | None \<Rightarrow> (case Marshal (wire_ConfigureNotification (notificationFor cmd stored now)) of
          Inl err \<Rightarrow> return (Inl (PublicErr CodeEncodeFailed ''submit_configure_encode_notification''
            subject [] ''failed to encode configure notification'' False (Some err)))
        | Inr payload \<Rightarrow> do {
            perr \<leftarrow> c_publish env co ''submit_configure_publish_notification'' KindConfigure subject payload;
            return (case perr of
                Some err \<Rightarrow> Inl (toPublicError err)
              | None \<Rightarrow> Inr \<lparr>ack_Accepted = True, ack_RPCID = cc_RPCID cmd,
                  ack_Target = cc_Target cmd, ack_Subject = subject,
                  ack_AcceptedAt = cn_Timestamp (notificationFor cmd stored now),
                  ack_KVBucket = sd_Bucket stored, ack_KVKey = sd_Key stored,
                  ack_KVRevision = sd_Revision stored\<rparr>) }))"

lemma SubmitConfigure_eq:
  "SubmitConfigure env co cmd = do {
     cerr \<leftarrow> validateOperationContext env ''submit_configure'' co;
     case cerr of Some err \<Rightarrow> return (Inl err) | None \<Rightarrow>
     (case validateConfigureCommand ''submit_configure'' cmd of Some err \<Rightarrow> return (Inl err) | None \<Rightarrow>
     try_then (StoreDesiredConfig env co (configRecord cmd)) (\<lambda>so.
     case so of
       None \<Rightarrow> return (Inl (PublicErr CodeKVStoreFailed ''submit_configure_store_desired'' [] []
         ''desired config store returned nil result'' True None))
     | Some stored \<Rightarrow> do {
         b \<leftarrow> gets c_subjects;
         case ConfigureSubject b (cc_Target cmd) of
           Inl err \<Rightarrow> return (Inl (toPublicError err))
         | Inr subject \<Rightarrow> do {
             now \<leftarrow> ask (env_clock env);
             announce env co cmd stored subject now } })) }"
  unfolding SubmitConfigure_def Let_def announce_def configRecord_def notificationFor_def ..

lemma published_le1:
  "published subject payload s r t \<Longrightarrow> calls t = calls s @ new \<Longrightarrow> puts new = [] \<and> length (publishes new) \<le> 1"
  by (auto simp: published_def split: option.splits)

lemma announce_spec:
  fixes s t :: "('w, 'm) client_scheme"
  assumes v: "validateConfigureCommand ''submit_configure'' cmd = None"
    and t: "same_client s t" "calls t = calls s @ n1" "publishes n1 = []"
      "puts n1 = [KvPut h (sd_Key stored) payload (Inr revn)]"
    and st: "kv_encodeRecord (toKVRecord (configRecord cmd)) = Inr payload"
      "sd_Bucket stored = kv_Bucket (session_conf s)"
      "buildDesiredConfigKey (kv_KeyPattern (session_conf s)) (cc_Target cmd) = Inr (sd_Key stored)"
    and subj: "ConfigureSubject (c_subjects s) (cc_Target cmd) = Inr subject"
  shows "wp (announce env co cmd stored subject now) (\<lambda>r u. submitted cmd s r u) t"
proof (cases "validateConfigureNotification ''submit_configure'' (notificationFor cmd stored now)")
  case (Some err)
  then show ?thesis using t by (simp add: announce_def wp_return submitted_stored)
next
  case vn: None
  show ?thesis
  proof (cases "Marshal (wire_ConfigureNotification (notificationFor cmd stored now))")
    case (Inl err)
    then show ?thesis using t vn by (simp add: announce_def wp_return submitted_stored)
  next
    case (Inr data)
    have durable: "list_ex put_done n1"
    proof -
      have "KvPut h (sd_Key stored) payload (Inr revn) \<in> set (puts n1)" using t(4) by simp
      then show ?thesis by (force simp: puts_def list_ex_iff)
    qed
    show ?thesis
      unfolding announce_def vn Inr option.case sum.case wp_bind wp_return
    proof (rule wp_mono [OF c_publish_spec])
      fix r :: "goerr option" and u :: "('w, 'm) client_scheme"
      assume u: "published subject data t r u"
      then obtain n2 where n2: "calls u = calls t @ n2" by (auto simp: published_def)
      note le = published_le1 [OF u n2]
      have su: "same_client s u" using t u same_client_trans by (auto simp: published_def)
      show "submitted cmd s (case r of Some err \<Rightarrow> Inl (toPublicError err)
         | None \<Rightarrow> Inr \<lparr>ack_Accepted = True, ack_RPCID = cc_RPCID cmd,
             ack_Target = cc_Target cmd, ack_Subject = subject,
             ack_AcceptedAt = cn_Timestamp (notificationFor cmd stored now),
             ack_KVBucket = sd_Bucket stored, ack_KVKey = sd_Key stored,
             ack_KVRevision = sd_Revision stored\<rparr>) u"
      proof (cases r)
        case (Some err)
        show ?thesis
          unfolding submitted_def
          by (intro conjI exI [of _ n1] exI [of _ n2]) (use su n2 t le durable Some in simp_all)
      next
        case None
        with u n2 obtain nc where nc: "publishes n2 = [NcPublish nc subject data None]"
          by (auto simp: published_def)
        show ?thesis
          unfolding submitted_def None option.case sum.case
          by (intro conjI exI [of _ n1] exI [of _ n2] exI [of _ h] exI [of _ "sd_Key stored"] exI [of _ payload]
              exI [of _ revn] exI [of _ nc] exI [of _ data] exI [of _ stored] exI [of _ now])
            (use su n2 t le durable nc v st subj vn Inr in \<open>simp_all add: notificationFor_def\<close>)
      qed
    qed
  qed
qed

lemma SubmitConfigure_spec:
  fixes s :: "('w, 'm) client_scheme"
  shows "wp (SubmitConfigure env co cmd) (\<lambda>r t. submitted cmd s r t) s"
  unfolding SubmitConfigure_eq wp_bind
proof (rule wp_mono [OF validateOperationContext_spec])
  fix cerr :: "goerr option" and t :: "('w, 'm) client_scheme"
  assume t: "same_client s t \<and> calls t = calls s"
  have store: "wp (StoreDesiredConfig env co (configRecord cmd)) (\<lambda>r u. case r of
        Inl e \<Rightarrow> submitted cmd s (Inl e) u
      | Inr so \<Rightarrow> wp (case so of
            None \<Rightarrow> return (Inl (PublicErr CodeKVStoreFailed ''submit_configure_store_desired'' [] []
              ''desired config store returned nil result'' True None))
          | Some stored \<Rightarrow> do {
              b \<leftarrow> gets c_subjects;
              case ConfigureSubject b (cc_Target cmd) of
                Inl err \<Rightarrow> return (Inl (toPublicError err))
              | Inr subject \<Rightarrow> do { now \<leftarrow> ask (env_clock env); announce env co cmd stored subject now } })
            (\<lambda>r u. submitted cmd s r u) u) t"
    if v: "validateConfigureCommand ''submit_configure'' cmd = None"
  proof (rule wp_mono [OF StoreDesiredConfig_spec])
    fix r :: "StoredDesiredConfig option result" and u :: "('w, 'm) client_scheme"
    assume "config_stored (configRecord cmd) t r u"
    then obtain n1 where u: "same_client s u" "calls u = calls s @ n1" "publishes n1 = []"
      and r: "case r of
             Inl e \<Rightarrow> \<not> list_ex put_done n1 \<and> length (puts n1) \<le> 1
           | Inr so \<Rightarrow> (\<exists>st h payload revn. so = Some st \<and> sd_Record st = configRecord cmd
               \<and> kv_validateRecord (toKVRecord (configRecord cmd)) = None
               \<and> sd_Bucket st = kv_Bucket (session_conf t)
               \<and> buildDesiredConfigKey (kv_KeyPattern (session_conf t)) (dc_Target (configRecord cmd)) = Inr (sd_Key st)
               \<and> kv_encodeRecord (toKVRecord (configRecord cmd)) = Inr payload
               \<and> puts n1 = [KvPut h (sd_Key st) payload (Inr revn)])"
      using t same_client_trans by (auto simp: config_stored_def)
    have conf: "session_conf t = session_conf s"
      using t by (simp add: session_conf_def same_client_def)
    show "case r of
        Inl e \<Rightarrow> submitted cmd s (Inl e) u
      | Inr so \<Rightarrow> wp (case so of
            None \<Rightarrow> return (Inl (PublicErr CodeKVStoreFailed ''submit_configure_store_desired'' [] []
              ''desired config store returned nil result'' True None))
          | Some stored \<Rightarrow> do {
              b \<leftarrow> gets c_subjects;
              case ConfigureSubject b (cc_Target cmd) of
                Inl err \<Rightarrow> return (Inl (toPublicError err))
              | Inr subject \<Rightarrow> do { now \<leftarrow> ask (env_clock env); announce env co cmd stored subject now } })
            (\<lambda>r u. submitted cmd s r u) u"
    proof (cases r)
      case (Inl e)
      with u r show ?thesis by (simp add: submitted_stored)
    next
      case (Inr so)
      with r obtain st h payload revn where st: "so = Some st"
          "kv_encodeRecord (toKVRecord (configRecord cmd)) = Inr payload"
          "sd_Bucket st = kv_Bucket (session_conf s)"
          "buildDesiredConfigKey (kv_KeyPattern (session_conf s)) (cc_Target cmd) = Inr (sd_Key st)"
          "puts n1 = [KvPut h (sd_Key st) payload (Inr revn)]"
        by (auto simp: conf configRecord_def)
      have subj: "c_subjects u = c_subjects s" using same_clientD [OF u(1)] by simp
      have ext: "same_client s (u\<lparr>ext := x\<rparr>)" for x using u(1) by (simp add: same_client_def)
      have "wp (announce env co cmd st subject now) (\<lambda>r u. submitted cmd s r u) (u\<lparr>ext := x\<rparr>)"
        if "ConfigureSubject (c_subjects s) (cc_Target cmd) = Inr subject" for x subject now
        by (rule announce_spec [OF v ext, of x n1 h st payload revn]) (use u st that in simp_all)
      then show ?thesis
        using u st by (simp add: Inr wp_simps subj submitted_stored split: sum.split)
    qed
  qed
  show "wp (case cerr of Some err \<Rightarrow> return (Inl err) | None \<Rightarrow>
     (case validateConfigureCommand ''submit_configure'' cmd of Some err \<Rightarrow> return (Inl err) | None \<Rightarrow>
     try_then (StoreDesiredConfig env co (configRecord cmd)) (\<lambda>so.
     case so of
       None \<Rightarrow> return (Inl (PublicErr CodeKVStoreFailed ''submit_configure_store_desired'' [] []
         ''desired config store returned nil result'' True None))
     | Some stored \<Rightarrow> do {
         b \<leftarrow> gets c_subjects;
         case ConfigureSubject b (cc_Target cmd) of
           Inl err \<Rightarrow> return (Inl (toPublicError err))
         | Inr subject \<Rightarrow> do {
             now \<leftarrow> ask (env_clock env);
             announce env co cmd stored subject now } }))) (\<lambda>r u. submitted cmd s r u) t"
    using t store
    by (cases cerr; cases "validateConfigureCommand ''submit_configure'' cmd")
       (simp_all add: wp_return submitted_early wp_try_then)
qed

text \<open>Nothing reaches the bucket or the wire when the command itself is not valid.\<close>

lemma SubmitConfigure_invalid:
  fixes s :: "('w, 'm) client_scheme"
  assumes "validateConfigureCommand ''submit_configure'' cmd = Some err"
  shows "wp (SubmitConfigure env co cmd) (\<lambda>r t. (\<exists>e. r = Inl e) \<and> same_client s t \<and> calls t = calls s) s"
  unfolding SubmitConfigure_eq wp_bind
  by (rule wp_mono [OF validateOperationContext_spec]) (use assms in \<open>auto simp: wp_return split: option.split\<close>)

subsection \<open>Actions, results and statuses\<close>

text \<open>An operation that only publishes: nothing is written to the bucket, and success means that
  exactly this message was handed to NATS and flushed.\<close>

definition announced :: "string result \<Rightarrow> string result \<Rightarrow> ('w, 'm) client_scheme \<Rightarrow> bool \<Rightarrow> ('w, 'm) client_scheme \<Rightarrow> bool" where
  "announced subj encoded s ok t \<longleftrightarrow> same_client s t
     \<and> (\<exists>new. calls t = calls s @ new \<and> puts new = [] \<and> length (publishes new) \<le> 1
        \<and> (\<forall>nc subject data sent. NcPublish nc subject data sent \<in> set new \<longrightarrow>
             subj = Inr subject \<and> encoded = Inr data)
        \<and> (ok \<longrightarrow> (\<exists>nc c subject data. subj = Inr subject \<and> encoded = Inr data
             \<and> publishes new = [NcPublish nc subject data None] \<and> NcFlush nc c None \<in> set new)))"

lemma announced_early: "same_client s t \<Longrightarrow> calls t = calls s \<Longrightarrow> announced subj encoded s False t"
  by (simp add: announced_def)

lemma mem_publishes: "NcPublish nc subject data sent \<in> set cs \<Longrightarrow> NcPublish nc subject data sent \<in> set (publishes cs)"
  by (simp add: publishes_def)

lemma published_announced:
  assumes "published subject payload t r u" and t: "same_client s t" "calls t = calls s"
  shows "announced (Inr subject) (Inr payload) s (r = None) u"
proof -
  from assms obtain new where new: "same_client t u" "calls u = calls s @ new" "puts new = []"
    "case r of None \<Rightarrow> (\<exists>nc c. publishes new = [NcPublish nc subject payload None] \<and> NcFlush nc c None \<in> set new)
      | Some e \<Rightarrow> (\<exists>nc sent. publishes new \<in> {[], [NcPublish nc subject payload sent]})"
    by (auto simp: published_def)
  have "subject' = subject \<and> data = payload" if "NcPublish nc subject' data sent \<in> set new" for nc subject' data sent
    using mem_publishes [OF that] new(4) by (cases r) auto
  moreover have "length (publishes new) \<le> 1" using new(4) by (cases r) auto
  ultimately show ?thesis
    using new t same_client_trans unfolding announced_def
    by (intro conjI exI [of _ new]) (auto simp: split: option.splits)
qed

lemma announced_ext: "same_client s t \<Longrightarrow> same_client s (t\<lparr>ext := x\<rparr>)"
  by (simp add: same_client_def)

lemma announced_after: "announced subj encoded s ok t \<Longrightarrow> announced subj encoded s ok (t\<lparr>ext := x\<rparr>)"
  by (simp add: announced_def announced_ext)

lemma SubmitAction_spec:
  fixes s :: "('w, 'm) client_scheme"
  shows "wp (SubmitAction env co cmd) (\<lambda>r t.
     announced (ActionSubject (c_subjects s) (ac_Target cmd) (ac_Action cmd))
       (guard_err (validateActionCommand ''submit_action'' cmd) (Marshal (wire_ActionCommand cmd)))
       s (\<not> isl r) t
     \<and> (\<forall>ack. r = Inr ack \<longrightarrow> ack_Accepted ack \<and> ack_RPCID ack = ac_RPCID cmd \<and> ack_Target ack = ac_Target cmd
          \<and> Inr (ack_Subject ack) = ActionSubject (c_subjects s) (ac_Target cmd) (ac_Action cmd))) s"
  unfolding SubmitAction_def Let_def wp_bind
proof (rule wp_mono [OF validateOperationContext_spec])
  fix cerr :: "goerr option" and t :: "('w, 'm) client_scheme"
  assume t: "same_client s t \<and> calls t = calls s"
  have subj: "c_subjects t = c_subjects s" using t same_clientD by blast
  have pub: "wp (c_publish env co ''submit_action_publish'' KindAction subject payload) (\<lambda>perr. wp (case perr of
        Some err \<Rightarrow> return (Inl (toPublicError err))
      | None \<Rightarrow> do {
          now \<leftarrow> ask (env_clock env);
          return (Inr \<lparr>ack_Accepted = True, ack_RPCID = ac_RPCID cmd, ack_Target = ac_Target cmd,
            ack_Subject = subject, ack_AcceptedAt = UTC now, ack_KVBucket = [], ack_KVKey = [],
            ack_KVRevision = 0\<rparr>) })
     (\<lambda>r u. announced (Inr subject) (Inr payload) s (\<not> isl r) u
       \<and> (\<forall>ack. r = Inr ack \<longrightarrow> ack_Accepted ack \<and> ack_RPCID ack = ac_RPCID cmd \<and> ack_Target ack = ac_Target cmd
            \<and> ack_Subject ack = subject))) t" for subject payload
    by (rule wp_mono [OF c_publish_spec])
       (use t in \<open>auto simp: wp_simps announced_after dest: published_announced split: option.splits\<close>)
  show "wp (case cerr of Some err \<Rightarrow> return (Inl err) | None \<Rightarrow>
     (case validateActionCommand ''submit_action'' cmd of Some err \<Rightarrow> return (Inl err) | None \<Rightarrow> do {
     b \<leftarrow> gets c_subjects;
     case ActionSubject b (ac_Target cmd) (ac_Action cmd) of
       Inl err \<Rightarrow> return (Inl (toPublicError err))
     | Inr subject \<Rightarrow> (case Marshal (wire_ActionCommand cmd) of
         Inl err \<Rightarrow> return (Inl (PublicErr CodeEncodeFailed ''submit_action_encode'' subject []
           ''failed to encode action command'' False (Some err)))
       | Inr payload \<Rightarrow> do {
           perr \<leftarrow> c_publish env co ''submit_action_publish'' KindAction subject payload;
           case perr of
             Some err \<Rightarrow> return (Inl (toPublicError err))
           | None \<Rightarrow> do {
               now \<leftarrow> ask (env_clock env);
               return (Inr \<lparr>ack_Accepted = True, ack_RPCID = ac_RPCID cmd, ack_Target = ac_Target cmd,
                 ack_Subject = subject, ack_AcceptedAt = UTC now, ack_KVBucket = [], ack_KVKey = [],
                 ack_KVRevision = 0\<rparr>) } }) }))
     (\<lambda>r t. announced (ActionSubject (c_subjects s) (ac_Target cmd) (ac_Action cmd))
       (guard_err (validateActionCommand ''submit_action'' cmd) (Marshal (wire_ActionCommand cmd)))
       s (\<not> isl r) t
     \<and> (\<forall>ack. r = Inr ack \<longrightarrow> ack_Accepted ack \<and> ack_RPCID ack = ac_RPCID cmd \<and> ack_Target ack = ac_Target cmd
          \<and> Inr (ack_Subject ack) = ActionSubject (c_subjects s) (ac_Target cmd) (ac_Action cmd))) t"
    using t pub subj
    by (simp add: wp_fun wp_bind wp_gets wp_return announced_early split: option.split sum.split)
qed

lemma publishEnvelope_spec:
  fixes s t :: "('w, 'm) client_scheme"
  assumes t: "same_client s t" "calls t = calls s"
  shows "wp (publishEnvelope env co op k msg subj encoded) (\<lambda>r u. announced subj encoded s (r = None) u) t"
  unfolding publishEnvelope_def
  using t
  by (auto simp: wp_simps announced_early intro!: wp_mono [OF c_publish_spec]
      dest!: published_announced [OF _ t] split: sum.split option.split)

lemma PublishResult_spec:
  fixes s :: "('w, 'm) client_scheme"
  shows "wp (PublishResult env co msg) (\<lambda>r t. announced (ResultSubject (c_subjects s) (re_Target msg))
     (guard_err (validateResultEnvelope ''publish_result'' msg) (Marshal (wire_ResultEnvelope msg))) s (r = None) t) s"
  unfolding PublishResult_def Let_def wp_bind
  by (rule wp_mono [OF validateOperationContext_spec])
     (auto simp: wp_simps announced_early publishEnvelope_spec same_clientD split: option.split)

lemma PublishStatus_spec:
  fixes s :: "('w, 'm) client_scheme"
  shows "wp (PublishStatus env co msg) (\<lambda>r t. announced (StatusSubject (c_subjects s) (se_Target msg))
     (guard_err (validateStatusEnvelope ''publish_status'' msg) (Marshal (wire_StatusEnvelope msg))) s (r = None) t) s"
  unfolding PublishStatus_def Let_def wp_bind
  by (rule wp_mono [OF validateOperationContext_spec])
     (auto simp: wp_simps announced_early publishEnvelope_spec same_clientD split: option.split)

end
