(* ===== verification/Call_Frames.thy ===== *)
theory Call_Frames
  imports Environment
begin

text \<open>
  A frame rule for whole operations: a relation between the states before and after that every
  permitted call to the outside keeps, and with it every program built from such calls.  A client
  of the locale proves the relation once and then goes through the program text by introduction.
\<close>

locale call_frame =
  fixes rel :: "('w, 'm) world_scheme \<Rightarrow> ('w, 'm) world_scheme \<Rightarrow> bool"
    and allowed :: "call \<Rightarrow> bool"
  assumes rel_refl: "rel s s"
    and rel_trans: "rel s t \<Longrightarrow> rel t u \<Longrightarrow> rel s u"
    and rel_ext: "rel s (s\<lparr>ext := x\<rparr>)"
    and rel_call: "allowed c \<Longrightarrow> rel s (s\<lparr>calls := calls s @ [c]\<rparr>)"
begin

definition frames :: "(('w, 'm) world_scheme, 'a) state \<Rightarrow> bool" where
  "frames p \<longleftrightarrow> (\<forall>s. wp p (\<lambda>r t. rel s t) s)"

lemma framesD: "frames p \<Longrightarrow> wp p (\<lambda>r t. rel s t) s"
  by (simp add: frames_def)

lemma frames_return: "frames (return x)"
  by (simp add: frames_def wp_return rel_refl)

lemma frames_gets: "frames (gets g)"
  by (simp add: frames_def wp_gets rel_refl)

lemma frames_ask: "frames (ask h)"
  by (simp add: frames_def wp_ask rel_ext)

lemma rel_ext_call: "allowed c \<Longrightarrow> rel s (s\<lparr>ext := x, calls := calls s @ [c]\<rparr>)"
  using rel_trans [OF rel_ext [of s x] rel_call [of c "s\<lparr>ext := x\<rparr>"]] by simp

lemma frames_ask_log: "(\<And>r. allowed (c r)) \<Longrightarrow> frames (ask_log h c)"
  by (simp add: frames_def wp_ask_log rel_ext_call)

lemma frames_emit: "allowed c \<Longrightarrow> frames (emit c)"
  by (simp add: frames_def wp_emit rel_call)

lemma frames_hook: "allowed c \<Longrightarrow> frames (hook env c)"
  by (simp add: frames_def wp_hook rel_ext_call)

lemma frames_modify: "(\<And>s. rel s (f s)) \<Longrightarrow> frames (modify f)"
  by (simp add: frames_def wp_modify)

lemma frames_bind:
  assumes p: "frames p" and f: "\<And>x. frames (f x)"
  shows "frames (State_Monad.bind p f)"
  unfolding frames_def wp_bind
proof (intro allI, rule wp_mono [OF framesD [OF p]])
  fix s t x assume "rel s t"
  then show "wp (f x) (\<lambda>r u. rel s u) t"
    by (intro wp_mono [OF framesD [OF f]]) (rule rel_trans)
qed

lemma frames_option: "frames m \<Longrightarrow> (\<And>y. frames (f y)) \<Longrightarrow> frames (case x of None \<Rightarrow> m | Some y \<Rightarrow> f y)"
  by (cases x) simp_all

lemma frames_sum: "(\<And>e. frames (g e)) \<Longrightarrow> (\<And>y. frames (h y)) \<Longrightarrow> frames (case z of Inl e \<Rightarrow> g e | Inr y \<Rightarrow> h y)"
  by (cases z) simp_all

lemma frames_race:
  "(\<And>r. frames (k r)) \<Longrightarrow> (\<And>e r. frames (l e r)) \<Longrightarrow>
   frames (case w of Finished r \<Rightarrow> k r | Expired e r \<Rightarrow> l e r)"
  by (cases w) simp_all

lemma frames_prod: "(\<And>a b. frames (k a b)) \<Longrightarrow> frames (case p of (a, b) \<Rightarrow> k a b)"
  by (cases p) simp

lemma frames_if: "frames m \<Longrightarrow> frames n \<Longrightarrow> frames (if b then m else n)"
  by simp

lemma frames_only_if: "frames m \<Longrightarrow> frames (only_if b m)"
  by (simp add: only_if_def frames_return)

lemma frames_Let: "(\<And>x. frames (f x)) \<Longrightarrow> frames (let x = e in f x)"
  by (simp add: Let_def)

lemma frames_ctx: "frames (ctx_Err env c)" "frames (WithTimeout env c d)"
  unfolding ctx_Err_def WithTimeout_def
  by (intro frames_if frames_bind frames_return frames_ask)+

lemmas frame_rules = frames_bind frames_option frames_sum frames_race frames_if frames_only_if frames_Let
  frames_prod frames_ctx frames_return frames_gets frames_ask frames_ask_log frames_emit frames_hook

end

end
