(* ===== verification/Session_Plain.thy ===== *)
theory Session_Plain
  imports Session_Lifecycle Call_Frames
begin

text \<open>
  What no operation of the session manager does: it neither touches the subscription counters of
  the health snapshot nor the state of the client around it, and among the calls it makes there is
  no write to the bucket, no publish, no subscription and no user handler.
\<close>

fun session_call :: "call \<Rightarrow> bool" where
  "session_call (KvPut h key data r) \<longleftrightarrow> False"
| "session_call (NcPublish nc subject data r) \<longleftrightarrow> False"
| "session_call (NcSubscribe nc subject q cb r) \<longleftrightarrow> False"
| "session_call (Unsubscribe sb r) \<longleftrightarrow> False"
| "session_call (RunHandler h c m r) \<longleftrightarrow> False"
| "session_call (RunReconnectHandler h) \<longleftrightarrow> False"
| "session_call _ \<longleftrightarrow> True"

text \<open>The subscription counters and the effective configuration.\<close>

definition counters :: "Manager \<Rightarrow> (nat \<times> nat) \<times> EffectiveConfig" where
  "counters m = ((hs_RegisteredSubscriptions (m_health m), hs_ActiveSubscriptions (m_health m)), m_effective m)"

definition plain_rel :: "('w, 'm) session_scheme \<Rightarrow> ('w, 'm) session_scheme \<Rightarrow> bool" where
  "plain_rel s t \<longleftrightarrow> counters (manager t) = counters (manager s) \<and> session.more t = session.more s
     \<and> (\<exists>new. calls t = calls s @ new \<and> list_all session_call new)"

interpretation plain: call_frame plain_rel session_call
  by unfold_locales (auto simp: plain_rel_def list_all_append)

abbreviation plain :: "('w, 'm, 'a) session_op \<Rightarrow> bool" where
  "plain \<equiv> plain.frames"

lemma plain_modify: "(\<And>m. counters (f m) = counters m) \<Longrightarrow> plain (modify_manager f)"
  unfolding modify_manager_def by (intro plain.frames_modify) (simp add: plain_rel_def)

lemma plain_health: "(\<And>h. hs_RegisteredSubscriptions (f h) = hs_RegisteredSubscriptions h
    \<and> hs_ActiveSubscriptions (f h) = hs_ActiveSubscriptions h) \<Longrightarrow> counters (update_health f m) = counters m"
  by (simp add: counters_def)

lemmas plain_rules = plain.frame_rules

lemma quiet_plain: "quiet p \<Longrightarrow> plain p"
  unfolding plain.frames_def by (intro allI, drule quietD, erule wp_mono) (simp add: plain_rel_def)

subsection \<open>The operations of the session\<close>

lemma counters_note [simp]: "counters (update_health (\<lambda>h. note_error e (f h)) m) = counters (update_health f m)"
  by (simp add: counters_def)

lemma plain_metric: "session_call c \<Longrightarrow> plain (metric env c)"
  unfolding metric_def by (intro plain_rules)

lemma plain_setState: "plain (setStateLocked env st)"
  unfolding setStateLocked_def
  by (intro plain_rules plain_modify plain_metric plain_health) simp_all

lemma plain_setters:
  "plain (setConnectedLocked env url jsReady kvReady)" "plain (setReconnectingLocked env e)"
  "plain (setDegradedLocked env e)" "plain (setClosedLocked env e)"
  unfolding setConnectedLocked_def setReconnectingLocked_def setDegradedLocked_def setClosedLocked_def
  by (intro plain_rules plain_setState plain_modify plain_health; simp)+

lemma plain_ctx: "plain (ctx_Err env c)" "plain (WithTimeout env c d)"
  by (rule plain.frames_ctx)+

lemma plain_try_then: "plain p \<Longrightarrow> (\<And>x. plain (f x)) \<Longrightarrow> plain (try_then p f)"
  unfolding try_then_def by (intro plain_rules)

lemma plain_closeConn: "plain (closeConn env nc)"
  unfolding closeConn_def by (intro plain_rules) simp

lemma plain_connect: "plain (connectNATS env c)"
  unfolding connectNATS_def dial_def
  by (intro plain_rules plain_try_then plain_closeConn quiet_plain quiet_clamp quiet_options) simp

lemma plain_setup:
  "plain (newJetStream env nc)" "plain (bindOrCreateKV env c j)" "plain (withKVTimeout env c)"
  unfolding newJetStream_def bindOrCreateKV_def withKVTimeout_def
  by (intro plain_rules plain_ctx; simp)+

lemma counters_frame [simp]:
  "counters (m\<lparr>m_starting := a\<rparr>) = counters m" "counters (m\<lparr>m_startDone := b\<rparr>) = counters m"
  "counters (m\<lparr>m_chans := c\<rparr>) = counters m" "counters (m\<lparr>m_nc := d\<rparr>) = counters m"
  "counters (m\<lparr>m_js := e\<rparr>) = counters m" "counters (m\<lparr>m_kv := f\<rparr>) = counters m"
  "counters (m\<lparr>m_closing := g\<rparr>) = counters m" "counters (m\<lparr>m_closeRequested := h\<rparr>) = counters m"
  by (simp_all add: counters_def)

lemmas plain_parts = plain_metric plain_setState plain_setters plain_ctx plain_try_then plain_closeConn
  plain_connect plain_setup

lemma plain_start_sections:
  "plain (start_begin env)" "plain (start_end ch)" "plain (start_commit env nc j h)" "plain (start_abandon env nc err)"
  unfolding start_begin_def start_end_def start_commit_def start_abandon_def
  by (intro plain_rules plain_parts plain_modify; simp)+

lemma plain_Start: "plain (Start env co)"
  unfolding Start_def start_body_def start_setup_def
  by (intro plain_rules plain_parts plain_start_sections) simp_all

lemma plain_close_sections:
  "plain (close_begin env)" "plain (close_canceled env err)" "plain (close_finish env e)"
  "plain (drainConnection env c nco d)"
  unfolding close_begin_def close_canceled_def close_finish_def drainConnection_def
  by (intro plain_rules plain_parts plain_modify; simp)+

lemma plain_close_drain: "plain (close_drain env c nco d)"
  unfolding close_drain_def
  by (intro plain_rules plain_close_sections) (simp add: plain_closeConn plain.frames_return split: option.split)

lemma plain_plan:
  "plain m \<Longrightarrow> (\<And>y. plain (f y)) \<Longrightarrow> (\<And>y. plain (g y)) \<Longrightarrow>
   plain (case x of CloseDone \<Rightarrow> m | CloseWait y \<Rightarrow> f y | CloseDrain y \<Rightarrow> g y)"
  by (cases x) simp_all

lemma plain_Close: "plain others \<Longrightarrow> plain (Close env others co)"
  unfolding Close_def
  by (intro plain_rules plain_plan plain_close_sections plain_close_drain)

end
