(* ===== verification/Client_Lifecycle.thy ===== *)
theory Client_Lifecycle
  imports Client_Contract Session_Plain
begin

text \<open>
  The client from construction to shutdown (\<open>agentcore/client.go\<close>): what \<open>New\<close> builds, what \<open>Start\<close>
  and \<open>Close\<close> leave behind, watches, and the invariant that holds between any two operations.
\<close>

subsection \<open>Construction\<close>

definition fresh_client :: "PublicConfig \<Rightarrow> call list \<Rightarrow> 'w \<Rightarrow> 'w client \<Rightarrow> bool" where
  "fresh_client cfg cs w s \<longleftrightarrow> calls s = cs \<and> ext s = w \<and> manager_ok (manager s)
     \<and> config_ok (m_EffectiveConfig (manager s)) \<and> hs_State (m_health (manager s)) = StateNew
     \<and> hk_OnReconnected (m_hooks (manager s)) = Some reconnect_hook
     \<and> hk_OnClosed (m_hooks (manager s)) = Some closed_hook
     \<and> c_cfg s = cfg \<and> NewBuilder (patterns (c_subjects s)) = Inr (c_subjects s)
     \<and> c_subscriptions s = New_Registry \<and> synced s \<and> c_handlerCtx s = None \<and> c_watches s = []
     \<and> \<not> c_callbacksEnabled s \<and> \<not> m_starting (manager s) \<and> \<not> m_closing (manager s)"

lemma NewBuilder_again: "NewBuilder p = Inr b \<Longrightarrow> NewBuilder (patterns b) = Inr b"
  by (auto simp: NewBuilder_accepts)

lemma manager_ok_hooks [simp]:
  "manager_ok (SetReconnectHandler f m) = manager_ok m" "manager_ok (SetClosedHandler f m) = manager_ok m"
  by (simp_all add: SetReconnectHandler_def SetClosedHandler_def manager_ok_defs)

lemma New_spec:
  assumes ncs: "consts_ok ncs" and new: "New ncs env cfg opts cs w = Inr s"
  shows "fresh_client cfg cs w s"
proof -
  from new obtain o0 p b m where
    b: "NewBuilder p = Inr b" and
    m: "NewManager ncs (toSessionConfig cfg) \<lparr>hk_Logger = opt_logger o0 \<or> pub_Observe_Logger cfg,
          hk_Metrics = opt_metrics o0 \<or> pub_Observe_Metrics cfg,
          hk_ErrorSink = opt_errorSink o0, hk_OnReconnected = None, hk_OnClosed = None\<rparr> = Inr m" and
    s: "s = snd (run_state syncSubscriptionHealth
       \<lparr>calls = cs, ext = w,
        manager = SetClosedHandler (Some closed_hook) (SetReconnectHandler (Some reconnect_hook) m),
        c_cfg = cfg, c_options = o0\<lparr>opt_logger := opt_logger o0 \<or> pub_Observe_Logger cfg,
          opt_metrics := opt_metrics o0 \<or> pub_Observe_Metrics cfg\<rparr>,
        c_subscriptions = New_Registry, c_subjects = b,
        c_handlerCtx = None, c_nextWatchID = 0, c_watches = [], c_callbacksEnabled = False\<rparr>)"
    by (auto simp: New_def Let_def)
  from m obtain e where e: "normalizeConfig ncs (toSessionConfig cfg) = Inr e" "m_effective m = e"
    "hs_State (m_health m) = StateNew" "\<not> m_starting m" "\<not> m_closing m"
    by (auto simp: NewManager_def)
  have "config_ok (m_EffectiveConfig m)"
    using normalizeConfig_ok [OF ncs e(1)] e(2) by (simp add: m_EffectiveConfig_def)
  then show ?thesis
    using e(3-5) manager_ok_New [OF m] NewBuilder_again [OF b]
    by (simp add: s syncSubscriptionHealth_def modify_def fresh_client_def split_beta synced_def
        SetSubscriptionCounts_def SetReconnectHandler_def SetClosedHandler_def m_EffectiveConfig_def
        manager_ok_defs)
qed

subsection \<open>Watches\<close>

text \<open>
  A watch that does not become ready is stopped and not tracked.  The calls are known exactly: none;
  the request for a watch that was refused; or a watch, the answer of the wait for it, and, if that is
  not that the watch is ready, its cancellation.
\<close>

definition watch_refused :: "string \<Rightarrow> call list \<Rightarrow> bool" where
  "watch_refused key new \<longleftrightarrow> new = []
     \<or> (\<exists>h e i. new = [KvWatch h key (Inl e), Cancel (WithCancel Background i)])
     \<or> (\<exists>h w o' i. new = [KvWatch h key (Inr w), AwaitReady o', Cancel (WithCancel Background i), WatcherStop w]
          \<and> o' \<noteq> ReadyClosed)"

definition watch_made :: "string \<Rightarrow> KVWatch \<Rightarrow> call list \<Rightarrow> bool" where
  "watch_made key kw new \<longleftrightarrow> (\<exists>h w i. new = [KvWatch h key (Inr w), AwaitReady ReadyClosed]
     \<and> kw = \<lparr>kw_ctx = WithCancel Background i, kw_watcher = w\<rparr>)"

definition watch_key :: "('w, 'm) client_scheme \<Rightarrow> string \<Rightarrow> string result" where
  "watch_key s target = buildDesiredConfigKey (kv_KeyPattern (session_conf s)) target"

definition watch_started :: "string \<Rightarrow> ('w, 'm) client_scheme \<Rightarrow> 64 word result \<Rightarrow> ('w, 'm) client_scheme \<Rightarrow> bool" where
  "watch_started target s r t \<longleftrightarrow> manager t = manager s \<and> c_subscriptions t = c_subscriptions s
     \<and> c_callbacksEnabled t = c_callbacksEnabled s \<and> c_handlerCtx t = c_handlerCtx s \<and> c_options t = c_options s
     \<and> c_subjects t = c_subjects s
     \<and> (\<exists>new. calls t = calls s @ new
         \<and> (case r of
              Inl e \<Rightarrow> c_watches t = c_watches s \<and> c_nextWatchID t = c_nextWatchID s
                \<and> (new = [] \<or> (\<exists>key. watch_key s target = Inr key \<and> watch_refused key new))
            | Inr n \<Rightarrow> n = c_nextWatchID s + 1 \<and> c_nextWatchID t = n
                \<and> (\<exists>key kw. watch_key s target = Inr key \<and> watch_made key kw new
                     \<and> c_watches t = alist_put n kw (c_watches s))))"

lemma watch_calls_quiet:
  "watch_refused key new \<Longrightarrow> puts new = [] \<and> publishes new = [] \<and> runs new = [] \<and> made new = {} \<and> dropped new = {}"
  "watch_made key kw new \<Longrightarrow> puts new = [] \<and> publishes new = [] \<and> runs new = [] \<and> made new = {} \<and> dropped new = {}"
  by (auto simp: watch_refused_def watch_made_def)

lemma KeyValue_client: "wp (KeyValue env) (\<lambda>r t. same_client s t \<and> calls t = calls s) s"
  by (rule wp_mono [OF quietD [OF KeyValue_quiet]]) (simp add: same_client_def)

lemma waitForWatchReady_client:
  fixes s :: "('w, 'm) client_scheme"
  shows "wp (waitForWatchReady env co d) (\<lambda>r t. same_client s t
     \<and> (\<exists>o'. calls t = calls s @ [AwaitReady o'] \<and> (r = None \<longleftrightarrow> o' = ReadyClosed))) s"
  by (simp add: waitForWatchReady_def kv_withTimeout_def Let_def wp_simps same_client_def split: ready_outcome.split)

definition kv_watch_result :: "string \<Rightarrow> ('w, 'm) client_scheme \<Rightarrow> KVWatch result \<Rightarrow> ('w, 'm) client_scheme \<Rightarrow> bool" where
  "kv_watch_result key s r t \<longleftrightarrow> same_client s t
     \<and> (\<exists>new. calls t = calls s @ new
         \<and> (case r of Inl e \<Rightarrow> watch_refused key new | Inr kw \<Rightarrow> watch_made key kw new))"

lemma watch_result_early:
  "same_client s t \<Longrightarrow> calls t = calls s \<Longrightarrow> kv_watch_result key s (Inl e) t"
  by (simp add: kv_watch_result_def watch_refused_def)

lemma watch_wait:
  fixes s t :: "('w, 'm) client_scheme"
  assumes t: "same_client s t" "calls t = calls s @ [KvWatch h key (Inr w)]"
  shows "wp (do {
      werr \<leftarrow> waitForWatchReady env co d;
      case werr of
        None \<Rightarrow> return (Inr \<lparr>kw_ctx = WithCancel Background i, kw_watcher = w\<rparr>)
      | Some err \<Rightarrow> do {
          stopWatcher env \<lparr>kw_ctx = WithCancel Background i, kw_watcher = w\<rparr>;
          return (Inl (f err)) } })
    (\<lambda>r u. kv_watch_result key s r u) t"
  unfolding wp_bind
proof (rule wp_mono [OF waitForWatchReady_client])
  fix r :: "goerr option" and u :: "('w, 'm) client_scheme"
  assume "same_client t u \<and> (\<exists>o'. calls u = calls t @ [AwaitReady o'] \<and> (r = None \<longleftrightarrow> o' = ReadyClosed))"
  then obtain o' where u: "same_client t u" "calls u = calls t @ [AwaitReady o']" "r = None \<longleftrightarrow> o' = ReadyClosed" by blast
  have su: "same_client s u" using t u same_client_trans by blast
  show "wp (case r of
        None \<Rightarrow> return (Inr \<lparr>kw_ctx = WithCancel Background i, kw_watcher = w\<rparr>)
      | Some err \<Rightarrow> do {
          stopWatcher env \<lparr>kw_ctx = WithCancel Background i, kw_watcher = w\<rparr>;
          return (Inl (f err)) })
    (\<lambda>r u. kv_watch_result key s r u) u"
    using t u su
    by (cases r) (auto simp: wp_simps kv_watch_result_def watch_made_def watch_refused_def stopWatcher_def same_client_def)
qed

lemma kv_Watch_spec:
  fixes s :: "('w, 'm) client_scheme"
  shows "wp (kv_WatchDesiredConfig env \<lparr>st_runtime = session_provider env', st_errorSink = sink\<rparr> co target (Some i))
     (\<lambda>r t. case watch_key s target of Inl e \<Rightarrow> r = Inl e \<and> t = s | Inr key \<Rightarrow> kv_watch_result key s r t) s"
proof (cases "watch_key s target")
  case (Inl e)
  then show ?thesis
    by (simp add: kv_WatchDesiredConfig_def session_kv.wp_provider wp_bind wp_try_then wp_return watch_key_def)
next
  case (Inr key)
  have "wp (KeyValue env') (\<lambda>r t. case r of Inl e \<Rightarrow> kv_watch_result key s (Inl e) t
      | Inr h \<Rightarrow> wp (do {
          i \<leftarrow> ask (env_fresh env);
          let watchCtx = WithCancel Background i;
          wr \<leftarrow> ask_log (env_kv_watch env watchCtx h key) (KvWatch h key);
          case wr of
            Inl err \<Rightarrow> do {
              emit (Cancel watchCtx);
              return (Inl (kvReadError ''watch_desired_config'' ''failed to start desired-config watch'' err)) }
          | Inr watcher \<Rightarrow> do {
              d \<leftarrow> rp_KVTimeout (session_provider env');
              werr \<leftarrow> waitForWatchReady env co d;
              case werr of
                None \<Rightarrow> return (Inr \<lparr>kw_ctx = watchCtx, kw_watcher = watcher\<rparr>)
              | Some err \<Rightarrow> do {
                  stopWatcher env \<lparr>kw_ctx = watchCtx, kw_watcher = watcher\<rparr>;
                  return (Inl (kvReadError ''watch_desired_config''
                    ''desired-config watch did not become ready'' err)) } } })
        (\<lambda>r t. kv_watch_result key s r t) t) s"
  proof (rule wp_mono [OF KeyValue_client])
    fix r :: "kv_handle result" and t :: "('w, 'm) client_scheme"
    assume t: "same_client s t \<and> calls t = calls s"
    let ?u = "\<lambda>h. t\<lparr>ext := snd (env_kv_watch env (WithCancel Background (fst (env_fresh env (ext t)))) h key (snd (env_fresh env (ext t)))),
      calls := calls t @ [KvWatch h key (fst (env_kv_watch env (WithCancel Background (fst (env_fresh env (ext t)))) h key (snd (env_fresh env (ext t)))))]\<rparr>"
    have same: "same_client s (?u h)" for h using t by (simp add: same_client_def)
    show "case r of Inl e \<Rightarrow> kv_watch_result key s (Inl e) t
      | Inr h \<Rightarrow> wp (do {
          i \<leftarrow> ask (env_fresh env);
          let watchCtx = WithCancel Background i;
          wr \<leftarrow> ask_log (env_kv_watch env watchCtx h key) (KvWatch h key);
          case wr of
            Inl err \<Rightarrow> do {
              emit (Cancel watchCtx);
              return (Inl (kvReadError ''watch_desired_config'' ''failed to start desired-config watch'' err)) }
          | Inr watcher \<Rightarrow> do {
              d \<leftarrow> rp_KVTimeout (session_provider env');
              werr \<leftarrow> waitForWatchReady env co d;
              case werr of
                None \<Rightarrow> return (Inr \<lparr>kw_ctx = watchCtx, kw_watcher = watcher\<rparr>)
              | Some err \<Rightarrow> do {
                  stopWatcher env \<lparr>kw_ctx = watchCtx, kw_watcher = watcher\<rparr>;
                  return (Inl (kvReadError ''watch_desired_config''
                    ''desired-config watch did not become ready'' err)) } } })
        (\<lambda>r t. kv_watch_result key s r t) t"
    proof (cases r)
      case (Inl e)
      with t show ?thesis by (simp add: watch_result_early)
    next
      case (Inr h)
      show ?thesis
      proof (cases "fst (env_kv_watch env (WithCancel Background (fst (env_fresh env (ext t)))) h key (snd (env_fresh env (ext t))))")
        case (Inl err)
        with Inr t show ?thesis
          by (simp add: Let_def wp_simps kv_watch_result_def watch_refused_def same_client_def)
      next
        case w: (Inr w)
        have wait: "wp (do {
              werr \<leftarrow> waitForWatchReady env co d;
              case werr of
                None \<Rightarrow> return (Inr \<lparr>kw_ctx = WithCancel Background i, kw_watcher = w\<rparr>)
              | Some err \<Rightarrow> do {
                  stopWatcher env \<lparr>kw_ctx = WithCancel Background i, kw_watcher = w\<rparr>;
                  return (Inl (kvReadError ''watch_desired_config''
                    ''desired-config watch did not become ready'' err)) } })
            (\<lambda>r t. kv_watch_result key s r t) (?u h)" for d i
          by (rule watch_wait [OF same]) (use w t in simp)
        have d: "wp (rp_KVTimeout (session_provider env')) Q x = Q (KVTimeout (manager x)) x"
          for Q and x :: "('w, 'm) client_scheme"
          by (simp add: session_provider_def wp_gets)
        show ?thesis
          using wait w by (simp add: Inr Let_def wp_bind wp_ask wp_ask_log d)
      qed
    qed
  qed
  then show ?thesis
    using Inr by (simp add: watch_key_def kv_WatchDesiredConfig_def session_kv.wp_provider wp_bind wp_try_then wp_return
        session_provider_def session_conf_def DesiredConfigKeyPattern_def Let_def wp_fun wp_ask wp_ask_log wp_gets cong: sum.case_cong option.case_cong)
qed

lemma WatchDesiredConfig_spec:
  fixes s :: "('w, 'm) client_scheme"
  shows "wp (WatchDesiredConfig env co target handler) (\<lambda>r t. watch_started target s r t) s"
proof (cases handler)
  case None
  then show ?thesis by (simp add: WatchDesiredConfig_def wp_return watch_started_def)
next
  case (Some i)
  have "wp (kv_WatchDesiredConfig env (c_kv env s) co target (Some i)) (\<lambda>r. wp (case r of
      Inl err \<Rightarrow> return (Inl (toPublicError err))
    | Inr w \<Rightarrow> do { n \<leftarrow> trackWatch w; return (Inr n) }) (\<lambda>r t. watch_started target s r t)) s"
    unfolding c_kv_def
  proof (rule wp_mono [OF kv_Watch_spec])
    fix r :: "KVWatch result" and t :: "('w, 'm) client_scheme"
    assume t: "case watch_key s target of Inl e \<Rightarrow> r = Inl e \<and> t = s | Inr key \<Rightarrow> kv_watch_result key s r t"
    then have "same_client s t" by (auto simp: kv_watch_result_def split: sum.splits)
    note st = same_clientD [OF this]
    show "wp (case r of
        Inl err \<Rightarrow> return (Inl (toPublicError err))
      | Inr w \<Rightarrow> do { n \<leftarrow> trackWatch w; return (Inr n) }) (\<lambda>r t. watch_started target s r t) t"
    proof (cases r)
      case (Inl e)
      with t st show ?thesis by (auto simp: wp_return watch_started_def kv_watch_result_def split: sum.splits)
    next
      case (Inr kw)
      with t st show ?thesis
        by (auto simp: wp_simps trackWatch_def watch_started_def kv_watch_result_def split: sum.splits)
    qed
  qed
  with Some show ?thesis by (simp add: WatchDesiredConfig_def wp_bind wp_gets)
qed

subsection \<open>Stopping the watches\<close>

definition watches_stopped :: "KVWatch list \<Rightarrow> ('w, 'm) client_scheme \<Rightarrow> ('w, 'm) client_scheme \<Rightarrow> bool" where
  "watches_stopped ws s t \<longleftrightarrow> same_client s t
     \<and> (\<exists>new. calls t = calls s @ new \<and> io_quiet new \<and> (\<forall>S. opens S new = S)
        \<and> (\<forall>w \<in> set ws. Cancel (kw_ctx w) \<in> set new \<and> WatcherStop (kw_watcher w) \<in> set new))"

lemma kv_stop_spec:
  fixes s :: "('w, 'm) client_scheme"
  shows "wp (kv_stop env w False) (\<lambda>r t. r = None \<and> watches_stopped [w] s t) s"
  by (simp add: kv_stop_def stopWatcher_def wp_simps watches_stopped_def same_client_def io_quiet_def)

lemma watches_stopped_append:
  assumes "watches_stopped ws s t" "watches_stopped vs t u"
  shows "watches_stopped (ws @ vs) s u"
proof -
  from assms obtain n1 n2 where n: "calls t = calls s @ n1" "io_quiet n1" "\<forall>S. opens S n1 = S"
      "\<forall>w \<in> set ws. Cancel (kw_ctx w) \<in> set n1 \<and> WatcherStop (kw_watcher w) \<in> set n1"
      "calls u = calls t @ n2" "io_quiet n2" "\<forall>S. opens S n2 = S"
      "\<forall>w \<in> set vs. Cancel (kw_ctx w) \<in> set n2 \<and> WatcherStop (kw_watcher w) \<in> set n2"
    unfolding watches_stopped_def by blast
  have "same_client s u" using assms same_client_trans by (auto simp: watches_stopped_def)
  with n show ?thesis
    unfolding watches_stopped_def by (intro conjI exI [of _ "n1 @ n2"]) auto
qed

lemma stop_each_spec:
  fixes s :: "('w, 'm) client_scheme"
  shows "wp (stop_each env ws joined) (\<lambda>r t. r = joined \<and> watches_stopped ws s t) s"
proof (induction ws arbitrary: s joined)
  case Nil
  then show ?case by (simp add: wp_return watches_stopped_def)
next
  case (Cons w ws)
  show ?case
    unfolding stop_each.simps wp_bind
  proof (rule wp_mono [OF kv_stop_spec])
    fix r :: "goerr option" and t :: "('w, 'm) client_scheme"
    assume t: "r = None \<and> watches_stopped [w] s t"
    show "wp (stop_each env ws (case r of None \<Rightarrow> joined
        | Some err \<Rightarrow> (case joined of None \<Rightarrow> Some err | Some j \<Rightarrow> Join [Some j, Some err])))
      (\<lambda>r u. r = joined \<and> watches_stopped (w # ws) s u) t"
      by (rule wp_mono [OF Cons.IH]) (use t watches_stopped_append [of "[w]" s t ws] in auto)
  qed
qed

lemma closeError_None_iff: "closeError a b c = None \<longleftrightarrow> a = None \<and> b = None \<and> c = None"
  by (auto simp: closeError_def Join_None_iff)

subsection \<open>Session operations inside the client\<close>

lemma session_call_silent:
  "session_call c \<Longrightarrow> made_by c = {} \<and> dropped_by c = {} \<and> \<not> is_put c \<and> \<not> is_publish c
     \<and> runs [c] = [] \<and> \<not> is_reconnect c"
  by (cases c) auto

lemma session_calls_silent:
  "list_all session_call cs \<Longrightarrow> io_quiet cs \<and> opens S cs = S"
proof (induction cs arbitrary: S)
  case (Cons c cs)
  then have c: "made_by c = {} \<and> dropped_by c = {} \<and> \<not> is_put c \<and> \<not> is_publish c \<and> runs [c] = [] \<and> \<not> is_reconnect c"
    using session_call_silent by simp
  with Cons show ?case by (simp add: io_quiet_def)
qed simp

definition session_side :: "('w, 'm) client_scheme \<Rightarrow> ('w, 'm) client_scheme \<Rightarrow> bool" where
  "session_side s t \<longleftrightarrow> session.more t = session.more s \<and> counters (manager t) = counters (manager s)
     \<and> (\<exists>new. calls t = calls s @ new \<and> io_quiet new \<and> (\<forall>S. opens S new = S))"

lemma plain_client:
  fixes s :: "('w, 'm) client_scheme"
  assumes "plain p"
  shows "wp p (\<lambda>r t. session_side s t) s"
  by (rule wp_mono [OF plain.framesD [OF assms]]) (auto simp: session_side_def plain_rel_def dest: session_calls_silent)

lemma session_sideD:
  assumes "session_side s t"
  shows "c_subscriptions t = c_subscriptions s" "c_watches t = c_watches s" "c_options t = c_options s"
    "c_handlerCtx t = c_handlerCtx s" "c_callbacksEnabled t = c_callbacksEnabled s"
    "open_subs t = open_subs s" "synced t = synced s" "no_leak t = no_leak s" "c_subjects t = c_subjects s"
    "m_effective (manager t) = m_effective (manager s)"
proof -
  show r: "c_subscriptions t = c_subscriptions s" "c_watches t = c_watches s" "c_options t = c_options s"
    "c_subjects t = c_subjects s" "m_effective (manager t) = m_effective (manager s)"
    "c_handlerCtx t = c_handlerCtx s" "c_callbacksEnabled t = c_callbacksEnabled s"
    using assms client_frame [of t s] by (simp_all add: session_side_def counters_def)
  show o': "open_subs t = open_subs s"
    using assms by (auto simp: session_side_def open_subs_after)
  show "synced t = synced s" "no_leak t = no_leak s"
    using assms r o' by (simp_all add: session_side_def synced_def counters_def no_leak_def)
qed

lemma counts_only_fields:
  "counts_only m m' \<Longrightarrow> m_nc m' = m_nc m \<and> m_starting m' = m_starting m \<and> m_closing m' = m_closing m
     \<and> m_effective m' = m_effective m"
  by (auto simp: counts_only_def SetSubscriptionCounts_def)

subsection \<open>\<open>Start\<close>\<close>

text \<open>Parts that any outcome of starting or closing the client has.\<close>

definition sound_after :: "('w, 'm) client_scheme \<Rightarrow> ('w, 'm) client_scheme \<Rightarrow> bool" where
  "sound_after s t \<longleftrightarrow> manager_ok (manager t) \<and> registry_inv (c_subscriptions t)
     \<and> intents (c_subscriptions t) = intents (c_subscriptions s)
     \<and> m_starting (manager t) = m_starting (manager s)
     \<and> m_effective (manager t) = m_effective (manager s) \<and> c_subjects t = c_subjects s
     \<and> (no_leak s \<longrightarrow> no_leak t) \<and> (synced s \<longrightarrow> synced t)
     \<and> (\<exists>new. calls t = calls s @ new \<and> io_quiet new)"

definition client_started :: "('w, 'm) client_scheme \<Rightarrow> goerr option \<Rightarrow> ('w, 'm) client_scheme \<Rightarrow> bool" where
  "client_started s r t \<longleftrightarrow> sound_after s t \<and> m_closing (manager t) = m_closing (manager s)
     \<and> c_watches t = c_watches s
     \<and> (case r of
          None \<Rightarrow> m_nc (manager t) \<noteq> None \<and> c_callbacksEnabled t \<and> c_handlerCtx t \<noteq> None
            \<and> dom (live (c_subscriptions t)) = dom (intents (c_subscriptions s))
        | Some e \<Rightarrow> session.more t = session.more s
            \<or> \<not> c_callbacksEnabled t \<and> c_handlerCtx t = None \<and> live (c_subscriptions t) = (\<lambda>_. None)
              \<and> (no_leak s \<longrightarrow> open_subs t = {}))"

lemma ensureHandlerContext_spec:
  fixes s :: "('w, 'm) client_scheme"
  shows "wp (ensureHandlerContext env) (\<lambda>r t. \<exists>x c. t = s\<lparr>ext := x, c_handlerCtx := Some c\<rparr>) s"
proof (cases "c_handlerCtx s")
  case None
  then show ?thesis by (auto simp: ensureHandlerContext_def newHandlerContext_def wp_simps)
next
  case (Some c)
  have "s\<lparr>ext := x\<rparr> = s\<lparr>ext := x, c_handlerCtx := Some c\<rparr>" for x
    using Some by (cases s) simp
  then have "\<exists>y d. s\<lparr>ext := x\<rparr> = s\<lparr>ext := y, c_handlerCtx := Some d\<rparr>" for x by blast
  with Some show ?thesis
    by (auto simp: ensureHandlerContext_def newHandlerContext_def wp_simps)
qed

lemma sound_silenced:
  assumes t: "sound_after s t" and u: "silenced t u"
  shows "sound_after s u" "m_closing (manager u) = m_closing (manager t)" "m_nc (manager u) = m_nc (manager t)"
proof -
  from u have c: "counts_only (manager t) (manager u)" by (simp add: silenced_def)
  note f = counts_only_fields [OF c]
  show "m_closing (manager u) = m_closing (manager t)" "m_nc (manager u) = m_nc (manager t)" using f by auto
  have "no_leak u" if "no_leak t" using u that by (simp add: silenced_def no_leak_def)
  then show "sound_after s u"
    using t u f counts_only_ok [OF c] by (auto simp: sound_after_def silenced_def)
qed

lemma reactivated_sound:
  assumes t: "sound_after s t" and u: "reactivated env force t r u"
  shows "sound_after s u" "m_closing (manager u) = m_closing (manager t)" "m_nc (manager u) = m_nc (manager t)"
proof -
  have c: "counts_only (manager t) (manager u)" using reactivatedD(1) [OF u] by (simp add: registry_frame_def)
  note f = counts_only_fields [OF c]
  show "m_closing (manager u) = m_closing (manager t)" "m_nc (manager u) = m_nc (manager t)" using f by auto
  show "sound_after s u"
    using t f counts_only_ok [OF c] reactivatedD(1-3,5,6) [OF u] by (auto simp: sound_after_def registry_frame_def)
qed

text \<open>When activation fails, everything that was set up for dispatch is taken down again.\<close>

definition start_cleanup :: "('w, 'e) client_env_scheme \<Rightarrow> goerr \<Rightarrow> ('w, 'm, goerr option) client_op" where
  "start_cleanup env err = do {
     cleanup \<leftarrow> do { setCallbacksEnabled False; cancelHandlerContext;
       deactivateAllSubscriptions env ''start_activation_cleanup'' };
     (case cleanup of
        None \<Rightarrow> return ()
      | Some cerr \<Rightarrow> do {
          c_log env Warn ''failed to cleanup subscriptions after start activation failure''
            [(''error'', LErr cerr)];
          c_sink env cerr });
     return (Some err) }"

lemma start_cleanup_spec:
  fixes s :: "('w, 'm) client_scheme"
  assumes "registry_inv (c_subscriptions s)"
  shows "wp (start_cleanup env err) (\<lambda>r t. r = Some err \<and> silenced s t) s"
  unfolding start_cleanup_def wp_bind [of "State_Monad.bind a b" for a b]
proof (rule wp_mono [OF silence_spec [OF assms]])
  fix r :: "goerr option" and t :: "('w, 'm) client_scheme"
  assume t: "silenced s t"
  show "wp (do {
       (case r of
          None \<Rightarrow> return ()
        | Some cerr \<Rightarrow> do {
            c_log env Warn ''failed to cleanup subscriptions after start activation failure''
              [(''error'', LErr cerr)];
            c_sink env cerr });
       return (Some err) }) (\<lambda>r t. r = Some err \<and> silenced s t) t"
  proof (cases r)
    case None
    with t show ?thesis by (simp add: wp_simps)
  next
    case (Some cerr)
    show ?thesis
      unfolding Some option.case wp_bind [of "State_Monad.bind a b" for a b]
      by (rule wp_notes [OF notes_report]) (simp add: wp_return silenced_notes [OF t])
  qed
qed

lemma c_Start_eq:
  "c_Start env co = do {
     serr \<leftarrow> startSession env co;
     case serr of Some err \<Rightarrow> return (Some err) | None \<Rightarrow> do {
     aerr \<leftarrow> activateAllRegisteredSubscriptions env ''start'';
     case aerr of
       Some err \<Rightarrow> start_cleanup env err
     | None \<Rightarrow> do { ensureHandlerContext env; setCallbacksEnabled True; return None } } }"
  unfolding c_Start_def start_cleanup_def State_Monad.bind_assoc ..

lemma startSession_spec:
  fixes s :: "('w, 'm) client_scheme"
  assumes ok: "manager_ok (manager s)"
  shows "wp (startSession env co) (\<lambda>r t. session_side s t \<and> (\<exists>r'. r = map_option toPublicError r' \<and> started s r' t)) s"
proof -
  have "wp (Start env co) (\<lambda>r t. session_side s t \<and> started s r t) s"
    unfolding wp_conj using plain_client [OF plain_Start] Start_spec [OF ok] by blast
  then show ?thesis
    unfolding startSession_def wp_bind wp_return by (rule wp_mono) blast
qed

lemma started_sound:
  assumes "registry_inv (c_subscriptions s)" and "session_side s t" and "started s r t"
  shows "sound_after s t" "m_closing (manager t) = m_closing (manager s)" "r = None \<Longrightarrow> m_nc (manager t) \<noteq> None"
  using assms session_sideD [OF assms(2)]
  by (auto simp: sound_after_def started_def session_side_def connected_to_def)

lemma c_Start_spec:
  fixes s :: "('w, 'm) client_scheme"
  assumes ok: "manager_ok (manager s)" and inv: "registry_inv (c_subscriptions s)"
  shows "wp (c_Start env co) (\<lambda>r t. client_started s r t) s"
  unfolding c_Start_eq wp_bind
proof (rule wp_mono [OF startSession_spec [OF ok]])
  fix serr :: "goerr option" and t :: "('w, 'm) client_scheme"
  assume "session_side s t \<and> (\<exists>r'. serr = map_option toPublicError r' \<and> started s r' t)"
  then obtain r' where t: "session_side s t" "serr = map_option toPublicError r'" "started s r' t" by blast
  note d = session_sideD [OF t(1)] and snd = started_sound [OF inv t(1,3)]
  have inv': "registry_inv (c_subscriptions t)" using inv d by simp
  show "wp (case serr of Some err \<Rightarrow> return (Some err) | None \<Rightarrow> do {
     aerr \<leftarrow> activateAllRegisteredSubscriptions env ''start'';
     case aerr of
       Some err \<Rightarrow> start_cleanup env err
     | None \<Rightarrow> do { ensureHandlerContext env; setCallbacksEnabled True; return None } })
     (\<lambda>r t. client_started s r t) t"
  proof (cases serr)
    case (Some err)
    with snd d t(1) show ?thesis by (simp add: wp_return client_started_def session_side_def)
  next
    case None
    with t have r': "r' = None" by simp
    show ?thesis
      unfolding None option.case wp_bind
    proof (rule wp_mono [OF activateAll_spec [OF inv']])
      fix aerr :: "goerr option" and u :: "('w, 'm) client_scheme"
      assume u: "reactivated env False t aerr u"
      note rs = reactivated_sound [OF snd(1) u]
      have w: "c_watches u = c_watches s" using reactivatedD(1) [OF u] d by (simp add: registry_frame_def)
      show "wp (case aerr of
           Some err \<Rightarrow> start_cleanup env err
         | None \<Rightarrow> do { ensureHandlerContext env; setCallbacksEnabled True; return None })
         (\<lambda>r t. client_started s r t) u"
      proof (cases aerr)
        case None
        have fin: "client_started s None (u\<lparr>ext := x, c_handlerCtx := Some c, c_callbacksEnabled := True\<rparr>)" for x c
          using rs snd r' w reactivatedD(1-5,7) [OF u] None d
          by (auto simp: client_started_def sound_after_def registry_frame_def no_leak_def open_subs_def synced_def)
        show ?thesis
          unfolding None option.case wp_bind
          by (rule wp_mono [OF ensureHandlerContext_spec])
             (auto simp: setCallbacksEnabled_def wp_simps intro: fin)
      next
        case (Some err)
        have inv'': "registry_inv (c_subscriptions u)" by (rule reactivatedD(3) [OF u])
        show ?thesis
          unfolding Some option.case
        proof (rule wp_mono [OF start_cleanup_spec [OF inv'']])
          fix r :: "goerr option" and v :: "('w, 'm) client_scheme"
          assume v: "r = Some err \<and> silenced u v"
          then have ss: "sound_after s v" "m_closing (manager v) = m_closing (manager u)"
            using sound_silenced [OF rs(1)] by auto
          have "no_leak s \<longrightarrow> open_subs v = {}" using v rs(1) by (auto simp: silenced_def sound_after_def)
          then show "client_started s r v"
            using v ss rs snd w by (simp add: client_started_def silenced_def)
        qed
      qed
    qed
  qed
qed

subsection \<open>\<open>Close\<close>\<close>

definition client_closed :: "('w, 'm) client_scheme \<Rightarrow> goerr option \<Rightarrow> ('w, 'm) client_scheme \<Rightarrow> bool" where
  "client_closed s r t \<longleftrightarrow> sound_after s t \<and> torn_down (manager t)
     \<and> \<not> c_callbacksEnabled t \<and> c_handlerCtx t = None \<and> c_watches t = []
     \<and> live (c_subscriptions t) = (\<lambda>_. None) \<and> (no_leak s \<longrightarrow> open_subs t = {})
     \<and> (\<forall>(n, w) \<in> set (c_watches s).
          Cancel (kw_ctx w) \<in> set (since s t) \<and> WatcherStop (kw_watcher w) \<in> set (since s t))
     \<and> (case m_nc (manager s) of None \<Rightarrow> True | Some nc \<Rightarrow> Drain nc \<in> set (since s t))"

lemma plain_nothing: "plain (return ())"
  by (rule plain.frames_return)

lemma stopAllWatches_spec:
  fixes s :: "('w, 'm) client_scheme"
  shows "wp (stopAllWatches env) (\<lambda>r t. r = None
     \<and> watches_stopped (map snd (c_watches s)) (s\<lparr>c_watches := []\<rparr>) t) s"
  unfolding stopAllWatches_def wp_bind wp_gets wp_modify
  by (rule wp_mono [OF stop_each_spec]) simp

lemma watches_stopped_sound:
  fixes s t u :: "('w, 'm) client_scheme"
  assumes t: "silenced s t" and ok: "manager_ok (manager s)"
    and u: "watches_stopped ws (t\<lparr>c_watches := []\<rparr>) u"
  shows "sound_after s u" "\<not> c_callbacksEnabled u" "c_handlerCtx u = None" "c_watches u = []"
    "live (c_subscriptions u) = (\<lambda>_. None)" "no_leak s \<longrightarrow> open_subs u = {}"
    "m_nc (manager u) = m_nc (manager s)" "m_starting (manager u) = m_starting (manager s)"
    "m_closing (manager u) = m_closing (manager s)"
proof -
  from t have c: "counts_only (manager s) (manager t)" by (simp add: silenced_def)
  note f = counts_only_fields [OF c]
  have sc: "same_client (t\<lparr>c_watches := []\<rparr>) u" using u by (simp add: watches_stopped_def)
  note d = same_clientD [OF sc]
  have o': "open_subs u = open_subs t" using u by (auto simp: watches_stopped_def open_subs_def)
  show "\<not> c_callbacksEnabled u" "c_handlerCtx u = None" "c_watches u = []"
    "live (c_subscriptions u) = (\<lambda>_. None)" "no_leak s \<longrightarrow> open_subs u = {}"
    "m_nc (manager u) = m_nc (manager s)" "m_starting (manager u) = m_starting (manager s)"
    "m_closing (manager u) = m_closing (manager s)"
    using t d f o' by (auto simp: silenced_def)
  have "no_leak u" if "no_leak s" using t o' d that by (simp add: silenced_def no_leak_def)
  then show "sound_after s u"
    using t u d f counts_only_ok [OF c] ok
    by (auto simp: sound_after_def silenced_def synced_def watches_stopped_def)
qed

lemma closed_sound:
  fixes s u v :: "('w, 'm) client_scheme"
  assumes u: "sound_after s u" "\<not> c_callbacksEnabled u" "c_handlerCtx u = None" "c_watches u = []"
    "live (c_subscriptions u) = (\<lambda>_. None)" "no_leak s \<longrightarrow> open_subs u = {}"
    "m_nc (manager u) = m_nc (manager s)"
    and calls: "calls u = calls s @ old" "\<forall>w \<in> set (map snd (c_watches s)).
      Cancel (kw_ctx w) \<in> set old \<and> WatcherStop (kw_watcher w) \<in> set old"
    and v: "session_side u v" "closed_from u r v"
  shows "client_closed s r' v"
proof -
  note d = session_sideD [OF v(1)]
  obtain new where new: "calls v = calls u @ new" "io_quiet new"
    using v(1) by (auto simp: session_side_def)
  have since: "since s v = old @ new" using new calls by (simp add: since_def)
  have "sound_after s v"
    using u(1) v d new by (auto simp: sound_after_def closed_from_def)
  moreover have "case m_nc (manager s) of None \<Rightarrow> True | Some nc \<Rightarrow> Drain nc \<in> set (since s v)"
    using v(2) u(7) new(1) by (auto simp: closed_from_def since split: option.splits)
  ultimately show ?thesis
    using u v(2) d calls(2) by (auto simp: client_closed_def closed_from_def since)
qed

lemma c_Close_spec:
  fixes s :: "('w, 'm) client_scheme"
  assumes ok: "manager_ok (manager s)" and inv: "registry_inv (c_subscriptions s)"
    and idle: "\<not> m_closing (manager s)" "\<not> m_starting (manager s)"
  shows "wp (c_Close env (return ()) co) (\<lambda>r t. client_closed s r t) s"
proof -
  let ?tail = "\<lambda>subErr. do {
     watchErr \<leftarrow> stopAllWatches env;
     r \<leftarrow> Close env (return ()) co;
     return (closeError subErr watchErr (map_option toPublicError r)) }"
  have eq: "c_Close env (return ()) co = do {
     subErr \<leftarrow> do { setCallbacksEnabled False; cancelHandlerContext; deactivateAllSubscriptions env ''close'' };
     ?tail subErr }"
    unfolding c_Close_def State_Monad.bind_assoc ..
  show ?thesis
    unfolding eq wp_bind [of "State_Monad.bind a b" for a b]
  proof (rule wp_mono [OF silence_spec [OF inv]])
    fix subErr :: "goerr option" and t :: "('w, 'm) client_scheme"
    assume t: "silenced s t"
    show "wp (?tail subErr) (\<lambda>r t. client_closed s r t) t"
      unfolding wp_bind
    proof (rule wp_mono [OF stopAllWatches_spec])
      fix watchErr :: "goerr option" and u :: "('w, 'm) client_scheme"
      assume "watchErr = None \<and> watches_stopped (map snd (c_watches t)) (t\<lparr>c_watches := []\<rparr>) u"
      then have u: "watches_stopped (map snd (c_watches s)) (t\<lparr>c_watches := []\<rparr>) u"
        using t by (simp add: silenced_def)
      note ws = watches_stopped_sound [OF t ok u]
      obtain n1 n2 where n: "calls t = calls s @ n1" "calls u = calls t @ n2"
          "\<forall>w \<in> set (map snd (c_watches s)). Cancel (kw_ctx w) \<in> set n2 \<and> WatcherStop (kw_watcher w) \<in> set n2"
        using t u by (auto simp: silenced_def watches_stopped_def)
      have calls: "calls u = calls s @ (n1 @ n2)" using n by simp
      have stops: "\<forall>w \<in> set (map snd (c_watches s)).
          Cancel (kw_ctx w) \<in> set (n1 @ n2) \<and> WatcherStop (kw_watcher w) \<in> set (n1 @ n2)"
        using n(3) by auto
      have mu: "manager_ok (manager u)" "\<not> m_closing (manager u)" "\<not> m_starting (manager u)"
        using ws idle by (auto simp: sound_after_def)
      have "wp (Close env (return ()) co) (\<lambda>r v. session_side u v \<and> closed_from u r v) u"
        unfolding wp_conj using plain_client [OF plain_Close [OF plain_nothing]] Close_spec [OF mu] by blast
      then show "wp (Close env (return ()) co) (\<lambda>r. wp (return (closeError subErr watchErr
          (map_option toPublicError r))) (\<lambda>r t. client_closed s r t)) u"
        unfolding wp_return
        by (rule wp_mono) (use closed_sound [OF ws(1-7) calls stops] in blast)
    qed
  qed
qed

end
