(* ===== verification/Session_Steps.thy ===== *)
theory Session_Steps
  imports Session_Lifecycle "HOL-Library.Multiset"
begin

text \<open>
  The session under concurrency: the mutex makes each critical section one step, and between the
  sections of an operation any other operation or callback may run.  A pool of threads records
  which operations are under way; what happens outside the lock (dialing, JetStream calls,
  draining) only decides which section comes next, with any outcome.
\<close>

datatype thread =
    Starting nat
  | Ending nat
  | CloseWaiting nat
  | CloseDraining "conn option"
  | Rebinding conn

fun is_start :: "thread \<Rightarrow> bool" where
  "is_start (Starting ch) \<longleftrightarrow> True"
| "is_start (Ending ch) \<longleftrightarrow> True"
| "is_start _ \<longleftrightarrow> False"

fun is_close :: "thread \<Rightarrow> bool" where
  "is_close (CloseWaiting ch) \<longleftrightarrow> True"
| "is_close (CloseDraining nco) \<longleftrightarrow> True"
| "is_close _ \<longleftrightarrow> False"

type_synonym 'w pool = "'w session \<times> thread multiset"

inductive session_step :: "('w, 'e) session_env_scheme \<Rightarrow> 'w pool \<Rightarrow> 'w pool \<Rightarrow> bool" for env where
  start_enter: "run_state (start_begin env) s = (Inr ch, s') \<Longrightarrow>
     session_step env (s, T) (s', add_mset (Starting ch) T)"
| start_refuse: "run_state (start_begin env) s = (Inl r, s') \<Longrightarrow> session_step env (s, T) (s', T)"
| start_fail: "run_state (setDegradedLocked env (Some e)) s = (u, s') \<Longrightarrow>
     session_step env (s, add_mset (Starting ch) T) (s', add_mset (Ending ch) T)"
| start_publish: "run_state (start_commit env nc j h) s = (b, s') \<Longrightarrow>
     session_step env (s, add_mset (Starting ch) T) (s', add_mset (Ending ch) T)"
| start_leave: "run_state (start_end ch) s = (u, s') \<Longrightarrow>
     session_step env (s, add_mset (Ending ch) T) (s', T)"
| close_nothing: "run_state (close_begin env) s = (CloseDone, s') \<Longrightarrow> session_step env (s, T) (s', T)"
| close_wait: "run_state (close_begin env) s = (CloseWait nco, s') \<Longrightarrow> m_startDone (manager s) = Some ch \<Longrightarrow>
     session_step env (s, T) (s', add_mset (CloseWaiting ch) T)"
| close_direct: "run_state (close_begin env) s = (CloseDrain nco, s') \<Longrightarrow>
     session_step env (s, T) (s', add_mset (CloseDraining nco) T)"
| close_cancel: "run_state (close_canceled env e) s = (r, s') \<Longrightarrow>
     session_step env (s, add_mset (CloseWaiting ch) T) (s', T)"
| close_wake: "m_startDone (manager s) \<noteq> Some ch \<Longrightarrow>
     session_step env (s, add_mset (CloseWaiting ch) T) (s, add_mset (CloseDraining (m_nc (manager s))) T)"
| close_end: "run_state (close_finish env e) s = (r, s') \<Longrightarrow>
     session_step env (s, add_mset (CloseDraining nco) T) (s', T)"
| disconnect: "run_state (onDisconnect env e) s = (u, s') \<Longrightarrow> session_step env (s, T) (s', T)"
| closed: "run_state (onClosed_locked env) s = (fn, s') \<Longrightarrow> session_step env (s, T) (s', T)"
| reconnect: "\<not> m_closing (manager s) \<Longrightarrow> session_step env (s, T) (s, add_mset (Rebinding nc) T)"
| rebind_fail: "run_state (setDegradedLocked env (Some e)) s = (u, s') \<Longrightarrow>
     session_step env (s, add_mset (Rebinding nc) T) (s', T)"
| rebind_publish: "run_state (rebind_commit env nc j h) s = (fn, s') \<Longrightarrow>
     session_step env (s, add_mset (Rebinding nc) T) (s', T)"
| world: "session_step env (s, T) (s\<lparr>ext := x\<rparr>, T)"

inductive_cases session_stepE [elim]: "session_step env c c'"

inductive session_reach :: "('w, 'e) session_env_scheme \<Rightarrow> 'w pool \<Rightarrow> bool" for env where
  fresh: "NewManager consts cfg hooks = Inr m \<Longrightarrow>
     session_reach env (\<lparr>calls = cs, ext = x, manager = m\<rparr>, {#})"
| more: "session_reach env c \<Longrightarrow> session_step env c c' \<Longrightarrow> session_reach env c'"

subsection \<open>What each section changes\<close>

lemma degraded_changes:
  "wp (setDegradedLocked env e) (\<lambda>r s'. same_control (manager s) (manager s')
     \<and> same_handles (manager s) (manager s')) s"
  by (auto simp: wp_simps same_control_def same_handles_def)

lemma close_begin_changes:
  "wp (close_begin env) (\<lambda>p s'. same_handles (manager s) (manager s')
     \<and> m_starting (manager s') = m_starting (manager s) \<and> m_startDone (manager s') = m_startDone (manager s)
     \<and> (case p of
          CloseDone \<Rightarrow> m_closing (manager s') = m_closing (manager s)
        | CloseWait nco \<Rightarrow> \<not> m_closing (manager s) \<and> m_closing (manager s') \<and> m_startDone (manager s) \<noteq> None
        | CloseDrain nco \<Rightarrow> \<not> m_closing (manager s) \<and> m_closing (manager s')
            \<and> m_startDone (manager s) = None \<and> nco = m_nc (manager s))) s"
  by (auto simp: close_begin_def wp_simps same_handles_def)

lemma close_canceled_changes:
  "wp (close_canceled env e) (\<lambda>r s'. same_handles (manager s) (manager s') \<and> \<not> m_closing (manager s')
     \<and> m_starting (manager s') = m_starting (manager s) \<and> m_startDone (manager s') = m_startDone (manager s)) s"
  by (auto simp: close_canceled_def wp_simps same_handles_def)

lemma close_finish_changes:
  "wp (close_finish env e) (\<lambda>r s'. \<not> m_closing (manager s')
     \<and> m_starting (manager s') = m_starting (manager s) \<and> m_startDone (manager s') = m_startDone (manager s)) s"
  by (auto simp: close_finish_def wp_simps)

lemma callback_changes:
  "wp (onDisconnect env e) (\<lambda>r s'. same_control (manager s) (manager s') \<and> same_handles (manager s) (manager s')) s"
  "wp (onClosed_locked env) (\<lambda>r s'. same_control (manager s) (manager s') \<and> same_handles (manager s) (manager s')) s"
  "wp (rebind_commit env nc j h) (\<lambda>r s'. same_control (manager s) (manager s')
     \<and> m_nc (manager s') = m_nc (manager s)) s"
  by (auto simp: onDisconnect_def onClosed_locked_def rebind_commit_def wp_simps same_control_def
      same_handles_def)

subsection \<open>The invariant of the interleavings\<close>

definition pool_ok :: "'w pool \<Rightarrow> bool" where
  "pool_ok c \<longleftrightarrow> (case c of (s, T) \<Rightarrow>
     manager_ok (manager s)
     \<and> size (filter_mset is_start T) = (if m_starting (manager s) then 1 else 0)
     \<and> (\<forall>ch. Starting ch \<in># T \<or> Ending ch \<in># T \<longrightarrow> m_startDone (manager s) = Some ch)
     \<and> size (filter_mset is_close T) = (if m_closing (manager s) then 1 else 0)
     \<and> (\<forall>ch. CloseWaiting ch \<in># T \<longrightarrow> m_startDone (manager s) \<in> {None, Some ch})
     \<and> (\<forall>nco. CloseDraining nco \<in># T \<longrightarrow> m_nc (manager s) = nco \<and> \<not> m_starting (manager s)))"

lemma pool_okI:
  assumes "manager_ok (manager s)"
    and "size (filter_mset is_start T) = (if m_starting (manager s) then 1 else 0)"
    and "\<And>ch. Starting ch \<in># T \<or> Ending ch \<in># T \<Longrightarrow> m_startDone (manager s) = Some ch"
    and "size (filter_mset is_close T) = (if m_closing (manager s) then 1 else 0)"
    and "\<And>ch. CloseWaiting ch \<in># T \<Longrightarrow> m_startDone (manager s) \<in> {None, Some ch}"
    and "\<And>nco. CloseDraining nco \<in># T \<Longrightarrow> m_nc (manager s) = nco \<and> \<not> m_starting (manager s)"
  shows "pool_ok (s, T)"
  using assms unfolding pool_ok_def by blast

lemma pool_okD:
  assumes "pool_ok (s, T)"
  shows "manager_ok (manager s)"
    and "size (filter_mset is_start T) = (if m_starting (manager s) then 1 else 0)"
    and "Starting ch \<in># T \<Longrightarrow> m_startDone (manager s) = Some ch"
    and "Ending ch \<in># T \<Longrightarrow> m_startDone (manager s) = Some ch"
    and "size (filter_mset is_close T) = (if m_closing (manager s) then 1 else 0)"
    and "CloseWaiting ch \<in># T \<Longrightarrow> m_startDone (manager s) \<in> {None, Some ch}"
    and "CloseDraining nco \<in># T \<Longrightarrow> m_nc (manager s) = nco"
    and "CloseDraining nco \<in># T \<Longrightarrow> \<not> m_starting (manager s)"
  using assms unfolding pool_ok_def prod.case by blast+

lemma starting_iff: "manager_ok m \<Longrightarrow> m_starting m \<longleftrightarrow> m_startDone m \<noteq> None"
  by (simp add: manager_ok_def flags_ok_def)

lemma no_thread:
  assumes "size (filter_mset P T) = 0" and "P x"
  shows "x \<notin># T"
proof
  assume "x \<in># T"
  with assms(2) have "x \<in># filter_mset P T" by simp
  with assms(1) show False by auto
qed

lemma no_start_thread:
  assumes "size (filter_mset is_start T) = 0"
  shows "Starting ch \<notin># T" "Ending ch \<notin># T"
  using no_thread [OF assms] by simp_all

lemma no_close_thread:
  assumes "size (filter_mset is_close T) = 0"
  shows "CloseWaiting ch \<notin># T" "CloseDraining nco \<notin># T"
  using no_thread [OF assms] by simp_all

text \<open>A section that leaves control and connection alone keeps the invariant for any pool that the
  invariant held for.\<close>

lemma pool_ok_same:
  assumes "pool_ok (s, T)" and "manager_ok (manager s')" and "same_control (manager s) (manager s')"
    and "m_nc (manager s') = m_nc (manager s)"
  shows "pool_ok (s', T)"
  using assms by (auto simp: pool_ok_def same_control_def)

lemma pool_ok_rebinding [simp]: "pool_ok (s, add_mset (Rebinding nc) T) = pool_ok (s, T)"
  by (auto simp: pool_ok_def)

lemma pool_ok_ending: "pool_ok (s, add_mset (Starting ch) T) = pool_ok (s, add_mset (Ending ch) T)"
  by (auto simp: pool_ok_def)

lemma step_start_enter:
  assumes inv: "pool_ok (s, T)" and run: "run_state (start_begin env) s = (Inr ch, s')"
  shows "pool_ok (s', add_mset (Starting ch) T)"
proof -
  have b: "begun s (Inr ch) s'" by (rule wpD [OF start_begin_spec run])
  have ok: "manager_ok (manager s')"
    using inv wpD [OF ok_start_begin run] by (simp add: pool_ok_def)
  have idle: "size (filter_mset is_start T) = 0" "size (filter_mset is_close T) = 0"
    using inv b by (auto simp: pool_ok_def begun_def)
  show ?thesis
    using b inv ok idle no_start_thread [OF idle(1)] no_close_thread [OF idle(2)]
    by (intro pool_okI) (auto simp: begun_def pool_ok_def)
qed

lemma step_start_publish:
  assumes inv: "pool_ok (s, add_mset (Starting ch) T)" and run: "run_state (start_commit env nc j h) s = (b, s')"
  shows "pool_ok (s', add_mset (Ending ch) T)"
proof -
  note d = pool_okD [OF inv]
  have ok: "manager_ok (manager s')" by (rule wpD [OF ok_start_commit [OF d(1)] run])
  have c: "same_control (manager s) (manager s')" using wpD [OF start_commit_spec run] by simp
  have "m_starting (manager s)" using d(1,3) starting_iff by fastforce
  then have "CloseDraining nco \<notin># T" for nco using d(8) by auto
  then show ?thesis
    using d(2-6) c by (intro pool_okI [OF ok]) (auto simp: same_control_def)
qed

lemma step_start_leave:
  assumes inv: "pool_ok (s, add_mset (Ending ch) T)" and run: "run_state (start_end ch) s = (u, s')"
  shows "pool_ok (s', T)"
proof -
  have sd: "m_startDone (manager s) = Some ch" "manager_ok (manager s)" using inv by (auto simp: pool_ok_def)
  have ok: "manager_ok (manager s')" by (rule wpD [OF ok_start_end [OF sd(2,1)] run])
  have s': "s' = s\<lparr>manager := (manager s)\<lparr>m_startDone := None, m_starting := False\<rparr>\<rparr>"
    using run sd(1) by (simp add: start_end_def modify_manager_def modify_def)
  have st: "m_starting (manager s)" using sd by (simp add: manager_ok_defs)
  have n: "size (filter_mset is_start T) = 0" using inv st by (simp add: pool_ok_def)
  show ?thesis
    using inv ok s' n no_start_thread [OF n] by (intro pool_okI) (auto simp: pool_ok_def)
qed

lemma step_close:
  assumes inv: "pool_ok (s, T)" and run: "run_state (close_begin env) s = (p, s')"
  shows "p = CloseDone \<Longrightarrow> pool_ok (s', T)"
    and "p = CloseWait nco \<Longrightarrow> m_startDone (manager s) = Some ch \<Longrightarrow>
      pool_ok (s', add_mset (CloseWaiting ch) T)"
    and "p = CloseDrain nco \<Longrightarrow> pool_ok (s', add_mset (CloseDraining nco) T)"
proof -
  note d = pool_okD [OF inv]
  have ok: "manager_ok (manager s')" by (rule wpD [OF ok_close_begin [OF d(1)] run])
  note c = wpD [OF close_begin_changes run]
  show "p = CloseDone \<Longrightarrow> pool_ok (s', T)"
    using d(2-8) c by (intro pool_okI [OF ok]) (auto simp: same_handles_def)
  have none: "size (filter_mset is_close T) = 0" if "\<not> m_closing (manager s)"
    using d(5) that by simp
  show "p = CloseWait nco \<Longrightarrow> m_startDone (manager s) = Some ch \<Longrightarrow>
      pool_ok (s', add_mset (CloseWaiting ch) T)"
    using d(2-4) c none no_close_thread
    by (intro pool_okI [OF ok]) (auto simp: same_handles_def)
  show "p = CloseDrain nco \<Longrightarrow> pool_ok (s', add_mset (CloseDraining nco) T)"
    using d(2-4) c none no_close_thread starting_iff [OF d(1)]
    by (intro pool_okI [OF ok]) (auto simp: same_handles_def)
qed

lemma step_close_cancel:
  assumes inv: "pool_ok (s, add_mset (CloseWaiting ch) T)" and run: "run_state (close_canceled env e) s = (r, s')"
  shows "pool_ok (s', T)"
proof -
  have ok: "manager_ok (manager s')" using inv wpD [OF ok_close_canceled run] by (simp add: pool_ok_def)
  note c = wpD [OF close_canceled_changes run]
  have n: "size (filter_mset is_close T) = 0" using inv by (auto simp: pool_ok_def split: if_splits)
  show ?thesis
    using inv ok c n no_close_thread [OF n] by (intro pool_okI) (auto simp: pool_ok_def same_handles_def)
qed

lemma step_close_wake:
  assumes inv: "pool_ok (s, add_mset (CloseWaiting ch) T)" and "m_startDone (manager s) \<noteq> Some ch"
  shows "pool_ok (s, add_mset (CloseDraining (m_nc (manager s))) T)"
proof -
  have "m_startDone (manager s) = None" "manager_ok (manager s)" using assms by (auto simp: pool_ok_def)
  then have ns: "\<not> m_starting (manager s)" by (simp add: manager_ok_defs)
  show ?thesis using inv ns by (intro pool_okI) (auto simp: pool_ok_def)
qed

lemma step_close_end:
  assumes inv: "pool_ok (s, add_mset (CloseDraining nco) T)" and run: "run_state (close_finish env e) s = (r, s')"
  shows "pool_ok (s', T)"
proof -
  have ok: "manager_ok (manager s')" using inv wpD [OF ok_close_finish run] by (simp add: pool_ok_def)
  note c = wpD [OF close_finish_changes run]
  have n: "size (filter_mset is_close T) = 0" using inv by (auto simp: pool_ok_def split: if_splits)
  show ?thesis
    using inv ok c n no_close_thread [OF n] by (intro pool_okI) (auto simp: pool_ok_def)
qed

lemma pool_ok_step: "session_step env c c' \<Longrightarrow> pool_ok c \<Longrightarrow> pool_ok c'"
proof (induction rule: session_step.induct)
  case (start_refuse s r s' T)
  then show ?case
    using wpD [OF start_begin_spec start_refuse(1)] by (auto simp: begun_def pool_ok_def)
next
  case (start_fail e s u s' ch T)
  have ok: "manager_ok (manager s')"
    using start_fail(2) wpD [OF ok_setDegraded start_fail(1)] by (simp add: pool_ok_def)
  show ?case
    using pool_ok_same [OF _ ok] start_fail(2) wpD [OF degraded_changes start_fail(1)]
    by (auto simp: pool_ok_ending same_handles_def)
next
  case (disconnect e s u s' T)
  have ok: "manager_ok (manager s')"
    using disconnect(2) wpD [OF ok_onDisconnect disconnect(1)] by (simp add: pool_ok_def)
  show ?case
    using pool_ok_same [OF disconnect(2) ok] wpD [OF callback_changes(1) disconnect(1)]
    by (auto simp: same_handles_def)
next
  case (closed s fn s' T)
  have ok: "manager_ok (manager s')"
    using closed(2) wpD [OF ok_onClosed_locked closed(1)] by (simp add: pool_ok_def)
  show ?case
    using pool_ok_same [OF closed(2) ok] wpD [OF callback_changes(2) closed(1)]
    by (auto simp: same_handles_def)
next
  case (rebind_fail e s u s' nc T)
  have inv: "pool_ok (s, T)" using rebind_fail(2) by simp
  have ok: "manager_ok (manager s')"
    using inv wpD [OF ok_setDegraded rebind_fail(1)] by (simp add: pool_ok_def)
  show ?case
    using pool_ok_same [OF inv ok] wpD [OF degraded_changes rebind_fail(1)]
    by (auto simp: same_handles_def)
next
  case (rebind_publish nc j h s fn s' T)
  have inv: "pool_ok (s, T)" using rebind_publish(2) by simp
  have ok: "manager_ok (manager s')"
    using inv wpD [OF ok_rebind_commit rebind_publish(1)] by (simp add: pool_ok_def)
  show ?case
    using pool_ok_same [OF inv ok] wpD [OF callback_changes(3) rebind_publish(1)] by auto
next
  case (world s T x)
  then show ?case by (simp add: pool_ok_def)
next
  case start_enter
  then show ?case by (blast intro: step_start_enter)
next
  case start_publish
  then show ?case by (blast intro: step_start_publish)
next
  case start_leave
  then show ?case by (blast intro: step_start_leave)
next
  case close_nothing
  then show ?case by (blast intro: step_close(1))
next
  case close_wait
  then show ?case by (blast intro: step_close(2))
next
  case close_direct
  then show ?case by (blast intro: step_close(3))
next
  case close_cancel
  then show ?case by (blast intro: step_close_cancel)
next
  case close_wake
  then show ?case by (blast intro: step_close_wake)
next
  case close_end
  then show ?case by (blast intro: step_close_end)
next
  case (reconnect s T nc)
  then show ?case by simp
qed

lemma NewManager_idle:
  "NewManager consts cfg hooks = Inr m \<Longrightarrow> \<not> m_starting m \<and> \<not> m_closing m"
  by (auto simp: NewManager_def)

lemma pool_ok_reach: "session_reach env c \<Longrightarrow> pool_ok c"
proof (induction rule: session_reach.induct)
  case (fresh ncs cfg hooks m cs x)
  show ?case
    by (rule pool_okI) (use manager_ok_New [OF fresh] NewManager_idle [OF fresh] in simp_all)
next
  case (more c c')
  then show ?case by (blast intro: pool_ok_step)
qed

end
