(* ===== verification/Client_Steps.thy ===== *)
theory Client_Steps
  imports Client_Lifecycle Session_Steps
begin

text \<open>
  The client as a state machine: one step is one call of its public API, one message delivered to a
  subscription, or one callback of the NATS client library with the hooks it runs.  The invariant
  of the reachable states is what the components promise each other.
\<close>

subsection \<open>Operations that leave the subscriptions alone\<close>

definition harmless_call :: "call \<Rightarrow> bool" where
  "harmless_call c \<longleftrightarrow> made_by c = {} \<and> dropped_by c = {}"

definition harmless_rel :: "('w, 'm) client_scheme \<Rightarrow> ('w, 'm) client_scheme \<Rightarrow> bool" where
  "harmless_rel s t \<longleftrightarrow> same_client s t \<and> (\<exists>new. calls t = calls s @ new \<and> (\<forall>S. opens S new = S))"

interpretation harmless: call_frame harmless_rel harmless_call
proof
  fix s t u :: "('a, 'b) client_scheme"
  assume "harmless_rel s t" "harmless_rel t u"
  then show "harmless_rel s u"
    by (auto simp: harmless_rel_def intro: same_client_trans)
qed (auto simp: harmless_rel_def same_client_def harmless_call_def)

abbreviation harmless :: "('w, 'm, 'a) client_op \<Rightarrow> bool" where
  "harmless \<equiv> harmless.frames"

lemma harmless_calls [simp]:
  "harmless_call (KvPut h key data p)" "harmless_call (KvGet h key g)" "harmless_call (KvWatch h key w)"
  "harmless_call (WatcherStop x)" "harmless_call (Cancel c)" "harmless_call (NcPublish nc subject data e)"
  "harmless_call (NcFlush nc c e)" "harmless_call (ErrorSink err)" "harmless_call (Log lvl msg kvs)"
  "harmless_call (IncPublish k subject r)" "harmless_call (ObservePublishLatency k subject d)"
  "harmless_call (IncSubscribe k subject r)" "harmless_call (RunHandler i c m out)" "harmless_call (AwaitReady o')"
  by (simp_all add: harmless_call_def)

lemma harmless_try_then: "harmless p \<Longrightarrow> (\<And>x. harmless (f x)) \<Longrightarrow> harmless (try_then p f)"
  unfolding try_then_def by (intro harmless.frame_rules)

lemma harmless_quiet: "quiet p \<Longrightarrow> harmless p"
  unfolding harmless.frames_def
  by (intro allI, drule quietD, erule wp_mono) (simp add: harmless_rel_def same_client_def)

lemma harmless_provider:
  "harmless (rp_KeyValue (session_provider env))" "harmless (rp_DesiredConfigBucket (session_provider env))"
  "harmless (rp_DesiredConfigKeyPattern (session_provider env))" "harmless (rp_KVTimeout (session_provider env))"
  by (auto simp: session_provider_def intro: harmless_quiet KeyValue_quiet harmless.frames_gets)

lemma harmless_kv_parts:
  "harmless (kv_withTimeout env co d)" "harmless (kvPut env c h key data)" "harmless (kvGet env c h key)"
  "harmless (reportAsync env sink err)"
  unfolding kv_withTimeout_def kvPut_def kvGet_def reportAsync_def
  by (intro harmless.frame_rules; simp)+

lemma harmless_gets: "(\<And>s. harmless (f (g s))) \<Longrightarrow> harmless (State_Monad.bind (gets g) f)"
  by (simp add: harmless.frames_def wp_bind wp_gets)

lemmas harmless_rules = harmless.frame_rules harmless_try_then harmless_provider harmless_kv_parts

lemma harmless_store:
  "harmless (kv_StoreDesiredConfig env \<lparr>st_runtime = session_provider env', st_errorSink = sink\<rparr> co rec)"
  unfolding kv_StoreDesiredConfig_def kv_writeRecord_def Store.simps by (intro harmless_rules)

lemma harmless_load:
  "harmless (kv_LoadDesiredConfig env \<lparr>st_runtime = session_provider env', st_errorSink = sink\<rparr> co target)"
  unfolding kv_LoadDesiredConfig_def Store.simps by (intro harmless_rules)

lemma harmless_publish:
  "harmless (Publish env \<lparr>pb_conn = Connection env', pb_publishTimeout = session_publishTimeout,
     pb_metrics = metrics\<rparr> co op k subject payload)"
  unfolding Publish_def sendAndFlush_def flushAndCount_def publishContext_def incPublish_def
    observePublishLatency_def session_publishTimeout_def Publisher.simps
  by (intro harmless_rules harmless_quiet [OF Connection_quiet]; simp)

lemma harmless_client_parts:
  "harmless (StoreDesiredConfig env co rec)" "harmless (LoadDesiredConfig env co target)"
  "harmless (c_publish env co op k subject payload)" "harmless (validateOperationContext env op co)"
  unfolding StoreDesiredConfig_def LoadDesiredConfig_def c_publish_def c_kv_def c_publisher_def
    validateOperationContext_def
  by (intro harmless_gets harmless.frame_rules harmless_store harmless_load harmless_publish)+

lemma harmless_operations:
  "harmless (SubmitConfigure env co cmd)" "harmless (SubmitAction env co act)"
  "harmless (PublishResult env co res)" "harmless (PublishStatus env co st)"
  unfolding SubmitConfigure_def SubmitAction_def PublishResult_def PublishStatus_def publishEnvelope_def
  by (intro harmless_rules harmless_client_parts)+

subsection \<open>The invariant\<close>

definition client_inv :: "('w, 'm) client_scheme \<Rightarrow> bool" where
  "client_inv s \<longleftrightarrow> manager_ok (manager s) \<and> \<not> m_starting (manager s) \<and> \<not> m_closing (manager s)
     \<and> config_ok (m_EffectiveConfig (manager s))
     \<and> NewBuilder (patterns (c_subjects s)) = Inr (c_subjects s)
     \<and> registry_inv (c_subscriptions s) \<and> synced s \<and> no_leak s
     \<and> (c_callbacksEnabled s \<longrightarrow> c_handlerCtx s \<noteq> None)
     \<and> distinct (map fst (c_watches s))"

lemma client_invD:
  assumes "client_inv s"
  shows "manager_ok (manager s)" "\<not> m_starting (manager s)" "\<not> m_closing (manager s)"
    "registry_inv (c_subscriptions s)" "synced s" "no_leak s"
    "c_callbacksEnabled s \<longrightarrow> c_handlerCtx s \<noteq> None" "distinct (map fst (c_watches s))"
  using assms by (simp_all add: client_inv_def)

lemma client_inv_New:
  assumes "consts_ok ncs" and "New ncs env cfg opts [] w = Inr s"
  shows "client_inv s"
  using New_spec [OF assms]
  by (simp add: fresh_client_def client_inv_def no_leak_def open_subs_def)

text \<open>A step that keeps manager, registry and settings keeps the invariant.\<close>

lemma client_inv_harmless:
  assumes inv: "client_inv s" and t: "harmless_rel s t"
  shows "client_inv t"
proof -
  have sc: "same_client s t" using t by (simp add: harmless_rel_def)
  note d = same_clientD [OF sc]
  have "open_subs t = open_subs s" using t by (auto simp: harmless_rel_def open_subs_after)
  with inv d show ?thesis by (simp add: client_inv_def synced_def no_leak_def)
qed

lemma client_inv_registry:
  assumes inv: "client_inv s" and t: "registry_frame s t"
    "registry_inv (c_subscriptions t)" "synced t" "no_leak t"
  shows "client_inv t"
proof -
  have c: "counts_only (manager s) (manager t)" using t(1) by (simp add: registry_frame_def)
  show ?thesis
    using inv t counts_only_fields [OF c] counts_only_ok [OF c]
    by (auto simp: client_inv_def registry_frame_def m_EffectiveConfig_def)
qed

lemma client_inv_sound:
  assumes inv: "client_inv s" and t: "sound_after s t" "\<not> m_closing (manager t)"
    "c_callbacksEnabled t \<longrightarrow> c_handlerCtx t \<noteq> None" "distinct (map fst (c_watches t))"
  shows "client_inv t"
  using inv t by (auto simp: client_inv_def sound_after_def m_EffectiveConfig_def)

subsection \<open>Programs that keep it\<close>

definition keeps_inv :: "('w, 'm, 'a) client_op \<Rightarrow> bool" where
  "keeps_inv p \<longleftrightarrow> (\<forall>s. client_inv s \<longrightarrow> wp p (\<lambda>r t. client_inv t) s)"

lemma keeps_invI: "(\<And>s. client_inv s \<Longrightarrow> wp p (\<lambda>r t. client_inv t) s) \<Longrightarrow> keeps_inv p"
  by (simp add: keeps_inv_def)

lemma keeps_invD: "keeps_inv p \<Longrightarrow> client_inv s \<Longrightarrow> wp p (\<lambda>r t. client_inv t) s"
  by (simp add: keeps_inv_def)

lemma keeps_inv_run: "keeps_inv p \<Longrightarrow> client_inv s \<Longrightarrow> run_state p s = (r, t) \<Longrightarrow> client_inv t"
  by (rule wpD [OF keeps_invD])

lemma keeps_return: "keeps_inv (return x)"
  by (rule keeps_invI) (simp add: wp_return)

lemma keeps_bind:
  fixes p :: "('w, 'm, 'a) client_op" and f :: "'a \<Rightarrow> ('w, 'm, 'b) client_op"
  assumes "keeps_inv p" and "\<And>x. keeps_inv (f x)"
  shows "keeps_inv (State_Monad.bind p f)"
proof (rule keeps_invI)
  fix s :: "('w, 'm) client_scheme"
  assume "client_inv s"
  then show "wp (State_Monad.bind p f) (\<lambda>r t. client_inv t) s"
    unfolding wp_bind by (rule wp_mono [OF keeps_invD [OF assms(1)] keeps_invD [OF assms(2)]])
qed

lemma keeps_cases:
  "keeps_inv m \<Longrightarrow> (\<And>y. keeps_inv (f y)) \<Longrightarrow> keeps_inv (case x of None \<Rightarrow> m | Some y \<Rightarrow> f y)"
  "(\<And>e. keeps_inv (g e)) \<Longrightarrow> (\<And>y. keeps_inv (h y)) \<Longrightarrow> keeps_inv (case z of Inl e \<Rightarrow> g e | Inr y \<Rightarrow> h y)"
  "keeps_inv m \<Longrightarrow> keeps_inv n \<Longrightarrow> keeps_inv (if b then m else n)"
  by (auto split: option.split sum.split)

lemma keeps_harmless: "harmless p \<Longrightarrow> keeps_inv p"
  by (rule keeps_invI, rule wp_mono [OF harmless.framesD]) (auto intro: client_inv_harmless)

text \<open>A section of the session that keeps the manager's own invariant and its two flags.\<close>

lemma keeps_session:
  fixes p :: "('w, 'm, 'a) client_op"
  assumes plain: "plain p"
    and sec: "\<And>s. manager_ok (manager s) \<Longrightarrow> wp p (\<lambda>r t. manager_ok (manager t)
      \<and> m_starting (manager t) = m_starting (manager s) \<and> m_closing (manager t) = m_closing (manager s)) s"
  shows "keeps_inv p"
proof (rule keeps_invI)
  fix s :: "('w, 'm) client_scheme"
  assume inv: "client_inv s"
  have "wp p (\<lambda>r t. session_side s t \<and> manager_ok (manager t)
      \<and> m_starting (manager t) = m_starting (manager s) \<and> m_closing (manager t) = m_closing (manager s)) s"
    unfolding wp_conj [of p "\<lambda>r t. session_side s t"]
    using plain_client [OF plain] sec client_invD(1) [OF inv] by blast
  then show "wp p (\<lambda>r t. client_inv t) s"
  proof (rule wp_mono)
    fix r and t :: "('w, 'm) client_scheme"
    assume t: "session_side s t \<and> manager_ok (manager t)
      \<and> m_starting (manager t) = m_starting (manager s) \<and> m_closing (manager t) = m_closing (manager s)"
    then have d: "session_side s t" by simp
    have "c_subjects t = c_subjects s" "m_effective (manager t) = m_effective (manager s)"
      using session_sideD [OF d] by auto
    then show "client_inv t"
      using inv t session_sideD [OF d] by (simp add: client_inv_def m_EffectiveConfig_def)
  qed
qed

subsection \<open>The public operations\<close>

lemma keeps_operations:
  "keeps_inv (SubmitConfigure env co cmd)" "keeps_inv (SubmitAction env co act)"
  "keeps_inv (PublishResult env co res)" "keeps_inv (PublishStatus env co st)"
  "keeps_inv (StoreDesiredConfig env co rec)" "keeps_inv (LoadDesiredConfig env co target)"
  by (intro keeps_harmless harmless_operations harmless_client_parts)+

lemma deliver_inv:
  fixes s :: "('w, 'm) client_scheme"
  assumes inv: "client_inv s"
  shows "wp (deliver env cb mo) (\<lambda>r t. client_inv t) s"
proof -
  have opens: "opens S new = S" if "made new = {}" "dropped new = {}" for S and new :: "call list"
    using that by (induction new arbitrary: S) auto
  show ?thesis
    by (rule wp_mono [OF deliver_spec])
       (rule client_inv_harmless [OF inv], auto simp: dispatched_def harmless_rel_def opens)
qed

lemma Start_inv:
  fixes s :: "('w, 'm) client_scheme"
  assumes inv: "client_inv s"
  shows "wp (c_Start env co) (\<lambda>r t. client_inv t) s"
proof (rule wp_mono [OF c_Start_spec [OF client_invD(1,4) [OF inv]]])
  note i = client_invD [OF inv]
  fix r :: "goerr option" and t :: "('w, 'm) client_scheme"
  assume t: "client_started s r t"
  have "c_callbacksEnabled t \<longrightarrow> c_handlerCtx t \<noteq> None"
    using t i(7) client_frame [of t s] by (cases r) (auto simp: client_started_def)
  then show "client_inv t"
    using t i by (intro client_inv_sound [OF inv]) (auto simp: client_started_def)
qed

lemma Close_inv:
  fixes s :: "('w, 'm) client_scheme"
  assumes inv: "client_inv s"
  shows "wp (c_Close env (return ()) co) (\<lambda>r t. client_inv t) s"
  by (rule wp_mono [OF c_Close_spec [OF client_invD(1,4,3,2) [OF inv]]], rule client_inv_sound [OF inv])
     (auto simp: client_closed_def torn_down_def)

lemma keeps_handled:
  assumes inv: "client_inv s" and t: "handled so s r t"
  shows "client_inv t"
  using t client_invD [OF inv] inv
  by (auto simp: handled_def registered_def split: option.splits intro: client_inv_registry)

lemma register_inv:
  fixes s :: "('w, 'm) client_scheme"
  assumes inv: "client_inv s" and room: "counter_room 1 (c_subscriptions s)"
  shows "wp (registerConfigureHandler env target handler opts) (\<lambda>r t. client_inv t) s"
    "wp (registerActionHandler env target action handler opts) (\<lambda>r t. client_inv t) s"
    "wp (registerResultHandler env target handler opts) (\<lambda>r t. client_inv t) s"
    "wp (registerStatusHandler env target handler opts) (\<lambda>r t. client_inv t) s"
proof -
  note i = client_invD(4) [OF inv]
  show "wp (registerConfigureHandler env target handler opts) (\<lambda>r t. client_inv t) s"
    by (rule wp_mono [OF registerConfigureHandler_spec [OF i room] keeps_handled [OF inv]])
  show "wp (registerActionHandler env target action handler opts) (\<lambda>r t. client_inv t) s"
    by (rule wp_mono [OF registerActionHandler_spec [OF i room] keeps_handled [OF inv]])
  show "wp (registerResultHandler env target handler opts) (\<lambda>r t. client_inv t) s"
    by (rule wp_mono [OF registerResultHandler_spec [OF i room] keeps_handled [OF inv]])
  show "wp (registerStatusHandler env target handler opts) (\<lambda>r t. client_inv t) s"
    by (rule wp_mono [OF registerStatusHandler_spec [OF i room] keeps_handled [OF inv]])
qed

lemma Watch_inv:
  fixes s :: "('w, 'm) client_scheme"
  assumes inv: "client_inv s"
  shows "wp (WatchDesiredConfig env co target handler) (\<lambda>r t. client_inv t) s"
proof (rule wp_mono [OF WatchDesiredConfig_spec])
  fix r :: "64 word result" and t :: "('w, 'm) client_scheme"
  assume t: "watch_started target s r t"
  then obtain new where new: "calls t = calls s @ new" "made new = {}" "dropped new = {}"
    "c_watches t = c_watches s \<or> (\<exists>n w. c_watches t = alist_put n w (c_watches s))"
    unfolding watch_started_def using watch_calls_quiet by (cases r) fastforce+
  have "opens S new = S" for S using new(2,3) by (induction new arbitrary: S) auto
  then have "open_subs t = open_subs s" using new(1) by (simp add: open_subs_after)
  moreover have "distinct (map fst (c_watches t))" using client_invD(8) [OF inv] new(4) by auto
  ultimately show "client_inv t"
    using inv t by (simp add: client_inv_def watch_started_def synced_def no_leak_def)
qed

lemma keeps_stop: "keeps_inv (kv_stop env w b)"
  unfolding kv_stop_def stopWatcher_def by (intro keeps_harmless harmless.frame_rules; simp)

lemma stopTracked_inv:
  fixes s :: "('w, 'm) client_scheme"
  assumes inv: "client_inv s"
  shows "wp (stopTracked env n) (\<lambda>r t. client_inv t) s"
proof -
  let ?s = "s\<lparr>c_watches := alist_del n (c_watches s)\<rparr>"
  have inv': "client_inv ?s"
    using inv by (simp add: client_inv_def synced_def no_leak_def open_subs_def)
  have "keeps_inv (case map_of (c_watches s) n of None \<Rightarrow> return None | Some w \<Rightarrow> kv_stop env w False)"
    by (intro keeps_cases keeps_return keeps_stop)
  from keeps_invD [OF this inv'] show ?thesis
    by (simp add: stopTracked_def wp_bind wp_gets wp_modify)
qed

lemma keeps_lifecycle:
  "keeps_inv (c_Start env co)" "keeps_inv (c_Close env (return ()) co)" "keeps_inv (deliver env cb mo)"
  "keeps_inv (WatchDesiredConfig env co target handler)" "keeps_inv (stopTracked env n)"
  by (rule keeps_invI, rule Start_inv Close_inv deliver_inv Watch_inv stopTracked_inv, assumption)+

subsection \<open>Callbacks of the client library\<close>

lemma client_inv_beside:
  assumes inv: "client_inv s" and t: "counts_only (manager s) (manager t)" "c_subjects t = c_subjects s"
    "c_watches t = c_watches s" "c_callbacksEnabled t \<longrightarrow> c_handlerCtx t \<noteq> None"
    "registry_inv (c_subscriptions t)" "synced t" "no_leak t"
  shows "client_inv t"
  using inv t counts_only_fields [OF t(1)] counts_only_ok [OF t(1)]
  by (auto simp: client_inv_def m_EffectiveConfig_def)

lemma hook_inv:
  fixes s :: "('w, 'm) client_scheme"
  assumes inv: "client_inv s"
  shows "wp (onSessionReconnected env) (\<lambda>r t. client_inv t) s"
    and "wp (onSessionClosed env) (\<lambda>r t. client_inv t) s"
proof -
  note i = client_invD [OF inv]
  show "wp (onSessionReconnected env) (\<lambda>r t. client_inv t) s"
  proof (rule wp_mono [OF onSessionReconnected_spec [OF i(4)]])
    fix r and t :: "('w, 'm) client_scheme"
    assume t: "if c_callbacksEnabled s then reconnected env s t else t = s"
    show "client_inv t"
    proof (cases "c_callbacksEnabled s")
      case True
      with t have "beside_registry s t" "reconnected env s t" by (auto simp: reconnected_def)
      with i show ?thesis
        by (intro client_inv_beside [OF inv]) (simp_all add: beside_registry_def reconnected_def)
    next
      case False
      with t inv show ?thesis by simp
    qed
  qed
  show "wp (onSessionClosed env) (\<lambda>r t. client_inv t) s"
    by (rule wp_mono [OF onSessionClosed_spec [OF i(4)]], rule client_inv_beside [OF inv])
       (use i in \<open>auto simp: silenced_def no_leak_def\<close>)
qed

lemma keeps_hooks: "keeps_inv (onSessionReconnected env)" "keeps_inv (onSessionClosed env)"
  by (rule keeps_invI, rule hook_inv, assumption)+

lemma keeps_run_hook: "keeps_inv (run_hook env i)"
  unfolding run_hook_def by (intro keeps_cases keeps_hooks keeps_return)

lemma keeps_callback: "keeps_inv (run_callback (run_hook env) fn)"
  unfolding run_callback_def by (intro keeps_cases keeps_run_hook keeps_return)

lemma plain_callbacks: "plain (onDisconnect env e)" "plain (onClosed_locked env)" "plain (rebind_commit env nc j h)"
  unfolding onDisconnect_def onClosed_locked_def rebind_commit_def
  by (intro plain_rules plain_parts plain_modify; simp)+

lemma control_kept:
  "wp (onDisconnect env e) (\<lambda>r t. same_control (manager s) (manager t)) s"
  "wp (onClosed_locked env) (\<lambda>r t. same_control (manager s) (manager t)) s"
  "wp (rebind_commit env nc j h) (\<lambda>r t. same_control (manager s) (manager t)) s"
  "wp (setDegradedLocked env e) (\<lambda>r t. same_control (manager s) (manager t)) s"
  by (rule wp_mono, rule callback_changes degraded_changes, simp)+

lemma keeps_section:
  fixes p :: "('w, 'm, 'a) client_op"
  assumes "plain p"
    and ok: "\<And>s. manager_ok (manager s) \<Longrightarrow> wp p (\<lambda>r t. manager_ok (manager t)) s"
    and same: "\<And>s. wp p (\<lambda>r t. same_control (manager s) (manager t)) s"
  shows "keeps_inv p"
proof (rule keeps_session [OF assms(1)])
  fix s :: "('w, 'm) client_scheme"
  assume "manager_ok (manager s)"
  then have "wp p (\<lambda>r t. manager_ok (manager t) \<and> same_control (manager s) (manager t)) s"
    unfolding wp_conj using ok same by blast
  then show "wp p (\<lambda>r t. manager_ok (manager t) \<and> m_starting (manager t) = m_starting (manager s)
      \<and> m_closing (manager t) = m_closing (manager s)) s"
    by (rule wp_mono) (simp add: same_control_def)
qed

lemma keeps_sections:
  "keeps_inv (onDisconnect env e)" "keeps_inv (onClosed_locked env)" "keeps_inv (rebind_commit env nc j h)"
  "keeps_inv (setDegradedLocked env e')"
  by (rule keeps_section, rule plain_callbacks plain_setters,
      rule ok_onDisconnect ok_onClosed_locked ok_rebind_commit ok_setDegraded, assumption, rule control_kept)+

lemma keeps_async: "keeps_inv (onAsyncError env eo)"
  unfolding onAsyncError_def
  by (intro keeps_harmless harmless.frame_rules; simp add: harmless_call_def)

lemma keeps_rebind_parts:
  "keeps_inv (gets g)" "keeps_inv (WithTimeout env c d)" "keeps_inv (newJetStream env nc)"
  "keeps_inv (bindOrCreateKV env c j)"
  unfolding newJetStream_def bindOrCreateKV_def
  by (intro keeps_harmless harmless.frame_rules; simp add: harmless_call_def)+

lemma keeps_callbacks:
  "keeps_inv (onClosed env (run_hook env'))" "keeps_inv (onReconnect env (run_hook env') nc)"
  unfolding onClosed_def onReconnect_def rebindAfterReconnect_def
  by (intro keeps_bind keeps_cases keeps_return keeps_sections keeps_callback keeps_rebind_parts keeps_async)+

subsection \<open>Steps and reachable clients\<close>

inductive client_step :: "('w, 'e) client_env_scheme \<Rightarrow> 'w client \<Rightarrow> 'w client \<Rightarrow> bool" for env where
  start: "run_state (c_Start env co) s = (r, t) \<Longrightarrow> client_step env s t"
| close: "run_state (c_Close env (return ()) co) s = (r, t) \<Longrightarrow> client_step env s t"
| register_configure: "run_state (registerConfigureHandler env target h opts) s = (r, t) \<Longrightarrow>
     counter_room 1 (c_subscriptions s) \<Longrightarrow> client_step env s t"
| register_action: "run_state (registerActionHandler env target action h opts) s = (r, t) \<Longrightarrow>
     counter_room 1 (c_subscriptions s) \<Longrightarrow> client_step env s t"
| register_result: "run_state (registerResultHandler env target h opts) s = (r, t) \<Longrightarrow>
     counter_room 1 (c_subscriptions s) \<Longrightarrow> client_step env s t"
| register_status: "run_state (registerStatusHandler env target h opts) s = (r, t) \<Longrightarrow>
     counter_room 1 (c_subscriptions s) \<Longrightarrow> client_step env s t"
| submit_configure: "run_state (SubmitConfigure env co cmd) s = (ack, t) \<Longrightarrow> client_step env s t"
| submit_action: "run_state (SubmitAction env co act) s = (ack, t) \<Longrightarrow> client_step env s t"
| publish_result: "run_state (PublishResult env co res) s = (r, t) \<Longrightarrow> client_step env s t"
| publish_status: "run_state (PublishStatus env co st) s = (r, t) \<Longrightarrow> client_step env s t"
| store: "run_state (StoreDesiredConfig env co rec) s = (stored, t) \<Longrightarrow> client_step env s t"
| load: "run_state (LoadDesiredConfig env co target) s = (loaded, t) \<Longrightarrow> client_step env s t"
| watch: "run_state (WatchDesiredConfig env co target wh) s = (n, t) \<Longrightarrow> client_step env s t"
| stop: "run_state (stopTracked env n) s = (r, t) \<Longrightarrow> client_step env s t"
| message: "run_state (deliver env cb m) s = (u, t) \<Longrightarrow> client_step env s t"
| disconnected: "run_state (onDisconnect env e) s = (u, t) \<Longrightarrow> client_step env s t"
| reconnected: "run_state (onReconnect env (run_hook env) nc) s = (u, t) \<Longrightarrow> client_step env s t"
| closed: "run_state (onClosed env (run_hook env)) s = (u, t) \<Longrightarrow> client_step env s t"
| async_error: "run_state (onAsyncError env e) s = (u, t) \<Longrightarrow> client_step env s t"
| world: "client_step env s (s\<lparr>ext := x\<rparr>)"

inductive client_reach :: "('w, 'e) client_env_scheme \<Rightarrow> 'w client \<Rightarrow> bool" for env where
  new: "consts_ok ncs \<Longrightarrow> New ncs env cfg opts [] w = Inr s \<Longrightarrow> client_reach env s"
| more: "client_reach env s \<Longrightarrow> client_step env s t \<Longrightarrow> client_reach env t"

inductive_cases client_stepE [elim]: "client_step env s t"

lemma client_inv_step:
  assumes "client_step env s t" and inv: "client_inv s"
  shows "client_inv t"
  using assms(1)
proof (cases rule: client_step.cases)
  case world
  have "harmless_rel s (s\<lparr>ext := x\<rparr>)" for x
    by (rule harmless.rel_ext)
  with world inv show ?thesis by (auto intro: client_inv_harmless)
qed ((erule keeps_inv_run [OF _ inv, rotated],
       rule keeps_lifecycle keeps_operations keeps_sections keeps_callbacks keeps_async)
     | (erule wpD [OF register_inv(1) [OF inv], rotated] wpD [OF register_inv(2) [OF inv], rotated]
          wpD [OF register_inv(3) [OF inv], rotated] wpD [OF register_inv(4) [OF inv], rotated], assumption))+

lemma client_inv_reach: "client_reach env s \<Longrightarrow> client_inv s"
  by (induction rule: client_reach.induct) (auto intro: client_inv_New client_inv_step)

end
