(* ===== verification/Client_Frames.thy ===== *)
theory Client_Frames
  imports Client_Steps
begin

text \<open>
  What the operations of a client leave alone, whatever state they start in: only \<open>WatchDesiredConfig\<close>
  hands out a watch number (\<open>trackWatch\<close> in \<open>agentcore/client.go\<close>), and only the four register
  functions add registrations, each of its own kind.  So a number handed out is one that no tracked
  watch has as long as the 64-bit counter has not wrapped around, and every registration of a reachable
  client is of one of the four kinds.
\<close>

subsection \<open>Operations that track no watch and register no foreign kind\<close>

definition known_kind :: "kind \<Rightarrow> bool" where
  "known_kind k \<longleftrightarrow> k \<in> {KindConfigure, KindAction, KindResult, KindStatus}"

definition kinds_from :: "Registry \<Rightarrow> Registry \<Rightarrow> bool" where
  "kinds_from R R' \<longleftrightarrow> (\<forall>rid i. intents R' rid = Some i \<longrightarrow> known_kind (intent_kind i) \<or> intents R rid = Some i)"

lemma kinds_from_same [simp]: "intents R' = intents R \<Longrightarrow> kinds_from R R'"
  by (simp add: kinds_from_def)

lemma kinds_from_trans: "kinds_from R R' \<Longrightarrow> kinds_from R' R'' \<Longrightarrow> kinds_from R R''"
  unfolding kinds_from_def by blast

lemma kinds_from_Remove [simp]: "kinds_from R (snd (Remove R rid))"
  by (simp add: kinds_from_def intents_Remove)

lemma kinds_from_publish [simp]: "kinds_from R (snd (publish_handle rid sb R))"
  by (simp add: publish_handle_def)

lemma kinds_from_Add [simp]: "known_kind (spec_Kind spec) \<Longrightarrow> kinds_from R (snd (Add R spec))"
  by (auto simp: kinds_from_def Add_def Let_def intents_def newEntry_def intent_of_def split: option.splits if_splits)

definition settled :: "('w, 'm) client_scheme \<Rightarrow> ('w, 'm) client_scheme \<Rightarrow> bool" where
  "settled s t \<longleftrightarrow> c_nextWatchID t = c_nextWatchID s \<and> set (c_watches t) \<subseteq> set (c_watches s)
     \<and> kinds_from (c_subscriptions s) (c_subscriptions t)"

interpretation settle: call_frame settled "\<lambda>_. True"
  by unfold_locales (auto simp: settled_def intro: kinds_from_trans)

abbreviation settles :: "('w, 'm, 'a) client_op \<Rightarrow> bool" where
  "settles \<equiv> settle.frames"

lemma same_client_settled: "same_client s t \<Longrightarrow> settled s t"
  using same_clientD [of s t] by (simp add: settled_def)

lemma settles_harmless: "harmless p \<Longrightarrow> settles p"
  unfolding settle.frames_def
  by (intro allI, rule wp_mono [OF harmless.framesD]) (auto simp: harmless_rel_def intro: same_client_settled)

lemma plain_settled: "plain_rel s t \<Longrightarrow> settled s t"
  using client_frame [of t s] by (simp add: plain_rel_def settled_def)

lemma settles_plain: "plain p \<Longrightarrow> settles p"
  unfolding settle.frames_def by (intro allI, rule wp_mono [OF plain.framesD]) (auto intro: plain_settled)

lemma settles_notes: "takes_notes p \<Longrightarrow> settles p"
  unfolding settle.frames_def by (intro allI, erule wp_notes) (rule same_client_settled)

lemma settles_registry: "(\<And>R. kinds_from R (snd (f R))) \<Longrightarrow> settles (with_registry f)"
  by (simp add: settle.frames_def wp_with_registry settled_def)

lemma settles_client: "(\<And>s. wp p (\<lambda>r t. same_client s t) s) \<Longrightarrow> settles p"
  unfolding settle.frames_def by (blast intro: wp_mono same_client_settled)

lemma settles_sub_step:
  "settles (cleanupSubscription env so op rid subject msg)" "settles (unsubscribe env sb)"
  "settles (unsubscribe_each env op hs joined)"
  by (rule settles_client, rule wp_mono [OF cleanup_spec] wp_mono [OF unsubscribe_spec] wp_mono [OF unsubscribe_each_spec],
      simp add: sub_step_def)+

lemma settles_create: "settles (createSubscriptionForRecord env rec op)"
  by (rule settles_client, rule wp_mono [OF create_spec]) (auto simp: subscribed_def sub_step_def split: sum.splits)

lemma settles_sync: "settles syncSubscriptionHealth"
  by (simp add: settle.frames_def syncSubscriptionHealth_def wp_simps split_beta settled_def)

lemmas settles_rules = settle.frame_rules settles_registry settles_sub_step settles_create settles_sync
  settles_notes [OF notes_log] settles_notes [OF notes_metric] settles_notes [OF notes_sink]

lemma settles_activate: "settles (activateRecord env rec force op)"
  unfolding activateRecord_def by (intro settles_rules TrueI; simp)

lemma settles_activate_each: "settles (activate_each env force op recs joined)"
proof (induction recs arbitrary: joined)
  case (Cons rec recs)
  then show ?case unfolding activate_each.simps by (intro settles_rules settles_activate)
qed (simp add: settle.frames_return)

lemma settles_activations:
  "settles (activateAllRegisteredSubscriptions env op)" "settles (restoreAllRegisteredSubscriptions env)"
  "settles (activateAfterRegistration env rid op)" "settles (deactivateAllSubscriptions env op)"
  "settles (rollbackRegistration env rid op)"
  unfolding activateAllRegisteredSubscriptions_def restoreAllRegisteredSubscriptions_def
    activateAfterRegistration_def activateRegisteredSubscriptionByID_def activationRecordByID_def
    deactivateAllSubscriptions_def rollbackRegistration_def
  by (intro settles_rules settles_activate settles_activate_each; simp)+

lemma settles_add: "known_kind (spec_Kind spec) \<Longrightarrow> settles (addAndActivate env spec msg kvs op)"
  unfolding addAndActivate_def by (intro settles_rules settles_activations; simp)

lemma settles_register:
  "settles (registerConfigureHandler env target handler opts)"
  "settles (registerActionHandler env target action handler opts)"
  "settles (registerResultHandler env target handler opts)"
  "settles (registerStatusHandler env target handler opts)"
  unfolding registerConfigureHandler_def registerActionHandler_def registerResultHandler_def registerStatusHandler_def
  by (intro settles_rules settles_add; simp add: known_kind_def)+

lemma settles_context:
  "settles (setCallbacksEnabled b)" "settles cancelHandlerContext" "settles (ensureHandlerContext env)"
  unfolding setCallbacksEnabled_def cancelHandlerContext_def ensureHandlerContext_def newHandlerContext_def
  by (intro settles_rules settle.frames_modify TrueI; simp add: settled_def)+

lemma settles_stop: "settles (kv_stop env w b)"
  unfolding kv_stop_def stopWatcher_def by (intro settles_rules TrueI)

lemma settles_stop_each: "settles (stop_each env ws joined)"
proof (induction ws arbitrary: joined)
  case (Cons w ws)
  then show ?case unfolding stop_each.simps by (intro settles_rules settles_stop)
qed (simp add: settle.frames_return)

lemma settles_lifecycle:
  "settles (c_Start env co)" "settles (c_Close env (return ()) co)" "settles (stopTracked env n)"
  "settles (stopAllWatches env)"
proof -
  show all: "settles (stopAllWatches env)"
    unfolding stopAllWatches_def
    by (intro settles_rules settle.frames_modify settles_stop_each) (simp add: settled_def)
  show "settles (c_Start env co)"
    unfolding c_Start_def startSession_def
    by (intro settles_rules settles_activations settles_context settles_plain plain_Start)
  show "settles (c_Close env (return ()) co)"
    unfolding c_Close_def
    by (intro settles_rules settles_activations settles_context all settles_plain [OF plain_Close [OF plain_nothing]])
  show "settles (stopTracked env n)"
    unfolding stopTracked_def
    by (intro settles_rules settle.frames_modify settles_stop) (auto simp: settled_def)
qed

lemma settles_deliver: "settles (deliver env cb mo)"
  by (rule settles_client, rule wp_mono [OF deliver_spec]) (simp add: dispatched_def)

lemma settles_hooks: "settles (run_hook env i)"
  unfolding run_hook_def onSessionReconnected_def onSessionClosed_def runReconnectHandler_def Let_def
  by (intro settles_rules settles_activations settles_context TrueI)

lemma settles_callbacks:
  "settles (onDisconnect env e)" "settles (onClosed env (run_hook env'))"
  "settles (onReconnect env (run_hook env') nc)" "settles (onAsyncError env eo)"
proof -
  have a: "settles (onAsyncError env eo)" for eo
    unfolding onAsyncError_def by (intro settles_rules TrueI)
  then show "settles (onAsyncError env eo)" .
  have d: "settles (setDegradedLocked env e')" for e' by (rule settles_plain, rule plain_setters)
  show "settles (onDisconnect env e)" by (rule settles_plain [OF plain_callbacks(1)])
  show "settles (onClosed env (run_hook env'))"
    unfolding onClosed_def run_callback_def by (intro settles_rules settles_hooks settles_plain [OF plain_callbacks(2)])
  show "settles (onReconnect env (run_hook env') nc)"
    unfolding onReconnect_def rebindAfterReconnect_def run_callback_def newJetStream_def bindOrCreateKV_def
    by (intro settles_rules settles_hooks settles_plain [OF plain_callbacks(3)] a d TrueI)
qed

subsection \<open>Fresh numbers, known kinds\<close>

definition numbers_below :: "('w, 'm) client_scheme \<Rightarrow> bool" where
  "numbers_below s \<longleftrightarrow> (\<forall>n \<in> fst ` set (c_watches s). n \<le> c_nextWatchID s)"

text \<open>There is a number left: the counter is not at its maximum.\<close>

definition watch_room :: "('w, 'm) client_scheme \<Rightarrow> bool" where
  "watch_room s \<longleftrightarrow> c_nextWatchID s < c_nextWatchID s + 1"

lemma settled_below: "settled s t \<Longrightarrow> numbers_below s \<Longrightarrow> numbers_below t"
  by (auto simp: settled_def numbers_below_def)

lemma numbers_fresh: "numbers_below s \<Longrightarrow> watch_room s \<Longrightarrow> c_nextWatchID s + 1 \<notin> fst ` set (c_watches s)"
  by (force simp: numbers_below_def watch_room_def)

lemma client_step_watches:
  assumes "client_step env s t"
  shows "settled s t \<or> (\<exists>target r. watch_started target s r t)"
  using assms
proof (cases rule: client_step.cases)
  case (watch co target wh n)
  have "watch_started target s n t" by (rule wpD [OF WatchDesiredConfig_spec watch])
  then show ?thesis by blast
next
  case (world x)
  then show ?thesis by (simp add: settled_def)
qed (blast dest: wpD [OF settle.framesD [OF settles_lifecycle(1)]] wpD [OF settle.framesD [OF settles_lifecycle(2)]]
      wpD [OF settle.framesD [OF settles_lifecycle(3)]] wpD [OF settle.framesD [OF settles_deliver]]
      wpD [OF settle.framesD [OF settles_register(1)]] wpD [OF settle.framesD [OF settles_register(2)]]
      wpD [OF settle.framesD [OF settles_register(3)]] wpD [OF settle.framesD [OF settles_register(4)]]
      wpD [OF settle.framesD [OF settles_callbacks(1)]] wpD [OF settle.framesD [OF settles_callbacks(2)]]
      wpD [OF settle.framesD [OF settles_callbacks(3)]] wpD [OF settle.framesD [OF settles_callbacks(4)]]
      wpD [OF settle.framesD [OF settles_harmless [OF harmless_operations(1)]]]
      wpD [OF settle.framesD [OF settles_harmless [OF harmless_operations(2)]]]
      wpD [OF settle.framesD [OF settles_harmless [OF harmless_operations(3)]]]
      wpD [OF settle.framesD [OF settles_harmless [OF harmless_operations(4)]]]
      wpD [OF settle.framesD [OF settles_harmless [OF harmless_client_parts(1)]]]
      wpD [OF settle.framesD [OF settles_harmless [OF harmless_client_parts(2)]]])+

text \<open>The clients that can be reached while the counter never wraps around.\<close>

inductive unwrapped_reach :: "('w, 'e) client_env_scheme \<Rightarrow> 'w client \<Rightarrow> bool" for env where
  new: "consts_ok ncs \<Longrightarrow> New ncs env cfg opts [] w = Inr s \<Longrightarrow> unwrapped_reach env s"
| more: "unwrapped_reach env s \<Longrightarrow> client_step env s t \<Longrightarrow> c_nextWatchID s \<le> c_nextWatchID t \<Longrightarrow>
     unwrapped_reach env t"

lemma unwrapped_client: "unwrapped_reach env s \<Longrightarrow> client_reach env s"
  by (induction rule: unwrapped_reach.induct) (auto intro: client_reach.intros)

lemma watch_started_below:
  assumes "watch_started target s r t" "numbers_below s" "c_nextWatchID s \<le> c_nextWatchID t"
  shows "numbers_below t"
proof (cases r)
  case (Inl e)
  with assms(1) have "c_watches t = c_watches s" "c_nextWatchID t = c_nextWatchID s"
    by (auto simp: watch_started_def)
  with assms(2) show ?thesis by (simp add: numbers_below_def)
next
  case (Inr n)
  with assms(1) obtain kw where t: "c_nextWatchID t = n" "c_watches t = alist_put n kw (c_watches s)"
    by (auto simp: watch_started_def)
  then have "fst ` set (c_watches t) \<subseteq> insert n (fst ` set (c_watches s))" by simp
  with t assms(2,3) show ?thesis by (force simp: numbers_below_def)
qed

lemma unwrapped_below: "unwrapped_reach env s \<Longrightarrow> numbers_below s"
proof (induction rule: unwrapped_reach.induct)
  case (new ncs cfg opts w s)
  then show ?case using New_spec [OF new] by (simp add: fresh_client_def numbers_below_def)
next
  case (more s t)
  then show ?case
    using client_step_watches [OF more.hyps(2)] settled_below watch_started_below by blast
qed

lemma client_kinds: "client_reach env s \<Longrightarrow> kinds_from New_Registry (c_subscriptions s)"
proof (induction rule: client_reach.induct)
  case (new ncs cfg opts w s)
  then show ?case using New_spec [OF new] by (simp add: fresh_client_def)
next
  case (more s t)
  have "kinds_from (c_subscriptions s) (c_subscriptions t)"
    using client_step_watches [OF more.hyps(2)] by (auto simp: settled_def watch_started_def)
  with more.IH show ?case by (rule kinds_from_trans)
qed

text \<open>The records of a reachable client pass the checks in front of a subscription.\<close>

lemma client_records:
  assumes "client_reach env s" "rec \<in> set (ListActivations (c_subscriptions s))"
  shows "known_kind (act_Kind rec)" "act_Callback rec \<noteq> None" "\<not> is_blank (act_Subject rec)"
proof -
  note inv = client_invD(4) [OF client_inv_reach [OF assms(1)]]
  from assms(2) obtain rid e where e: "(rid, e) \<in> set (entries (c_subscriptions s))"
    "rec = activationFromEntry (Some e)" by (auto simp: ListActivations_def)
  then have m: "map_of (entries (c_subscriptions s)) rid = Some e"
    using registry_invD(1) [OF inv] by simp
  from registry_invD(3) [OF inv m] e(2) show "act_Callback rec \<noteq> None" "\<not> is_blank (act_Subject rec)"
    by (simp_all add: entry_ok_def activationFromEntry_def)
  have "intents New_Registry rid \<noteq> Some (intent_of e)" by (simp add: intents_def New_Registry_def)
  with client_kinds [OF assms(1)] m have "known_kind (intent_kind (intent_of e))"
    by (auto simp: kinds_from_def intents_def)
  then show "known_kind (act_Kind rec)" by (simp add: e(2) activationFromEntry_def intent_of_def)
qed

end
