(* ===== verification/Sample.thy ===== *)
theory Sample
  imports Client_Frames
begin

text \<open>
  A concrete world and concrete clients, on which the hypotheses of the properties are shown to be
  satisfiable: the world answers every request at once and without an error.  A second world has no
  bucket yet.
\<close>

definition sample_time :: gotime where
  "sample_time = \<lparr>t_sec = 63871372800, t_nsec = 0, t_off = 0\<rparr>"

definition sample_entry :: kv_entry where
  "sample_entry = \<lparr>kve_Bucket = ''cfg_desired'', kve_Key = ''desired.vyos'',
     kve_Value = [], kve_Revision = 1, kve_Created = sample_time\<rparr>"

definition sample_env :: "unit client_env" where
  "sample_env =
     \<lparr>env_now = (\<lambda>w. (0, w)), env_ctx_err = (\<lambda>c w. (None, w)),
      env_connect = (\<lambda>url opts c w. (Finished (Inr 7), w)),
      env_status = (\<lambda>nc w. (CONNECTED, w)), env_connected_url = (\<lambda>nc w. (''nats://a:4222'', w)),
      env_close = (\<lambda>nc w. ((), w)), env_drain = (\<lambda>nc c w. (Finished None, w)),
      env_wait_start = (\<lambda>c w. (Finished (), w)), env_new_js = (\<lambda>mode nc d w. (Inr 3, w)),
      env_bind_kv = (\<lambda>c j b w. (Inr 5, w)), env_create_kv = (\<lambda>c j cfg w. (Inr 5, w)),
      env_read_file = (\<lambda>f w. (Inr [], w)), env_append_certs = (\<lambda>pem. True),
      env_load_key_pair = (\<lambda>a b w. (Inr 0, w)), env_nkey_option = (\<lambda>f w. (Inr 0, w)),
      env_hook = (\<lambda>c w. w),
      env_kv_put = (\<lambda>c h key data w. (Inr 1, w)),
      env_kv_get = (\<lambda>c h key w. (Inr sample_entry, w)),
      env_kv_watch = (\<lambda>c h key w. (Inr 2, w)), env_watcher_stop = (\<lambda>x w. (None, w)),
      env_fresh = (\<lambda>w. (0, w)), env_ready_select = (\<lambda>c w. (ReadyClosed, w)),
      env_publish = (\<lambda>nc subject data w. (None, w)), env_flush = (\<lambda>nc c w. (None, w)),
      env_clock = (\<lambda>w. (sample_time, w)), env_ctx_done = (\<lambda>c w. (False, w)),
      env_subscribe = (\<lambda>nc subject q cb w. (Inr 9, w)), env_flush_timeout = (\<lambda>nc d w. (None, w)),
      env_unsubscribe = (\<lambda>sb w. (None, w)), env_run_handler = (\<lambda>h c m w. (HReturn None, w)),
      env_run_reconnect = (\<lambda>h w. (None, w))\<rparr>"

definition sample_consts :: nats_consts where
  "sample_consts = \<lparr>DefaultURL = ''nats://127.0.0.1:4222'', DefaultReconnectBufSize = 8388608\<rparr>"

text \<open>The configuration with every field at its Go zero value: all defaults apply.\<close>

definition sample_config :: PublicConfig where
  "sample_config =
     \<lparr>pub_AgentName = [], pub_Version = [],
      pub_NATS = \<lparr>pub_nats_Servers = [], pub_nats_ClientName = [], pub_nats_CredentialsFile = [],
        pub_nats_NKeySeedFile = [], pub_nats_UserJWTFile = [], pub_nats_Username = [],
        pub_nats_Password = [], pub_nats_Token = [], pub_nats_ConnectTimeout = 0,
        pub_nats_RetryOnFailedConnect = False, pub_nats_MaxReconnects = 0,
        pub_nats_ReconnectWait = 0, pub_nats_ReconnectBufSize = 0, pub_nats_TLS = None\<rparr>,
      pub_JetStream = \<lparr>pub_js_Domain = [], pub_js_APIPrefix = [], pub_js_DefaultTimeout = 0\<rparr>,
      pub_Subjects = \<lparr>cfg_ConfigurePattern = [], cfg_ActionPattern = [], cfg_ResultPattern = [],
        cfg_StatusPattern = [], cfg_HealthPattern = []\<rparr>,
      pub_KV = \<lparr>pub_kv_Bucket = [], pub_kv_KeyPattern = [], pub_kv_AutoCreateBucket = False,
        pub_kv_History = 0, pub_kv_TTL = 0, pub_kv_MaxValueSize = 0, pub_kv_Storage = [],
        pub_kv_Replicas = 0\<rparr>,
      pub_Timeouts = \<lparr>pub_to_PublishTimeout = 0, pub_to_SubscribeTimeout = 0, pub_to_KVTimeout = 0,
        pub_to_ShutdownTimeout = 0, pub_to_HandlerWarnAfter = 0\<rparr>,
      pub_Retry = \<lparr>pub_rt_PublishAttempts = 0, pub_rt_PublishBackoff = 0\<rparr>,
      pub_HandlerMode = [], pub_Observe_Logger = False, pub_Observe_Metrics = False\<rparr>"


subsection \<open>The client built from it\<close>

definition sample_client :: "unit client" where
  "sample_client = projr (New sample_consts sample_env sample_config [] [] ())"

lemma sample_consts_ok: "consts_ok sample_consts"
  by code_simp

lemma sample_New: "New sample_consts sample_env sample_config [] [] () = Inr sample_client"
proof -
  have "\<not> isl (New sample_consts sample_env sample_config [] [] ())" by code_simp
  then show ?thesis
    unfolding sample_client_def by (cases "New sample_consts sample_env sample_config [] [] ()") simp_all
qed

lemma sample_reach: "client_reach sample_env sample_client"
  by (rule client_reach.new [OF sample_consts_ok sample_New])

lemma sample_inv: "client_inv sample_client"
  by (rule client_inv_New [OF sample_consts_ok sample_New])

lemmas sample_invD = client_invD [OF sample_inv]

text \<open>The same client after a start that succeeds.\<close>

definition sample_running :: "unit client" where
  "sample_running = snd (run_state (c_Start sample_env None) sample_client)"

lemma sample_running_reach: "client_reach sample_env sample_running"
  by (rule client_reach.more [OF sample_reach], rule client_step.start [where r = "fst (run_state (c_Start sample_env None) sample_client)"])
     (simp add: sample_running_def)

lemma sample_running_inv: "client_inv sample_running"
  by (rule client_inv_reach [OF sample_running_reach])

lemmas sample_runningD = client_invD [OF sample_running_inv]

lemma sample_running_enabled: "c_callbacksEnabled sample_running"
  by code_simp

lemma sample_running_connected: "m_nc (manager sample_running) = Some 7"
  by code_simp

text \<open>A command, an action and a registration that every check accepts.\<close>

definition sample_command :: ConfigureCommand where
  "sample_command = \<lparr>cc_Version = ''1'', cc_RPCID = ''r-1'', cc_Target = ''vyos'', cc_UUID = ''u-1'',
     cc_Payload = ''{}'', cc_Timestamp = sample_time\<rparr>"

definition sample_spec :: AddSpec where
  "sample_spec = \<lparr>spec_Kind = KindConfigure, spec_Target = ''vyos'', spec_Action = [],
     spec_Subject = ''cmd.configure.vyos'', spec_QueueGroup = [], spec_Callback = Some (ConfigureCallback 0)\<rparr>"

subsection \<open>A client with a watch, one with a registration, one without a bucket\<close>

definition sample_watching :: "unit client" where
  "sample_watching = snd (run_state (WatchDesiredConfig sample_env None ''vyos'' (Some 2)) sample_running)"

lemma sample_watching_calls:
  "since sample_running sample_watching = [KvWatch 5 ''desired.vyos'' (Inr 2), AwaitReady ReadyClosed]"
  "map fst (c_watches sample_watching) = [1]" "c_nextWatchID sample_watching = 1"
  by code_simp+

lemma sample_running_step: "client_step sample_env sample_client sample_running"
  by (rule client_step.start [where r = "fst (run_state (c_Start sample_env None) sample_client)"])
     (simp add: sample_running_def)

lemma sample_watching_step: "client_step sample_env sample_running sample_watching"
  by (rule client_step.watch [where n = "fst (run_state (WatchDesiredConfig sample_env None ''vyos'' (Some 2)) sample_running)"])
     (simp add: sample_watching_def)

lemma sample_watching_unwrapped: "unwrapped_reach sample_env sample_watching"
proof -
  have "c_nextWatchID sample_client = 0" "c_nextWatchID sample_running = 0" by code_simp+
  then have "unwrapped_reach sample_env sample_running"
    by (intro unwrapped_reach.more [OF unwrapped_reach.new [OF sample_consts_ok sample_New] sample_running_step]) simp
  then show ?thesis
    by (rule unwrapped_reach.more [OF _ sample_watching_step]) (simp add: \<open>c_nextWatchID sample_running = 0\<close>)
qed

text \<open>A client with a reconnect handler and one registration, started.\<close>

definition sample_hooked_new :: "unit client" where
  "sample_hooked_new = projr (New sample_consts sample_env sample_config [Some (WithReconnectHandler (Some 4))] [] ())"

definition sample_registered :: "unit client" where
  "sample_registered = snd (run_state (registerConfigureHandler sample_env ''vyos'' (Some 2) []) sample_hooked_new)"

definition sample_hooked :: "unit client" where
  "sample_hooked = snd (run_state (c_Start sample_env None) sample_registered)"

lemma sample_hooked_New:
  "New sample_consts sample_env sample_config [Some (WithReconnectHandler (Some 4))] [] () = Inr sample_hooked_new"
proof -
  have "\<not> isl (New sample_consts sample_env sample_config [Some (WithReconnectHandler (Some 4))] [] ())" by code_simp
  then show ?thesis
    unfolding sample_hooked_new_def
    by (cases "New sample_consts sample_env sample_config [Some (WithReconnectHandler (Some 4))] [] ()") simp_all
qed

lemma sample_hooked_reach: "client_reach sample_env sample_hooked"
proof -
  have new: "client_reach sample_env sample_hooked_new"
    by (rule client_reach.new [OF sample_consts_ok sample_hooked_New])
  have "c_subscriptions sample_hooked_new = New_Registry" by code_simp
  then have room: "counter_room 1 (c_subscriptions sample_hooked_new)"
    by (simp add: counter_room_def New_Registry_def)
  have reg: "client_reach sample_env sample_registered"
    by (rule client_reach.more [OF new client_step.register_configure [OF _ room,
          where r = "fst (run_state (registerConfigureHandler sample_env ''vyos'' (Some 2) []) sample_hooked_new)"]])
       (simp add: sample_registered_def)
  show ?thesis
    by (rule client_reach.more [OF reg client_step.start [where r = "fst (run_state (c_Start sample_env None) sample_registered)"]])
       (simp add: sample_hooked_def)
qed

lemma sample_hooked_facts:
  "c_callbacksEnabled sample_hooked" "map act_Subject (ListActivations (c_subscriptions sample_hooked)) = [''cmd.configure.vyos'']"
  "opt_reconnectHandler (c_options sample_hooked) = Some 4"
  by code_simp+

text \<open>A world without the bucket, and a client that asks for one in memory to be created.\<close>

definition sample_no_bucket :: goerr where
  "sample_no_bucket = SentinelErr NatsBucketNotFound ''nats: bucket not found''"

definition sample_bare_env :: "unit client_env" where
  "sample_bare_env = sample_env\<lparr>env_bind_kv := \<lambda>c j b w. (Inl sample_no_bucket, w)\<rparr>"

definition sample_memory_config :: PublicConfig where
  "sample_memory_config = sample_config\<lparr>pub_KV := (pub_KV sample_config)\<lparr>pub_kv_Bucket := ''desired'',
     pub_kv_AutoCreateBucket := True, pub_kv_History := 3, pub_kv_TTL := 60, pub_kv_Storage := ''memory''\<rparr>\<rparr>"

definition sample_memory_client :: "unit client" where
  "sample_memory_client = projr (New sample_consts sample_bare_env sample_memory_config [] [] ())"

end
