(* ===== verification/Data_Properties.thy ===== *)
theory Data_Properties
  imports Sample
begin

text \<open>
  The properties of the data the program handles: subjects, registry, configuration, messages.
  Each is stated over the definitions of its component and followed, where it has hypotheses, by an
  application to concrete values.
\<close>

subsection \<open>Subjects\<close>

text \<open>C28: in the default scheme a subject determines what it was built for: reading the segments of
  a subject that the builder produced gives back the kind, the target and the action, for every
  target and action the validators accept.  Two different routes never share a subject.\<close>

theorem default_subjects_parse_back:
  assumes "NewDefaultBuilder = Some b" and "subject_of b r = Inr s"
  shows "parse_subject s = Some r"
  using assms by (simp add: NewDefaultBuilder_eq default_subject_segments)

theorem default_subjects_parse_back_witness:
  "parse_subject ''cmd.action.vyos.restart'' = Some (ActionRoute ''vyos'' ''restart'')"
  by (rule default_subjects_parse_back [OF NewDefaultBuilder_eq]) code_simp

text \<open>C29: with any accepted patterns, subjects of one kind tell targets apart: the configure, result,
  status and health subjects of two targets are equal only if the targets are.\<close>

theorem subjects_tell_targets_apart:
  assumes "NewBuilder p = Inr b"
    and "kind = ConfigureRoute \<or> kind = ResultRoute \<or> kind = StatusRoute \<or> kind = HealthRoute"
    and "subject_of b (kind t) = Inr s" and "t' \<noteq> t"
  shows "subject_of b (kind t') \<noteq> Inr s"
  using assms NewBuilder_patterns [OF assms(1)] target.Sprintf_token_inject
  by (auto simp: subject_defs validatePattern_accepts)

theorem subjects_tell_targets_apart_witness:
  "subject_of default_builder (ResultRoute ''vyos'') = Inr ''result.vyos''
     \<and> subject_of default_builder (ResultRoute ''leaf'') \<noteq> Inr ''result.vyos''"
proof -
  have b: "NewBuilder DefaultPatterns = Inr default_builder"
    by (simp add: NewBuilder_def default_patterns_valid default_builder_def)
  have s: "subject_of default_builder (ResultRoute ''vyos'') = Inr ''result.vyos''" by code_simp
  from s subjects_tell_targets_apart [OF b, of ResultRoute "''vyos''" "''result.vyos''" "''leaf''"]
  show ?thesis by simp
qed

text \<open>C30: whatever patterns the configuration names, a subject the builder hands out is not empty and
  contains no white space, no wildcard and no format directive, and has an empty token (two dots next
  to each other, or a dot at one end) only where the configured pattern of its kind has one: targets
  and actions never add any.\<close>

theorem built_subjects_publishable:
  assumes "NewBuilder p = Inr b" and "subject_of b r = Inr s"
  shows "s \<noteq> [] \<and> \<not> ContainsAny s ascii_ws \<and> CHR ''*'' \<notin> set s \<and> CHR ''>'' \<notin> set s
    \<and> CHR ''%'' \<notin> set s \<and> empty_token s = empty_token (route_pattern p r)"
  using subject_of_publishable [OF assms] subject_of_empty_token [OF assms] assms(1)
  by (auto simp: publishable_def NewBuilder_def guard_err_def split: option.splits)

theorem built_subjects_publishable_witness:
  "CHR ''%'' \<notin> set ''status.vyos'' \<and> ''status.vyos'' \<noteq> [] \<and> \<not> empty_token ''status.vyos''"
proof -
  have b: "NewBuilder DefaultPatterns = Inr default_builder"
    by (simp add: NewBuilder_def default_patterns_valid default_builder_def)
  have s: "subject_of default_builder (StatusRoute ''vyos'') = Inr ''status.vyos''" by code_simp
  have e: "\<not> empty_token (route_pattern DefaultPatterns (StatusRoute ''vyos''))" by code_simp
  from built_subjects_publishable [OF b s] e show ?thesis by blast
qed

text \<open>A pattern with an empty token is accepted, and so are the subjects built from it.\<close>

lemma empty_tokens_accepted:
  "ConfigureSubject (projr (NewBuilder (DefaultPatterns\<lparr>ConfigurePattern := ''cmd..%s''\<rparr>))) ''vyos'' = Inr ''cmd..vyos''
    \<and> empty_token ''cmd..vyos''"
  by code_simp

text \<open>C31: patterns taken from the configuration are complete and valid: each is the configured one, or
  the default where none is configured, and the builder accepts the result.\<close>

theorem configured_patterns_build:
  assumes "PatternsFromConfig cfg = Inr p"
  shows "NewBuilder p = Inr \<lparr>patterns = p\<rparr>
    \<and> ConfigurePattern p = (if cfg_ConfigurePattern cfg = [] then ''cmd.configure.%s'' else cfg_ConfigurePattern cfg)
    \<and> ActionPattern p = (if cfg_ActionPattern cfg = [] then ''cmd.action.%s.%s'' else cfg_ActionPattern cfg)
    \<and> ResultPattern p = (if cfg_ResultPattern cfg = [] then ''result.%s'' else cfg_ResultPattern cfg)
    \<and> StatusPattern p = (if cfg_StatusPattern cfg = [] then ''status.%s'' else cfg_StatusPattern cfg)
    \<and> HealthPattern p = (if cfg_HealthPattern cfg = [] then ''health.%s'' else cfg_HealthPattern cfg)"
  using assms
  by (auto simp: PatternsFromConfig_def Let_def NewBuilder_def overridePattern_def default_pattern_defs)

theorem configured_patterns_build_witness:
  "\<exists>p. PatternsFromConfig (pub_Subjects sample_config) = Inr p \<and> NewBuilder p = Inr \<lparr>patterns = p\<rparr>"
proof -
  have "PatternsFromConfig (pub_Subjects sample_config) = Inr DefaultPatterns" by code_simp
  with configured_patterns_build [OF this] show ?thesis by blast
qed

subsection \<open>The registry\<close>

text \<open>C32: after any sequence of operations on a fresh registry the two indexes agree: every entry is
  found under its own number and its own key, no two entries share a key, and a handle is present
  exactly when the entry says it is active.  The sequence is at most as long as the 64-bit counter
  can number.\<close>

theorem registry_runs_stay_consistent:
  assumes "length ops < 2 ^ 64"
  shows "registry_inv (registry_run New_Registry ops)"
  using registry_run_inv [OF inv_New, of ops] assms by (simp add: counter_room_def New_Registry_def)

theorem registry_runs_stay_consistent_witness:
  "registry_inv (registry_run New_Registry [OpAdd sample_spec, OpMarkActive ''sub-1'' (Some 4), OpClear, OpRemove ''sub-1''])"
  by (rule registry_runs_stay_consistent) simp

text \<open>C33: the two counters that go into the health snapshot are the number of registrations and the
  number of live subscriptions, so there are never more active than registered ones.\<close>

theorem counts_are_sizes:
  assumes "registry_inv r"
  shows "Counts r = (card (dom (intents r)), card (dom (live r))) \<and> dom (live r) \<subseteq> dom (intents r)"
  using Counts_abs [OF assms] live_wanted by (auto simp: domIff)

theorem counts_are_sizes_witness:
  "Counts (snd (Add New_Registry sample_spec)) = (1, 0)
     \<and> card (dom (intents (snd (Add New_Registry sample_spec)))) = 1"
proof -
  have inv: "registry_inv (snd (Add New_Registry sample_spec))"
    by (rule inv_Add [OF inv_New]) (simp add: counter_room_def New_Registry_def)
  have "Counts (snd (Add New_Registry sample_spec)) = (1, 0)" by code_simp
  with counts_are_sizes [OF inv] show ?thesis by simp
qed

text \<open>C34: adding a registration whose activation then fails, and removing it again, leaves intents and
  live subscriptions as they were, whatever the failure was.\<close>

theorem failed_registration_leaves_no_trace:
  assumes "registry_inv r" and "unat (nextID r) + 1 < 2 ^ 64" and "Add r spec = (Inr snap, r')"
  shows "intents (snd (Remove (MarkInactive r' (snap_ID snap) cause) (snap_ID snap))) = intents r
    \<and> live (snd (Remove (MarkInactive r' (snap_ID snap) cause) (snap_ID snap))) = live r"
  using reg.add_mark_inactive_remove [OF assms(1) _ assms(3)] assms(2) by (simp add: counter_room_def)

theorem failed_registration_leaves_no_trace_witness:
  "\<exists>snap r'. Add New_Registry sample_spec = (Inr snap, r')
     \<and> intents (snd (Remove (MarkInactive r' (snap_ID snap) None) (snap_ID snap))) = intents New_Registry"
proof -
  have "\<not> isl (fst (Add New_Registry sample_spec))" by code_simp
  then obtain snap r' where a: "Add New_Registry sample_spec = (Inr snap, r')"
    by (metis isl_def prod.collapse sum.exhaust_sel)
  have "unat (nextID New_Registry) + 1 < 2 ^ 64" by (simp add: New_Registry_def)
  from a failed_registration_leaves_no_trace [OF inv_New this a] show ?thesis by blast
qed

text \<open>C35: a second registration for the same kind, subject and queue group is refused, white space
  around subject and queue group not counting; the registry keeps the entries it had.\<close>

theorem duplicate_registration_refused:
  assumes "registry_inv r" and "unat (nextID r) + 1 < 2 ^ 64" and "Add r spec = (Inr snap, r')"
    and "validateAddSpec spec' = None" and "spec_Kind spec' = spec_Kind spec"
    and "TrimSpace (spec_Subject spec') = TrimSpace (spec_Subject spec)"
    and "TrimSpace (spec_QueueGroup spec') = TrimSpace (spec_QueueGroup spec)"
  shows "\<exists>e r''. Add r' spec' = (Inl e, r'') \<and> rt_code e = RtRegistryConflict \<and> entries r'' = entries r'"
proof -
  have key: "registrationKey (spec_Kind spec') (spec_Subject spec') (spec_QueueGroup spec')
      = registrationKey (spec_Kind spec) (spec_Subject spec) (spec_QueueGroup spec)"
    using assms(5-7) by (simp add: registrationKey_def)
  have "map_of (byKey r') (registrationKey (spec_Kind spec) (spec_Subject spec) (spec_QueueGroup spec)) \<noteq> None"
    using assms(3) by (auto simp: Add_def Let_def split: option.splits)
  with assms(4) key show ?thesis by (auto simp: Add_def Let_def)
qed

theorem duplicate_registration_refused_witness:
  "\<exists>snap r' e r''. Add New_Registry sample_spec = (Inr snap, r') \<and> Add r' sample_spec = (Inl e, r'')"
proof -
  have "\<not> isl (fst (Add New_Registry sample_spec))" by code_simp
  then obtain snap r' where a: "Add New_Registry sample_spec = (Inr snap, r')"
    by (metis isl_def prod.collapse sum.exhaust_sel)
  have "unat (nextID New_Registry) + 1 < 2 ^ 64" "validateAddSpec sample_spec = None"
    by (simp add: New_Registry_def) code_simp
  from a duplicate_registration_refused [OF inv_New this(1) a this(2)] show ?thesis by blast
qed

subsection \<open>Configuration\<close>

text \<open>C36: a configuration that is accepted is usable as it is: every timeout is positive, there is at
  least one server and none is blank, reconnects are unlimited or positive and their wait and buffer
  are positive, publishing is tried at least once with a positive pause, history is between 1 and 64,
  storage is one of the two kinds, and the key pattern has its one placeholder.\<close>

theorem accepted_config_usable:
  assumes "consts_ok ncs" and "normalizeConfig ncs cfg = Inr e"
  shows "let c = effective_Config e in
    0 < to_PublishTimeout (Timeouts c) \<and> 0 < to_SubscribeTimeout (Timeouts c) \<and> 0 < to_KVTimeout (Timeouts c)
    \<and> 0 < to_ShutdownTimeout (Timeouts c) \<and> 0 < to_HandlerWarnAfter (Timeouts c)
    \<and> 0 < nats_ConnectTimeout (NATS c) \<and> 0 < js_DefaultTimeout (JetStream c)
    \<and> nats_Servers (NATS c) \<noteq> [] \<and> list_all (\<lambda>s. \<not> is_blank s) (nats_Servers (NATS c))
    \<and> nats_MaxReconnects (NATS c) \<in> insert (- 1) {0<..}
    \<and> 0 < nats_ReconnectWait (NATS c) \<and> 0 < nats_ReconnectBufSize (NATS c)
    \<and> 0 < rt_PublishAttempts (Retry c) \<and> 0 < rt_PublishBackoff (Retry c)
    \<and> unat (kv_History (KV c)) \<in> {1..64} \<and> kv_Storage (KV c) \<in> {''file'', ''memory''}
    \<and> validateKeyPattern (kv_KeyPattern (KV c)) = None \<and> \<not> is_blank (kv_Bucket (KV c))"
  using normalizeConfig_ok [OF assms]
  by (auto simp: Let_def config_ok_def timeouts_ok_def nats_ok_def kv_ok_def list_all_iff)

theorem accepted_config_usable_witness:
  "\<exists>e. normalizeConfig sample_consts (toSessionConfig sample_config) = Inr e
     \<and> unat (kv_History (KV (effective_Config e))) \<in> {1..64}"
proof -
  have "\<not> isl (normalizeConfig sample_consts (toSessionConfig sample_config))" by code_simp
  then obtain e where e: "normalizeConfig sample_consts (toSessionConfig sample_config) = Inr e"
    by (metis isl_def sum.exhaust_sel)
  from e accepted_config_usable [OF sample_consts_ok e] show ?thesis by (auto simp: Let_def)
qed

text \<open>C37: normalising is idempotent: an accepted configuration is accepted again and not changed.\<close>

theorem normalise_idempotent:
  assumes "consts_ok ncs" and "normalizeConfig ncs cfg = Inr e"
  shows "normalizeConfig ncs (effective_Config e) = Inr e"
  using normalizeConfig_id [OF normalizeConfig_ok [OF assms]] by (cases e) simp

theorem normalise_idempotent_witness:
  "\<exists>e. normalizeConfig sample_consts (toSessionConfig sample_config) = Inr e
     \<and> normalizeConfig sample_consts (effective_Config e) = Inr e"
proof -
  have "\<not> isl (normalizeConfig sample_consts (toSessionConfig sample_config))" by code_simp
  then obtain e where e: "normalizeConfig sample_consts (toSessionConfig sample_config) = Inr e"
    by (metis isl_def sum.exhaust_sel)
  from e normalise_idempotent [OF sample_consts_ok e] show ?thesis by blast
qed

subsection \<open>Messages\<close>

text \<open>C38: a decoded configure command has every field the contract requires, and so does one that was
  encoded; an empty payload is never decoded and never produced.\<close>

theorem configure_codec_lets_only_valid_through:
  "(\<forall>data m. DecodeConfigureCommand data = Inr m \<or> EncodeConfigureCommand m = Inr data \<longrightarrow>
      data \<noteq> [] \<and> \<not> is_blank (cc_Version m) \<and> \<not> is_blank (cc_RPCID m) \<and> \<not> is_blank (cc_Target m)
      \<and> \<not> is_blank (cc_UUID m) \<and> \<not> IsZero (cc_Timestamp m) \<and> Valid (cc_Payload m))"
  using configure_command.decode_valid configure_command.decode_nonempty
    configure_command.encode_valid configure_command.encode_nonempty
  by (auto simp: ValidateConfigureCommand_accepts)

theorem configure_codec_lets_only_valid_through_witness:
  "\<exists>data. EncodeConfigureCommand sample_command = Inr data \<and> data \<noteq> [] \<and> Valid (cc_Payload sample_command)"
proof -
  have "\<not> isl (EncodeConfigureCommand sample_command)" by code_simp
  then obtain data where d: "EncodeConfigureCommand sample_command = Inr data"
    by (metis isl_def sum.exhaust_sel)
  with configure_codec_lets_only_valid_through show ?thesis by blast
qed

lemma core_helpers:
  "core_requiredString op f v = requiredString op f v" "core_optionalString op f v = optionalString op f v"
  "core_requiredTimestamp op f t = requiredTimestamp op f t" "core_requiredJSON op f v = requiredJSON op f v"
  "core_optionalJSON op f v = optionalJSON op f v"
  by (simp_all add: core_requiredString_def core_optionalString_def core_requiredTimestamp_def
      core_requiredJSON_def core_optionalJSON_def helper_defs first_err_Cons reject_if_def)

lemmas core_validator_defs = validateConfigureCommand_def validateConfigureNotification_def
  validateActionCommand_def validateResultEnvelope_def validateStatusEnvelope_def

text \<open>C39: the client's own validators and those of the contract package accept the same configure
  commands, notifications, actions, results and statuses.\<close>

theorem validators_agree:
  "(validateConfigureCommand op c = None \<longleftrightarrow> ValidateConfigureCommand c = None)
   \<and> (validateConfigureNotification op n = None \<longleftrightarrow> ValidateConfigureNotification n = None)
   \<and> (validateActionCommand op a = None \<longleftrightarrow> ValidateActionCommand a = None)
   \<and> (validateResultEnvelope op r = None \<longleftrightarrow> ValidateResultEnvelope r = None)
   \<and> (validateStatusEnvelope op s = None \<longleftrightarrow> ValidateStatusEnvelope s = None)"
  by (simp add: core_validator_defs core_helpers validation_simps)

end
