(* ===== verification/Session_Properties.thy ===== *)
theory Session_Properties
  imports Sample
begin

text \<open>
  The properties of the session manager, of the desired-config store and of the publisher, each on
  its own: what starting, closing and the callbacks of the NATS library do to the connection, how a
  watch delivers, and what a publish guarantees.
\<close>

subsection \<open>The session\<close>

text \<open>C18: however start attempts, closes, disconnects and reconnects interleave, at most one start and
  one close are under way, JetStream and KV handle are present exactly with the connection, the
  snapshot is ready only while not new, reconnecting, degraded or closed, and a close that drains
  holds the connection that is still published while no start is running.\<close>

theorem interleavings_keep_the_session:
  assumes "session_reach env (s, T)"
  shows "size (filter_mset is_start T) = (if m_starting (manager s) then 1 else 0)
    \<and> size (filter_mset is_close T) = (if m_closing (manager s) then 1 else 0)
    \<and> (m_js (manager s) = None \<longleftrightarrow> m_nc (manager s) = None)
    \<and> (m_kv (manager s) = None \<longleftrightarrow> m_nc (manager s) = None)
    \<and> (m_starting (manager s) \<longleftrightarrow> m_startDone (manager s) \<noteq> None)
    \<and> (hs_State (m_health (manager s)) = StateConnected \<longrightarrow>
         hs_JetStreamReady (m_health (manager s)) \<and> hs_KVReady (m_health (manager s)))
    \<and> (hs_State (m_health (manager s)) \<in> {StateNew, StateReconnecting, StateClosed, StateDegraded} \<longrightarrow>
         \<not> hs_JetStreamReady (m_health (manager s)) \<and> \<not> hs_KVReady (m_health (manager s)))
    \<and> (\<forall>nco. CloseDraining nco \<in># T \<longrightarrow> m_nc (manager s) = nco \<and> \<not> m_starting (manager s))"
proof -
  have "pool_ok (s, T)" using pool_ok_reach [OF assms] .
  note d = pool_okD [OF this]
  have "health_ok (m_health (manager s))" "handles_ok (manager s)" "flags_ok (manager s)"
    using d(1) by (simp_all add: manager_ok_def)
  then show ?thesis
    using d(2,5,7,8) unfolding health_ok_def handles_ok_def flags_ok_def by blast
qed

theorem interleavings_keep_the_session_witness:
  "\<exists>m s' ch. NewManager sample_consts (toSessionConfig sample_config)
       \<lparr>hk_Logger = False, hk_Metrics = False, hk_ErrorSink = False, hk_OnReconnected = None, hk_OnClosed = None\<rparr> = Inr m
     \<and> run_state (start_begin sample_env) \<lparr>calls = [], ext = (), manager = m\<rparr> = (Inr ch, s')
     \<and> size (filter_mset is_start {#Starting ch#}) = (if m_starting (manager s') then 1 else 0)"
proof -
  let ?r = "NewManager sample_consts (toSessionConfig sample_config)
       \<lparr>hk_Logger = False, hk_Metrics = False, hk_ErrorSink = False, hk_OnReconnected = None, hk_OnClosed = None\<rparr>"
  let ?s = "\<lambda>m. \<lparr>calls = [], ext = (), manager = m\<rparr>"
  have "\<not> isl ?r" by code_simp
  then obtain m where m: "?r = Inr m" by (metis isl_def sum.exhaust_sel)
  have "\<not> isl (fst (run_state (start_begin sample_env) (?s (projr ?r))))" by code_simp
  then obtain ch s' where b: "run_state (start_begin sample_env) (?s m) = (Inr ch, s')"
    using m by (metis isl_def prod.collapse sum.exhaust_sel sum.sel(2))
  have "session_reach sample_env (s', {#Starting ch#})"
    using session_reach.more [OF session_reach.fresh [OF m] session_step.start_enter [OF b]] by simp
  from m b interleavings_keep_the_session [OF this] show ?thesis by blast
qed

text \<open>C19: a start either leaves a connection with JetStream and bucket published and the session
  connected, or it closes every connection it opened, keeps the handles that were there and reports
  an error with the session degraded or untouched.\<close>

theorem start_connects_or_cleans_up:
  assumes "manager_ok (manager s)"
  shows "wp (Start env co) (\<lambda>r t. manager_ok (manager t)
     \<and> (\<exists>new. calls t = calls s @ new
        \<and> (case r of
             None \<Rightarrow> manager t = manager s \<and> m_nc (manager s) \<noteq> None \<and> opened new = {}
               \<or> (\<exists>nc. opened new = {nc} \<and> released new = {} \<and> m_nc (manager t) = Some nc
                    \<and> m_js (manager t) \<noteq> None \<and> m_kv (manager t) \<noteq> None
                    \<and> hs_State (m_health (manager t)) = StateConnected)
           | Some e \<Rightarrow> opened new \<subseteq> released new \<and> m_nc (manager t) = m_nc (manager s)
               \<and> (manager t = manager s \<or> hs_State (m_health (manager t)) = StateDegraded)))) s"
  by (rule wp_mono [OF Start_spec [OF assms]])
     (fastforce simp: started_def connected_to_def same_handles_def split: option.splits)

theorem start_connects_or_cleans_up_witness:
  "fst (run_state (Start sample_env None) sample_client) = None
     \<and> manager_ok (manager (snd (run_state (Start sample_env None) sample_client)))"
proof -
  have "fst (run_state (Start sample_env None) sample_client) = None" by code_simp
  with start_connects_or_cleans_up [OF sample_invD(1), of sample_env None] show ?thesis
    by (auto simp: wp_def split: prod.splits)
qed

text \<open>C20: a close with nobody to wait for leaves no connection, no handle and no flag behind: the old
  connection was asked to drain, and was closed outright exactly when the drain did not succeed.\<close>

theorem close_tears_down:
  assumes "manager_ok (manager s)" and "\<not> m_closing (manager s)" and "\<not> m_starting (manager s)"
  shows "wp (Close env others co) (\<lambda>r t.
     m_nc (manager t) = None \<and> m_js (manager t) = None \<and> m_kv (manager t) = None
     \<and> \<not> m_closing (manager t) \<and> hs_State (m_health (manager t)) = StateClosed
     \<and> hs_ConnectedURL (m_health (manager t)) = []
     \<and> (\<exists>new. calls t = calls s @ new \<and> opened new = {}
        \<and> (case m_nc (manager s) of
             None \<Rightarrow> r = None \<and> released new = {}
           | Some nc \<Rightarrow> Drain nc \<in> set new \<and> released new = (if r = None then {} else {nc})))) s"
  by (rule wp_mono [OF Close_spec [OF assms]]) (simp add: closed_from_def torn_down_def)

theorem close_tears_down_witness:
  "m_nc (manager sample_running) = Some 7
     \<and> m_nc (manager (snd (run_state (Close sample_env (return ()) None) sample_running))) = None"
  using close_tears_down [OF sample_runningD(1,3,2), of sample_env "return ()" None] sample_running_connected
  by (auto simp: wp_def split: prod.splits)

text \<open>C21: the connect timeout handed to the NATS library is positive, at most the configured one, and
  never beyond the caller's deadline; past the deadline no attempt is made.\<close>

theorem connect_timeout_within_deadline:
  assumes "0 < configured"
  shows "wp (clampConnectTimeout env c configured) (\<lambda>r t. case r of
       Inr d \<Rightarrow> 0 < d \<and> d \<le> configured
         \<and> (\<forall>deadline. Deadline c = Some deadline \<longrightarrow> d \<le> deadline - fst (env_now env (ext s)))
     | Inl e \<Rightarrow> (\<exists>deadline. Deadline c = Some deadline \<and> deadline \<le> fst (env_now env (ext s)))) s"
  by (rule clampConnectTimeout_bounds [OF assms])

theorem connect_timeout_within_deadline_witness:
  "wp (clampConnectTimeout sample_env (WithDeadline Background 3) 5) (\<lambda>r t. case r of
       Inr d \<Rightarrow> 0 < d \<and> d \<le> 5
         \<and> (\<forall>deadline. Deadline (WithDeadline Background 3) = Some deadline \<longrightarrow>
              d \<le> deadline - fst (env_now sample_env (ext sample_client)))
     | Inl e \<Rightarrow> (\<exists>deadline. Deadline (WithDeadline Background 3) = Some deadline
              \<and> deadline \<le> fst (env_now sample_env (ext sample_client)))) sample_client"
  by (rule connect_timeout_within_deadline) simp

text \<open>C22: the manager first asks for the configured bucket and takes it when it is there.  It creates one
  only when the answer was that there is none and the configuration asks for creation; then it asks
  once, for the configured name, history, lifetime, value size, replicas and storage, and answers with
  what the creation answered.  In every other case the error of the first request is passed on.\<close>

theorem bucket_created_on_request_only:
  "wp (bindOrCreateKV env c j) (\<lambda>r t.
     let k = KV (m_EffectiveConfig (manager s));
         bound = env_bind_kv env c j (kv_Bucket k) (ext s) in
     manager t = manager s
     \<and> (case fst bound of
          Inr h \<Rightarrow> r = Inr h \<and> since s t = [JsKeyValue j (kv_Bucket k)]
        | Inl err \<Rightarrow>
            if isBucketNotFound err \<and> kv_AutoCreateBucket k
            then (\<exists>cfg. since s t = [JsKeyValue j (kv_Bucket k), JsCreateKeyValue j cfg]
                 \<and> r = fst (env_create_kv env c j cfg (snd bound))
                 \<and> kvc_Bucket cfg = kv_Bucket k \<and> kvc_History cfg = kv_History k \<and> kvc_TTL cfg = kv_TTL k
                 \<and> kvc_MaxValueSize cfg = kv_MaxValueSize k \<and> kvc_Replicas cfg = kv_Replicas k
                 \<and> kvc_Storage cfg = (if ToLower (kv_Storage k) = ''memory'' then MemoryStorage else FileStorage))
            else r = Inl err \<and> since s t = [JsKeyValue j (kv_Bucket k)])) s"
  by (auto simp: bindOrCreateKV_def bucketConfig_def wp_simps Let_def since_def split_beta split: sum.splits)

text \<open>On the world without a bucket the client with the memory configuration creates one; the client
  with the default configuration is told that there is none.\<close>

theorem bucket_created_on_request_only_witness:
  "(\<exists>cfg. since sample_memory_client (snd (run_state (bindOrCreateKV sample_bare_env Background 3) sample_memory_client))
        = [JsKeyValue 3 ''desired'', JsCreateKeyValue 3 cfg]
      \<and> kvc_Bucket cfg = ''desired'' \<and> kvc_History cfg = 3 \<and> kvc_TTL cfg = 60 \<and> kvc_Storage cfg = MemoryStorage)
   \<and> fst (run_state (bindOrCreateKV sample_bare_env Background 3) sample_client) = Inl sample_no_bucket"
proof -
  have c: "kv_Bucket (KV (m_EffectiveConfig (manager sample_memory_client))) = ''desired''"
    "kv_AutoCreateBucket (KV (m_EffectiveConfig (manager sample_memory_client)))"
    "kv_History (KV (m_EffectiveConfig (manager sample_memory_client))) = 3"
    "kv_TTL (KV (m_EffectiveConfig (manager sample_memory_client))) = 60"
    "ToLower (kv_Storage (KV (m_EffectiveConfig (manager sample_memory_client)))) = ''memory''"
    "\<not> kv_AutoCreateBucket (KV (m_EffectiveConfig (manager sample_client)))"
    "isBucketNotFound sample_no_bucket"
    by code_simp+
  show ?thesis
    using bucket_created_on_request_only [of sample_bare_env Background 3 sample_memory_client]
      bucket_created_on_request_only [of sample_bare_env Background 3 sample_client] c
    by (auto simp: sample_bare_env_def Let_def wp_def split: prod.splits)
qed

text \<open>C23: a rebind after a reconnect publishes its handles only if the session is not closing and still
  on that connection; otherwise the session is left as it is and no hook runs.\<close>

theorem stale_rebind_publishes_nothing:
  "wp (rebind_commit env nc j h) (\<lambda>fn t.
     if \<not> m_closing (manager s) \<and> m_nc (manager s) = Some nc then
       fn = hk_OnReconnected (m_hooks (manager s)) \<and> m_nc (manager t) = Some nc
       \<and> m_js (manager t) = Some j \<and> m_kv (manager t) = Some h
       \<and> hs_State (m_health (manager t)) = StateConnected \<and> hs_KVReady (m_health (manager t))
     else fn = None \<and> t = s) s"
  by (simp add: rebind_commit_def wp_simps)

subsection \<open>The desired-config store\<close>

definition sample_update :: kv_entry where
  "sample_update = sample_entry\<lparr>kve_Value := projr (kv_encodeRecord (toKVRecord (configRecord sample_command)))\<rparr>"

lemma watch_handler_asks: "asks_once (\<lambda>st. MDesired (publicStored st)) (watch_handler env h c)"
  by (simp add: asks_once_def watch_handler_def wp_ask_log)

text \<open>C24: the watch loop gives the user handler the records that decode and pass validation, in the
  order of their updates and up to the end of the watch, and nothing else.  While the handler returns
  (with or without an error) every such record reaches it, and the watch counts as ready once the
  initial values are through or the loop has ended.  A panic of the handler, which nothing recovers,
  ends the loop: the records before it were delivered in order, the last one delivered is the one that
  panicked, and nothing after it is delivered.\<close>

theorem watch_delivers_valid_records_in_order:
  fixes s :: "('w, 'm) world_scheme"
  shows "wp (consumeWatch env sink c (watch_handler env h) evs ready) (\<lambda>r t. \<exists>new. calls t = calls s @ new
     \<and> (case r of
          (rd, Crashed p) \<Rightarrow> rd \<and> (\<exists>pre m rest. answers new = pre @ [(m, HPanic p)] \<and> list_all returned pre
             \<and> map (\<lambda>st. MDesired (publicStored st)) (deliveries evs) = map fst pre @ m # rest)
        | (rd, st) \<Rightarrow> map fst (answers new) = map (\<lambda>st. MDesired (publicStored st)) (deliveries evs)
             \<and> list_all returned (answers new)
             \<and> rd = (ready \<or> initial_seen evs \<or> terminated evs)
             \<and> st = (if terminated evs then Ended else Waiting))) s"
proof (rule wp_mono [OF consumeWatch_spec [where handler = "watch_handler env h" and c = c, OF watch_handler_asks]])
  fix r and t :: "('w, 'm) world_scheme"
  assume "watched (\<lambda>st. MDesired (publicStored st)) evs ready s r t"
  then obtain new where new: "calls t = calls s @ new"
    "served (map (\<lambda>st. MDesired (publicStored st)) (deliveries evs)) (answers new)
       (ready \<or> initial_seen evs \<or> terminated evs) (if terminated evs then Ended else Waiting) r"
    by (auto simp: watched_def)
  show "\<exists>new. calls t = calls s @ new
     \<and> (case r of
          (rd, Crashed p) \<Rightarrow> rd \<and> (\<exists>pre m rest. answers new = pre @ [(m, HPanic p)] \<and> list_all returned pre
             \<and> map (\<lambda>st. MDesired (publicStored st)) (deliveries evs) = map fst pre @ m # rest)
        | (rd, st) \<Rightarrow> map fst (answers new) = map (\<lambda>st. MDesired (publicStored st)) (deliveries evs)
             \<and> list_all returned (answers new)
             \<and> rd = (ready \<or> initial_seen evs \<or> terminated evs)
             \<and> st = (if terminated evs then Ended else Waiting))"
    using new by (intro exI [of _ new]) (auto simp: served_def split: prod.splits watch_status.splits if_splits)
qed

text \<open>An update that does not decode and a valid one, with a handler that panics.\<close>

definition panicking_env :: "unit client_env" where
  "panicking_env = sample_env\<lparr>env_run_handler := \<lambda>h c m w. (HPanic ''boom'', w)\<rparr>"

theorem watch_delivers_valid_records_in_order_witness:
  "\<exists>new m. calls (snd (run_state (consumeWatch panicking_env False Background (watch_handler panicking_env 0)
      [NilEntry, Update sample_entry, Update sample_update] False) sample_client)) = calls sample_client @ new
    \<and> answers new = [(m, HPanic ''boom'')]"
proof -
  let ?evs = "[NilEntry, Update sample_entry, Update sample_update]"
  let ?run = "run_state (consumeWatch panicking_env False Background (watch_handler panicking_env 0) ?evs False) sample_client"
  have d: "length (deliveries ?evs) = 1" by code_simp
  have p: "snd (fst ?run) = Crashed ''boom''" by code_simp
  obtain rd t where t: "?run = ((rd, Crashed ''boom''), t)"
    using p by (metis prod.collapse)
  from watch_delivers_valid_records_in_order [of panicking_env False Background 0 ?evs False sample_client] t
  obtain new pre m rest where new: "calls t = calls sample_client @ new" "answers new = pre @ [(m, HPanic ''boom'')]"
    "map (\<lambda>st. MDesired (publicStored st)) (deliveries ?evs) = map fst pre @ m # rest"
    by (auto simp: wp_def simp del: deliveries.simps)
  have "pre = []" using arg_cong [OF new(3), of length] d by (simp del: deliveries.simps)
  with new t show ?thesis by auto
qed

subsection \<open>The publisher\<close>

text \<open>C25: a publish that reports success handed exactly this message to the connection once and flushed
  it, and counts as one success; one that fails sent at most this message and counts as one failure,
  or did nothing at all.\<close>

theorem publish_sends_once_and_counts_once:
  "wp (Publish env \<lparr>pb_conn = Connection env', pb_publishTimeout = session_publishTimeout, pb_metrics = metrics\<rparr>
       co op k subject payload) (\<lambda>r t. manager t = manager s
     \<and> (\<exists>new. calls t = calls s @ new \<and> puts new = []
        \<and> (case r of
             None \<Rightarrow> (\<exists>nc c. publishes new = [NcPublish nc subject payload None] \<and> NcFlush nc c None \<in> set new)
               \<and> outcomes new = (if metrics then [''success''] else [])
           | Some e \<Rightarrow> new = []
               \<or> (\<exists>nc sent. publishes new = [NcPublish nc subject payload sent]) \<and> rt_code e = RtPublishFailed
                 \<and> outcomes new = (if metrics then [''failure''] else [])))) s"
proof (rule wp_mono [OF session_conn.publish_spec])
  fix r :: "goerr option" and t
  assume "session_conn.publish_result metrics subject payload s r t"
  then show "manager t = manager s
     \<and> (\<exists>new. calls t = calls s @ new \<and> puts new = []
        \<and> (case r of
             None \<Rightarrow> (\<exists>nc c. publishes new = [NcPublish nc subject payload None] \<and> NcFlush nc c None \<in> set new)
               \<and> outcomes new = (if metrics then [''success''] else [])
           | Some e \<Rightarrow> new = []
               \<or> (\<exists>nc sent. publishes new = [NcPublish nc subject payload sent]) \<and> rt_code e = RtPublishFailed
                 \<and> outcomes new = (if metrics then [''failure''] else [])))"
    unfolding session_conn.publish_result_def same_session_def by (cases r) auto
qed

subsection \<open>Targets and keys\<close>

text \<open>C26: under an accepted configuration a target has a desired-config key exactly when it has a
  configure subject: the store and the subject builder check targets alike.\<close>

theorem keys_and_subjects_share_targets:
  assumes "kv_ok k" and "NewBuilder p = Inr b"
  shows "isl (buildDesiredConfigKey (kv_KeyPattern k) t) \<longleftrightarrow> isl (ConfigureSubject b t)"
proof (cases "ValidateTarget t")
  case None
  then show ?thesis using key_of_normalised [OF assms(1)] by (simp add: ConfigureSubject_def)
next
  case (Some e)
  then have "buildDesiredConfigKey (kv_KeyPattern k) t \<noteq> Inr key" for key
    by (simp add: buildDesiredConfigKey_Inr)
  then have "isl (buildDesiredConfigKey (kv_KeyPattern k) t)"
    by (cases "buildDesiredConfigKey (kv_KeyPattern k) t") auto
  with Some show ?thesis by (simp add: ConfigureSubject_def)
qed

theorem keys_and_subjects_share_targets_witness:
  "isl (buildDesiredConfigKey (kv_KeyPattern (session_conf sample_client)) ''a.b'')
     \<and> \<not> isl (buildDesiredConfigKey (kv_KeyPattern (session_conf sample_client)) ''vyos'')"
proof -
  have k: "kv_ok (session_conf sample_client)"
    using sample_inv by (simp add: client_inv_def session_conf_def config_ok_def)
  have b: "NewBuilder DefaultPatterns = Inr default_builder"
    by (simp add: NewBuilder_def default_patterns_valid default_builder_def)
  have "isl (ConfigureSubject default_builder ''a.b'')" "\<not> isl (ConfigureSubject default_builder ''vyos'')"
    by code_simp+
  with keys_and_subjects_share_targets [OF k b] show ?thesis by blast
qed

text \<open>C27: two targets never share a key in the bucket.\<close>

theorem keys_tell_targets_apart:
  assumes "buildDesiredConfigKey pat t = Inr key" and "t' \<noteq> t"
  shows "buildDesiredConfigKey pat t' \<noteq> Inr key"
  using assms target.Sprintf_token_inject [of "TrimSpace pat"]
  by (auto simp: buildDesiredConfigKey_Inr validateKeyPattern_accepts)

theorem keys_tell_targets_apart_witness:
  "buildDesiredConfigKey ''desired.%s'' ''leaf'' \<noteq> Inr ''desired.vyos''"
  by (rule keys_tell_targets_apart [of _ "''vyos''"]) code_simp+

end
