(* ===== verification/Spec2Isabelle.thy ===== *)
theory Spec2Isabelle
  imports Data_Properties Session_Properties
begin

text \<open>
  A verification development for the Go library \<open>nats-agent-core\<close>: an agent's runtime that submits
  configure and action commands, keeps desired configuration in a JetStream key-value bucket,
  dispatches messages to registered handlers and survives reconnects.

  \<^bold>\<open>The program and its theories\<close>, from the bottom up:

  \<^item> \<open>Prelude\<close>, \<open>Go_Strings\<close>, \<open>Go_Format\<close>, \<open>Unicode_Tables\<close>, \<open>Go_Time\<close>, \<open>Go_Json\<close>: the parts of Go's
    language and standard library that the code calls (strings, \<open>unicode\<close>, \<open>fmt\<close> verbs on strings,
    \<open>time.Time\<close>, \<open>encoding/json\<close> on structs of strings, numbers and raw messages).  A string is the
    list of its bytes; a Go function that returns an error is an option or a sum.
  \<^item> \<open>Errors\<close>: \<open>internal/runtimeerr/error.go\<close>, \<open>agentcore/errors.go\<close> and \<open>toPublicError\<close>.
  \<^item> \<open>Tokens\<close> states what a token validator promises, as a locale; \<open>Subjects\<close> (\<open>internal/subjects\<close>) and
    \<open>Kv_Store\<close> (\<open>internal/kv/helpers.go\<close>) interpret it for their own validators.
  \<^item> \<open>Registry\<close>: \<open>internal/registry\<close>.  The Go maps are association lists; the abstract registry is a
    pair of finite maps (\<open>intents\<close>, \<open>live\<close>), and every operation refines an operation on them.
  \<^item> \<open>Contract\<close>: \<open>agentcore/contracts.go\<close> and \<open>internal/contract\<close>: the messages, their wire form, their
    validators and codecs; the locale \<open>message_codec\<close> is interpreted for all eight messages.
  \<^item> \<open>Session_Config\<close>: \<open>agentcore/config.go\<close>, \<open>internal/session/types.go\<close>, \<open>options.go\<close> and the
    conversion \<open>toSessionConfig\<close> of \<open>client.go\<close>.
  \<^item> \<open>Environment\<close>, \<open>Call_Frames\<close>: what is not code of the repository (NATS, JetStream, the clock, files,
    contexts, goroutine scheduling, user handlers) is a record of functions of an arbitrary world;
    each call is also recorded in a trace, on which the properties about effects are stated.
  \<^item> \<open>Session\<close>: \<open>internal/session/session.go\<close>, \<open>callbacks.go\<close>, \<open>health.go\<close>.  Each critical section under
    the manager's mutex is a definition of its own, and the operations are composed of them.
    \<open>Session_Lifecycle\<close> has what they guarantee run one at a time, \<open>Session_Steps\<close> lets the sections of
    any number of starts, closes and callbacks interleave, \<open>Session_Plain\<close> says what they never do.
  \<^item> \<open>Kv_Store\<close>, \<open>Kv_Contract\<close>: \<open>internal/kv\<close>; the store works over the interface \<open>RuntimeProvider\<close>, whose
    contract is the locale \<open>runtime_provider\<close>, interpreted on the session manager.
  \<^item> \<open>Transport\<close>: \<open>internal/transport/publisher.go\<close> over the locale \<open>connection_provider\<close>, likewise.
  \<^item> \<open>Client_State\<close>, \<open>Handlers_Runtime\<close>, \<open>Client\<close>: \<open>agentcore/client.go\<close> and \<open>handlers_runtime.go\<close>.
    \<open>Handlers_Contract\<close>, \<open>Registration\<close>, \<open>Client_Contract\<close>, \<open>Client_Lifecycle\<close> hold what their operations
    guarantee, \<open>Client_Steps\<close> the client as a state machine (\<open>client_step\<close>, \<open>client_reach\<close>) with the
    invariant of its reachable states, and \<open>Client_Frames\<close> what each operation leaves alone: that watch
    numbers are fresh while their counter has not wrapped (\<open>unwrapped_reach\<close>), and that every
    registration of a reachable client is of a known kind.
  \<^item> \<open>Sample\<close>: concrete worlds and clients for the witnesses.

  \<^bold>\<open>How code is modelled.\<close>  A struct is a record, an interface value a record of functions or an
  argument; a method that reads or changes shared state is a state transformer (\<open>'s, 'a) state\<close>, and
  \<open>wp f Q s\<close> says that running \<open>f\<close> in \<open>s\<close> ends in a result and state satisfying \<open>Q\<close>; every operation is
  a total function, so this includes that it returns.  \<open>context.Context\<close> is a datatype of its
  derivations.  The registry's and the watch table's counters are 64-bit words and wrap; properties
  that need a fresh number say how much room there must be.  Durations are integers: the only sum or
  difference the code takes of them is the time until a deadline, which \<open>time.Until\<close> saturates at 292
  years.
  A client is the session state extended by the client's own fields, so that operations of the lower
  layers apply to it unchanged.

  \<^bold>\<open>Properties\<close> are numbered C1 to C39: those of the whole client are in this theory, those of the
  session manager, store and publisher in \<open>Session_Properties\<close>, those of the data in
  \<open>Data_Properties\<close>.  Each stands below a text that states it; one with hypotheses is followed by an
  application to concrete values.

  \<^bold>\<open>Termination and bounds.\<close>  No definition takes fuel: the scanners of JSON text and of UTF-8 consume
  their input (\<open>function\<close> with a measure where the step is not structural), and the loops over
  subscriptions, watches, options and delivered watch events are recursions over lists.  What a
  goroutine receives before it ends (the events of a watch) is such a list.  The nesting bound of
  \<open>encoding/json\<close> (10000) is part of the scanner.

  \<^bold>\<open>Simplifications.\<close>  A subscription counts as closed once \<open>Unsubscribe\<close> was called on it, also when that
  call reports an error (\<open>dropped_by\<close>): the code reports or logs the error and forgets the handle, and
  NATS documents these errors for subscriptions or connections that are closed already.  A connection
  that arrives after \<open>Start\<close> stopped waiting for it is closed at once in the model (\<open>dial\<close>), in the code
  by the goroutine that was waiting.  \<open>validatePatterns\<close> stands for the same five checks written out in
  \<open>PatternsFromConfig\<close> and in \<open>NewBuilder\<close>.  A watch handler that panics ends its watch loop
  (\<open>Crashed\<close>); that in Go the whole process ends with it is not followed further.

  \<^bold>\<open>Not modelled.\<close>  The test seams of \<open>Client\<close> (the four function fields \<open>startSessionFn\<close> and the like,
  nil outside tests); methods called on a nil \<open>*Client\<close>; the interfaces of \<open>observe.go\<close> beyond which calls of the
  hooks are made; \<open>doc.go\<close>, examples and tests.  Iteration over a Go map has an unspecified order; the
  model takes the insertion order, and no property depends on it.  Calls of the client are one step
  each in \<open>Client_Steps\<close>: interleavings are treated for the session manager only.
\<close>

subsection \<open>Submitting\<close>

text \<open>C1: a configure command is durable before it is announced.  Whatever happens, the bucket is
  written at most once and then at most one notification is sent, and none unless the write
  succeeded; an acknowledgement means that exactly the record of this command was stored under the
  key of its target, that the notification naming that bucket and key went out on the target's
  configure subject, and that the acknowledgement reports the same.\<close>

theorem submit_configure_stores_before_it_announces:
  fixes s :: "('w, 'm) client_scheme"
  shows "wp (SubmitConfigure env co cmd) (\<lambda>r t.
     manager t = manager s \<and> c_subscriptions t = c_subscriptions s
     \<and> (\<exists>n1 n2. calls t = calls s @ n1 @ n2 \<and> publishes n1 = [] \<and> puts n2 = []
        \<and> length (puts n1) \<le> 1 \<and> length (publishes n2) \<le> 1
        \<and> (publishes n2 = [] \<or> list_ex put_done n1)
        \<and> (case r of
             Inl e \<Rightarrow> True
           | Inr ack \<Rightarrow> (\<exists>h key payload revn nc data stored now.
               validateConfigureCommand ''submit_configure'' cmd = None
               \<and> buildDesiredConfigKey (kv_KeyPattern (session_conf s)) (cc_Target cmd) = Inr key
               \<and> kv_encodeRecord (toKVRecord (configRecord cmd)) = Inr payload
               \<and> puts n1 = [KvPut h key payload (Inr revn)]
               \<and> sd_Key stored = key \<and> sd_Bucket stored = kv_Bucket (session_conf s)
               \<and> Marshal (wire_ConfigureNotification (notificationFor cmd stored now)) = Inr data
               \<and> ConfigureSubject (c_subjects s) (cc_Target cmd) = Inr (ack_Subject ack)
               \<and> publishes n2 = [NcPublish nc (ack_Subject ack) data None]
               \<and> ack_Accepted ack \<and> ack_RPCID ack = cc_RPCID cmd \<and> ack_Target ack = cc_Target cmd
               \<and> ack_KVKey ack = key \<and> ack_KVBucket ack = kv_Bucket (session_conf s))))) s"
proof (rule wp_mono [OF SubmitConfigure_spec])
  fix r :: "SubmissionAck result" and t :: "('w, 'm) client_scheme"
  assume t: "submitted cmd s r t"
  then have same: "manager t = manager s" "c_subscriptions t = c_subscriptions s"
    using same_clientD [of s t] by (simp_all add: submitted_def)
  show "manager t = manager s \<and> c_subscriptions t = c_subscriptions s
     \<and> (\<exists>n1 n2. calls t = calls s @ n1 @ n2 \<and> publishes n1 = [] \<and> puts n2 = []
        \<and> length (puts n1) \<le> 1 \<and> length (publishes n2) \<le> 1
        \<and> (publishes n2 = [] \<or> list_ex put_done n1)
        \<and> (case r of
             Inl e \<Rightarrow> True
           | Inr ack \<Rightarrow> (\<exists>h key payload revn nc data stored now.
               validateConfigureCommand ''submit_configure'' cmd = None
               \<and> buildDesiredConfigKey (kv_KeyPattern (session_conf s)) (cc_Target cmd) = Inr key
               \<and> kv_encodeRecord (toKVRecord (configRecord cmd)) = Inr payload
               \<and> puts n1 = [KvPut h key payload (Inr revn)]
               \<and> sd_Key stored = key \<and> sd_Bucket stored = kv_Bucket (session_conf s)
               \<and> Marshal (wire_ConfigureNotification (notificationFor cmd stored now)) = Inr data
               \<and> ConfigureSubject (c_subjects s) (cc_Target cmd) = Inr (ack_Subject ack)
               \<and> publishes n2 = [NcPublish nc (ack_Subject ack) data None]
               \<and> ack_Accepted ack \<and> ack_RPCID ack = cc_RPCID cmd \<and> ack_Target ack = cc_Target cmd
               \<and> ack_KVKey ack = key \<and> ack_KVBucket ack = kv_Bucket (session_conf s))))"
    using t same unfolding submitted_def by (cases r) (fastforce, fastforce)
qed

text \<open>C16: a command that fails its checks is refused with an error and without any effect: nothing is
  read from or written to the bucket and nothing is published.\<close>

theorem invalid_command_has_no_effect:
  fixes s :: "('w, 'm) client_scheme"
  assumes "validateConfigureCommand ''submit_configure'' cmd \<noteq> None"
  shows "wp (SubmitConfigure env co cmd) (\<lambda>r t. isl r \<and> calls t = calls s \<and> manager t = manager s
     \<and> c_subscriptions t = c_subscriptions s) s"
proof -
  from assms obtain err where v: "validateConfigureCommand ''submit_configure'' cmd = Some err" by blast
  show ?thesis
    by (rule wp_mono [OF SubmitConfigure_invalid [OF v]]) (auto dest: same_clientD)
qed

theorem invalid_command_has_no_effect_witness:
  "wp (SubmitConfigure sample_env None (sample_command\<lparr>cc_Target := []\<rparr>)) (\<lambda>r t. isl r
     \<and> calls t = calls sample_running \<and> manager t = manager sample_running
     \<and> c_subscriptions t = c_subscriptions sample_running) sample_running"
  by (rule invalid_command_has_no_effect) code_simp

subsection \<open>Reachable clients\<close>

text \<open>C2: whatever sequence of calls, messages and session callbacks a client has been through, its
  connection handles are published together or not at all, no start or close is left half done, its
  effective configuration is usable, every registration is found by number and by key, the health
  counters are the numbers of registered and live subscriptions, no NATS subscription is open that
  the registry does not know, and handlers only run under a handler context.\<close>

theorem reachable_clients_are_sound:
  assumes "client_reach env s"
  shows "(m_js (manager s) = None \<longleftrightarrow> m_nc (manager s) = None)
    \<and> (m_kv (manager s) = None \<longleftrightarrow> m_nc (manager s) = None)
    \<and> \<not> m_starting (manager s) \<and> \<not> m_closing (manager s)
    \<and> config_ok (m_EffectiveConfig (manager s))
    \<and> registry_inv (c_subscriptions s)
    \<and> hs_RegisteredSubscriptions (m_health (manager s)) = card (dom (intents (c_subscriptions s)))
    \<and> hs_ActiveSubscriptions (m_health (manager s)) = card (dom (live (c_subscriptions s)))
    \<and> open_subs s \<subseteq> ran (live (c_subscriptions s))
    \<and> (c_callbacksEnabled s \<longrightarrow> c_handlerCtx s \<noteq> None)"
proof -
  have inv: "client_inv s" by (rule client_inv_reach [OF assms])
  note i = client_invD [OF inv]
  show ?thesis
    using inv i(1,5,6) Counts_abs [OF i(4)]
    by (simp add: client_inv_def manager_ok_def handles_ok_def synced_def no_leak_def)
qed

theorem reachable_clients_are_sound_witness:
  "m_nc (manager sample_running) = Some 7 \<and> m_kv (manager sample_running) \<noteq> None
     \<and> c_handlerCtx sample_running \<noteq> None"
  using reachable_clients_are_sound [OF sample_running_reach] sample_running_connected sample_running_enabled
  by simp

text \<open>C3: starting a client either brings everything up: a connected session, handlers enabled under a
  context, and a live subscription for every registration; or it reports an error and leaves the
  client's own state as it was or with dispatch off and nothing subscribed.  Registrations survive
  either way, and nothing is stored, published or dispatched by starting.\<close>

theorem start_brings_everything_up_or_down:
  assumes "client_reach env s"
  shows "wp (c_Start env' co) (\<lambda>r t. intents (c_subscriptions t) = intents (c_subscriptions s)
     \<and> c_watches t = c_watches s \<and> io_quiet (since s t)
     \<and> open_subs t \<subseteq> ran (live (c_subscriptions t))
     \<and> (case r of
          None \<Rightarrow> m_nc (manager t) \<noteq> None \<and> c_callbacksEnabled t \<and> c_handlerCtx t \<noteq> None
            \<and> dom (live (c_subscriptions t)) = dom (intents (c_subscriptions s))
        | Some e \<Rightarrow> session.more t = session.more s
            \<or> \<not> c_callbacksEnabled t \<and> c_handlerCtx t = None \<and> live (c_subscriptions t) = (\<lambda>_. None)
              \<and> open_subs t = {})) s"
proof -
  note i = client_invD [OF client_inv_reach [OF assms]]
  show ?thesis
  proof (rule wp_mono [OF c_Start_spec [OF i(1,4)]])
    fix r and t :: "'a client"
    assume t: "client_started s r t"
    then have "io_quiet (since s t)" by (auto simp: client_started_def sound_after_def since_def)
    with t i(6) show "intents (c_subscriptions t) = intents (c_subscriptions s)
     \<and> c_watches t = c_watches s \<and> io_quiet (since s t)
     \<and> open_subs t \<subseteq> ran (live (c_subscriptions t))
     \<and> (case r of
          None \<Rightarrow> m_nc (manager t) \<noteq> None \<and> c_callbacksEnabled t \<and> c_handlerCtx t \<noteq> None
            \<and> dom (live (c_subscriptions t)) = dom (intents (c_subscriptions s))
        | Some e \<Rightarrow> session.more t = session.more s
            \<or> \<not> c_callbacksEnabled t \<and> c_handlerCtx t = None \<and> live (c_subscriptions t) = (\<lambda>_. None)
              \<and> open_subs t = {})"
      by (cases r) (auto simp: client_started_def sound_after_def no_leak_def [symmetric])
  qed
qed

theorem start_brings_everything_up_or_down_witness:
  "wp (c_Start sample_env None) (\<lambda>r t. intents (c_subscriptions t) = intents (c_subscriptions sample_client)
     \<and> io_quiet (since sample_client t)) sample_client
   \<and> c_callbacksEnabled sample_running"
  using wp_mono [OF start_brings_everything_up_or_down [OF sample_reach, of sample_env None]]
    sample_running_enabled by (simp add: wp_def split: prod.splits)

text \<open>C4: closing a client releases everything: no connection, no live subscription, none left open at
  the server, no watch, dispatch off; every watch was cancelled and stopped and the connection was
  asked to drain.  The registrations stay, for a later start.\<close>

theorem close_releases_everything:
  assumes "client_reach env s"
  shows "wp (c_Close env' (return ()) co) (\<lambda>r t.
     m_nc (manager t) = None \<and> m_kv (manager t) = None \<and> hs_State (m_health (manager t)) = StateClosed
     \<and> \<not> c_callbacksEnabled t \<and> c_handlerCtx t = None \<and> c_watches t = []
     \<and> intents (c_subscriptions t) = intents (c_subscriptions s)
     \<and> live (c_subscriptions t) = (\<lambda>_. None) \<and> open_subs t = {}
     \<and> (\<forall>(n, w) \<in> set (c_watches s).
          Cancel (kw_ctx w) \<in> set (since s t) \<and> WatcherStop (kw_watcher w) \<in> set (since s t))
     \<and> (case m_nc (manager s) of None \<Rightarrow> True | Some nc \<Rightarrow> Drain nc \<in> set (since s t))) s"
proof -
  note i = client_invD [OF client_inv_reach [OF assms]]
  show ?thesis
    by (rule wp_mono [OF c_Close_spec [OF i(1,4,3,2)]])
       (use i(6) in \<open>simp add: client_closed_def torn_down_def sound_after_def\<close>)
qed

theorem close_releases_everything_witness:
  "wp (c_Close sample_env (return ()) None) (\<lambda>r t. m_nc (manager t) = None \<and> c_watches t = []
     \<and> open_subs t = {} \<and> Drain 7 \<in> set (since sample_running t)) sample_running"
  using wp_mono [OF close_releases_everything [OF sample_running_reach, of sample_env None]]
    sample_running_connected by (simp add: wp_def split: prod.splits)

subsection \<open>Handlers\<close>

text \<open>C5: registering a handler, of any of the four kinds, is all or nothing.  An argument that is
  missing or not valid changes nothing; a registration that cannot be recorded or activated leaves
  the registrations and live subscriptions as they were; one that succeeds adds exactly that
  registration and, once the session has been connected, a subscription for its subject, queue group
  and callback.\<close>

theorem registration_is_all_or_nothing:
  assumes "client_reach env s" and "unat (nextID (c_subscriptions s)) + 1 < 2 ^ 64"
  shows "wp (registerConfigureHandler env' target handler opts) (\<lambda>r t. handled
        (registration_of KindConfigure target [] ConfigureCallback (ConfigureSubject (c_subjects s) target) handler opts) s r t) s
    \<and> wp (registerActionHandler env' target action handler opts) (\<lambda>r t. handled
        (registration_of KindAction target action ActionCallback (ActionSubject (c_subjects s) target action) handler opts) s r t) s
    \<and> wp (registerResultHandler env' target handler opts) (\<lambda>r t. handled
        (registration_of KindResult target [] ResultCallback (ResultSubject (c_subjects s) target) handler opts) s r t) s
    \<and> wp (registerStatusHandler env' target handler opts) (\<lambda>r t. handled
        (registration_of KindStatus target [] StatusCallback (StatusSubject (c_subjects s) target) handler opts) s r t) s"
proof -
  have inv: "registry_inv (c_subscriptions s)" by (rule client_invD(4) [OF client_inv_reach [OF assms(1)]])
  have room: "counter_room 1 (c_subscriptions s)" using assms(2) by (simp add: counter_room_def)
  show ?thesis
    by (intro conjI registerConfigureHandler_spec registerActionHandler_spec
        registerResultHandler_spec registerStatusHandler_spec inv room)
qed

theorem registration_is_all_or_nothing_witness:
  "wp (registerStatusHandler sample_env ''vyos'' (Some 3) []) (\<lambda>r t. handled
        (registration_of KindStatus ''vyos'' [] StatusCallback (StatusSubject (c_subjects sample_running) ''vyos'')
           (Some 3) []) sample_running r t) sample_running
   \<and> fst (run_state (registerStatusHandler sample_env ''vyos'' (Some 3) []) sample_running) = None"
proof -
  have "nextID (c_subscriptions sample_running) = 0" by code_simp
  then have "unat (nextID (c_subscriptions sample_running)) + 1 < 2 ^ 64" by simp
  note reg = registration_is_all_or_nothing [OF sample_running_reach this, of sample_env "''vyos''" "Some 3" "[]"]
  show ?thesis
    by (rule conjI, rule reg [THEN conjunct2, THEN conjunct2, THEN conjunct2], code_simp)
qed

text \<open>C6: a message runs the handler of its subscription at most once, with the decoded and validated
  payload and under the handler context, and exactly when dispatch is on and the payload decodes;
  dispatching neither stores nor publishes nor changes subscriptions.\<close>

theorem message_runs_its_handler_once:
  fixes s :: "('w, 'm) client_scheme"
  shows "wp (deliver env cb mo) (\<lambda>u t. manager t = manager s \<and> c_subscriptions t = c_subscriptions s
     \<and> (\<exists>new. calls t = calls s @ new \<and> puts new = [] \<and> publishes new = [] \<and> made new = {} \<and> dropped new = {}
        \<and> runs new = (if c_callbacksEnabled s then
             (case mo of None \<Rightarrow> []
              | Some msg \<Rightarrow> (case expected cb msg of None \<Rightarrow> []
                  | Some (h, m) \<Rightarrow> [(h, or_background (c_handlerCtx s), m)])) else []))) s"
  by (rule wp_mono [OF deliver_spec])
     (auto simp: dispatched_def same_clientD split: option.splits if_splits)



text \<open>C8: when the session is closed under the client, nothing is dispatched any more and nothing stays
  subscribed; the registrations are kept.\<close>

theorem closed_session_silences_the_client:
  assumes "client_reach env s"
  shows "wp (onSessionClosed env') (\<lambda>u t. \<not> c_callbacksEnabled t \<and> c_handlerCtx t = None
     \<and> intents (c_subscriptions t) = intents (c_subscriptions s)
     \<and> live (c_subscriptions t) = (\<lambda>_. None) \<and> open_subs t = {}
     \<and> hs_ActiveSubscriptions (m_health (manager t)) = 0) s"
proof -
  note i = client_invD [OF client_inv_reach [OF assms]]
  show ?thesis
  proof (rule wp_mono [OF onSessionClosed_spec [OF i(4)]])
    fix u and t :: "'a client"
    assume t: "silenced s t"
    then have "hs_ActiveSubscriptions (m_health (manager t)) = 0"
      using Counts_abs [of "c_subscriptions t"] by (simp add: silenced_def synced_def)
    with t i(6) show "\<not> c_callbacksEnabled t \<and> c_handlerCtx t = None
     \<and> intents (c_subscriptions t) = intents (c_subscriptions s)
     \<and> live (c_subscriptions t) = (\<lambda>_. None) \<and> open_subs t = {}
     \<and> hs_ActiveSubscriptions (m_health (manager t)) = 0" by (simp add: silenced_def)
  qed
qed

theorem closed_session_silences_the_client_witness:
  "wp (onSessionClosed sample_env) (\<lambda>u t. \<not> c_callbacksEnabled t \<and> open_subs t = {}) sample_running
     \<and> c_callbacksEnabled sample_running"
  by (intro conjI sample_running_enabled,
      rule wp_mono [OF closed_session_silences_the_client [OF sample_running_reach]], elim conjE, intro conjI)

subsection \<open>Publishing\<close>

text \<open>What the calls of an operation that publishes can be: nothing was sent; or one message was, on the
  subject and with the payload given, and on success it went out and the connection was flushed.\<close>

definition sends :: "string result \<Rightarrow> string result \<Rightarrow> bool \<Rightarrow> call list \<Rightarrow> bool" where
  "sends subj encoded ok new \<longleftrightarrow> puts new = []
     \<and> (\<not> ok \<and> publishes new = []
        \<or> (\<exists>nc subject data sent. subj = Inr subject \<and> encoded = Inr data
             \<and> publishes new = [NcPublish nc subject data sent]
             \<and> (\<not> ok \<or> sent = None \<and> (\<exists>c. NcFlush nc c None \<in> set new))))"

lemma publishes_subset: "set (publishes cs) \<subseteq> set cs"
  by (auto simp: publishes_def)

lemma publishes_publish: "x \<in> set (publishes cs) \<Longrightarrow> \<exists>nc subject data sent. x = NcPublish nc subject data sent"
  by (auto simp: publishes_def split: call.splits) (metis is_publish.elims(2))

lemma announced_sends:
  assumes "announced subj encoded s ok t"
  shows "manager t = manager s \<and> c_subscriptions t = c_subscriptions s
    \<and> (\<exists>new. calls t = calls s @ new \<and> sends subj encoded ok new)"
proof -
  from assms have same: "manager t = manager s" "c_subscriptions t = c_subscriptions s"
    using same_clientD [of s t] by (simp_all add: announced_def)
  from assms obtain new where new: "calls t = calls s @ new" "puts new = []" "length (publishes new) \<le> 1"
    "\<And>nc subject data sent. NcPublish nc subject data sent \<in> set new \<Longrightarrow> subj = Inr subject \<and> encoded = Inr data"
    "ok \<Longrightarrow> \<exists>nc c subject data. subj = Inr subject \<and> encoded = Inr data
       \<and> publishes new = [NcPublish nc subject data None] \<and> NcFlush nc c None \<in> set new"
    unfolding announced_def by blast
  have "sends subj encoded ok new"
  proof (cases ok)
    case True
    with new(2,5) show ?thesis by (auto simp: sends_def)
  next
    case False
    show ?thesis
    proof (cases "publishes new")
      case Nil
      with False new(2) show ?thesis by (simp add: sends_def)
    next
      case (Cons x xs)
      with new(3) have xs: "publishes new = [x]" by simp
      with publishes_publish [of x new] obtain nc subject data sent where
        x: "x = NcPublish nc subject data sent" by auto
      have "x \<in> set new" using publishes_subset [of new] xs by auto
      with new(4) x xs False new(2) show ?thesis by (auto simp: sends_def)
    qed
  qed
  with same new(1) show ?thesis by blast
qed

text \<open>C9: an action is announced at most once and only when it passes its checks and encodes, on the
  subject built from its target and action, with exactly its JSON encoding as the message; it is
  acknowledged only after the message went out and the connection was flushed, and nothing is written
  to the bucket.\<close>

theorem submit_action_announces_the_action:
  fixes s :: "('w, 'm) client_scheme"
  shows "wp (SubmitAction env co cmd) (\<lambda>r t. manager t = manager s \<and> c_subscriptions t = c_subscriptions s
     \<and> (\<exists>new. calls t = calls s @ new
        \<and> sends (ActionSubject (c_subjects s) (ac_Target cmd) (ac_Action cmd))
            (guard_err (validateActionCommand ''submit_action'' cmd) (Marshal (wire_ActionCommand cmd)))
            (\<not> isl r) new)
     \<and> (case r of
          Inl e \<Rightarrow> True
        | Inr ack \<Rightarrow> ack_Accepted ack \<and> ack_RPCID ack = ac_RPCID cmd \<and> ack_Target ack = ac_Target cmd
            \<and> Inr (ack_Subject ack) = ActionSubject (c_subjects s) (ac_Target cmd) (ac_Action cmd))) s"
  by (rule wp_mono [OF SubmitAction_spec]) (auto dest: announced_sends split: sum.splits)

text \<open>C10: a result is published at most once, only when it is valid, on the result subject of its target
  and with exactly its JSON encoding; success means that it went out and was flushed.\<close>

theorem publish_result_sends_the_result:
  fixes s :: "('w, 'm) client_scheme"
  shows "wp (PublishResult env co msg) (\<lambda>r t. manager t = manager s \<and> c_subscriptions t = c_subscriptions s
     \<and> (\<exists>new. calls t = calls s @ new
        \<and> sends (ResultSubject (c_subjects s) (re_Target msg))
            (guard_err (validateResultEnvelope ''publish_result'' msg) (Marshal (wire_ResultEnvelope msg)))
            (r = None) new)) s"
  by (rule wp_mono [OF PublishResult_spec]) (rule announced_sends)

text \<open>C11: likewise for a status, on the status subject of its target.\<close>

theorem publish_status_sends_the_status:
  fixes s :: "('w, 'm) client_scheme"
  shows "wp (PublishStatus env co msg) (\<lambda>r t. manager t = manager s \<and> c_subscriptions t = c_subscriptions s
     \<and> (\<exists>new. calls t = calls s @ new
        \<and> sends (StatusSubject (c_subjects s) (se_Target msg))
            (guard_err (validateStatusEnvelope ''publish_status'' msg) (Marshal (wire_StatusEnvelope msg)))
            (r = None) new)) s"
  by (rule wp_mono [OF PublishStatus_spec]) (rule announced_sends)

subsection \<open>Desired configuration\<close>

text \<open>C12: storing a desired config writes the bucket at most once; success means that a valid record was
  written under the key of its target, encoded as given, and the answer names that record, bucket and
  key; an error means that no write succeeded.\<close>

theorem store_writes_the_record_once:
  fixes s :: "('w, 'm) client_scheme"
  shows "wp (StoreDesiredConfig env co rec) (\<lambda>r t. manager t = manager s \<and> c_subscriptions t = c_subscriptions s
     \<and> (\<exists>new. calls t = calls s @ new \<and> publishes new = []
        \<and> (case r of
             Inl e \<Rightarrow> \<not> list_ex put_done new \<and> length (puts new) \<le> 1
           | Inr so \<Rightarrow> (\<exists>st h payload revn. so = Some st \<and> sd_Record st = rec
               \<and> kv_validateRecord (toKVRecord rec) = None
               \<and> sd_Bucket st = kv_Bucket (session_conf s)
               \<and> buildDesiredConfigKey (kv_KeyPattern (session_conf s)) (dc_Target rec) = Inr (sd_Key st)
               \<and> kv_encodeRecord (toKVRecord rec) = Inr payload
               \<and> puts new = [KvPut h (sd_Key st) payload (Inr revn)])))) s"
  by (rule wp_mono [OF StoreDesiredConfig_spec]) (auto simp: config_stored_def same_clientD)

text \<open>C13: loading reads the key of the target once and writes nothing; what it returns is valid and is
  the decoded value of the entry found, with that entry's bucket, key and revision.\<close>

theorem load_returns_what_the_bucket_holds:
  fixes s :: "('w, 'm) client_scheme"
  shows "wp (LoadDesiredConfig env co target) (\<lambda>r t. manager t = manager s \<and> c_subscriptions t = c_subscriptions s
     \<and> (\<exists>new. calls t = calls s @ new \<and> puts new = [] \<and> publishes new = []
        \<and> (case r of
             Inl e \<Rightarrow> True
           | Inr so \<Rightarrow> (\<exists>st h e key. so = Some st
               \<and> kv_validateRecord (toKVRecord (sd_Record st)) = None
               \<and> buildDesiredConfigKey (kv_KeyPattern (session_conf s)) target = Inr key
               \<and> new = [KvGet h key (Inr e)]
               \<and> kv_decodeRecord (kve_Value e) = Inr (toKVRecord (sd_Record st))
               \<and> sd_Key st = kve_Key e \<and> sd_Bucket st = kve_Bucket e
               \<and> sd_Revision st = kve_Revision e)))) s"
  by (rule wp_mono [OF LoadDesiredConfig_spec]) (auto simp: config_loaded_def same_clientD)

text \<open>C14: a watch is tracked exactly when it was established.  An error leaves the tracked watches and
  the counter alone: either nothing was asked for, or the request for the target's key was refused and
  its context cancelled, or the watch did not become ready, and then its context was cancelled and its
  watcher stopped.  Success means that the server made a watch on the target's key and that it reported
  ready; it is tracked, with the context it runs under, by the next number, and as long as the 64-bit
  counter has not wrapped around no watch tracked before has that number.\<close>

theorem watch_is_tracked_or_stopped:
  fixes s :: "'w client"
  shows "wp (WatchDesiredConfig env co target handler) (\<lambda>r t. manager t = manager s
     \<and> c_subscriptions t = c_subscriptions s
     \<and> (case r of
          Inl e \<Rightarrow> c_watches t = c_watches s \<and> c_nextWatchID t = c_nextWatchID s
            \<and> (since s t = []
               \<or> (\<exists>key h i. buildDesiredConfigKey (kv_KeyPattern (session_conf s)) target = Inr key
                    \<and> ((\<exists>e'. since s t = [KvWatch h key (Inl e'), Cancel (WithCancel Background i)])
                       \<or> (\<exists>w o'. o' \<noteq> ReadyClosed \<and> since s t =
                            [KvWatch h key (Inr w), AwaitReady o', Cancel (WithCancel Background i), WatcherStop w]))))
        | Inr n \<Rightarrow> n = c_nextWatchID s + 1 \<and> c_nextWatchID t = n
            \<and> (\<exists>h key w i. buildDesiredConfigKey (kv_KeyPattern (session_conf s)) target = Inr key
                 \<and> since s t = [KvWatch h key (Inr w), AwaitReady ReadyClosed]
                 \<and> c_watches t = alist_put n \<lparr>kw_ctx = WithCancel Background i, kw_watcher = w\<rparr> (c_watches s))
            \<and> (unwrapped_reach env' s \<and> watch_room s \<longrightarrow> n \<notin> fst ` set (c_watches s)))) s"
proof (rule wp_mono [OF WatchDesiredConfig_spec])
  fix r :: "64 word result" and t :: "'w client"
  assume t: "watch_started target s r t"
  have fresh: "unwrapped_reach env' s \<and> watch_room s \<longrightarrow> c_nextWatchID s + 1 \<notin> fst ` set (c_watches s)"
    using numbers_fresh unwrapped_below by blast
  show "manager t = manager s \<and> c_subscriptions t = c_subscriptions s
     \<and> (case r of
          Inl e \<Rightarrow> c_watches t = c_watches s \<and> c_nextWatchID t = c_nextWatchID s
            \<and> (since s t = []
               \<or> (\<exists>key h i. buildDesiredConfigKey (kv_KeyPattern (session_conf s)) target = Inr key
                    \<and> ((\<exists>e'. since s t = [KvWatch h key (Inl e'), Cancel (WithCancel Background i)])
                       \<or> (\<exists>w o'. o' \<noteq> ReadyClosed \<and> since s t =
                            [KvWatch h key (Inr w), AwaitReady o', Cancel (WithCancel Background i), WatcherStop w]))))
        | Inr n \<Rightarrow> n = c_nextWatchID s + 1 \<and> c_nextWatchID t = n
            \<and> (\<exists>h key w i. buildDesiredConfigKey (kv_KeyPattern (session_conf s)) target = Inr key
                 \<and> since s t = [KvWatch h key (Inr w), AwaitReady ReadyClosed]
                 \<and> c_watches t = alist_put n \<lparr>kw_ctx = WithCancel Background i, kw_watcher = w\<rparr> (c_watches s))
            \<and> (unwrapped_reach env' s \<and> watch_room s \<longrightarrow> n \<notin> fst ` set (c_watches s)))"
  proof (cases r)
    case (Inl e)
    with t show ?thesis
      by (fastforce simp: watch_started_def since_def watch_refused_def watch_key_def)
  next
    case (Inr n)
    with t fresh show ?thesis
      by (auto simp: watch_started_def since_def watch_made_def watch_key_def)
  qed
qed

text \<open>On a client that tracks one watch, a second one gets a number of its own and both are tracked.\<close>

theorem watch_is_tracked_or_stopped_witness:
  "wp (WatchDesiredConfig sample_env None ''leaf'' (Some 3)) (\<lambda>r t. r = Inr 2
     \<and> 2 \<notin> fst ` set (c_watches sample_watching)) sample_watching"
proof -
  have run: "fst (run_state (WatchDesiredConfig sample_env None ''leaf'' (Some 3)) sample_watching) = Inr 2" by code_simp
  have room: "watch_room sample_watching" by (simp add: watch_room_def sample_watching_calls)
  show ?thesis
    unfolding wp_def
  proof (split prod.split, intro allI impI)
    fix r t assume t: "run_state (WatchDesiredConfig sample_env None ''leaf'' (Some 3)) sample_watching = (r, t)"
    with run have "r = Inr 2" by simp
    with wpD [OF watch_is_tracked_or_stopped [where env' = sample_env] t] room sample_watching_unwrapped
    show "r = Inr 2 \<and> 2 \<notin> fst ` set (c_watches sample_watching)" by simp
  qed
qed

subsection \<open>Construction and errors\<close>

lemma New_disconnected: "New ncs env cfg opts cs w = Inr s \<Longrightarrow> m_nc (manager s) = None"
  by (auto simp: New_def Let_def NewManager_def syncSubscriptionHealth_def modify_def split_beta
      SetSubscriptionCounts_def SetReconnectHandler_def SetClosedHandler_def bind_def gets_def)

text \<open>C15: a client that \<open>New\<close> accepts starts with a usable configuration and subject patterns that can
  be used again, no registrations, no watch, dispatch off, nothing connected, and its own callbacks
  installed in the session manager; building it made no call.\<close>

theorem new_client_is_idle:
  assumes "consts_ok ncs" and "New ncs env cfg opts cs w = Inr s"
  shows "calls s = cs \<and> ext s = w
    \<and> config_ok (m_EffectiveConfig (manager s)) \<and> hs_State (m_health (manager s)) = StateNew
    \<and> m_nc (manager s) = None
    \<and> hk_OnReconnected (m_hooks (manager s)) = Some reconnect_hook
    \<and> hk_OnClosed (m_hooks (manager s)) = Some closed_hook
    \<and> NewBuilder (patterns (c_subjects s)) = Inr (c_subjects s)
    \<and> entries (c_subscriptions s) = [] \<and> c_watches s = [] \<and> c_handlerCtx s = None \<and> \<not> c_callbacksEnabled s"
proof -
  have new: "fresh_client cfg cs w s" by (rule New_spec [OF assms])
  with New_disconnected [OF assms(2)] show ?thesis by (simp add: fresh_client_def New_Registry_def)
qed

theorem new_client_is_idle_witness:
  "calls sample_client = [] \<and> NewBuilder (patterns (c_subjects sample_client)) = Inr (c_subjects sample_client)
    \<and> config_ok (m_EffectiveConfig (manager sample_client))"
  using new_client_is_idle [OF sample_consts_ok sample_New] by simp

text \<open>C17: translating an error to the public model keeps what it says: the first internal error in its
  chain is rebuilt with the same code, operation, subject, key, message, retry flag and cause, and
  prints the same; an error that carries no internal one is passed on as it is.\<close>

theorem public_errors_say_the_same:
  "case as_runtime e of
     None \<Rightarrow> toPublicError e = e
   | Some i \<Rightarrow> is_runtime i \<and> is_public (toPublicError e)
       \<and> code_text (pub_code (toPublicError e)) = rt_code_text (rt_code i)
       \<and> err_op (toPublicError e) = err_op i \<and> err_subject (toPublicError e) = err_subject i
       \<and> err_key (toPublicError e) = err_key i \<and> err_message (toPublicError e) = err_message i
       \<and> err_retryable (toPublicError e) = err_retryable i
       \<and> Unwrap (toPublicError e) = Unwrap i \<and> Error (toPublicError e) = Error i"
proof (cases "as_runtime e")
  case (Some i)
  then have "is_runtime i" by (rule as_runtime_is_runtime)
  with Some show ?thesis by (cases i) (simp_all add: toPublicError_def)
qed (simp add: toPublicError_def)

end
